(* ===== verification/Prelude.thy ===== *)
theory Prelude
  imports Main "HOL-Library.List_Lexorder" "HOL-Library.Char_ord"
begin

text \<open>
  Shared vocabulary of the development: the names of the Python types the backend uses, the string
  functions of the Python standard library its services call, the textual form of a UUID, JSON
  values, and the generic facts on lists that the table operations share.

  A Python string is a list of characters, read as code points up to 255. A UUID is the natural
  number it encodes (\<open>uuid.UUID.int\<close>). An instant is a number of microseconds since the epoch, so a
  \<open>timedelta\<close> is an integer too.
\<close>

named_theorems preserves_intros "rules that an action preserves an invariant"
named_theorems row_simps "characteristic equations of the row records"

section \<open>Types\<close>

type_synonym uuid = nat
type_synonym time = int

definition days :: "int \<Rightarrow> time" where
  "days n = n * 24 * 60 * 60 * 1000000"

definition seconds :: "int \<Rightarrow> time" where
  "seconds n = n * 1000000"

text \<open>
  A value that the code puts in a JSON column or sends as JSON. \<open>json.dumps\<close> encodes the first six; a
  dictionary may also hold a \<open>uuid.UUID\<close> or a \<open>datetime\<close>, which it rejects with a \<open>TypeError\<close>.
\<close>

datatype json =
    JNull
  | JBool bool
  | JInt int
  | JStr string
  | JList "json list"
  | JObj "(string \<times> json) list"
  | JUuid uuid
  | JTime time

type_synonym json_object = "(string \<times> json) list"

fun serializable :: "json \<Rightarrow> bool" where
  "serializable (JList xs) = list_all serializable xs"
| "serializable (JObj kvs) = list_all (\<lambda>(k, v). serializable v) kvs"
| "serializable (JUuid u) = False"
| "serializable (JTime t) = False"
| "serializable _ = True"

definition serializable_object :: "json_object option \<Rightarrow> bool" where
  "serializable_object o' =
     (case o' of None \<Rightarrow> True | Some kvs \<Rightarrow> list_all (\<lambda>(k, v). serializable v) kvs)"

lemma serializable_object_simps [simp]:
  "serializable_object None"
  "serializable_object (Some [])"
  "serializable_object (Some ((k, v) # kvs)) \<longleftrightarrow> serializable v \<and> serializable_object (Some kvs)"
  by (simp_all add: serializable_object_def)

text \<open>Python's truth value of an optional string: \<open>None\<close> and the empty string are false.\<close>

definition truthy_str :: "string option \<Rightarrow> bool" where
  "truthy_str s = (case s of None \<Rightarrow> False | Some t \<Rightarrow> t \<noteq> [])"

text \<open>\<open>x or d\<close> on an optional string.\<close>

definition str_or :: "string option \<Rightarrow> string \<Rightarrow> string" where
  "str_or s d = (case s of None \<Rightarrow> d | Some t \<Rightarrow> if t = [] then d else t)"

section \<open>Strings of the Python standard library\<close>

definition lower_char :: "char \<Rightarrow> char" where
  "lower_char c =
     (let n = (of_char c :: nat) in
      if (65 \<le> n \<and> n \<le> 90) \<or> (192 \<le> n \<and> n \<le> 214) \<or> (216 \<le> n \<and> n \<le> 222)
      then char_of (n + 32) else c)"

definition py_lower :: "string \<Rightarrow> string" where
  "py_lower s = map lower_char s"

definition is_space :: "char \<Rightarrow> bool" where
  "is_space c =
     (let n = (of_char c :: nat) in
      (9 \<le> n \<and> n \<le> 13) \<or> (28 \<le> n \<and> n \<le> 32) \<or> n = 133 \<or> n = 160)"

text \<open>\<open>s.strip(chars)\<close>, with the characters to strip given by a predicate.\<close>

definition strip_by :: "(char \<Rightarrow> bool) \<Rightarrow> string \<Rightarrow> string" where
  "strip_by p s = rev (dropWhile p (rev (dropWhile p s)))"

definition py_strip :: "string \<Rightarrow> string" where
  "py_strip s = strip_by is_space s"

lemma set_strip_by: "set (strip_by p s) \<subseteq> set s"
  by (auto simp: strip_by_def dest!: set_dropWhileD)

lemma hd_dropWhile_not: "dropWhile p s \<noteq> [] \<Longrightarrow> \<not> p (hd (dropWhile p s))"
  by (rule hd_dropWhile)

lemma dropWhile_eq_self: "s = [] \<or> \<not> p (hd s) \<Longrightarrow> dropWhile p s = s"
  by (cases s) auto

lemma last_strip_by: "strip_by p s \<noteq> [] \<Longrightarrow> \<not> p (last (strip_by p s))"
  unfolding strip_by_def by (simp add: last_rev hd_dropWhile)

lemma hd_strip_by: "strip_by p s \<noteq> [] \<Longrightarrow> \<not> p (hd (strip_by p s))"
proof -
  assume ne: "strip_by p s \<noteq> []"
  define t where "t = dropWhile p s"
  from ne have "strip_by p s = rev (dropWhile p (rev t))" by (simp add: strip_by_def t_def)
  moreover obtain zs where zs: "rev t = zs @ dropWhile p (rev t)"
    by (metis takeWhile_dropWhile_id)
  ultimately have t: "t = strip_by p s @ rev zs"
    by (metis rev_append rev_rev_ident)
  with ne have "hd t = hd (strip_by p s)" and "t \<noteq> []" by (simp_all add: hd_append)
  moreover have "t \<noteq> [] \<Longrightarrow> \<not> p (hd t)" unfolding t_def by (rule hd_dropWhile)
  ultimately show ?thesis by simp
qed

lemma strip_by_idem: "strip_by p (strip_by p s) = strip_by p s"
proof (cases "strip_by p s = []")
  case True
  then show ?thesis by (simp only: True) (simp add: strip_by_def)
next
  case False
  then have "dropWhile p (strip_by p s) = strip_by p s"
    using hd_strip_by dropWhile_eq_self by blast
  moreover have "dropWhile p (rev (strip_by p s)) = rev (strip_by p s)"
    using False last_strip_by [of p s] by (intro dropWhile_eq_self) (simp add: hd_rev)
  ultimately show ?thesis by (simp add: strip_by_def [of p "strip_by p s"])
qed

lemma lower_char_idem: "lower_char (lower_char c) = lower_char c"
  by (auto simp: lower_char_def Let_def)

lemma py_lower_idem: "py_lower (py_lower s) = py_lower s"
  by (simp add: py_lower_def lower_char_idem)

text \<open>\<open>email.lower().strip()\<close> is a canonical form.\<close>

lemma lower_strip_idem: "py_strip (py_lower (py_strip (py_lower s))) = py_strip (py_lower s)"
proof -
  have "lower_char c = c" if "c \<in> set (py_strip (py_lower s))" for c
  proof -
    from that have "c \<in> set (py_lower s)"
      using set_strip_by [of is_space "py_lower s"] by (auto simp: py_strip_def)
    then show ?thesis by (auto simp: py_lower_def lower_char_idem)
  qed
  then have "py_lower (py_strip (py_lower s)) = py_strip (py_lower s)"
    by (simp add: py_lower_def [of "py_strip _"] map_idI)
  then show ?thesis by (simp add: py_strip_def strip_by_idem)
qed

section \<open>The textual form of a UUID\<close>

definition hex_digit :: "nat \<Rightarrow> char" where
  "hex_digit d = (if d < 10 then char_of (48 + d) else char_of (87 + d))"

fun hex_digits :: "nat \<Rightarrow> nat \<Rightarrow> string" where
  "hex_digits 0 n = []"
| "hex_digits (Suc k) n = hex_digits k (n div 16) @ [hex_digit (n mod 16)]"

text \<open>\<open>str(u)\<close>: thirty-two lower-case hexadecimal digits in groups of 8, 4, 4, 4 and 12.\<close>

definition str_uuid :: "uuid \<Rightarrow> string" where
  "str_uuid u =
     (let h = hex_digits 32 u in
      take 8 h @ ''-'' @ take 4 (drop 8 h) @ ''-'' @ take 4 (drop 12 h) @ ''-''
        @ take 4 (drop 16 h) @ ''-'' @ drop 20 h)"

definition hex_value :: "char \<Rightarrow> nat option" where
  "hex_value c =
     (let n = (of_char c :: nat) in
      if 48 \<le> n \<and> n \<le> 57 then Some (n - 48)
      else if 97 \<le> n \<and> n \<le> 102 then Some (n - 87)
      else if 65 \<le> n \<and> n \<le> 70 then Some (n - 55)
      else None)"

fun hex_parse :: "nat \<Rightarrow> string \<Rightarrow> nat option" where
  "hex_parse acc [] = Some acc"
| "hex_parse acc (c # cs) =
     (case hex_value c of None \<Rightarrow> None | Some d \<Rightarrow> hex_parse (acc * 16 + d) cs)"

text \<open>\<open>uuid.UUID(s)\<close>: the hyphens are dropped and thirty-two hexadecimal digits must remain;
  \<open>None\<close> is the \<open>ValueError\<close>.\<close>

definition uuid_of_str :: "string \<Rightarrow> uuid option" where
  "uuid_of_str s =
     (let h = filter (\<lambda>c. c \<noteq> CHR ''-'') s in
      if length h = 32 then hex_parse 0 h else None)"

lemma length_hex_digits [simp]: "length (hex_digits k n) = k"
  by (induction k arbitrary: n) auto

lemma hex_value_digit: "d < 16 \<Longrightarrow> hex_value (hex_digit d) = Some d"
  by (auto simp: hex_value_def hex_digit_def Let_def of_char_of)

lemma hex_digit_not_hyphen: "d < 16 \<Longrightarrow> hex_digit d \<noteq> CHR ''-''"
  using hex_value_digit [of d] by (auto simp: hex_value_def)

lemma hex_digits_no_hyphen: "c \<in> set (hex_digits k n) \<Longrightarrow> c \<noteq> CHR ''-''"
proof (induction k arbitrary: n)
  case 0
  then show ?case by simp
next
  case (Suc k)
  have "hex_digit (n mod 16) \<noteq> CHR ''-''" by (rule hex_digit_not_hyphen) simp
  with Suc show ?case by auto
qed

lemma hex_parse_append:
  "hex_parse acc (xs @ ys) = Option.bind (hex_parse acc xs) (\<lambda>v. hex_parse v ys)"
  by (induction xs arbitrary: acc) (auto split: option.splits)

lemma hex_parse_digits: "hex_parse acc (hex_digits k n) = Some (acc * 16 ^ k + n mod 16 ^ k)"
proof (induction k arbitrary: n)
  case 0
  then show ?case by simp
next
  case (Suc k)
  have "n mod 16 ^ Suc k = n div 16 mod 16 ^ k * 16 + n mod 16"
    by (metis add.commute mod_mult2_eq mult.commute power_Suc)
  then show ?case
    by (simp add: Suc hex_parse_append hex_value_digit algebra_simps)
qed

lemma filter_hyphen_str_uuid:
  "filter (\<lambda>c. c \<noteq> CHR ''-'') (str_uuid u) = hex_digits 32 u"
proof -
  define h where "h = hex_digits 32 u"
  have keep: "filter (\<lambda>c. c \<noteq> CHR ''-'') xs = xs" if "set xs \<subseteq> set h" for xs
    using that hex_digits_no_hyphen [of _ 32 u] unfolding h_def by (intro filter_True) blast
  have split: "take a (drop b h) @ drop (b + a) h = drop b h" for a b
    by (metis add.commute append_take_drop_id drop_drop)
  have "take 8 h @ take 4 (drop 8 h) @ take 4 (drop 12 h) @ take 4 (drop 16 h) @ drop 20 h = h"
    using split [of 8 0] split [of 4 8] split [of 4 12] split [of 4 16] by simp
  moreover have "set (take a (drop b h)) \<subseteq> set h" "set (take a h) \<subseteq> set h" "set (drop b h) \<subseteq> set h"
    for a b by (meson order_trans set_take_subset set_drop_subset)+
  ultimately show ?thesis
    by (simp add: str_uuid_def Let_def keep flip: h_def)
qed

lemma uuid_roundtrip: "u < 16 ^ 32 \<Longrightarrow> uuid_of_str (str_uuid u) = Some u"
  by (simp add: uuid_of_str_def filter_hyphen_str_uuid hex_parse_digits)

lemma str_uuid_inject: "u < 16 ^ 32 \<Longrightarrow> v < 16 ^ 32 \<Longrightarrow> str_uuid u = str_uuid v \<longleftrightarrow> u = v"
  using uuid_roundtrip by (metis option.inject)

section \<open>Lists of rows\<close>

text \<open>\<open>upd_where p f xs\<close> is what an \<open>UPDATE ... WHERE p\<close> does to a table.\<close>

definition upd_where :: "('r \<Rightarrow> bool) \<Rightarrow> ('r \<Rightarrow> 'r) \<Rightarrow> 'r list \<Rightarrow> 'r list" where
  "upd_where p f xs = map (\<lambda>r. if p r then f r else r) xs"

lemma upd_where_simps [simp]:
  "upd_where p f [] = []"
  "upd_where p f (x # xs) = (if p x then f x else x) # upd_where p f xs"
  by (simp_all add: upd_where_def)

lemma length_upd_where [simp]: "length (upd_where p f xs) = length xs"
  by (simp add: upd_where_def)

lemma set_upd_where: "set (upd_where p f xs) = (\<lambda>r. if p r then f r else r) ` set xs"
  by (simp add: upd_where_def)

lemma map_upd_where: "(\<And>r. r \<in> set xs \<Longrightarrow> p r \<Longrightarrow> g (f r) = g r) \<Longrightarrow> map g (upd_where p f xs) = map g xs"
  by (simp add: upd_where_def)

lemma map_upd_key: "k s = k r \<Longrightarrow> map k (upd_where (\<lambda>y. k y = k r) (\<lambda>_. s) xs) = map k xs"
  by (rule map_upd_where) simp

lemma upd_where_none: "(\<And>r. r \<in> set xs \<Longrightarrow> \<not> p r) \<Longrightarrow> upd_where p f xs = xs"
  by (induction xs) auto

lemma upd_where_id: "(\<And>r. r \<in> set xs \<Longrightarrow> p r \<Longrightarrow> f r = r) \<Longrightarrow> upd_where p f xs = xs"
  by (induction xs) auto

text \<open>A key that is unique in a list selects at most one element.\<close>

lemma filter_unique_key:
  assumes "distinct (map k xs)" and "x \<in> set xs"
  shows "filter (\<lambda>y. k y = k x) xs = [x]"
  using assms
proof (induction xs)
  case Nil
  then show ?case by simp
next
  case (Cons a xs)
  show ?case
  proof (cases "k a = k x")
    case True
    with Cons.prems have "a = x" by (auto simp: image_iff)
    moreover from Cons.prems True have "filter (\<lambda>y. k y = k x) xs = []"
      by (auto simp: filter_empty_conv image_iff)
    ultimately show ?thesis by simp
  next
    case False
    with Cons show ?thesis by auto
  qed
qed

lemma distinct_map_inj: "distinct (map k xs) \<Longrightarrow> x \<in> set xs \<Longrightarrow> y \<in> set xs \<Longrightarrow> k x = k y \<Longrightarrow> x = y"
  by (simp add: distinct_map inj_on_def)

lemma length_filter_upd_where_le:
  "(\<And>r. r \<in> set xs \<Longrightarrow> p r \<Longrightarrow> q r \<Longrightarrow> q (f r)) \<Longrightarrow>
   length (filter q xs) \<le> length (filter q (upd_where p f xs))"
  by (induction xs) (auto split: if_splits)

lemma filter_upd_where_frame:
  "(\<And>r. r \<in> set xs \<Longrightarrow> p r \<Longrightarrow> \<not> q r \<and> \<not> q (f r)) \<Longrightarrow> filter q (upd_where p f xs) = filter q xs"
  by (induction xs) auto

text \<open>\<open>OFFSET skip LIMIT limit\<close>.\<close>

definition page :: "nat \<Rightarrow> nat \<Rightarrow> 'r list \<Rightarrow> 'r list" where
  "page skip limit xs = take limit (drop skip xs)"

lemma length_page: "length (page skip limit xs) = min limit (length xs - skip)"
  by (simp add: page_def)

lemma set_page: "set (page skip limit xs) \<subseteq> set xs"
  unfolding page_def by (meson order_trans set_take_subset set_drop_subset)

lemma page_append: "page skip m xs @ page (skip + m) n xs = page skip (m + n) xs"
  unfolding page_def by (simp add: add.commute take_add)

text \<open>\<open>ORDER BY k DESC\<close> as a stable sort.\<close>

definition sort_desc :: "('r \<Rightarrow> int) \<Rightarrow> 'r list \<Rightarrow> 'r list" where
  "sort_desc k xs = sort_key (\<lambda>r. - k r) xs"

lemma set_sort_desc [simp]: "set (sort_desc k xs) = set xs"
  by (simp add: sort_desc_def)

lemma length_sort_desc [simp]: "length (sort_desc k xs) = length xs"
  by (simp add: sort_desc_def)

lemma sorted_sort_desc: "sorted (map (\<lambda>r. - k r) (sort_desc k xs))"
  by (simp add: sort_desc_def)

end
