(* ===== verification/Action_Monad.thy ===== *)
theory Action_Monad
  imports Prelude
begin

text \<open>
  The effects of the backend's Python: an \<open>action\<close> takes a state and gives a result, which is either
  the exception raised or the value returned, together with the state it leaves behind. Writes made
  before an exception stay, as they do in Python. \<open>await\<close> is sequential composition.

  The second half is the reasoning layer. An action \<open>obeys\<close> a relation on states when every run is
  a step of the relation; for a preorder this composes through sequencing, branches, loops and
  handlers (locale \<open>step_preorder\<close>), and an invariant is the special case of the preorder
  "if it held before, it holds after" (locale \<open>state_invariant\<close>).
\<close>

section \<open>Exceptions\<close>

datatype exn =
    HTTPException nat string
  | IntegrityError
  | StaleDataError
  | MultipleResultsFound
  | ValueError string
  | TypeError string
  | AttributeError string
  | KeyError string
  | IntegrationError string
  | CircuitBreakerOpenError string
  | RateLimitExceededError string
  | OAuthTokenError string
  | WebhookVerificationError string
  | JobExecutionError string
  | HandlerRegistrationError string
  | ProviderError string string
  | RequestError string
  | PyException string

definition http_status :: "exn \<Rightarrow> nat option" where
  "http_status e = (case e of HTTPException c d \<Rightarrow> Some c | _ \<Rightarrow> None)"

section \<open>Actions\<close>

type_synonym ('s, 'a) action = "'s \<Rightarrow> (exn + 'a) \<times> 's"

definition returnM :: "'a \<Rightarrow> ('s, 'a) action" where
  "returnM x s = (Inr x, s)"

definition raiseM :: "exn \<Rightarrow> ('s, 'a) action" where
  "raiseM e s = (Inl e, s)"

definition bindM :: "('s, 'a) action \<Rightarrow> ('a \<Rightarrow> ('s, 'b) action) \<Rightarrow> ('s, 'b) action" where
  "bindM m f s = (case m s of (Inl e, t) \<Rightarrow> (Inl e, t) | (Inr x, t) \<Rightarrow> f x t)"

definition thenM :: "('s, 'a) action \<Rightarrow> ('s, 'b) action \<Rightarrow> ('s, 'b) action" where
  "thenM m n = bindM m (\<lambda>_. n)"

definition readM :: "('s \<Rightarrow> 'a) \<Rightarrow> ('s, 'a) action" where
  "readM f s = (Inr (f s), s)"

definition modifyM :: "('s \<Rightarrow> 's) \<Rightarrow> ('s, unit) action" where
  "modifyM f s = (Inr (), f s)"

text \<open>\<open>if b: raise e\<close>.\<close>

definition raise_if :: "bool \<Rightarrow> exn \<Rightarrow> ('s, unit) action" where
  "raise_if b e = (if b then raiseM e else returnM ())"

definition whenM :: "bool \<Rightarrow> ('s, unit) action \<Rightarrow> ('s, unit) action" where
  "whenM b m = (if b then m else returnM ())"

text \<open>\<open>try: m except Exception as e: h(e)\<close>.\<close>

definition catchM :: "('s, 'a) action \<Rightarrow> (exn \<Rightarrow> ('s, 'a) action) \<Rightarrow> ('s, 'a) action" where
  "catchM m h s = (case m s of (Inl e, t) \<Rightarrow> h e t | (Inr x, t) \<Rightarrow> (Inr x, t))"

text \<open>\<open>for x in xs: body(x)\<close>; an exception leaves the loop.\<close>

primrec forM :: "'a list \<Rightarrow> ('a \<Rightarrow> ('s, unit) action) \<Rightarrow> ('s, unit) action" where
  "forM [] body = returnM ()"
| "forM (x # xs) body = thenM (body x) (forM xs body)"

lemma action_simps [simp]:
  "returnM x s = (Inr x, s)"
  "raiseM e s = (Inl e, s)"
  "readM f s = (Inr (f s), s)"
  "modifyM h s = (Inr (), h s)"
  "thenM m n s = bindM m (\<lambda>_. n) s"
  by (simp_all add: returnM_def raiseM_def readM_def modifyM_def thenM_def)

lemma branch_simps [simp]:
  "raise_if b e s = (if b then (Inl e, s) else (Inr (), s))"
  "whenM b m s = (if b then m s else (Inr (), s))"
  by (simp_all add: raise_if_def whenM_def)

lemma bindM_Inr: "m s = (Inr x, t) \<Longrightarrow> bindM m f s = f x t"
  by (simp add: bindM_def)

lemma bindM_Inl: "m s = (Inl e, t) \<Longrightarrow> bindM m f s = (Inl e, t)"
  by (simp add: bindM_def)

lemma bindM_simps [simp]:
  "bindM (returnM x) f s = f x s"
  "bindM (raiseM e) f s = (Inl e, s)"
  "bindM (readM g) f s = f (g s) s"
  "bindM (modifyM h) k s = k () (h s)"
  "bindM (raise_if b e) k s = (if b then (Inl e, s) else k () s)"
  by (simp_all add: bindM_def)

lemma bindM_assoc: "bindM (bindM m f) g = bindM m (\<lambda>x. bindM (f x) g)"
  by (rule ext) (auto simp: bindM_def split: prod.splits sum.splits)

lemma bindM_if: "bindM (if b then m else n) f s = (if b then bindM m f s else bindM n f s)"
  by simp

text \<open>A run that returns normally went through both halves of a sequence.\<close>

lemma bindM_eq_Inr:
  "bindM m f s = (Inr y, t) \<longleftrightarrow> (\<exists>x u. m s = (Inr x, u) \<and> f x u = (Inr y, t))"
  by (auto simp: bindM_def split: prod.splits sum.splits)

lemma bindM_eq_Inl:
  "bindM m f s = (Inl e, t) \<longleftrightarrow>
     m s = (Inl e, t) \<or> (\<exists>x u. m s = (Inr x, u) \<and> f x u = (Inl e, t))"
  by (auto simp: bindM_def split: prod.splits sum.splits)

lemma catchM_eq_Inl:
  "catchM m h s = (Inl e, t) \<longleftrightarrow> (\<exists>e' u. m s = (Inl e', u) \<and> h e' u = (Inl e, t))"
  by (auto simp: catchM_def split: prod.splits sum.splits)

text \<open>The same as elimination rules, which walk a long handler without splitting on anything else.\<close>

lemma bindM_InrE:
  assumes "bindM m f s = (Inr y, t)"
  obtains x u where "m s = (Inr x, u)" and "f x u = (Inr y, t)"
  using assms by (auto simp: bindM_eq_Inr)

lemma thenM_InrE:
  assumes "thenM m n s = (Inr y, t)"
  obtains x u where "m s = (Inr x, u)" and "n u = (Inr y, t)"
  using assms by (auto simp: bindM_eq_Inr)

lemma raise_if_InrE:
  assumes "raise_if b e s = (Inr x, t)"
  obtains "\<not> b" and "t = s"
  using assms by (cases b) simp_all

lemma returnM_InrE:
  assumes "returnM x s = (Inr y, t)"
  obtains "y = x" and "t = s"
  by (rule that) (use assms in simp_all)

lemma readM_InrE:
  assumes "readM f s = (Inr y, t)"
  obtains "y = f s" and "t = s"
  using assms unfolding readM_def prod.inject sum.inject by blast

lemma case_raise_InrE:
  assumes "(case x of None \<Rightarrow> raiseM e | Some y \<Rightarrow> f y) s = (Inr v, t)"
  obtains y where "x = Some y" and "f y s = (Inr v, t)"
  using assms by (cases x) simp_all

lemmas run_elims = bindM_InrE thenM_InrE raise_if_InrE returnM_InrE readM_InrE case_raise_InrE

section \<open>Results and final states\<close>

definition result_of :: "('s, 'a) action \<Rightarrow> 's \<Rightarrow> exn + 'a" where
  "result_of m s = fst (m s)"

definition final_of :: "('s, 'a) action \<Rightarrow> 's \<Rightarrow> 's" where
  "final_of m s = snd (m s)"

definition succeeds :: "('s, 'a) action \<Rightarrow> 's \<Rightarrow> bool" where
  "succeeds m s = (case fst (m s) of Inl _ \<Rightarrow> False | Inr _ \<Rightarrow> True)"

lemma succeedsE: "succeeds m s \<Longrightarrow> (\<And>x t. m s = (Inr x, t) \<Longrightarrow> P) \<Longrightarrow> P"
  by (cases "m s") (auto simp: succeeds_def split: sum.splits)

section \<open>Relations that every run obeys\<close>

definition obeys :: "('s \<Rightarrow> 's \<Rightarrow> bool) \<Rightarrow> ('s, 'a) action \<Rightarrow> bool" where
  "obeys R m \<longleftrightarrow> (\<forall>s. R s (snd (m s)))"

lemma obeysI: "(\<And>s r t. m s = (r, t) \<Longrightarrow> R s t) \<Longrightarrow> obeys R m"
  unfolding obeys_def by (metis prod.collapse)

lemma obeysD: "obeys R m \<Longrightarrow> m s = (r, t) \<Longrightarrow> R s t"
  unfolding obeys_def by (metis snd_conv)

lemma obeys_mono: "obeys R m \<Longrightarrow> (\<And>s t. R s t \<Longrightarrow> S s t) \<Longrightarrow> obeys S m"
  by (simp add: obeys_def)

locale step_preorder =
  fixes R :: "'s \<Rightarrow> 's \<Rightarrow> bool"
  assumes step_refl: "R s s"
    and step_trans: "R s t \<Longrightarrow> R t u \<Longrightarrow> R s u"
begin

lemma obeys_return [preserves_intros]: "obeys R (returnM x)"
  by (simp add: obeys_def step_refl)

lemma obeys_raise [preserves_intros]: "obeys R (raiseM e)"
  by (simp add: obeys_def step_refl)

lemma obeys_read [preserves_intros]: "obeys R (readM f)"
  by (simp add: obeys_def step_refl)

lemma obeys_raise_if [preserves_intros]: "obeys R (raise_if b e)"
  by (simp add: obeys_def step_refl)

lemma obeys_bind [preserves_intros]:
  assumes "obeys R m" and "\<And>x. obeys R (f x)"
  shows "obeys R (bindM m f)"
proof (rule obeysI)
  fix s r t
  assume run: "bindM m f s = (r, t)"
  obtain v u where u: "m s = (v, u)" by fastforce
  with assms(1) have su: "R s u" by (rule obeysD)
  show "R s t"
  proof (cases v)
    case (Inl e)
    with run u su show ?thesis by (simp add: bindM_def)
  next
    case (Inr x)
    with run u have "f x u = (r, t)" by (simp add: bindM_def)
    with assms(2) have "R u t" by (rule obeysD)
    with su show ?thesis by (rule step_trans)
  qed
qed

lemma obeys_then [preserves_intros]:
  "obeys R m \<Longrightarrow> obeys R n \<Longrightarrow> obeys R (thenM m n)"
  unfolding thenM_def by (rule obeys_bind)

lemma obeys_when [preserves_intros]: "(b \<Longrightarrow> obeys R m) \<Longrightarrow> obeys R (whenM b m)"
  by (simp add: obeys_def step_refl)

lemma obeys_if [preserves_intros]:
  "(b \<Longrightarrow> obeys R m) \<Longrightarrow> (\<not> b \<Longrightarrow> obeys R n) \<Longrightarrow> obeys R (if b then m else n)"
  by simp

lemma obeys_case_option [preserves_intros]:
  "(x = None \<Longrightarrow> obeys R m) \<Longrightarrow> (\<And>y. x = Some y \<Longrightarrow> obeys R (f y)) \<Longrightarrow>
   obeys R (case x of None \<Rightarrow> m | Some y \<Rightarrow> f y)"
  by (cases x) simp_all

lemma obeys_case_list [preserves_intros]:
  "(x = [] \<Longrightarrow> obeys R m) \<Longrightarrow> (\<And>y ys. x = y # ys \<Longrightarrow> obeys R (f y ys)) \<Longrightarrow>
   obeys R (case x of [] \<Rightarrow> m | y # ys \<Rightarrow> f y ys)"
  by (cases x) simp_all

lemma obeys_let [preserves_intros]: "obeys R (f x) \<Longrightarrow> obeys R (let y = x in f y)"
  by simp

lemma obeys_catch [preserves_intros]:
  assumes "obeys R m" and "\<And>e. obeys R (h e)"
  shows "obeys R (catchM m h)"
proof (rule obeysI)
  fix s r t
  assume run: "catchM m h s = (r, t)"
  obtain v u where u: "m s = (v, u)" by fastforce
  with assms(1) have su: "R s u" by (rule obeysD)
  show "R s t"
  proof (cases v)
    case (Inl e)
    with run u have "h e u = (r, t)" by (simp add: catchM_def)
    with assms(2) have "R u t" by (rule obeysD)
    with su show ?thesis by (rule step_trans)
  next
    case (Inr x)
    with run u su show ?thesis by (simp add: catchM_def)
  qed
qed

lemma obeys_forM [preserves_intros]:
  "(\<And>x. obeys R (body x)) \<Longrightarrow> obeys R (forM xs body)"
  by (induction xs) (simp_all add: obeys_return obeys_then)

lemma obeys_forM_set: "(\<And>x. x \<in> set xs \<Longrightarrow> obeys R (body x)) \<Longrightarrow> obeys R (forM xs body)"
  by (induction xs) (simp_all add: obeys_return obeys_then)

text \<open>A relation that every step obeys, any sequence of steps obeys.\<close>

lemma closure_obeys:
  assumes "S\<^sup>*\<^sup>* s t" and "\<And>a b. S a b \<Longrightarrow> R a b"
  shows "R s t"
  using assms(1) by (induction rule: rtranclp_induct) (blast intro: step_refl step_trans assms(2))+

lemma obeys_modify: "(\<And>s. R s (h s)) \<Longrightarrow> obeys R (modifyM h)"
  by (simp add: obeys_def)

end

text \<open>An invariant is the preorder "if it held before, it holds after".\<close>

definition keeps :: "('s \<Rightarrow> bool) \<Rightarrow> 's \<Rightarrow> 's \<Rightarrow> bool" where
  "keeps I s t \<longleftrightarrow> (I s \<longrightarrow> I t)"

locale state_invariant =
  fixes I :: "'s \<Rightarrow> bool"
begin

sublocale inv: step_preorder "keeps I"
  by unfold_locales (auto simp: keeps_def)

lemma keepsI: "(\<And>s r t. I s \<Longrightarrow> m s = (r, t) \<Longrightarrow> I t) \<Longrightarrow> obeys (keeps I) m"
  by (rule obeysI) (auto simp: keeps_def)

lemma keepsD: "obeys (keeps I) m \<Longrightarrow> I s \<Longrightarrow> m s = (r, t) \<Longrightarrow> I t"
  by (auto dest: obeysD simp: keeps_def)

end

interpretation keeping: state_invariant I for I .

text \<open>Actions that only read: the state after is the state before.\<close>

definition read_only :: "('s, 'a) action \<Rightarrow> bool" where
  "read_only m \<longleftrightarrow> obeys (=) m"

interpretation ro: step_preorder "(=)"
  by unfold_locales auto

lemma read_onlyD: "read_only m \<Longrightarrow> m s = (r, t) \<Longrightarrow> t = s"
  unfolding read_only_def by (auto dest: obeysD)

lemma read_only_run: "read_only m \<Longrightarrow> m s = (fst (m s), s)"
  by (metis prod.collapse read_onlyD)

context step_preorder
begin

lemma read_only_obeys: "read_only m \<Longrightarrow> obeys R m"
  unfolding read_only_def obeys_def using step_refl by metis

end

section \<open>Triples\<close>

text \<open>
  \<open>triple P m Q E\<close>: from a state that satisfies \<open>P\<close>, a normal return satisfies \<open>Q\<close> with its value and
  an exception leaves a state that satisfies \<open>E\<close>. It carries what a guard has established about the
  state from the guard to the write that needs it, which a relation between states cannot.
\<close>

definition triple ::
  "('s \<Rightarrow> bool) \<Rightarrow> ('s, 'a) action \<Rightarrow> ('a \<Rightarrow> 's \<Rightarrow> bool) \<Rightarrow> ('s \<Rightarrow> bool) \<Rightarrow> bool" where
  "triple P m Q E \<longleftrightarrow>
     (\<forall>s. P s \<longrightarrow> (case m s of (Inl _, t) \<Rightarrow> E t | (Inr x, t) \<Rightarrow> Q x t))"

lemma tripleI:
  "(\<And>s x t. P s \<Longrightarrow> m s = (Inr x, t) \<Longrightarrow> Q x t) \<Longrightarrow>
   (\<And>s e t. P s \<Longrightarrow> m s = (Inl e, t) \<Longrightarrow> E t) \<Longrightarrow> triple P m Q E"
  by (auto simp: triple_def split: prod.splits sum.splits)

lemma triple_Inr: "triple P m Q E \<Longrightarrow> P s \<Longrightarrow> m s = (Inr x, t) \<Longrightarrow> Q x t"
  by (auto simp: triple_def)

lemma triple_Inl: "triple P m Q E \<Longrightarrow> P s \<Longrightarrow> m s = (Inl e, t) \<Longrightarrow> E t"
  by (auto simp: triple_def)

lemma triple_bind:
  assumes "triple P m R E" and "\<And>x. triple (R x) (f x) Q E"
  shows "triple P (bindM m f) Q E"
  using assms unfolding triple_def bindM_def
  by (auto split: prod.splits sum.splits) (metis (no_types, lifting) case_prod_conv old.sum.simps(5,6))+

lemma triple_then: "triple P m (\<lambda>_. R) E \<Longrightarrow> triple R n Q E \<Longrightarrow> triple P (thenM m n) Q E"
  unfolding thenM_def by (rule triple_bind)

lemma triple_weaken:
  "triple P m Q E \<Longrightarrow> (\<And>s. P' s \<Longrightarrow> P s) \<Longrightarrow> (\<And>x s. Q x s \<Longrightarrow> Q' x s) \<Longrightarrow> (\<And>s. E s \<Longrightarrow> E' s) \<Longrightarrow>
   triple P' m Q' E'"
  by (fastforce simp: triple_def split: prod.splits sum.splits)

lemma triple_pre: "triple P m Q E \<Longrightarrow> (\<And>s. P' s \<Longrightarrow> P s) \<Longrightarrow> triple P' m Q E"
  by (rule triple_weaken)

lemma triple_return: "(\<And>s. P s \<Longrightarrow> Q x s) \<Longrightarrow> triple P (returnM x) Q E"
  by (simp add: triple_def)

lemma triple_raise: "(\<And>s. P s \<Longrightarrow> E s) \<Longrightarrow> triple P (raiseM e) Q E"
  by (simp add: triple_def)

lemma triple_raise_if:
  "(\<And>s. P s \<Longrightarrow> b \<Longrightarrow> E s) \<Longrightarrow> (\<And>s. P s \<Longrightarrow> \<not> b \<Longrightarrow> Q () s) \<Longrightarrow> triple P (raise_if b e) Q E"
  by (simp add: triple_def)

lemma triple_pass: "(\<And>s. P s \<Longrightarrow> E s) \<Longrightarrow> triple P (raise_if b e) (\<lambda>_. P) E"
  by (simp add: triple_def)

lemma triple_if:
  "(b \<Longrightarrow> triple P m Q E) \<Longrightarrow> (\<not> b \<Longrightarrow> triple P n Q E) \<Longrightarrow> triple P (if b then m else n) Q E"
  by simp

lemma triple_case_option:
  "(x = None \<Longrightarrow> triple P m Q E) \<Longrightarrow> (\<And>y. x = Some y \<Longrightarrow> triple P (f y) Q E) \<Longrightarrow>
   triple P (case x of None \<Rightarrow> m | Some y \<Rightarrow> f y) Q E"
  by (cases x) simp_all

lemma triple_read_only:
  "read_only m \<Longrightarrow> (\<And>s. P s \<Longrightarrow> E s) \<Longrightarrow> (\<And>s x. P s \<Longrightarrow> m s = (Inr x, s) \<Longrightarrow> Q x s) \<Longrightarrow>
   triple P m Q E"
  by (rule tripleI) (auto dest: read_onlyD)

lemma triple_keeps: "obeys (keeps I) m \<Longrightarrow> triple I m (\<lambda>_. I) I"
  by (rule tripleI) (auto dest: obeysD simp: keeps_def)

lemma keeps_triple: "triple I m (\<lambda>_. I) I \<Longrightarrow> obeys (keeps I) m"
  by (rule obeysI) (auto simp: triple_def keeps_def split: sum.splits prod.splits)

end
