(* ===== verification/Enums.thy ===== *)
theory Enums
  imports Prelude
begin

text \<open>
  The enumerations of \<open>app/constants/enums.py\<close>, with the source's member names behind the name of
  their class, and the \<open>value\<close> of the ones that the services print.
\<close>

datatype WorkspaceStatus =
  WorkspaceStatus_ACTIVE | WorkspaceStatus_SUSPENDED | WorkspaceStatus_ARCHIVED
| WorkspaceStatus_TRIAL

datatype MemberStatus =
  MemberStatus_PENDING | MemberStatus_ACTIVE | MemberStatus_SUSPENDED | MemberStatus_REMOVED

datatype InviteStatus =
  InviteStatus_PENDING | InviteStatus_ACCEPTED | InviteStatus_REVOKED | InviteStatus_EXPIRED

datatype NotificationType =
  NotificationType_SYSTEM | NotificationType_ALERT | NotificationType_MESSAGE
| NotificationType_BILLING

datatype NotificationPriority =
  NotificationPriority_LOW | NotificationPriority_NORMAL | NotificationPriority_HIGH
| NotificationPriority_URGENT

datatype CampaignStatus =
  CampaignStatus_DRAFT | CampaignStatus_ACTIVE | CampaignStatus_PAUSED
| CampaignStatus_COMPLETED | CampaignStatus_ARCHIVED

datatype ScheduleStatus =
  ScheduleStatus_SCHEDULED | ScheduleStatus_PUBLISHED | ScheduleStatus_FAILED
| ScheduleStatus_PAUSED | ScheduleStatus_CANCELLED

datatype ContentType =
  ContentType_SOCIAL_POST | ContentType_EMAIL | ContentType_BLOG | ContentType_ADVERTISEMENT
| ContentType_LANDING_PAGE | ContentType_SMS | ContentType_OTHER

datatype ContentStatus =
  ContentStatus_DRAFT | ContentStatus_IN_REVIEW | ContentStatus_APPROVED
| ContentStatus_REJECTED | ContentStatus_READY

datatype ApiProvider =
  ApiProvider_OPENAI | ApiProvider_CLAUDE | ApiProvider_GEMINI | ApiProvider_META
| ApiProvider_LINKEDIN | ApiProvider_GOOGLE | ApiProvider_STRIPE | ApiProvider_MOCK
| ApiProvider_INSTAGRAM | ApiProvider_TWITTER

datatype RoleType = RoleType_SYSTEM | RoleType_CUSTOM

datatype SnapshotType =
  SnapshotType_DAILY | SnapshotType_WEEKLY | SnapshotType_MONTHLY | SnapshotType_YEARLY

datatype PublishStatus = PublishStatus_PENDING | PublishStatus_PUBLISHED | PublishStatus_FAILED

datatype JobStatus =
  JobStatus_PENDING | JobStatus_QUEUED | JobStatus_RUNNING | JobStatus_RETRYING
| JobStatus_COMPLETED | JobStatus_FAILED | JobStatus_CANCELLED

datatype JobPriority =
  JobPriority_LOW | JobPriority_DEFAULT | JobPriority_HIGH | JobPriority_CRITICAL

text \<open>\<open>ConnectionStatus\<close> of \<open>app/integrations/oauth/models.py\<close>.\<close>

datatype ConnectionStatus =
  ConnectionStatus_PENDING | ConnectionStatus_CONNECTED | ConnectionStatus_DISCONNECTED
| ConnectionStatus_ERROR | ConnectionStatus_EXPIRED

section \<open>Values of the members\<close>

fun CampaignStatus_value :: "CampaignStatus \<Rightarrow> string" where
  "CampaignStatus_value CampaignStatus_DRAFT = ''DRAFT''"
| "CampaignStatus_value CampaignStatus_ACTIVE = ''ACTIVE''"
| "CampaignStatus_value CampaignStatus_PAUSED = ''PAUSED''"
| "CampaignStatus_value CampaignStatus_COMPLETED = ''COMPLETED''"
| "CampaignStatus_value CampaignStatus_ARCHIVED = ''ARCHIVED''"

fun ScheduleStatus_value :: "ScheduleStatus \<Rightarrow> string" where
  "ScheduleStatus_value ScheduleStatus_SCHEDULED = ''SCHEDULED''"
| "ScheduleStatus_value ScheduleStatus_PUBLISHED = ''PUBLISHED''"
| "ScheduleStatus_value ScheduleStatus_FAILED = ''FAILED''"
| "ScheduleStatus_value ScheduleStatus_PAUSED = ''PAUSED''"
| "ScheduleStatus_value ScheduleStatus_CANCELLED = ''CANCELLED''"

fun JobStatus_value :: "JobStatus \<Rightarrow> string" where
  "JobStatus_value JobStatus_PENDING = ''PENDING''"
| "JobStatus_value JobStatus_QUEUED = ''QUEUED''"
| "JobStatus_value JobStatus_RUNNING = ''RUNNING''"
| "JobStatus_value JobStatus_RETRYING = ''RETRYING''"
| "JobStatus_value JobStatus_COMPLETED = ''COMPLETED''"
| "JobStatus_value JobStatus_FAILED = ''FAILED''"
| "JobStatus_value JobStatus_CANCELLED = ''CANCELLED''"

end
