(* ===== verification/Schema.thy ===== *)
theory Schema
  imports Enums
begin

text \<open>
  The tables of the backend: one record per SQLAlchemy model class, with the columns of the class and
  of its mixins (\<open>app/models\<close>, \<open>app/jobs/models.py\<close>, \<open>app/operations/*/models.py\<close>,
  \<open>app/integrations/oauth/models.py\<close>), and the database as the record of their contents. Relationship
  attributes are not columns and are left out: they are joins over these tables. A column of type
  \<open>String\<close> is a string here even where the Python annotation says an enumeration, because that is what
  the row holds after it is loaded. A price is a \<open>Numeric(_, 2)\<close>, kept in hundredths.

  A table is the list of its rows, in the order in which they were inserted.
\<close>

section \<open>Mixins\<close>

record TimestampMixin =
  created_at :: time
  updated_at :: time

record SoftDeleteMixin =
  is_deleted :: bool
  deleted_at :: "time option"

record AuditMixin =
  created_by :: "uuid option"
  updated_by :: "uuid option"

definition no_stamp :: TimestampMixin where
  "no_stamp = \<lparr>created_at = 0, updated_at = 0\<rparr>"

definition not_deleted :: SoftDeleteMixin where
  "not_deleted = \<lparr>is_deleted = False, deleted_at = None\<rparr>"

definition no_audit :: AuditMixin where
  "no_audit = \<lparr>created_by = None, updated_by = None\<rparr>"

section \<open>Users, workspaces, members, invitations\<close>

record User =
  u_id :: uuid
  u_stamp :: TimestampMixin
  u_soft :: SoftDeleteMixin
  u_email :: string
  u_supabase_user_id :: uuid
  u_first_name :: "string option"
  u_last_name :: "string option"
  u_avatar_url :: "string option"
  u_phone :: "string option"
  u_job_title :: "string option"
  u_language :: string
  u_default_workspace_id :: "uuid option"
  u_onboarding_completed :: bool
  u_is_active :: bool

record Workspace =
  w_id :: uuid
  w_stamp :: TimestampMixin
  w_soft :: SoftDeleteMixin
  w_audit :: AuditMixin
  w_name :: string
  w_slug :: string
  w_logo_url :: "string option"
  w_timezone :: string
  w_industry :: "string option"
  w_country :: "string option"
  w_default_language :: string
  w_status :: WorkspaceStatus
  w_plan_id :: "uuid option"
  w_owner_id :: uuid

record WorkspaceMember =
  m_id :: uuid
  m_stamp :: TimestampMixin
  m_soft :: SoftDeleteMixin
  m_audit :: AuditMixin
  m_workspace_id :: uuid
  m_user_id :: uuid
  m_role_id :: uuid
  m_status :: MemberStatus
  m_invited_by :: "uuid option"
  m_accepted_at :: "time option"
  m_joined_at :: "time option"
  m_last_active :: "time option"

record WorkspaceInvite =
  i_id :: uuid
  i_stamp :: TimestampMixin
  i_workspace_id :: uuid
  i_email :: string
  i_role_id :: uuid
  i_inviter_id :: "uuid option"
  i_token :: string
  i_status :: InviteStatus
  i_accepted_at :: "time option"
  i_revoked_at :: "time option"
  i_expires_at :: time

section \<open>Roles and permissions\<close>

record Role =
  r_id :: uuid
  r_stamp :: TimestampMixin
  r_workspace_id :: "uuid option"
  r_name :: string
  r_description :: "string option"
  r_role_type :: RoleType
  r_is_system :: bool

record Permission =
  p_id :: uuid
  p_stamp :: TimestampMixin
  p_name :: string
  p_resource :: string
  p_action :: string
  p_description :: "string option"
  p_is_system :: bool

record RolePermission =
  rp_id :: uuid
  rp_role_id :: uuid
  rp_permission_id :: uuid
  rp_created_at :: time

section \<open>Campaigns, schedules, content\<close>

record Campaign =
  c_id :: uuid
  c_stamp :: TimestampMixin
  c_soft :: SoftDeleteMixin
  c_audit :: AuditMixin
  c_workspace_id :: uuid
  c_owner_id :: uuid
  c_brand_kit_id :: "uuid option"
  c_campaign_name :: string
  c_description :: "string option"
  c_objective :: "string option"
  c_campaign_type :: "string option"
  c_target_channels :: "string option"
  c_status :: string
  c_budget :: "int option"
  c_currency :: "string option"
  c_start_date :: "time option"
  c_end_date :: "time option"

record CampaignSchedule =
  s_id :: uuid
  s_stamp :: TimestampMixin
  s_audit :: AuditMixin
  s_workspace_id :: uuid
  s_campaign_id :: uuid
  s_publish_date :: time
  s_timezone :: string
  s_status :: ScheduleStatus
  s_error_message :: "string option"
  s_retry_count :: int

record CampaignContent =
  cc_id :: uuid
  cc_stamp :: TimestampMixin
  cc_soft :: SoftDeleteMixin
  cc_audit :: AuditMixin
  cc_workspace_id :: uuid
  cc_campaign_id :: uuid
  cc_title :: string
  cc_content_type :: ContentType
  cc_status :: ContentStatus
  cc_language :: "string option"
  cc_body :: "string option"
  cc_summary :: "string option"
  cc_hashtags :: "string option"
  cc_cta :: "string option"
  cc_seo_title :: "string option"
  cc_seo_description :: "string option"
  cc_version :: int
  cc_parent_version_id :: "uuid option"
  cc_is_current :: bool
  cc_scheduled_placeholder :: "string option"
  cc_metadata :: "json option"

record BrandKit =
  b_id :: uuid
  b_stamp :: TimestampMixin
  b_soft :: SoftDeleteMixin
  b_audit :: AuditMixin
  b_workspace_id :: uuid
  b_brand_name :: string
  b_logo_url :: "string option"
  b_primary_color :: "string option"
  b_secondary_color :: "string option"
  b_accent_color :: "string option"
  b_font_family :: "string option"
  b_brand_voice :: "string option"
  b_tone_of_voice :: "string option"
  b_brand_description :: "string option"
  b_website_url :: "string option"
  b_industry :: "string option"
  b_target_audience :: "string option"
  b_default_language :: "string option"
  b_ai_writing_instructions :: "string option"
  b_ai_content_restrictions :: "string option"

record Plan =
  pl_id :: uuid
  pl_stamp :: TimestampMixin
  pl_name :: string
  pl_slug :: string
  pl_description :: "string option"
  pl_monthly_price :: int
  pl_yearly_price :: int
  pl_max_users :: int
  pl_max_workspaces :: int
  pl_max_ai_credits :: int
  pl_features :: "json option"
  pl_is_active :: bool

section \<open>Publishing and notifications\<close>

record SocialAccount =
  sa_id :: uuid
  sa_stamp :: TimestampMixin
  sa_soft :: SoftDeleteMixin
  sa_audit :: AuditMixin
  sa_workspace_id :: uuid
  sa_provider :: ApiProvider
  sa_account_id :: string
  sa_name :: string
  sa_access_token :: string
  sa_refresh_token :: "string option"
  sa_expires_at :: "time option"
  sa_is_active :: bool

record PublishHistory =
  h_id :: uuid
  h_stamp :: TimestampMixin
  h_soft :: SoftDeleteMixin
  h_audit :: AuditMixin
  h_workspace_id :: uuid
  h_campaign_id :: "uuid option"
  h_content_id :: uuid
  h_social_account_id :: uuid
  h_status :: PublishStatus
  h_external_post_id :: "string option"
  h_error_message :: "string option"
  h_published_at :: "time option"

record Notification =
  n_id :: uuid
  n_workspace_id :: uuid
  n_user_id :: uuid
  n_title :: string
  n_body :: string
  n_type :: NotificationType
  n_priority :: NotificationPriority
  n_data :: "json option"
  n_read_at :: "time option"
  n_created_at :: time

record NotificationPreference =
  np_id :: uuid
  np_stamp :: TimestampMixin
  np_workspace_id :: uuid
  np_user_id :: uuid
  np_notification_type :: NotificationType
  np_in_app_enabled :: bool
  np_email_enabled :: bool
  np_push_enabled :: bool

section \<open>Operations, jobs, integrations\<close>

record AuditLog =
  al_id :: uuid
  al_workspace_id :: "uuid option"
  al_actor_id :: "uuid option"
  al_resource_type :: string
  al_resource_id :: string
  al_action :: string
  al_old_values :: "json_object option"
  al_new_values :: "json_object option"
  al_ip_address :: "string option"
  al_user_agent :: "string option"
  al_request_id :: "string option"
  al_correlation_id :: "string option"
  al_timestamp :: time
  al_metadata_info :: "json_object option"

record JobExecution =
  j_id :: uuid
  j_stamp :: TimestampMixin
  j_job_name :: string
  j_queue :: string
  j_status :: JobStatus
  j_priority :: JobPriority
  j_attempts :: int
  j_max_attempts :: int
  j_payload :: json_object
  j_result :: "json_object option"
  j_error_message :: "string option"
  j_started_at :: "time option"
  j_completed_at :: "time option"
  j_failed_at :: "time option"

record IntegrationConnection =
  ic_id :: uuid
  ic_stamp :: TimestampMixin
  ic_workspace_id :: uuid
  ic_provider :: string
  ic_status :: ConnectionStatus
  ic_access_token :: "string option"
  ic_refresh_token :: "string option"
  ic_expires_at :: "time option"
  ic_metadata_info :: "json_object option"

record FeatureFlag =
  ff_id :: uuid
  ff_stamp :: TimestampMixin
  ff_key :: string
  ff_name :: string
  ff_description :: "string option"
  ff_is_enabled :: bool

record WorkspaceFeature =
  wf_id :: uuid
  wf_stamp :: TimestampMixin
  wf_workspace_id :: uuid
  wf_flag_key :: string
  wf_is_enabled :: bool

datatype DataType =
  DataType_STRING | DataType_INTEGER | DataType_BOOLEAN | DataType_FLOAT | DataType_JSON

record RuntimeConfiguration =
  rc_id :: uuid
  rc_stamp :: TimestampMixin
  rc_key :: string
  rc_value :: string
  rc_data_type :: DataType
  rc_description :: "string option"
  rc_is_active :: bool

record SystemAnnouncement =
  an_id :: uuid
  an_stamp :: TimestampMixin
  an_title :: string
  an_message :: string
  an_type :: string
  an_priority :: int
  an_starts_at :: "time option"
  an_expires_at :: "time option"
  an_dismissible :: bool
  an_is_active :: bool

section \<open>Analytics\<close>

text \<open>A \<open>Date\<close> is the number of a day; the engagement rate, a float that nothing computes with, is left out.\<close>

record AnalyticsSnapshot =
  as_id :: uuid
  as_stamp :: TimestampMixin
  as_workspace_id :: uuid
  as_snapshot_type :: SnapshotType
  as_snapshot_date :: int
  as_campaign_metrics :: "json_object option"
  as_ai_metrics :: "json_object option"
  as_publishing_metrics :: "json_object option"
  as_workspace_metrics :: "json_object option"

record CampaignAnalytics =
  ca_id :: uuid
  ca_stamp :: TimestampMixin
  ca_workspace_id :: uuid
  ca_campaign_id :: uuid
  ca_impressions :: int
  ca_reach :: int
  ca_clicks :: int
  ca_likes :: int
  ca_comments :: int
  ca_shares :: int
  ca_saves :: int

record AIUsage =
  ai_id :: uuid
  ai_stamp :: TimestampMixin
  ai_workspace_id :: uuid
  ai_provider :: string
  ai_model :: string
  ai_generations :: int
  ai_success_count :: int
  ai_failure_count :: int
  ai_total_tokens :: int

section \<open>The database\<close>

record database =
  users :: "User list"
  workspaces :: "Workspace list"
  workspace_members :: "WorkspaceMember list"
  workspace_invites :: "WorkspaceInvite list"
  roles :: "Role list"
  permissions :: "Permission list"
  role_permissions :: "RolePermission list"
  campaigns :: "Campaign list"
  campaign_schedules :: "CampaignSchedule list"
  campaign_contents :: "CampaignContent list"
  brand_kits :: "BrandKit list"
  plans :: "Plan list"
  social_accounts :: "SocialAccount list"
  publish_history :: "PublishHistory list"
  notifications :: "Notification list"
  notification_preferences :: "NotificationPreference list"
  audit_logs :: "AuditLog list"
  job_executions :: "JobExecution list"
  integration_connections :: "IntegrationConnection list"
  feature_flags :: "FeatureFlag list"
  workspace_features :: "WorkspaceFeature list"
  runtime_configurations :: "RuntimeConfiguration list"
  system_announcements :: "SystemAnnouncement list"
  analytics_snapshots :: "AnalyticsSnapshot list"
  campaign_analytics :: "CampaignAnalytics list"
  ai_usage :: "AIUsage list"

definition empty_database :: database where
  "empty_database =
     \<lparr>users = [], workspaces = [], workspace_members = [], workspace_invites = [], roles = [],
      permissions = [], role_permissions = [], campaigns = [], campaign_schedules = [],
      campaign_contents = [], brand_kits = [], plans = [], social_accounts = [],
      publish_history = [], notifications = [], notification_preferences = [], audit_logs = [],
      job_executions = [], integration_connections = [], feature_flags = [],
      workspace_features = [], runtime_configurations = [], system_announcements = [],
      analytics_snapshots = [], campaign_analytics = [], ai_usage = []\<rparr>"

end
