(* ===== verification/Session.thy ===== *)
theory Session
  imports Action_Monad Schema
begin

text \<open>
  The database session (\<open>app/db/session.py\<close>) and what surrounds a handler: the clock, the random
  sources, the exception texts and the e-mails sent. Sessions are made with \<open>autoflush=False\<close> and
  the repositories flush every write themselves, so a session is the database as this transaction
  sees it (\<open>db\<close>) together with the database as it was last committed (\<open>committed\<close>).

  PostgreSQL and SQLAlchemy are not code of the repository. Of them the model has what the
  repositories use: an \<open>INSERT\<close> or an \<open>UPDATE\<close> that violates a key, a foreign key or a check raises
  \<open>IntegrityError\<close> and changes nothing; the unit of work emits an \<open>UPDATE\<close> only for an object whose
  columns changed; an ORM object is the row of the identity map, so reading it back after an update
  gives the updated row; closing a session without a commit rolls it back.

  The clock is an arbitrary sequence of readings, and so are the sources of UUIDs and of tokens:
  nothing is assumed of them. A property that needs a monotone clock or fresh UUIDs says so.
\<close>

section \<open>The world around a handler\<close>

record email =
  to_address :: string
  email_body :: "string list"

record world =
  db :: database
  committed :: database
  clock :: "nat \<Rightarrow> time"
  ticks :: nat
  uuid_source :: "nat \<Rightarrow> uuid"
  uuids_drawn :: nat
  token_source :: "nat \<Rightarrow> string"
  tokens_drawn :: nat
  exn_text :: "exn \<Rightarrow> string"
  datetime_text :: "time \<Rightarrow> string"
  sent_emails :: "email list"

type_synonym ('z, 'a) io = "('z world_scheme, 'a) action"

text \<open>\<open>get_utc_now()\<close> and \<open>datetime.now(timezone.utc)\<close>: the next reading of the clock.\<close>

definition get_utc_now :: "('z, time) io" where
  "get_utc_now w = (Inr (clock w (ticks w)), w\<lparr>ticks := Suc (ticks w)\<rparr>)"

definition uuid4 :: "('z, uuid) io" where
  "uuid4 w = (Inr (uuid_source w (uuids_drawn w)), w\<lparr>uuids_drawn := Suc (uuids_drawn w)\<rparr>)"

definition token_urlsafe :: "('z, string) io" where
  "token_urlsafe w = (Inr (token_source w (tokens_drawn w)), w\<lparr>tokens_drawn := Suc (tokens_drawn w)\<rparr>)"

definition send_email :: "email \<Rightarrow> ('z, unit) io" where
  "send_email e = modifyM (\<lambda>w. w\<lparr>sent_emails := sent_emails w @ [e]\<rparr>)"

section \<open>Transactions\<close>

definition commit :: "('z, unit) io" where
  "commit = modifyM (\<lambda>w. w\<lparr>committed := db w\<rparr>)"

definition rollback :: "('z, unit) io" where
  "rollback = modifyM (\<lambda>w. w\<lparr>db := committed w\<rparr>)"

text \<open>
  \<open>async with AsyncSessionLocal() as session: body\<close>: whatever the body does, closing the session
  drops what it did not commit. A request handler runs in such a block (\<open>get_db_session\<close>).
\<close>

definition with_session :: "('z, 'a) io \<Rightarrow> ('z, 'a) io" where
  "with_session body w = (case body w of (r, w') \<Rightarrow> (r, w'\<lparr>db := committed w'\<rparr>))"

definition get_db_session :: "('z, 'a) io \<Rightarrow> ('z, 'a) io" where
  "get_db_session handler = with_session handler"

section \<open>Statements\<close>

text \<open>The description of a mapped class that the generic repository works with.\<close>

record 'r model =
  tbl :: "database \<Rightarrow> 'r list"
  put :: "('r list \<Rightarrow> 'r list) \<Rightarrow> database \<Rightarrow> database"
  pk :: "'r \<Rightarrow> uuid"
  fill :: "uuid \<Rightarrow> time \<Rightarrow> time \<Rightarrow> 'r \<Rightarrow> 'r"
  touch :: "time \<Rightarrow> 'r \<Rightarrow> 'r"
  soft :: "('r \<Rightarrow> SoftDeleteMixin) option"
  mark_deleted :: "time \<Rightarrow> 'r \<Rightarrow> 'r"
  valid_row :: "database \<Rightarrow> 'r \<Rightarrow> bool"

definition find_pk :: "'r model \<Rightarrow> uuid \<Rightarrow> database \<Rightarrow> 'r option" where
  "find_pk M i d = find (\<lambda>r. pk M r = i) (tbl M d)"

text \<open>\<open>select(model).where(p)\<close>\<close>

definition select :: "'r model \<Rightarrow> ('r \<Rightarrow> bool) \<Rightarrow> ('z, 'r list) io" where
  "select M p = readM (\<lambda>w. filter p (tbl M (db w)))"

text \<open>\<open>result.scalar_one_or_none()\<close>\<close>

definition scalar_one_or_none :: "'r list \<Rightarrow> ('z, 'r option) io" where
  "scalar_one_or_none rs =
     (case rs of [] \<Rightarrow> returnM None | [r] \<Rightarrow> returnM (Some r) | _ \<Rightarrow> raiseM MultipleResultsFound)"

text \<open>\<open>result.scalars().first()\<close>\<close>

definition scalars_first :: "'r list \<Rightarrow> 'r option" where
  "scalars_first rs = (case rs of [] \<Rightarrow> None | r # _ \<Rightarrow> Some r)"

text \<open>Flushing a new object: the column defaults are filled in and the row is inserted.\<close>

definition insert_row :: "'r model \<Rightarrow> 'r \<Rightarrow> ('z, 'r) io" where
  "insert_row M r w =
     (if find_pk M (pk M r) (db w) \<noteq> None \<or> \<not> valid_row M (db w) r
      then (Inl IntegrityError, w)
      else (Inr r, w\<lparr>db := put M (\<lambda>rs. rs @ [r]) (db w)\<rparr>))"

definition flush_new :: "'r model \<Rightarrow> 'r \<Rightarrow> ('z, 'r) io" where
  "flush_new M r =
     bindM uuid4 (\<lambda>i.
     bindM get_utc_now (\<lambda>t.
     bindM get_utc_now (\<lambda>u.
       insert_row M (fill M i t u r))))"

text \<open>Flushing an object whose attributes were assigned: no statement when nothing changed.\<close>

definition update_row :: "'r model \<Rightarrow> 'r \<Rightarrow> ('z, 'r) io" where
  "update_row M r w =
     (if valid_row M (db w) r
      then (Inr r, w\<lparr>db := put M (upd_where (\<lambda>x. pk M x = pk M r) (\<lambda>_. r)) (db w)\<rparr>)
      else (Inl IntegrityError, w))"

definition flush_dirty :: "'r model \<Rightarrow> uuid \<Rightarrow> ('r \<Rightarrow> 'r) \<Rightarrow> ('z, 'r) io" where
  "flush_dirty M i f =
     bindM (readM (\<lambda>w. find_pk M i (db w))) (\<lambda>found.
     case found of
       None \<Rightarrow> raiseM StaleDataError
     | Some r \<Rightarrow>
         if f r = r then returnM r
         else bindM get_utc_now (\<lambda>t. update_row M (touch M t (f r))))"

text \<open>\<open>update(model).where(p).values(...)\<close>, which gives the number of rows it matched.\<close>

definition update_where :: "'r model \<Rightarrow> ('r \<Rightarrow> bool) \<Rightarrow> ('r \<Rightarrow> 'r) \<Rightarrow> ('z, nat) io" where
  "update_where M p f =
     bindM get_utc_now (\<lambda>t w.
       let hit = filter p (tbl M (db w));
           d = put M (upd_where p (\<lambda>r. touch M t (f r))) (db w) in
       if list_all (\<lambda>r. valid_row M d (touch M t (f r))) hit
       then (Inr (length hit), w\<lparr>db := d\<rparr>)
       else (Inl IntegrityError, w))"

text \<open>\<open>delete(model).where(p)\<close>\<close>

definition delete_where :: "'r model \<Rightarrow> ('r \<Rightarrow> bool) \<Rightarrow> ('z, nat) io" where
  "delete_where M p w =
     (Inr (length (filter p (tbl M (db w)))),
      w\<lparr>db := put M (filter (\<lambda>r. \<not> p r)) (db w)\<rparr>)"

section \<open>Facts on the statements\<close>

lemma session_simps [simp]:
  "get_utc_now w = (Inr (clock w (ticks w)), w\<lparr>ticks := Suc (ticks w)\<rparr>)"
  "uuid4 w = (Inr (uuid_source w (uuids_drawn w)), w\<lparr>uuids_drawn := Suc (uuids_drawn w)\<rparr>)"
  "token_urlsafe w = (Inr (token_source w (tokens_drawn w)), w\<lparr>tokens_drawn := Suc (tokens_drawn w)\<rparr>)"
  "send_email e w = (Inr (), w\<lparr>sent_emails := sent_emails w @ [e]\<rparr>)"
  "commit w = (Inr (), w\<lparr>committed := db w\<rparr>)"
  "rollback w = (Inr (), w\<lparr>db := committed w\<rparr>)"
  "select M p w = (Inr (filter p (tbl M (db w))), w)"
  by (simp_all add: get_utc_now_def uuid4_def token_urlsafe_def send_email_def commit_def
      rollback_def select_def)

lemma session_bind_simps [simp]:
  "bindM get_utc_now f w = f (clock w (ticks w)) (w\<lparr>ticks := Suc (ticks w)\<rparr>)"
  "bindM uuid4 g w = g (uuid_source w (uuids_drawn w)) (w\<lparr>uuids_drawn := Suc (uuids_drawn w)\<rparr>)"
  "bindM (select M p) h w = h (filter p (tbl M (db w))) w"
  "bindM token_urlsafe k w = k (token_source w (tokens_drawn w)) (w\<lparr>tokens_drawn := Suc (tokens_drawn w)\<rparr>)"
  "bindM (send_email e) l w = l () (w\<lparr>sent_emails := sent_emails w @ [e]\<rparr>)"
  by (simp_all add: bindM_def)

lemma scalar_one_or_none_simps [simp]:
  "scalar_one_or_none [] w = (Inr None, w)"
  "scalar_one_or_none [r] w = (Inr (Some r), w)"
  "scalar_one_or_none (r # s # rs) w = (Inl MultipleResultsFound, w)"
  by (simp_all add: scalar_one_or_none_def)

lemma scalar_one_or_none_state: "scalar_one_or_none rs w = (r, w') \<Longrightarrow> w' = w"
  by (auto simp: scalar_one_or_none_def split: list.splits)

lemma scalar_one_or_none_Some: "scalar_one_or_none rs w = (Inr (Some r), w') \<longleftrightarrow> rs = [r] \<and> w' = w"
  by (auto simp: scalar_one_or_none_def split: list.splits)

lemma scalar_one_or_none_None: "scalar_one_or_none rs w = (Inr None, w') \<longleftrightarrow> rs = [] \<and> w' = w"
  by (auto simp: scalar_one_or_none_def split: list.splits)

lemma scalars_first_Some: "scalars_first rs = Some r \<Longrightarrow> r \<in> set rs"
  by (auto simp: scalars_first_def split: list.splits)

lemma get_utc_now_InrE:
  assumes "get_utc_now w = (Inr t, w')"
  obtains "t = clock w (ticks w)" and "w' = w\<lparr>ticks := Suc (ticks w)\<rparr>"
  by (rule that) (use assms in simp_all)

lemma select_InrE:
  assumes "select M p w = (Inr rs, w')"
  obtains "rs = filter p (tbl M (db w))" and "w' = w"
  using assms unfolding select_def readM_def prod.inject sum.inject by blast

lemmas session_elims = run_elims get_utc_now_InrE select_InrE

lemma read_only_select: "read_only (select M p)"
  unfolding select_def read_only_def by (rule ro.obeys_read)

lemma read_only_scalar_one_or_none: "read_only (scalar_one_or_none rs)"
  unfolding read_only_def by (rule obeysI) (auto dest: scalar_one_or_none_state)

lemmas ro_intros =
  ro.obeys_bind ro.obeys_return ro.obeys_read read_only_select [unfolded read_only_def]
  read_only_scalar_one_or_none [unfolded read_only_def]

lemma find_pk_Some: "find_pk M i d = Some r \<Longrightarrow> r \<in> set (tbl M d) \<and> pk M r = i"
  unfolding find_pk_def by (auto simp: find_Some_iff)

lemma find_pk_None: "find_pk M i d = None \<longleftrightarrow> (\<forall>r \<in> set (tbl M d). pk M r \<noteq> i)"
  by (auto simp: find_pk_def find_None_iff)

lemma insert_row_Inr:
  "insert_row M r w = (Inr x, w') \<longleftrightarrow>
     x = r \<and> w' = w\<lparr>db := put M (\<lambda>rs. rs @ [r]) (db w)\<rparr> \<and>
     find_pk M (pk M r) (db w) = None \<and> valid_row M (db w) r"
  by (auto simp: insert_row_def)

lemma update_row_Inr:
  "update_row M r w = (Inr x, w') \<longleftrightarrow>
     x = r \<and> valid_row M (db w) r \<and>
     w' = w\<lparr>db := put M (upd_where (\<lambda>y. pk M y = pk M r) (\<lambda>_. r)) (db w)\<rparr>"
  by (auto simp: update_row_def)

section \<open>Relations on a projection of the database\<close>

text \<open>
  Most contracts speak of a few tables only. Given a preorder \<open>Q\<close> on a projection of the database, a
  statement on a table that the projection does not read is a step of it, and so is every effect that
  leaves the database alone.
\<close>

locale table_step =
  fixes proj :: "database \<Rightarrow> 'p" and Q :: "'p \<Rightarrow> 'p \<Rightarrow> bool"
  assumes Q_refl: "Q p p"
    and Q_trans: "Q p q \<Longrightarrow> Q q r \<Longrightarrow> Q p r"
begin

abbreviation rel :: "'z world_scheme \<Rightarrow> 'z world_scheme \<Rightarrow> bool" where
  "rel w w' \<equiv> Q (proj (db w)) (proj (db w'))"

sublocale step_preorder rel
  by unfold_locales (blast intro: Q_refl Q_trans)+

lemma obeys_clock [preserves_intros]: "obeys rel get_utc_now"
  by (simp add: obeys_def Q_refl)

lemma obeys_uuid4 [preserves_intros]: "obeys rel uuid4"
  by (simp add: obeys_def Q_refl)

lemma obeys_token [preserves_intros]: "obeys rel token_urlsafe"
  by (simp add: obeys_def Q_refl)

lemma obeys_email [preserves_intros]: "obeys rel (send_email e)"
  by (simp add: obeys_def Q_refl)

lemma obeys_commit [preserves_intros]: "obeys rel commit"
  by (simp add: obeys_def Q_refl)

lemma obeys_select [preserves_intros]: "obeys rel (select M p)"
  by (simp add: obeys_def Q_refl)

lemma obeys_one_or_none [preserves_intros]: "obeys rel (scalar_one_or_none rs)"
  by (rule read_only_obeys) (rule read_only_scalar_one_or_none)

lemma frame_insert: "(\<And>f d. proj (put M f d) = proj d) \<Longrightarrow> obeys rel (insert_row M r)"
  by (simp add: obeys_def insert_row_def Q_refl)

lemma frame_new: "(\<And>f d. proj (put M f d) = proj d) \<Longrightarrow> obeys rel (flush_new M r)"
  unfolding flush_new_def by (intro obeys_bind obeys_clock obeys_uuid4 frame_insert)

lemma frame_update: "(\<And>f d. proj (put M f d) = proj d) \<Longrightarrow> obeys rel (update_row M r)"
  by (simp add: obeys_def update_row_def Q_refl)

lemma frame_dirty: "(\<And>f d. proj (put M f d) = proj d) \<Longrightarrow> obeys rel (flush_dirty M i f)"
  unfolding flush_dirty_def
  by (intro obeys_bind obeys_read obeys_case_option obeys_raise obeys_if obeys_return obeys_clock
      frame_update)

lemma frame_update_where: "(\<And>f d. proj (put M f d) = proj d) \<Longrightarrow> obeys rel (update_where M p f)"
  by (simp add: obeys_def update_where_def Let_def Q_refl)

lemma frame_delete_where: "(\<And>f d. proj (put M f d) = proj d) \<Longrightarrow> obeys rel (delete_where M p)"
  by (simp add: obeys_def delete_where_def Q_refl)

end

end
