(* ===== verification/Models.thy ===== *)
theory Models
  imports Session
begin

text \<open>
  The mapped classes as the generic repository sees them: for each table its rows in the database, its
  primary key, what the column defaults fill in on an \<open>INSERT\<close> (\<open>id\<close>, \<open>created_at\<close>, \<open>updated_at\<close>), the
  \<open>onupdate\<close> stamp, whether the class has \<open>deleted_at\<close>, and the constraints a row must satisfy:
  unique indexes, foreign keys to the tables modelled here, and checks.
\<close>

section \<open>Constraints\<close>

text \<open>\<open>r\<close> does not share its key with a row of another identity.\<close>

definition unique_on :: "('r \<Rightarrow> uuid) \<Rightarrow> ('r \<Rightarrow> 'k) \<Rightarrow> 'r list \<Rightarrow> 'r \<Rightarrow> bool" where
  "unique_on ident key rows r = list_all (\<lambda>x. ident x = ident r \<or> key x \<noteq> key r) rows"

definition fk :: "('r \<Rightarrow> uuid) \<Rightarrow> 'r list \<Rightarrow> uuid \<Rightarrow> bool" where
  "fk ident rows i = list_ex (\<lambda>x. ident x = i) rows"

definition fk_opt :: "('r \<Rightarrow> uuid) \<Rightarrow> 'r list \<Rightarrow> uuid option \<Rightarrow> bool" where
  "fk_opt ident rows i = (case i of None \<Rightarrow> True | Some j \<Rightarrow> fk ident rows j)"

text \<open>The foreign keys of \<open>AuditMixin\<close>.\<close>

definition audit_fk :: "database \<Rightarrow> AuditMixin \<Rightarrow> bool" where
  "audit_fk d a \<longleftrightarrow> fk_opt u_id (users d) (created_by a) \<and> fk_opt u_id (users d) (updated_by a)"

lemma unique_on_iff:
  "unique_on ident key rows r \<longleftrightarrow> (\<forall>x \<in> set rows. key x = key r \<longrightarrow> ident x = ident r)"
  by (auto simp: unique_on_def list_all_iff)

lemma fk_iff: "fk ident rows i \<longleftrightarrow> i \<in> ident ` set rows"
  by (auto simp: fk_def list_ex_iff)

section \<open>Stamps and soft deletion\<close>

definition new_stamp :: "time \<Rightarrow> time \<Rightarrow> TimestampMixin" where
  "new_stamp t u = \<lparr>created_at = t, updated_at = u\<rparr>"

definition touch_stamp :: "time \<Rightarrow> TimestampMixin \<Rightarrow> TimestampMixin" where
  "touch_stamp t s = s\<lparr>updated_at := t\<rparr>"

definition delete_mark :: "time \<Rightarrow> SoftDeleteMixin \<Rightarrow> SoftDeleteMixin" where
  "delete_mark t s = s\<lparr>deleted_at := Some t\<rparr>"

section \<open>User\<close>

definition valid_User :: "database \<Rightarrow> User \<Rightarrow> bool" where
  "valid_User d r =
     (unique_on u_id u_email (users d) r \<and>
      unique_on u_id u_supabase_user_id (users d) r \<and>
      fk_opt w_id (workspaces d) (u_default_workspace_id r))"

definition User_model :: "User model" where
  "User_model =
     \<lparr>tbl = users, put = (\<lambda>f d. d\<lparr>users := f (users d)\<rparr>), pk = u_id,
      fill = (\<lambda>i t u r. r\<lparr>u_id := i, u_stamp := new_stamp t u\<rparr>),
      touch = (\<lambda>t r. r\<lparr>u_stamp := touch_stamp t (u_stamp r)\<rparr>),
      soft = Some u_soft, mark_deleted = (\<lambda>t r. r\<lparr>u_soft := delete_mark t (u_soft r)\<rparr>),
      valid_row = valid_User\<rparr>"

lemma User_model_simps [simp]:
  "tbl User_model = users"
  "put User_model f d = d\<lparr>users := f (users d)\<rparr>"
  "pk User_model = u_id"
  "fill User_model i t u r = r\<lparr>u_id := i, u_stamp := new_stamp t u\<rparr>"
  "touch User_model t r = r\<lparr>u_stamp := touch_stamp t (u_stamp r)\<rparr>"
  "soft User_model = Some u_soft"
  "mark_deleted User_model t r = r\<lparr>u_soft := delete_mark t (u_soft r)\<rparr>"
  "valid_row User_model = valid_User"
  by (simp_all add: User_model_def)

section \<open>Workspace\<close>

definition valid_Workspace :: "database \<Rightarrow> Workspace \<Rightarrow> bool" where
  "valid_Workspace d r =
     (unique_on w_id w_slug (workspaces d) r \<and>
      fk u_id (users d) (w_owner_id r) \<and>
      fk_opt pl_id (plans d) (w_plan_id r) \<and>
      audit_fk d (w_audit r))"

definition Workspace_model :: "Workspace model" where
  "Workspace_model =
     \<lparr>tbl = workspaces, put = (\<lambda>f d. d\<lparr>workspaces := f (workspaces d)\<rparr>), pk = w_id,
      fill = (\<lambda>i t u r. r\<lparr>w_id := i, w_stamp := new_stamp t u\<rparr>),
      touch = (\<lambda>t r. r\<lparr>w_stamp := touch_stamp t (w_stamp r)\<rparr>),
      soft = Some w_soft, mark_deleted = (\<lambda>t r. r\<lparr>w_soft := delete_mark t (w_soft r)\<rparr>),
      valid_row = valid_Workspace\<rparr>"

lemma Workspace_model_simps [simp]:
  "tbl Workspace_model = workspaces"
  "put Workspace_model f d = d\<lparr>workspaces := f (workspaces d)\<rparr>"
  "pk Workspace_model = w_id"
  "fill Workspace_model i t u r = r\<lparr>w_id := i, w_stamp := new_stamp t u\<rparr>"
  "touch Workspace_model t r = r\<lparr>w_stamp := touch_stamp t (w_stamp r)\<rparr>"
  "soft Workspace_model = Some w_soft"
  "mark_deleted Workspace_model t r = r\<lparr>w_soft := delete_mark t (w_soft r)\<rparr>"
  "valid_row Workspace_model = valid_Workspace"
  by (simp_all add: Workspace_model_def)

section \<open>WorkspaceMember\<close>

definition valid_WorkspaceMember :: "database \<Rightarrow> WorkspaceMember \<Rightarrow> bool" where
  "valid_WorkspaceMember d r =
     (unique_on m_id (\<lambda>x. (m_workspace_id x, m_user_id x)) (workspace_members d) r \<and>
      fk w_id (workspaces d) (m_workspace_id r) \<and>
      fk u_id (users d) (m_user_id r) \<and>
      fk r_id (roles d) (m_role_id r) \<and>
      fk_opt u_id (users d) (m_invited_by r) \<and>
      audit_fk d (m_audit r))"

definition WorkspaceMember_model :: "WorkspaceMember model" where
  "WorkspaceMember_model =
     \<lparr>tbl = workspace_members, put = (\<lambda>f d. d\<lparr>workspace_members := f (workspace_members d)\<rparr>), pk = m_id,
      fill = (\<lambda>i t u r. r\<lparr>m_id := i, m_stamp := new_stamp t u\<rparr>),
      touch = (\<lambda>t r. r\<lparr>m_stamp := touch_stamp t (m_stamp r)\<rparr>),
      soft = Some m_soft, mark_deleted = (\<lambda>t r. r\<lparr>m_soft := delete_mark t (m_soft r)\<rparr>),
      valid_row = valid_WorkspaceMember\<rparr>"

lemma WorkspaceMember_model_simps [simp]:
  "tbl WorkspaceMember_model = workspace_members"
  "put WorkspaceMember_model f d = d\<lparr>workspace_members := f (workspace_members d)\<rparr>"
  "pk WorkspaceMember_model = m_id"
  "fill WorkspaceMember_model i t u r = r\<lparr>m_id := i, m_stamp := new_stamp t u\<rparr>"
  "touch WorkspaceMember_model t r = r\<lparr>m_stamp := touch_stamp t (m_stamp r)\<rparr>"
  "soft WorkspaceMember_model = Some m_soft"
  "mark_deleted WorkspaceMember_model t r = r\<lparr>m_soft := delete_mark t (m_soft r)\<rparr>"
  "valid_row WorkspaceMember_model = valid_WorkspaceMember"
  by (simp_all add: WorkspaceMember_model_def)

section \<open>WorkspaceInvite\<close>

definition valid_WorkspaceInvite :: "database \<Rightarrow> WorkspaceInvite \<Rightarrow> bool" where
  "valid_WorkspaceInvite d r =
     (unique_on i_id i_token (workspace_invites d) r \<and>
      (i_status r = InviteStatus_PENDING \<longrightarrow>
         unique_on i_id (\<lambda>x. (i_workspace_id x, i_email x))
           (filter (\<lambda>x. i_status x = InviteStatus_PENDING) (workspace_invites d)) r) \<and>
      fk w_id (workspaces d) (i_workspace_id r) \<and>
      fk r_id (roles d) (i_role_id r) \<and>
      fk_opt u_id (users d) (i_inviter_id r))"

definition WorkspaceInvite_model :: "WorkspaceInvite model" where
  "WorkspaceInvite_model =
     \<lparr>tbl = workspace_invites, put = (\<lambda>f d. d\<lparr>workspace_invites := f (workspace_invites d)\<rparr>), pk = i_id,
      fill = (\<lambda>i t u r. r\<lparr>i_id := i, i_stamp := new_stamp t u\<rparr>),
      touch = (\<lambda>t r. r\<lparr>i_stamp := touch_stamp t (i_stamp r)\<rparr>),
      soft = None, mark_deleted = (\<lambda>t r. r),
      valid_row = valid_WorkspaceInvite\<rparr>"

lemma WorkspaceInvite_model_simps [simp]:
  "tbl WorkspaceInvite_model = workspace_invites"
  "put WorkspaceInvite_model f d = d\<lparr>workspace_invites := f (workspace_invites d)\<rparr>"
  "pk WorkspaceInvite_model = i_id"
  "fill WorkspaceInvite_model i t u r = r\<lparr>i_id := i, i_stamp := new_stamp t u\<rparr>"
  "touch WorkspaceInvite_model t r = r\<lparr>i_stamp := touch_stamp t (i_stamp r)\<rparr>"
  "soft WorkspaceInvite_model = None"
  "mark_deleted WorkspaceInvite_model t r = r"
  "valid_row WorkspaceInvite_model = valid_WorkspaceInvite"
  by (simp_all add: WorkspaceInvite_model_def)

section \<open>Role\<close>

definition valid_Role :: "database \<Rightarrow> Role \<Rightarrow> bool" where
  "valid_Role d r =
     (fk_opt w_id (workspaces d) (r_workspace_id r))"

definition Role_model :: "Role model" where
  "Role_model =
     \<lparr>tbl = roles, put = (\<lambda>f d. d\<lparr>roles := f (roles d)\<rparr>), pk = r_id,
      fill = (\<lambda>i t u r. r\<lparr>r_id := i, r_stamp := new_stamp t u\<rparr>),
      touch = (\<lambda>t r. r\<lparr>r_stamp := touch_stamp t (r_stamp r)\<rparr>),
      soft = None, mark_deleted = (\<lambda>t r. r),
      valid_row = valid_Role\<rparr>"

lemma Role_model_simps [simp]:
  "tbl Role_model = roles"
  "put Role_model f d = d\<lparr>roles := f (roles d)\<rparr>"
  "pk Role_model = r_id"
  "fill Role_model i t u r = r\<lparr>r_id := i, r_stamp := new_stamp t u\<rparr>"
  "touch Role_model t r = r\<lparr>r_stamp := touch_stamp t (r_stamp r)\<rparr>"
  "soft Role_model = None"
  "mark_deleted Role_model t r = r"
  "valid_row Role_model = valid_Role"
  by (simp_all add: Role_model_def)

section \<open>Permission\<close>

definition valid_Permission :: "database \<Rightarrow> Permission \<Rightarrow> bool" where
  "valid_Permission d r =
     (unique_on p_id p_name (permissions d) r \<and>
      unique_on p_id (\<lambda>x. (p_resource x, p_action x)) (permissions d) r)"

definition Permission_model :: "Permission model" where
  "Permission_model =
     \<lparr>tbl = permissions, put = (\<lambda>f d. d\<lparr>permissions := f (permissions d)\<rparr>), pk = p_id,
      fill = (\<lambda>i t u r. r\<lparr>p_id := i, p_stamp := new_stamp t u\<rparr>),
      touch = (\<lambda>t r. r\<lparr>p_stamp := touch_stamp t (p_stamp r)\<rparr>),
      soft = None, mark_deleted = (\<lambda>t r. r),
      valid_row = valid_Permission\<rparr>"

lemma Permission_model_simps [simp]:
  "tbl Permission_model = permissions"
  "put Permission_model f d = d\<lparr>permissions := f (permissions d)\<rparr>"
  "pk Permission_model = p_id"
  "fill Permission_model i t u r = r\<lparr>p_id := i, p_stamp := new_stamp t u\<rparr>"
  "touch Permission_model t r = r\<lparr>p_stamp := touch_stamp t (p_stamp r)\<rparr>"
  "soft Permission_model = None"
  "mark_deleted Permission_model t r = r"
  "valid_row Permission_model = valid_Permission"
  by (simp_all add: Permission_model_def)

section \<open>RolePermission\<close>

definition valid_RolePermission :: "database \<Rightarrow> RolePermission \<Rightarrow> bool" where
  "valid_RolePermission d r =
     (unique_on rp_id (\<lambda>x. (rp_role_id x, rp_permission_id x)) (role_permissions d) r \<and>
      fk r_id (roles d) (rp_role_id r) \<and>
      fk p_id (permissions d) (rp_permission_id r))"

definition RolePermission_model :: "RolePermission model" where
  "RolePermission_model =
     \<lparr>tbl = role_permissions, put = (\<lambda>f d. d\<lparr>role_permissions := f (role_permissions d)\<rparr>), pk = rp_id,
      fill = (\<lambda>i t u r. r\<lparr>rp_id := i, rp_created_at := t\<rparr>),
      touch = (\<lambda>t r. r),
      soft = None, mark_deleted = (\<lambda>t r. r),
      valid_row = valid_RolePermission\<rparr>"

lemma RolePermission_model_simps [simp]:
  "tbl RolePermission_model = role_permissions"
  "put RolePermission_model f d = d\<lparr>role_permissions := f (role_permissions d)\<rparr>"
  "pk RolePermission_model = rp_id"
  "fill RolePermission_model i t u r = r\<lparr>rp_id := i, rp_created_at := t\<rparr>"
  "touch RolePermission_model t r = r"
  "soft RolePermission_model = None"
  "mark_deleted RolePermission_model t r = r"
  "valid_row RolePermission_model = valid_RolePermission"
  by (simp_all add: RolePermission_model_def)

section \<open>Campaign\<close>

definition valid_Campaign :: "database \<Rightarrow> Campaign \<Rightarrow> bool" where
  "valid_Campaign d r =
     (unique_on c_id (\<lambda>x. (c_workspace_id x, c_campaign_name x)) (campaigns d) r \<and>
      fk w_id (workspaces d) (c_workspace_id r) \<and>
      fk u_id (users d) (c_owner_id r) \<and>
      fk_opt b_id (brand_kits d) (c_brand_kit_id r) \<and>
      audit_fk d (c_audit r))"

definition Campaign_model :: "Campaign model" where
  "Campaign_model =
     \<lparr>tbl = campaigns, put = (\<lambda>f d. d\<lparr>campaigns := f (campaigns d)\<rparr>), pk = c_id,
      fill = (\<lambda>i t u r. r\<lparr>c_id := i, c_stamp := new_stamp t u\<rparr>),
      touch = (\<lambda>t r. r\<lparr>c_stamp := touch_stamp t (c_stamp r)\<rparr>),
      soft = Some c_soft, mark_deleted = (\<lambda>t r. r\<lparr>c_soft := delete_mark t (c_soft r)\<rparr>),
      valid_row = valid_Campaign\<rparr>"

lemma Campaign_model_simps [simp]:
  "tbl Campaign_model = campaigns"
  "put Campaign_model f d = d\<lparr>campaigns := f (campaigns d)\<rparr>"
  "pk Campaign_model = c_id"
  "fill Campaign_model i t u r = r\<lparr>c_id := i, c_stamp := new_stamp t u\<rparr>"
  "touch Campaign_model t r = r\<lparr>c_stamp := touch_stamp t (c_stamp r)\<rparr>"
  "soft Campaign_model = Some c_soft"
  "mark_deleted Campaign_model t r = r\<lparr>c_soft := delete_mark t (c_soft r)\<rparr>"
  "valid_row Campaign_model = valid_Campaign"
  by (simp_all add: Campaign_model_def)

section \<open>CampaignSchedule\<close>

definition valid_CampaignSchedule :: "database \<Rightarrow> CampaignSchedule \<Rightarrow> bool" where
  "valid_CampaignSchedule d r =
     (unique_on s_id s_campaign_id (campaign_schedules d) r \<and>
      fk c_id (campaigns d) (s_campaign_id r) \<and>
      fk w_id (workspaces d) (s_workspace_id r) \<and>
      audit_fk d (s_audit r))"

definition CampaignSchedule_model :: "CampaignSchedule model" where
  "CampaignSchedule_model =
     \<lparr>tbl = campaign_schedules, put = (\<lambda>f d. d\<lparr>campaign_schedules := f (campaign_schedules d)\<rparr>), pk = s_id,
      fill = (\<lambda>i t u r. r\<lparr>s_id := i, s_stamp := new_stamp t u\<rparr>),
      touch = (\<lambda>t r. r\<lparr>s_stamp := touch_stamp t (s_stamp r)\<rparr>),
      soft = None, mark_deleted = (\<lambda>t r. r),
      valid_row = valid_CampaignSchedule\<rparr>"

lemma CampaignSchedule_model_simps [simp]:
  "tbl CampaignSchedule_model = campaign_schedules"
  "put CampaignSchedule_model f d = d\<lparr>campaign_schedules := f (campaign_schedules d)\<rparr>"
  "pk CampaignSchedule_model = s_id"
  "fill CampaignSchedule_model i t u r = r\<lparr>s_id := i, s_stamp := new_stamp t u\<rparr>"
  "touch CampaignSchedule_model t r = r\<lparr>s_stamp := touch_stamp t (s_stamp r)\<rparr>"
  "soft CampaignSchedule_model = None"
  "mark_deleted CampaignSchedule_model t r = r"
  "valid_row CampaignSchedule_model = valid_CampaignSchedule"
  by (simp_all add: CampaignSchedule_model_def)

section \<open>CampaignContent\<close>

definition valid_CampaignContent :: "database \<Rightarrow> CampaignContent \<Rightarrow> bool" where
  "valid_CampaignContent d r =
     (fk c_id (campaigns d) (cc_campaign_id r) \<and>
      fk w_id (workspaces d) (cc_workspace_id r) \<and>
      fk_opt cc_id (campaign_contents d) (cc_parent_version_id r) \<and>
      audit_fk d (cc_audit r))"

definition CampaignContent_model :: "CampaignContent model" where
  "CampaignContent_model =
     \<lparr>tbl = campaign_contents, put = (\<lambda>f d. d\<lparr>campaign_contents := f (campaign_contents d)\<rparr>), pk = cc_id,
      fill = (\<lambda>i t u r. r\<lparr>cc_id := i, cc_stamp := new_stamp t u\<rparr>),
      touch = (\<lambda>t r. r\<lparr>cc_stamp := touch_stamp t (cc_stamp r)\<rparr>),
      soft = Some cc_soft, mark_deleted = (\<lambda>t r. r\<lparr>cc_soft := delete_mark t (cc_soft r)\<rparr>),
      valid_row = valid_CampaignContent\<rparr>"

lemma CampaignContent_model_simps [simp]:
  "tbl CampaignContent_model = campaign_contents"
  "put CampaignContent_model f d = d\<lparr>campaign_contents := f (campaign_contents d)\<rparr>"
  "pk CampaignContent_model = cc_id"
  "fill CampaignContent_model i t u r = r\<lparr>cc_id := i, cc_stamp := new_stamp t u\<rparr>"
  "touch CampaignContent_model t r = r\<lparr>cc_stamp := touch_stamp t (cc_stamp r)\<rparr>"
  "soft CampaignContent_model = Some cc_soft"
  "mark_deleted CampaignContent_model t r = r\<lparr>cc_soft := delete_mark t (cc_soft r)\<rparr>"
  "valid_row CampaignContent_model = valid_CampaignContent"
  by (simp_all add: CampaignContent_model_def)

section \<open>BrandKit\<close>

definition valid_BrandKit :: "database \<Rightarrow> BrandKit \<Rightarrow> bool" where
  "valid_BrandKit d r =
     (unique_on b_id b_workspace_id (brand_kits d) r \<and>
      fk w_id (workspaces d) (b_workspace_id r) \<and>
      audit_fk d (b_audit r))"

definition BrandKit_model :: "BrandKit model" where
  "BrandKit_model =
     \<lparr>tbl = brand_kits, put = (\<lambda>f d. d\<lparr>brand_kits := f (brand_kits d)\<rparr>), pk = b_id,
      fill = (\<lambda>i t u r. r\<lparr>b_id := i, b_stamp := new_stamp t u\<rparr>),
      touch = (\<lambda>t r. r\<lparr>b_stamp := touch_stamp t (b_stamp r)\<rparr>),
      soft = Some b_soft, mark_deleted = (\<lambda>t r. r\<lparr>b_soft := delete_mark t (b_soft r)\<rparr>),
      valid_row = valid_BrandKit\<rparr>"

lemma BrandKit_model_simps [simp]:
  "tbl BrandKit_model = brand_kits"
  "put BrandKit_model f d = d\<lparr>brand_kits := f (brand_kits d)\<rparr>"
  "pk BrandKit_model = b_id"
  "fill BrandKit_model i t u r = r\<lparr>b_id := i, b_stamp := new_stamp t u\<rparr>"
  "touch BrandKit_model t r = r\<lparr>b_stamp := touch_stamp t (b_stamp r)\<rparr>"
  "soft BrandKit_model = Some b_soft"
  "mark_deleted BrandKit_model t r = r\<lparr>b_soft := delete_mark t (b_soft r)\<rparr>"
  "valid_row BrandKit_model = valid_BrandKit"
  by (simp_all add: BrandKit_model_def)

section \<open>Plan\<close>

definition valid_Plan :: "database \<Rightarrow> Plan \<Rightarrow> bool" where
  "valid_Plan d r =
     (unique_on pl_id pl_name (plans d) r \<and>
      unique_on pl_id pl_slug (plans d) r \<and>
      0 \<le> pl_monthly_price r \<and>
      0 \<le> pl_yearly_price r \<and>
      0 \<le> pl_max_users r \<and>
      0 \<le> pl_max_workspaces r \<and>
      0 \<le> pl_max_ai_credits r)"

definition Plan_model :: "Plan model" where
  "Plan_model =
     \<lparr>tbl = plans, put = (\<lambda>f d. d\<lparr>plans := f (plans d)\<rparr>), pk = pl_id,
      fill = (\<lambda>i t u r. r\<lparr>pl_id := i, pl_stamp := new_stamp t u\<rparr>),
      touch = (\<lambda>t r. r\<lparr>pl_stamp := touch_stamp t (pl_stamp r)\<rparr>),
      soft = None, mark_deleted = (\<lambda>t r. r),
      valid_row = valid_Plan\<rparr>"

lemma Plan_model_simps [simp]:
  "tbl Plan_model = plans"
  "put Plan_model f d = d\<lparr>plans := f (plans d)\<rparr>"
  "pk Plan_model = pl_id"
  "fill Plan_model i t u r = r\<lparr>pl_id := i, pl_stamp := new_stamp t u\<rparr>"
  "touch Plan_model t r = r\<lparr>pl_stamp := touch_stamp t (pl_stamp r)\<rparr>"
  "soft Plan_model = None"
  "mark_deleted Plan_model t r = r"
  "valid_row Plan_model = valid_Plan"
  by (simp_all add: Plan_model_def)

section \<open>SocialAccount\<close>

definition valid_SocialAccount :: "database \<Rightarrow> SocialAccount \<Rightarrow> bool" where
  "valid_SocialAccount d r =
     (fk w_id (workspaces d) (sa_workspace_id r) \<and>
      audit_fk d (sa_audit r))"

definition SocialAccount_model :: "SocialAccount model" where
  "SocialAccount_model =
     \<lparr>tbl = social_accounts, put = (\<lambda>f d. d\<lparr>social_accounts := f (social_accounts d)\<rparr>), pk = sa_id,
      fill = (\<lambda>i t u r. r\<lparr>sa_id := i, sa_stamp := new_stamp t u\<rparr>),
      touch = (\<lambda>t r. r\<lparr>sa_stamp := touch_stamp t (sa_stamp r)\<rparr>),
      soft = Some sa_soft, mark_deleted = (\<lambda>t r. r\<lparr>sa_soft := delete_mark t (sa_soft r)\<rparr>),
      valid_row = valid_SocialAccount\<rparr>"

lemma SocialAccount_model_simps [simp]:
  "tbl SocialAccount_model = social_accounts"
  "put SocialAccount_model f d = d\<lparr>social_accounts := f (social_accounts d)\<rparr>"
  "pk SocialAccount_model = sa_id"
  "fill SocialAccount_model i t u r = r\<lparr>sa_id := i, sa_stamp := new_stamp t u\<rparr>"
  "touch SocialAccount_model t r = r\<lparr>sa_stamp := touch_stamp t (sa_stamp r)\<rparr>"
  "soft SocialAccount_model = Some sa_soft"
  "mark_deleted SocialAccount_model t r = r\<lparr>sa_soft := delete_mark t (sa_soft r)\<rparr>"
  "valid_row SocialAccount_model = valid_SocialAccount"
  by (simp_all add: SocialAccount_model_def)

section \<open>PublishHistory\<close>

definition valid_PublishHistory :: "database \<Rightarrow> PublishHistory \<Rightarrow> bool" where
  "valid_PublishHistory d r =
     (fk w_id (workspaces d) (h_workspace_id r) \<and>
      fk_opt c_id (campaigns d) (h_campaign_id r) \<and>
      fk cc_id (campaign_contents d) (h_content_id r) \<and>
      fk sa_id (social_accounts d) (h_social_account_id r) \<and>
      audit_fk d (h_audit r))"

definition PublishHistory_model :: "PublishHistory model" where
  "PublishHistory_model =
     \<lparr>tbl = publish_history, put = (\<lambda>f d. d\<lparr>publish_history := f (publish_history d)\<rparr>), pk = h_id,
      fill = (\<lambda>i t u r. r\<lparr>h_id := i, h_stamp := new_stamp t u\<rparr>),
      touch = (\<lambda>t r. r\<lparr>h_stamp := touch_stamp t (h_stamp r)\<rparr>),
      soft = Some h_soft, mark_deleted = (\<lambda>t r. r\<lparr>h_soft := delete_mark t (h_soft r)\<rparr>),
      valid_row = valid_PublishHistory\<rparr>"

lemma PublishHistory_model_simps [simp]:
  "tbl PublishHistory_model = publish_history"
  "put PublishHistory_model f d = d\<lparr>publish_history := f (publish_history d)\<rparr>"
  "pk PublishHistory_model = h_id"
  "fill PublishHistory_model i t u r = r\<lparr>h_id := i, h_stamp := new_stamp t u\<rparr>"
  "touch PublishHistory_model t r = r\<lparr>h_stamp := touch_stamp t (h_stamp r)\<rparr>"
  "soft PublishHistory_model = Some h_soft"
  "mark_deleted PublishHistory_model t r = r\<lparr>h_soft := delete_mark t (h_soft r)\<rparr>"
  "valid_row PublishHistory_model = valid_PublishHistory"
  by (simp_all add: PublishHistory_model_def)

section \<open>Notification\<close>

definition valid_Notification :: "database \<Rightarrow> Notification \<Rightarrow> bool" where
  "valid_Notification d r =
     (fk w_id (workspaces d) (n_workspace_id r) \<and>
      fk u_id (users d) (n_user_id r))"

definition Notification_model :: "Notification model" where
  "Notification_model =
     \<lparr>tbl = notifications, put = (\<lambda>f d. d\<lparr>notifications := f (notifications d)\<rparr>), pk = n_id,
      fill = (\<lambda>i t u r. r\<lparr>n_id := i, n_created_at := t\<rparr>),
      touch = (\<lambda>t r. r),
      soft = None, mark_deleted = (\<lambda>t r. r),
      valid_row = valid_Notification\<rparr>"

lemma Notification_model_simps [simp]:
  "tbl Notification_model = notifications"
  "put Notification_model f d = d\<lparr>notifications := f (notifications d)\<rparr>"
  "pk Notification_model = n_id"
  "fill Notification_model i t u r = r\<lparr>n_id := i, n_created_at := t\<rparr>"
  "touch Notification_model t r = r"
  "soft Notification_model = None"
  "mark_deleted Notification_model t r = r"
  "valid_row Notification_model = valid_Notification"
  by (simp_all add: Notification_model_def)

section \<open>NotificationPreference\<close>

definition valid_NotificationPreference :: "database \<Rightarrow> NotificationPreference \<Rightarrow> bool" where
  "valid_NotificationPreference d r =
     (unique_on np_id (\<lambda>x. (np_user_id x, np_notification_type x)) (notification_preferences d) r \<and>
      fk w_id (workspaces d) (np_workspace_id r) \<and>
      fk u_id (users d) (np_user_id r))"

definition NotificationPreference_model :: "NotificationPreference model" where
  "NotificationPreference_model =
     \<lparr>tbl = notification_preferences, put = (\<lambda>f d. d\<lparr>notification_preferences := f (notification_preferences d)\<rparr>), pk = np_id,
      fill = (\<lambda>i t u r. r\<lparr>np_id := i, np_stamp := new_stamp t u\<rparr>),
      touch = (\<lambda>t r. r\<lparr>np_stamp := touch_stamp t (np_stamp r)\<rparr>),
      soft = None, mark_deleted = (\<lambda>t r. r),
      valid_row = valid_NotificationPreference\<rparr>"

lemma NotificationPreference_model_simps [simp]:
  "tbl NotificationPreference_model = notification_preferences"
  "put NotificationPreference_model f d = d\<lparr>notification_preferences := f (notification_preferences d)\<rparr>"
  "pk NotificationPreference_model = np_id"
  "fill NotificationPreference_model i t u r = r\<lparr>np_id := i, np_stamp := new_stamp t u\<rparr>"
  "touch NotificationPreference_model t r = r\<lparr>np_stamp := touch_stamp t (np_stamp r)\<rparr>"
  "soft NotificationPreference_model = None"
  "mark_deleted NotificationPreference_model t r = r"
  "valid_row NotificationPreference_model = valid_NotificationPreference"
  by (simp_all add: NotificationPreference_model_def)

section \<open>AuditLog\<close>

definition valid_AuditLog :: "database \<Rightarrow> AuditLog \<Rightarrow> bool" where
  "valid_AuditLog d r =
     (True)"

definition AuditLog_model :: "AuditLog model" where
  "AuditLog_model =
     \<lparr>tbl = audit_logs, put = (\<lambda>f d. d\<lparr>audit_logs := f (audit_logs d)\<rparr>), pk = al_id,
      fill = (\<lambda>i t u r. r\<lparr>al_id := i, al_timestamp := t\<rparr>),
      touch = (\<lambda>t r. r),
      soft = None, mark_deleted = (\<lambda>t r. r),
      valid_row = valid_AuditLog\<rparr>"

lemma AuditLog_model_simps [simp]:
  "tbl AuditLog_model = audit_logs"
  "put AuditLog_model f d = d\<lparr>audit_logs := f (audit_logs d)\<rparr>"
  "pk AuditLog_model = al_id"
  "fill AuditLog_model i t u r = r\<lparr>al_id := i, al_timestamp := t\<rparr>"
  "touch AuditLog_model t r = r"
  "soft AuditLog_model = None"
  "mark_deleted AuditLog_model t r = r"
  "valid_row AuditLog_model = valid_AuditLog"
  by (simp_all add: AuditLog_model_def)

section \<open>JobExecution\<close>

definition valid_JobExecution :: "database \<Rightarrow> JobExecution \<Rightarrow> bool" where
  "valid_JobExecution d r =
     (True)"

definition JobExecution_model :: "JobExecution model" where
  "JobExecution_model =
     \<lparr>tbl = job_executions, put = (\<lambda>f d. d\<lparr>job_executions := f (job_executions d)\<rparr>), pk = j_id,
      fill = (\<lambda>i t u r. r\<lparr>j_id := i, j_stamp := new_stamp t u\<rparr>),
      touch = (\<lambda>t r. r\<lparr>j_stamp := touch_stamp t (j_stamp r)\<rparr>),
      soft = None, mark_deleted = (\<lambda>t r. r),
      valid_row = valid_JobExecution\<rparr>"

lemma JobExecution_model_simps [simp]:
  "tbl JobExecution_model = job_executions"
  "put JobExecution_model f d = d\<lparr>job_executions := f (job_executions d)\<rparr>"
  "pk JobExecution_model = j_id"
  "fill JobExecution_model i t u r = r\<lparr>j_id := i, j_stamp := new_stamp t u\<rparr>"
  "touch JobExecution_model t r = r\<lparr>j_stamp := touch_stamp t (j_stamp r)\<rparr>"
  "soft JobExecution_model = None"
  "mark_deleted JobExecution_model t r = r"
  "valid_row JobExecution_model = valid_JobExecution"
  by (simp_all add: JobExecution_model_def)

section \<open>IntegrationConnection\<close>

definition valid_IntegrationConnection :: "database \<Rightarrow> IntegrationConnection \<Rightarrow> bool" where
  "valid_IntegrationConnection d r =
     (True)"

definition IntegrationConnection_model :: "IntegrationConnection model" where
  "IntegrationConnection_model =
     \<lparr>tbl = integration_connections, put = (\<lambda>f d. d\<lparr>integration_connections := f (integration_connections d)\<rparr>), pk = ic_id,
      fill = (\<lambda>i t u r. r\<lparr>ic_id := i, ic_stamp := new_stamp t u\<rparr>),
      touch = (\<lambda>t r. r\<lparr>ic_stamp := touch_stamp t (ic_stamp r)\<rparr>),
      soft = None, mark_deleted = (\<lambda>t r. r),
      valid_row = valid_IntegrationConnection\<rparr>"

lemma IntegrationConnection_model_simps [simp]:
  "tbl IntegrationConnection_model = integration_connections"
  "put IntegrationConnection_model f d = d\<lparr>integration_connections := f (integration_connections d)\<rparr>"
  "pk IntegrationConnection_model = ic_id"
  "fill IntegrationConnection_model i t u r = r\<lparr>ic_id := i, ic_stamp := new_stamp t u\<rparr>"
  "touch IntegrationConnection_model t r = r\<lparr>ic_stamp := touch_stamp t (ic_stamp r)\<rparr>"
  "soft IntegrationConnection_model = None"
  "mark_deleted IntegrationConnection_model t r = r"
  "valid_row IntegrationConnection_model = valid_IntegrationConnection"
  by (simp_all add: IntegrationConnection_model_def)

section \<open>FeatureFlag\<close>

definition valid_FeatureFlag :: "database \<Rightarrow> FeatureFlag \<Rightarrow> bool" where
  "valid_FeatureFlag d r =
     (unique_on ff_id ff_key (feature_flags d) r)"

definition FeatureFlag_model :: "FeatureFlag model" where
  "FeatureFlag_model =
     \<lparr>tbl = feature_flags, put = (\<lambda>f d. d\<lparr>feature_flags := f (feature_flags d)\<rparr>), pk = ff_id,
      fill = (\<lambda>i t u r. r\<lparr>ff_id := i, ff_stamp := new_stamp t u\<rparr>),
      touch = (\<lambda>t r. r\<lparr>ff_stamp := touch_stamp t (ff_stamp r)\<rparr>),
      soft = None, mark_deleted = (\<lambda>t r. r),
      valid_row = valid_FeatureFlag\<rparr>"

lemma FeatureFlag_model_simps [simp]:
  "tbl FeatureFlag_model = feature_flags"
  "put FeatureFlag_model f d = d\<lparr>feature_flags := f (feature_flags d)\<rparr>"
  "pk FeatureFlag_model = ff_id"
  "fill FeatureFlag_model i t u r = r\<lparr>ff_id := i, ff_stamp := new_stamp t u\<rparr>"
  "touch FeatureFlag_model t r = r\<lparr>ff_stamp := touch_stamp t (ff_stamp r)\<rparr>"
  "soft FeatureFlag_model = None"
  "mark_deleted FeatureFlag_model t r = r"
  "valid_row FeatureFlag_model = valid_FeatureFlag"
  by (simp_all add: FeatureFlag_model_def)

section \<open>WorkspaceFeature\<close>

definition valid_WorkspaceFeature :: "database \<Rightarrow> WorkspaceFeature \<Rightarrow> bool" where
  "valid_WorkspaceFeature d r =
     (fk w_id (workspaces d) (wf_workspace_id r))"

definition WorkspaceFeature_model :: "WorkspaceFeature model" where
  "WorkspaceFeature_model =
     \<lparr>tbl = workspace_features, put = (\<lambda>f d. d\<lparr>workspace_features := f (workspace_features d)\<rparr>), pk = wf_id,
      fill = (\<lambda>i t u r. r\<lparr>wf_id := i, wf_stamp := new_stamp t u\<rparr>),
      touch = (\<lambda>t r. r\<lparr>wf_stamp := touch_stamp t (wf_stamp r)\<rparr>),
      soft = None, mark_deleted = (\<lambda>t r. r),
      valid_row = valid_WorkspaceFeature\<rparr>"

lemma WorkspaceFeature_model_simps [simp]:
  "tbl WorkspaceFeature_model = workspace_features"
  "put WorkspaceFeature_model f d = d\<lparr>workspace_features := f (workspace_features d)\<rparr>"
  "pk WorkspaceFeature_model = wf_id"
  "fill WorkspaceFeature_model i t u r = r\<lparr>wf_id := i, wf_stamp := new_stamp t u\<rparr>"
  "touch WorkspaceFeature_model t r = r\<lparr>wf_stamp := touch_stamp t (wf_stamp r)\<rparr>"
  "soft WorkspaceFeature_model = None"
  "mark_deleted WorkspaceFeature_model t r = r"
  "valid_row WorkspaceFeature_model = valid_WorkspaceFeature"
  by (simp_all add: WorkspaceFeature_model_def)

section \<open>RuntimeConfiguration\<close>

definition valid_RuntimeConfiguration :: "database \<Rightarrow> RuntimeConfiguration \<Rightarrow> bool" where
  "valid_RuntimeConfiguration d r =
     (unique_on rc_id rc_key (runtime_configurations d) r)"

definition RuntimeConfiguration_model :: "RuntimeConfiguration model" where
  "RuntimeConfiguration_model =
     \<lparr>tbl = runtime_configurations, put = (\<lambda>f d. d\<lparr>runtime_configurations := f (runtime_configurations d)\<rparr>), pk = rc_id,
      fill = (\<lambda>i t u r. r\<lparr>rc_id := i, rc_stamp := new_stamp t u\<rparr>),
      touch = (\<lambda>t r. r\<lparr>rc_stamp := touch_stamp t (rc_stamp r)\<rparr>),
      soft = None, mark_deleted = (\<lambda>t r. r),
      valid_row = valid_RuntimeConfiguration\<rparr>"

lemma RuntimeConfiguration_model_simps [simp]:
  "tbl RuntimeConfiguration_model = runtime_configurations"
  "put RuntimeConfiguration_model f d = d\<lparr>runtime_configurations := f (runtime_configurations d)\<rparr>"
  "pk RuntimeConfiguration_model = rc_id"
  "fill RuntimeConfiguration_model i t u r = r\<lparr>rc_id := i, rc_stamp := new_stamp t u\<rparr>"
  "touch RuntimeConfiguration_model t r = r\<lparr>rc_stamp := touch_stamp t (rc_stamp r)\<rparr>"
  "soft RuntimeConfiguration_model = None"
  "mark_deleted RuntimeConfiguration_model t r = r"
  "valid_row RuntimeConfiguration_model = valid_RuntimeConfiguration"
  by (simp_all add: RuntimeConfiguration_model_def)

section \<open>SystemAnnouncement\<close>

definition valid_SystemAnnouncement :: "database \<Rightarrow> SystemAnnouncement \<Rightarrow> bool" where
  "valid_SystemAnnouncement d r =
     (True)"

definition SystemAnnouncement_model :: "SystemAnnouncement model" where
  "SystemAnnouncement_model =
     \<lparr>tbl = system_announcements, put = (\<lambda>f d. d\<lparr>system_announcements := f (system_announcements d)\<rparr>), pk = an_id,
      fill = (\<lambda>i t u r. r\<lparr>an_id := i, an_stamp := new_stamp t u\<rparr>),
      touch = (\<lambda>t r. r\<lparr>an_stamp := touch_stamp t (an_stamp r)\<rparr>),
      soft = None, mark_deleted = (\<lambda>t r. r),
      valid_row = valid_SystemAnnouncement\<rparr>"

lemma SystemAnnouncement_model_simps [simp]:
  "tbl SystemAnnouncement_model = system_announcements"
  "put SystemAnnouncement_model f d = d\<lparr>system_announcements := f (system_announcements d)\<rparr>"
  "pk SystemAnnouncement_model = an_id"
  "fill SystemAnnouncement_model i t u r = r\<lparr>an_id := i, an_stamp := new_stamp t u\<rparr>"
  "touch SystemAnnouncement_model t r = r\<lparr>an_stamp := touch_stamp t (an_stamp r)\<rparr>"
  "soft SystemAnnouncement_model = None"
  "mark_deleted SystemAnnouncement_model t r = r"
  "valid_row SystemAnnouncement_model = valid_SystemAnnouncement"
  by (simp_all add: SystemAnnouncement_model_def)

section \<open>AnalyticsSnapshot\<close>

definition valid_AnalyticsSnapshot :: "database \<Rightarrow> AnalyticsSnapshot \<Rightarrow> bool" where
  "valid_AnalyticsSnapshot d r =
     (fk w_id (workspaces d) (as_workspace_id r) \<and>
      unique_on as_id (\<lambda>x. (as_workspace_id x, as_snapshot_type x, as_snapshot_date x)) (analytics_snapshots d) r)"

definition AnalyticsSnapshot_model :: "AnalyticsSnapshot model" where
  "AnalyticsSnapshot_model =
     \<lparr>tbl = analytics_snapshots, put = (\<lambda>f d. d\<lparr>analytics_snapshots := f (analytics_snapshots d)\<rparr>), pk = as_id,
      fill = (\<lambda>i t u r. r\<lparr>as_id := i, as_stamp := new_stamp t u\<rparr>),
      touch = (\<lambda>t r. r\<lparr>as_stamp := touch_stamp t (as_stamp r)\<rparr>),
      soft = None, mark_deleted = (\<lambda>t r. r),
      valid_row = valid_AnalyticsSnapshot\<rparr>"

lemma AnalyticsSnapshot_model_simps [simp]:
  "tbl AnalyticsSnapshot_model = analytics_snapshots"
  "put AnalyticsSnapshot_model f d = d\<lparr>analytics_snapshots := f (analytics_snapshots d)\<rparr>"
  "pk AnalyticsSnapshot_model = as_id"
  "fill AnalyticsSnapshot_model i t u r = r\<lparr>as_id := i, as_stamp := new_stamp t u\<rparr>"
  "touch AnalyticsSnapshot_model t r = r\<lparr>as_stamp := touch_stamp t (as_stamp r)\<rparr>"
  "soft AnalyticsSnapshot_model = None"
  "mark_deleted AnalyticsSnapshot_model t r = r"
  "valid_row AnalyticsSnapshot_model = valid_AnalyticsSnapshot"
  by (simp_all add: AnalyticsSnapshot_model_def)

section \<open>CampaignAnalytics\<close>

definition valid_CampaignAnalytics :: "database \<Rightarrow> CampaignAnalytics \<Rightarrow> bool" where
  "valid_CampaignAnalytics d r =
     (fk w_id (workspaces d) (ca_workspace_id r) \<and>
      fk c_id (campaigns d) (ca_campaign_id r) \<and>
      unique_on ca_id ca_campaign_id (campaign_analytics d) r)"

definition CampaignAnalytics_model :: "CampaignAnalytics model" where
  "CampaignAnalytics_model =
     \<lparr>tbl = campaign_analytics, put = (\<lambda>f d. d\<lparr>campaign_analytics := f (campaign_analytics d)\<rparr>), pk = ca_id,
      fill = (\<lambda>i t u r. r\<lparr>ca_id := i, ca_stamp := new_stamp t u\<rparr>),
      touch = (\<lambda>t r. r\<lparr>ca_stamp := touch_stamp t (ca_stamp r)\<rparr>),
      soft = None, mark_deleted = (\<lambda>t r. r),
      valid_row = valid_CampaignAnalytics\<rparr>"

lemma CampaignAnalytics_model_simps [simp]:
  "tbl CampaignAnalytics_model = campaign_analytics"
  "put CampaignAnalytics_model f d = d\<lparr>campaign_analytics := f (campaign_analytics d)\<rparr>"
  "pk CampaignAnalytics_model = ca_id"
  "fill CampaignAnalytics_model i t u r = r\<lparr>ca_id := i, ca_stamp := new_stamp t u\<rparr>"
  "touch CampaignAnalytics_model t r = r\<lparr>ca_stamp := touch_stamp t (ca_stamp r)\<rparr>"
  "soft CampaignAnalytics_model = None"
  "mark_deleted CampaignAnalytics_model t r = r"
  "valid_row CampaignAnalytics_model = valid_CampaignAnalytics"
  by (simp_all add: CampaignAnalytics_model_def)

section \<open>AIUsage\<close>

definition valid_AIUsage :: "database \<Rightarrow> AIUsage \<Rightarrow> bool" where
  "valid_AIUsage d r =
     (fk w_id (workspaces d) (ai_workspace_id r))"

definition AIUsage_model :: "AIUsage model" where
  "AIUsage_model =
     \<lparr>tbl = ai_usage, put = (\<lambda>f d. d\<lparr>ai_usage := f (ai_usage d)\<rparr>), pk = ai_id,
      fill = (\<lambda>i t u r. r\<lparr>ai_id := i, ai_stamp := new_stamp t u\<rparr>),
      touch = (\<lambda>t r. r\<lparr>ai_stamp := touch_stamp t (ai_stamp r)\<rparr>),
      soft = None, mark_deleted = (\<lambda>t r. r),
      valid_row = valid_AIUsage\<rparr>"

lemma AIUsage_model_simps [simp]:
  "tbl AIUsage_model = ai_usage"
  "put AIUsage_model f d = d\<lparr>ai_usage := f (ai_usage d)\<rparr>"
  "pk AIUsage_model = ai_id"
  "fill AIUsage_model i t u r = r\<lparr>ai_id := i, ai_stamp := new_stamp t u\<rparr>"
  "touch AIUsage_model t r = r\<lparr>ai_stamp := touch_stamp t (ai_stamp r)\<rparr>"
  "soft AIUsage_model = None"
  "mark_deleted AIUsage_model t r = r"
  "valid_row AIUsage_model = valid_AIUsage"
  by (simp_all add: AIUsage_model_def)

end
