(* ===== verification/Base_Repository.thy ===== *)
theory Base_Repository
  imports Models
begin

text \<open>
  \<open>BaseRepository\<close> (\<open>app/repositories/base.py\<close>), generic in the mapped class, and the contract that
  every repository of the backend has because of it. \<open>self.model\<close> is the argument \<open>M\<close>. A query that
  filters deleted rows does so when the class has \<open>deleted_at\<close>.

  The contract is the locale \<open>repository\<close>: its assumptions are the laws that tie the parts of a table
  description together, its lemmas what \<open>create\<close>, \<open>update\<close>, \<open>delete\<close> and \<open>get_by_id\<close> promise. It is
  interpreted for every table.
\<close>

section \<open>The operations\<close>

definition visible :: "'r model \<Rightarrow> 'r \<Rightarrow> bool" where
  "visible M r = (case soft M of None \<Rightarrow> True | Some sd \<Rightarrow> deleted_at (sd r) = None)"

definition live :: "'r model \<Rightarrow> bool \<Rightarrow> 'r \<Rightarrow> bool" where
  "live M include_deleted r \<longleftrightarrow> include_deleted \<or> visible M r"

definition get_by_id_with :: "'r model \<Rightarrow> bool \<Rightarrow> uuid \<Rightarrow> ('z, 'r option) io" where
  "get_by_id_with M include_deleted i =
     bindM (select M (\<lambda>r. pk M r = i \<and> live M include_deleted r)) scalar_one_or_none"

definition get_by_id :: "'r model \<Rightarrow> uuid \<Rightarrow> ('z, 'r option) io" where
  "get_by_id M i = get_by_id_with M False i"

text \<open>
  A filter is the comparison of a column with a value, or \<open>None\<close> for a key that is not an attribute
  of the class, which \<open>hasattr\<close> skips. The sort column is \<open>None\<close> when the class does not have it.
\<close>

definition apply_filters :: "('r \<Rightarrow> bool) option list \<Rightarrow> 'r \<Rightarrow> bool" where
  "apply_filters fs r = list_all (\<lambda>f. case f of None \<Rightarrow> True | Some p \<Rightarrow> p r) fs"

definition order_rows :: "('r \<Rightarrow> int) option \<Rightarrow> bool \<Rightarrow> 'r list \<Rightarrow> 'r list" where
  "order_rows sort_by descending rs =
     (case sort_by of
        None \<Rightarrow> rs
      | Some k \<Rightarrow> if descending then sort_desc k rs else sort_key k rs)"

definition get_all ::
  "'r model \<Rightarrow> nat \<Rightarrow> nat \<Rightarrow> ('r \<Rightarrow> bool) option list \<Rightarrow> ('r \<Rightarrow> int) option \<Rightarrow> bool \<Rightarrow> bool
   \<Rightarrow> ('z, 'r list) io" where
  "get_all M skip limit filters sort_by descending include_deleted =
     bindM (select M (\<lambda>r. live M include_deleted r \<and> apply_filters filters r))
       (\<lambda>rs. returnM (page skip limit (order_rows sort_by descending rs)))"

definition count_rows :: "'r model \<Rightarrow> ('r \<Rightarrow> bool) option list \<Rightarrow> bool \<Rightarrow> ('z, nat) io" where
  "count_rows M filters include_deleted =
     bindM (select M (\<lambda>r. live M include_deleted r \<and> apply_filters filters r))
       (\<lambda>rs. returnM (length rs))"

definition create :: "'r model \<Rightarrow> 'r \<Rightarrow> ('z, 'r) io" where
  "create M obj_in = flush_new M obj_in"

definition update :: "'r model \<Rightarrow> uuid \<Rightarrow> ('r \<Rightarrow> 'r) \<Rightarrow> ('z, 'r) io" where
  "update M db_obj obj_in = flush_dirty M db_obj obj_in"

definition delete :: "'r model \<Rightarrow> uuid \<Rightarrow> bool \<Rightarrow> ('z, bool) io" where
  "delete M i soft_delete =
     bindM (get_by_id M i) (\<lambda>obj.
     case obj of
       None \<Rightarrow> returnM False
     | Some r \<Rightarrow>
         thenM
           (if soft_delete \<and> soft M \<noteq> None
            then bindM get_utc_now (\<lambda>now.
                   thenM (flush_dirty M (pk M r) (mark_deleted M now)) (returnM ()))
            else thenM (delete_where M (\<lambda>x. pk M x = i)) (returnM ()))
           (returnM True))"

definition exists_row :: "'r model \<Rightarrow> uuid \<Rightarrow> bool \<Rightarrow> ('z, bool) io" where
  "exists_row M i include_deleted =
     bindM (get_by_id_with M include_deleted i) (\<lambda>r. returnM (r \<noteq> None))"

text \<open>\<open>bulk_insert\<close>: one multi-row \<open>INSERT\<close>, so a violation by any row inserts none.\<close>

definition bulk_insert :: "'r model \<Rightarrow> 'r list \<Rightarrow> ('z, unit) io" where
  "bulk_insert M objects w =
     (if objects = [] then (Inr (), w)
      else case forM objects (\<lambda>r. thenM (flush_new M r) (returnM ())) w of
        (Inl e, w') \<Rightarrow> (Inl e, w'\<lparr>db := db w\<rparr>)
      | (Inr x, w') \<Rightarrow> (Inr x, w'))"

text \<open>\<open>bulk_update\<close>: each object names its row and the assignments to it.\<close>

definition bulk_update :: "'r model \<Rightarrow> (uuid \<times> ('r \<Rightarrow> 'r)) list \<Rightarrow> ('z, unit) io" where
  "bulk_update M objects =
     (if objects = [] then returnM ()
      else forM objects (\<lambda>(i, f). thenM (update_where M (\<lambda>r. pk M r = i) f) (returnM ())))"

section \<open>The operations are steps of a framed relation\<close>

context table_step
begin

lemma frame_get_by_id_with [preserves_intros]: "obeys rel (get_by_id_with M b i)"
  unfolding get_by_id_with_def by (intro obeys_bind obeys_select obeys_one_or_none)

lemma frame_get_by_id [preserves_intros]: "obeys rel (get_by_id M i)"
  unfolding get_by_id_def by (rule frame_get_by_id_with)

lemma frame_get_all [preserves_intros]: "obeys rel (get_all M s l fs k ds b)"
  unfolding get_all_def by (intro obeys_bind obeys_select obeys_return)

lemma frame_create: "(\<And>f d. proj (put M f d) = proj d) \<Longrightarrow> obeys rel (create M r)"
  unfolding create_def by (rule frame_new)

lemma frame_upd: "(\<And>f d. proj (put M f d) = proj d) \<Longrightarrow> obeys rel (update M i f)"
  unfolding update_def by (rule frame_dirty)

lemma frame_delete: "(\<And>f d. proj (put M f d) = proj d) \<Longrightarrow> obeys rel (delete M i b)"
  unfolding delete_def
  by (intro obeys_bind frame_get_by_id obeys_case_option obeys_return obeys_then obeys_if
      obeys_clock frame_dirty frame_delete_where)

end

lemma read_only_get_by_id_with: "read_only (get_by_id_with M b i)"
  unfolding get_by_id_with_def
  using read_only_select read_only_scalar_one_or_none unfolding read_only_def
  by (intro ro.obeys_bind)

lemma read_only_get_by_id: "read_only (get_by_id M i)"
  unfolding get_by_id_def by (rule read_only_get_by_id_with)

lemma read_only_get_all: "read_only (get_all M s l fs k ds b)"
  unfolding get_all_def using read_only_select unfolding read_only_def
  by (intro ro.obeys_bind ro.obeys_return)

lemma get_by_id_run:
  "get_by_id M i w =
     scalar_one_or_none (filter (\<lambda>r. pk M r = i \<and> visible M r) (tbl M (db w))) w"
  by (simp add: get_by_id_def get_by_id_with_def live_def)

lemma get_by_id_Some:
  assumes "get_by_id M i w = (Inr (Some r), w')"
  shows "w' = w" and "r \<in> set (tbl M (db w))" and "pk M r = i" and "visible M r"
proof -
  from assms have f: "filter (\<lambda>r. pk M r = i \<and> visible M r) (tbl M (db w)) = [r]" and "w' = w"
    by (simp_all add: get_by_id_run scalar_one_or_none_Some)
  then show "w' = w" by simp
  from f have "r \<in> set (filter (\<lambda>r. pk M r = i \<and> visible M r) (tbl M (db w)))" by simp
  then show "r \<in> set (tbl M (db w))" and "pk M r = i" and "visible M r" by simp_all
qed

section \<open>The contract\<close>

definition pk_unique :: "'r model \<Rightarrow> database \<Rightarrow> bool" where
  "pk_unique M d \<longleftrightarrow> distinct (map (pk M) (tbl M d))"

locale repository =
  fixes M :: "'r model"
  assumes tbl_put [simp]: "tbl M (put M f d) = f (tbl M d)"
    and pk_fill [simp]: "pk M (fill M i t u r) = i"
    and pk_touch [simp]: "pk M (touch M t r) = pk M r"
    and pk_mark [simp]: "pk M (mark_deleted M t r) = pk M r"
    and visible_touch [simp]: "visible M (touch M t r) = visible M r"
    and mark_invisible: "soft M \<noteq> None \<Longrightarrow> \<not> visible M (mark_deleted M t r)"
begin

lemma find_pk_unique: "pk_unique M d \<Longrightarrow> r \<in> set (tbl M d) \<Longrightarrow> find_pk M (pk M r) d = Some r"
proof -
  assume u: "pk_unique M d" and r: "r \<in> set (tbl M d)"
  then obtain x where x: "find_pk M (pk M r) d = Some x"
    by (metis find_pk_None option.exhaust)
  with u r have "x = r" by (metis distinct_map_inj find_pk_Some pk_unique_def)
  with x show ?thesis by simp
qed

lemma get_by_id_iff:
  assumes "pk_unique M (db w)" and "r \<in> set (tbl M (db w))" and "visible M r"
  shows "get_by_id M (pk M r) w = (Inr (Some r), w)"
proof -
  have "filter (\<lambda>x. pk M x = pk M r \<and> visible M x) (tbl M (db w)) =
        filter (visible M) (filter (\<lambda>x. pk M x = pk M r) (tbl M (db w)))"
    by (simp add: conj_commute)
  also have "\<dots> = [r]"
    using assms by (simp add: filter_unique_key pk_unique_def)
  finally show ?thesis by (simp add: get_by_id_run)
qed

lemma get_by_id_total:
  assumes "pk_unique M (db w)"
  shows "get_by_id M i w =
           (Inr (find (\<lambda>r. pk M r = i \<and> visible M r) (tbl M (db w))), w)"
proof (cases "find (\<lambda>r. pk M r = i \<and> visible M r) (tbl M (db w))")
  case None
  then have "filter (\<lambda>r. pk M r = i \<and> visible M r) (tbl M (db w)) = []"
    by (auto simp: find_None_iff filter_empty_conv)
  then show ?thesis using None by (simp add: get_by_id_run)
next
  case (Some r)
  then have "r \<in> set (tbl M (db w))" "pk M r = i" "visible M r"
    by (auto simp: find_Some_iff)
  with get_by_id_iff [OF assms] Some show ?thesis by auto
qed

lemma pk_unique_create:
  assumes "pk_unique M (db w)" and "create M r w = (x, w')"
  shows "pk_unique M (db w')"
  using assms
  by (auto simp: create_def flush_new_def insert_row_def pk_unique_def find_pk_None split: if_splits)
    blast

lemma pk_unique_dirty:
  assumes "pk_unique M (db w)" and "\<And>r. pk M (f r) = pk M r" and "flush_dirty M i f w = (x, w')"
  shows "pk_unique M (db w')"
  using assms
  by (auto simp: flush_dirty_def update_row_def pk_unique_def map_upd_key
      split: option.splits if_splits)

text \<open>What was created can be read back, with the identity that was drawn for it.\<close>

lemma create_then_get:
  assumes "pk_unique M (db w)" and "create M r w = (Inr x, w')" and "visible M x"
  shows "get_by_id M (pk M x) w' = (Inr (Some x), w')"
proof (rule get_by_id_iff)
  show "pk_unique M (db w')" using assms(1,2) by (rule pk_unique_create)
  show "x \<in> set (tbl M (db w'))"
    using assms(2) by (auto simp: create_def flush_new_def insert_row_Inr)
  show "visible M x" by fact
qed

lemma create_row:
  assumes "create M r w = (Inr x, w')"
  shows "x = fill M (uuid_source w (uuids_drawn w)) (clock w (ticks w)) (clock w (Suc (ticks w))) r"
    and "tbl M (db w') = tbl M (db w) @ [x]" and "valid_row M (db w) x"
    and "find_pk M (pk M x) (db w) = None" and "db w' = put M (\<lambda>rs. rs @ [x]) (db w)"
  using assms by (auto simp: create_def flush_new_def insert_row_Inr)

text \<open>An update changes the one row it names and stamps it; nothing is written when nothing changes.\<close>

lemma update_row_result:
  assumes "update M i f w = (Inr x, w')"
  obtains r where "find_pk M i (db w) = Some r" and
    "x = (if f r = r then r else touch M (clock w (ticks w)) (f r))" and
    "f r \<noteq> r \<Longrightarrow> pk M (f r) = i \<Longrightarrow>
       db w' = put M (upd_where (\<lambda>y. pk M y = i) (\<lambda>_. x)) (db w) \<and> valid_row M (db w) x" and
    "f r = r \<Longrightarrow> w' = w"
proof -
  from assms obtain r where r: "find_pk M i (db w) = Some r"
    by (auto simp: update_def flush_dirty_def split: option.splits)
  show ?thesis
    by (rule that [OF r])
      (use assms r in \<open>auto simp: update_def flush_dirty_def update_row_Inr split: if_splits\<close>)
qed

lemma soft_delete_hides:
  assumes u: "pk_unique M (db w)" and s: "soft M \<noteq> None"
    and run: "delete M i True w = (Inr True, w')"
  shows "get_by_id M i w' = (Inr None, w')" and "\<exists>r \<in> set (tbl M (db w')). pk M r = i"
proof -
  from run obtain r where g: "get_by_id M i w = (Inr (Some r), w)"
    by (auto simp: delete_def bindM_eq_Inr get_by_id_total [OF u] split: option.splits)
  note r = get_by_id_Some [OF g]
  let ?w = "w\<lparr>ticks := Suc (ticks w)\<rparr>"
  define f where "f = mark_deleted M (clock w (ticks w))"
  have f_pk: "\<And>x. pk M (f x) = pk M x" and f_vis: "\<And>x. \<not> visible M (f x)"
    by (simp_all add: f_def mark_invisible [OF s])
  from run s r(3) obtain x where x: "flush_dirty M i f ?w = (Inr x, w')"
    by (auto simp: delete_def bindM_eq_Inr g f_def split: if_splits)
  have "f r \<noteq> r" using f_vis r(4) by metis
  moreover have "find_pk M i (db ?w) = Some r"
    using find_pk_unique [OF u r(2)] r(3) by simp
  ultimately have
    d: "db w' = put M (upd_where (\<lambda>y. pk M y = i) (\<lambda>_. x)) (db w)" and
    xr: "x = touch M (clock ?w (ticks ?w)) (f r)"
    using x f_pk r(3) by (auto simp: flush_dirty_def update_row_Inr)
  have "pk_unique M (db w')"
    by (rule pk_unique_dirty [OF _ f_pk x]) (simp add: u)
  then show "get_by_id M i w' = (Inr None, w')"
    using f_vis by (subst get_by_id_total) (auto simp: find_None_iff d set_upd_where xr)
  from r(2,3) show "\<exists>r \<in> set (tbl M (db w')). pk M r = i"
    by (intro bexI [of _ x]) (auto simp: d set_upd_where xr f_pk)
qed

end

section \<open>Every table has the contract\<close>

interpretation user_repo: repository User_model
  by unfold_locales (auto simp: visible_def touch_stamp_def delete_mark_def)

interpretation workspace_repo: repository Workspace_model
  by unfold_locales (auto simp: visible_def touch_stamp_def delete_mark_def)

interpretation member_repo: repository WorkspaceMember_model
  by unfold_locales (auto simp: visible_def touch_stamp_def delete_mark_def)

interpretation invite_repo: repository WorkspaceInvite_model
  by unfold_locales (auto simp: visible_def touch_stamp_def delete_mark_def)

interpretation role_repo: repository Role_model
  by unfold_locales (auto simp: visible_def touch_stamp_def delete_mark_def)

interpretation permission_repo: repository Permission_model
  by unfold_locales (auto simp: visible_def touch_stamp_def delete_mark_def)

interpretation role_permission_repo: repository RolePermission_model
  by unfold_locales (auto simp: visible_def touch_stamp_def delete_mark_def)

interpretation campaign_repo: repository Campaign_model
  by unfold_locales (auto simp: visible_def touch_stamp_def delete_mark_def)

interpretation schedule_repo: repository CampaignSchedule_model
  by unfold_locales (auto simp: visible_def touch_stamp_def delete_mark_def)

interpretation content_repo: repository CampaignContent_model
  by unfold_locales (auto simp: visible_def touch_stamp_def delete_mark_def)

interpretation brand_kit_repo: repository BrandKit_model
  by unfold_locales (auto simp: visible_def touch_stamp_def delete_mark_def)

interpretation plan_repo: repository Plan_model
  by unfold_locales (auto simp: visible_def touch_stamp_def delete_mark_def)

interpretation social_account_repo: repository SocialAccount_model
  by unfold_locales (auto simp: visible_def touch_stamp_def delete_mark_def)

interpretation history_repo: repository PublishHistory_model
  by unfold_locales (auto simp: visible_def touch_stamp_def delete_mark_def)

interpretation notification_repo: repository Notification_model
  by unfold_locales (auto simp: visible_def touch_stamp_def delete_mark_def)

interpretation preference_repo: repository NotificationPreference_model
  by unfold_locales (auto simp: visible_def touch_stamp_def delete_mark_def)

interpretation audit_repo: repository AuditLog_model
  by unfold_locales (auto simp: visible_def touch_stamp_def delete_mark_def)

interpretation job_repo: repository JobExecution_model
  by unfold_locales (auto simp: visible_def touch_stamp_def delete_mark_def)

interpretation connection_repo: repository IntegrationConnection_model
  by unfold_locales (auto simp: visible_def touch_stamp_def delete_mark_def)

interpretation flag_repo: repository FeatureFlag_model
  by unfold_locales (auto simp: visible_def touch_stamp_def delete_mark_def)

interpretation ws_feature_repo: repository WorkspaceFeature_model
  by unfold_locales (auto simp: visible_def touch_stamp_def delete_mark_def)

interpretation config_repo: repository RuntimeConfiguration_model
  by unfold_locales (auto simp: visible_def touch_stamp_def delete_mark_def)

interpretation announcement_repo: repository SystemAnnouncement_model
  by unfold_locales (auto simp: visible_def touch_stamp_def delete_mark_def)

interpretation snapshot_repo: repository AnalyticsSnapshot_model
  by unfold_locales (auto simp: visible_def touch_stamp_def delete_mark_def)

interpretation campaign_analytics_repo: repository CampaignAnalytics_model
  by unfold_locales (auto simp: visible_def touch_stamp_def delete_mark_def)

interpretation ai_usage_repo: repository AIUsage_model
  by unfold_locales (auto simp: visible_def touch_stamp_def delete_mark_def)

end
