(* ===== verification/Tenancy_Repositories.thy ===== *)
theory Tenancy_Repositories
  imports Base_Repository
begin

text \<open>
  The repositories of users, workspaces, members, invitations, roles and permissions, notifications
  and audit entries: \<open>app/repositories/user.py\<close>, \<open>workspace.py\<close>, \<open>workspace_member.py\<close>,
  \<open>workspace_invite.py\<close>, \<open>rbac.py\<close>, \<open>notification.py\<close>, and \<open>app/operations/audit\<close>. A query is the
  rows that satisfy its \<open>WHERE\<close>; a comparison with a \<open>NULL\<close> column selects nothing.
\<close>

section \<open>Users\<close>

definition get_by_email :: "string \<Rightarrow> bool \<Rightarrow> ('z, User option) io" where
  "get_by_email email include_deleted =
     bindM (select User_model (\<lambda>u. u_email u = email \<and> live User_model include_deleted u))
       scalar_one_or_none"

definition get_by_supabase_id :: "uuid \<Rightarrow> bool \<Rightarrow> ('z, User option) io" where
  "get_by_supabase_id sid include_deleted =
     bindM (select User_model (\<lambda>u. u_supabase_user_id u = sid \<and> live User_model include_deleted u))
       scalar_one_or_none"

section \<open>Workspaces\<close>

definition get_by_slug :: "string \<Rightarrow> bool \<Rightarrow> ('z, Workspace option) io" where
  "get_by_slug slug include_deleted =
     bindM (select Workspace_model (\<lambda>w. w_slug w = slug \<and> live Workspace_model include_deleted w))
       scalar_one_or_none"

text \<open>
  The outer join of the workspaces with every row of \<open>workspace_members\<close>, removed ones included,
  made \<open>DISTINCT\<close>.
\<close>

definition get_user_workspaces :: "uuid \<Rightarrow> ('z, Workspace list) io" where
  "get_user_workspaces user_id = readM (\<lambda>s.
     filter (\<lambda>w. (w_owner_id w = user_id \<or>
                  list_ex (\<lambda>m. m_workspace_id m = w_id w \<and> m_user_id m = user_id)
                    (workspace_members (db s)))
                 \<and> deleted_at (w_soft w) = None)
       (workspaces (db s)))"

section \<open>Members\<close>

definition get_by_workspace :: "uuid \<Rightarrow> ('z, WorkspaceMember list) io" where
  "get_by_workspace ws =
     select WorkspaceMember_model (\<lambda>m. m_workspace_id m = ws \<and> deleted_at (m_soft m) = None)"

definition get_by_user :: "uuid \<Rightarrow> ('z, WorkspaceMember list) io" where
  "get_by_user user_id =
     select WorkspaceMember_model (\<lambda>m. m_user_id m = user_id \<and> deleted_at (m_soft m) = None)"

definition get_active_members :: "uuid \<Rightarrow> ('z, WorkspaceMember list) io" where
  "get_active_members ws =
     select WorkspaceMember_model
       (\<lambda>m. m_workspace_id m = ws \<and> m_status m = MemberStatus_ACTIVE \<and> deleted_at (m_soft m) = None)"

definition get_member :: "uuid \<Rightarrow> uuid \<Rightarrow> ('z, WorkspaceMember option) io" where
  "get_member ws user_id =
     bindM (select WorkspaceMember_model
       (\<lambda>m. m_workspace_id m = ws \<and> m_user_id m = user_id \<and> deleted_at (m_soft m) = None))
       scalar_one_or_none"

text \<open>Load a member by id and, when there is one, assign to it and flush.\<close>

definition edit_member ::
  "uuid \<Rightarrow> (WorkspaceMember \<Rightarrow> WorkspaceMember) \<Rightarrow> ('z, WorkspaceMember option) io" where
  "edit_member member_id f =
     bindM (get_by_id WorkspaceMember_model member_id) (\<lambda>member.
     case member of
       None \<Rightarrow> returnM None
     | Some m \<Rightarrow> bindM (flush_dirty WorkspaceMember_model (m_id m) f) (\<lambda>m'. returnM (Some m')))"

definition repo_change_role :: "uuid \<Rightarrow> uuid \<Rightarrow> ('z, WorkspaceMember option) io" where
  "repo_change_role member_id new_role_id = edit_member member_id (\<lambda>m. m\<lparr>m_role_id := new_role_id\<rparr>)"

definition repo_suspend_member :: "uuid \<Rightarrow> ('z, WorkspaceMember option) io" where
  "repo_suspend_member member_id =
     edit_member member_id (\<lambda>m. m\<lparr>m_status := MemberStatus_SUSPENDED\<rparr>)"

definition repo_reactivate_member :: "uuid \<Rightarrow> ('z, WorkspaceMember option) io" where
  "repo_reactivate_member member_id =
     edit_member member_id (\<lambda>m. m\<lparr>m_status := MemberStatus_ACTIVE\<rparr>)"

definition repo_remove_member :: "uuid \<Rightarrow> ('z, WorkspaceMember option) io" where
  "repo_remove_member member_id =
     bindM (get_by_id WorkspaceMember_model member_id) (\<lambda>member.
     case member of
       None \<Rightarrow> returnM None
     | Some m \<Rightarrow>
         bindM get_utc_now (\<lambda>now.
         bindM (flush_dirty WorkspaceMember_model (m_id m)
                  (\<lambda>m. m\<lparr>m_status := MemberStatus_REMOVED, m_soft := delete_mark now (m_soft m)\<rparr>))
           (\<lambda>m'. returnM (Some m'))))"

definition repo_transfer_ownership :: "uuid \<Rightarrow> uuid \<Rightarrow> uuid \<Rightarrow> uuid \<Rightarrow> ('z, bool) io" where
  "repo_transfer_ownership ws old_owner_id new_owner_id new_role_id =
     bindM (get_member ws old_owner_id) (\<lambda>old_owner_member.
     case old_owner_member of
       None \<Rightarrow> returnM True
     | Some m \<Rightarrow>
         thenM (flush_dirty WorkspaceMember_model (m_id m) (\<lambda>m. m\<lparr>m_role_id := new_role_id\<rparr>))
           (returnM True))"

definition count_members :: "uuid \<Rightarrow> ('z, nat) io" where
  "count_members ws =
     bindM (select WorkspaceMember_model
       (\<lambda>m. m_workspace_id m = ws \<and> m_status m = MemberStatus_ACTIVE \<and> deleted_at (m_soft m) = None))
       (\<lambda>ms. returnM (length ms))"

section \<open>Invitations\<close>

definition create_invitation :: "WorkspaceInvite \<Rightarrow> ('z, WorkspaceInvite) io" where
  "create_invitation obj_in =
     bindM token_urlsafe (\<lambda>tok.
       flush_new WorkspaceInvite_model
         (obj_in\<lparr>i_email := py_strip (py_lower (i_email obj_in)), i_token := tok\<rparr>))"

definition get_by_token :: "string \<Rightarrow> ('z, WorkspaceInvite option) io" where
  "get_by_token tok =
     bindM (select WorkspaceInvite_model (\<lambda>i. i_token i = tok)) scalar_one_or_none"

definition get_pending_invites :: "uuid \<Rightarrow> ('z, WorkspaceInvite list) io" where
  "get_pending_invites ws =
     select WorkspaceInvite_model (\<lambda>i. i_workspace_id i = ws \<and> i_status i = InviteStatus_PENDING)"

definition repo_accept_invite :: "uuid \<Rightarrow> ('z, WorkspaceInvite option) io" where
  "repo_accept_invite invite_id =
     bindM (get_by_id WorkspaceInvite_model invite_id) (\<lambda>invite.
     case invite of
       None \<Rightarrow> returnM None
     | Some i \<Rightarrow>
         if i_status i \<noteq> InviteStatus_PENDING then returnM None
         else bindM get_utc_now (\<lambda>now.
           if i_expires_at i > now
           then bindM get_utc_now (\<lambda>accepted.
                bindM (flush_dirty WorkspaceInvite_model (i_id i)
                  (\<lambda>i. i\<lparr>i_status := InviteStatus_ACCEPTED, i_accepted_at := Some accepted\<rparr>))
                  (\<lambda>i'. returnM (Some i')))
           else returnM None))"

definition repo_revoke_invite :: "uuid \<Rightarrow> ('z, WorkspaceInvite option) io" where
  "repo_revoke_invite invite_id =
     bindM (get_by_id WorkspaceInvite_model invite_id) (\<lambda>invite.
     case invite of
       None \<Rightarrow> returnM None
     | Some i \<Rightarrow>
         if i_status i = InviteStatus_PENDING
         then bindM get_utc_now (\<lambda>now.
              bindM (flush_dirty WorkspaceInvite_model (i_id i)
                (\<lambda>i. i\<lparr>i_status := InviteStatus_REVOKED, i_revoked_at := Some now\<rparr>))
                (\<lambda>i'. returnM (Some i')))
         else returnM (Some i))"

definition expire_invites :: "('z, nat) io" where
  "expire_invites =
     bindM get_utc_now (\<lambda>now.
       update_where WorkspaceInvite_model
         (\<lambda>i. i_status i = InviteStatus_PENDING \<and> i_expires_at i \<le> now)
         (\<lambda>i. i\<lparr>i_status := InviteStatus_EXPIRED\<rparr>))"

definition repo_resend_invite :: "uuid \<Rightarrow> time \<Rightarrow> ('z, WorkspaceInvite option) io" where
  "repo_resend_invite invite_id new_expires_at =
     bindM (get_by_id WorkspaceInvite_model invite_id) (\<lambda>invite.
     case invite of
       None \<Rightarrow> returnM None
     | Some i \<Rightarrow>
         if i_status i = InviteStatus_PENDING
         then bindM (flush_dirty WorkspaceInvite_model (i_id i)
                (\<lambda>i. i\<lparr>i_expires_at := new_expires_at\<rparr>)) (\<lambda>i'. returnM (Some i'))
         else returnM (Some i))"

section \<open>Roles and permissions\<close>

definition get_system_roles :: "('z, Role list) io" where
  "get_system_roles =
     bindM (select Role_model r_is_system) (\<lambda>rs. returnM (sort_key r_name rs))"

text \<open>
  \<open>not self.model.is_system\<close> is Python's \<open>not\<close> on the column object, which is true as an object, so the
  second condition of the \<open>WHERE\<close> is the constant \<open>False\<close>.
\<close>

definition get_workspace_roles :: "uuid \<Rightarrow> ('z, Role list) io" where
  "get_workspace_roles ws =
     bindM (select Role_model (\<lambda>r. r_workspace_id r = Some ws \<and> False))
       (\<lambda>rs. returnM (sort_key r_name rs))"

definition new_role :: "uuid \<Rightarrow> string \<Rightarrow> string option \<Rightarrow> Role" where
  "new_role ws name desc =
     \<lparr>r_id = 0, r_stamp = no_stamp, r_workspace_id = Some ws, r_name = name, r_description = desc,
      r_role_type = RoleType_CUSTOM, r_is_system = False\<rparr>"

definition new_role_permission :: "uuid \<Rightarrow> uuid \<Rightarrow> RolePermission" where
  "new_role_permission role_id permission_id =
     \<lparr>rp_id = 0, rp_role_id = role_id, rp_permission_id = permission_id, rp_created_at = 0\<rparr>"

definition clone_system_role_to_workspace :: "uuid \<Rightarrow> uuid \<Rightarrow> string \<Rightarrow> ('z, Role option) io" where
  "clone_system_role_to_workspace system_role_id ws new_name =
     bindM (select Role_model (\<lambda>r. r_id r = system_role_id \<and> r_is_system r)) (\<lambda>rs.
     bindM (scalar_one_or_none rs) (\<lambda>system_role.
     case system_role of
       None \<Rightarrow> returnM None
     | Some sr \<Rightarrow>
         bindM (select RolePermission_model (\<lambda>rp. rp_role_id rp = r_id sr)) (\<lambda>rps.
         bindM (flush_new Role_model (new_role ws new_name (r_description sr))) (\<lambda>nr.
         thenM (forM rps (\<lambda>rp.
                  thenM (flush_new RolePermission_model (new_role_permission (r_id nr) (rp_permission_id rp)))
                    (returnM ())))
           (returnM (Some nr))))))"

definition get_role_permissions :: "uuid \<Rightarrow> ('z, Permission list) io" where
  "get_role_permissions role_id = readM (\<lambda>s.
     concat (map (\<lambda>p. map (\<lambda>_. p)
       (filter (\<lambda>rp. rp_permission_id rp = p_id p \<and> rp_role_id rp = role_id) (role_permissions (db s))))
       (permissions (db s))))"

definition assign_permission :: "uuid \<Rightarrow> uuid \<Rightarrow> ('z, RolePermission option) io" where
  "assign_permission role_id permission_id =
     bindM (select RolePermission_model
       (\<lambda>rp. rp_role_id rp = role_id \<and> rp_permission_id rp = permission_id)) (\<lambda>rs.
     bindM (scalar_one_or_none rs) (\<lambda>existing.
     case existing of
       Some _ \<Rightarrow> returnM None
     | None \<Rightarrow>
         bindM (flush_new RolePermission_model (new_role_permission role_id permission_id))
           (\<lambda>rp. returnM (Some rp))))"

definition remove_permission :: "uuid \<Rightarrow> uuid \<Rightarrow> ('z, bool) io" where
  "remove_permission role_id permission_id =
     bindM (delete_where RolePermission_model
       (\<lambda>rp. rp_role_id rp = role_id \<and> rp_permission_id rp = permission_id))
       (\<lambda>n. returnM (n > 0))"

section \<open>Notifications\<close>

definition new_notification ::
  "uuid \<Rightarrow> uuid \<Rightarrow> string \<Rightarrow> string \<Rightarrow> NotificationType \<Rightarrow> NotificationPriority \<Rightarrow> Notification" where
  "new_notification ws user_id title body typ prio =
     \<lparr>n_id = 0, n_workspace_id = ws, n_user_id = user_id, n_title = title, n_body = body,
      n_type = typ, n_priority = prio, n_data = None, n_read_at = None, n_created_at = 0\<rparr>"

definition get_unread_for_user :: "uuid \<Rightarrow> nat \<Rightarrow> ('z, Notification list) io" where
  "get_unread_for_user user_id limit =
     bindM (select Notification_model (\<lambda>n. n_user_id n = user_id \<and> n_read_at n = None))
       (\<lambda>ns. returnM (take limit (sort_desc n_created_at ns)))"

definition mark_as_read :: "uuid \<Rightarrow> ('z, Notification option) io" where
  "mark_as_read notification_id =
     bindM (get_by_id Notification_model notification_id) (\<lambda>notification.
     case notification of
       None \<Rightarrow> returnM None
     | Some n \<Rightarrow>
         if n_read_at n = None
         then bindM get_utc_now (\<lambda>now.
              bindM (flush_dirty Notification_model (n_id n) (\<lambda>n. n\<lparr>n_read_at := Some now\<rparr>))
                (\<lambda>n'. returnM (Some n')))
         else returnM (Some n))"

definition mark_all_as_read :: "uuid \<Rightarrow> ('z, nat) io" where
  "mark_all_as_read user_id =
     bindM get_utc_now (\<lambda>now.
       update_where Notification_model (\<lambda>n. n_user_id n = user_id \<and> n_read_at n = None)
         (\<lambda>n. n\<lparr>n_read_at := Some now\<rparr>))"

definition get_by_user_and_type :: "uuid \<Rightarrow> NotificationType \<Rightarrow> ('z, NotificationPreference option) io" where
  "get_by_user_and_type user_id typ =
     bindM (select NotificationPreference_model
       (\<lambda>p. np_user_id p = user_id \<and> np_notification_type p = typ)) scalar_one_or_none"

definition get_all_for_user :: "uuid \<Rightarrow> ('z, NotificationPreference list) io" where
  "get_all_for_user user_id = select NotificationPreference_model (\<lambda>p. np_user_id p = user_id)"

section \<open>Audit entries\<close>

definition new_audit_log ::
  "string \<Rightarrow> string \<Rightarrow> string \<Rightarrow> uuid option \<Rightarrow> uuid option \<Rightarrow> json_object option
   \<Rightarrow> json_object option \<Rightarrow> AuditLog" where
  "new_audit_log action resource_type resource_id ws actor old_values new_values =
     \<lparr>al_id = 0, al_workspace_id = ws, al_actor_id = actor, al_resource_type = resource_type,
      al_resource_id = resource_id, al_action = action, al_old_values = old_values,
      al_new_values = new_values, al_ip_address = None, al_user_agent = None,
      al_request_id = None, al_correlation_id = None, al_timestamp = 0, al_metadata_info = None\<rparr>"

text \<open>
  \<open>AuditLogService.create_audit_log\<close>, with the keyword arguments that the services pass. The two value
  columns are \<open>JSONB\<close>, so the flush encodes them.
\<close>

definition create_audit_log ::
  "string \<Rightarrow> string \<Rightarrow> string \<Rightarrow> uuid option \<Rightarrow> uuid option \<Rightarrow> json_object option
   \<Rightarrow> json_object option \<Rightarrow> ('z, AuditLog) io" where
  "create_audit_log action resource_type resource_id ws actor old_values new_values =
     thenM (raise_if (\<not> (serializable_object old_values \<and> serializable_object new_values))
              (TypeError ''not JSON serializable''))
       (create AuditLog_model
          (new_audit_log action resource_type resource_id ws actor old_values new_values))"

definition audit_get_by_workspace :: "uuid \<Rightarrow> nat \<Rightarrow> nat \<Rightarrow> ('z, AuditLog list) io" where
  "audit_get_by_workspace ws limit offset =
     bindM (select AuditLog_model (\<lambda>a. al_workspace_id a = Some ws))
       (\<lambda>as. returnM (page offset limit (sort_desc al_timestamp as)))"

definition audit_get_by_resource :: "string \<Rightarrow> string \<Rightarrow> ('z, AuditLog list) io" where
  "audit_get_by_resource resource_type resource_id =
     bindM (select AuditLog_model
       (\<lambda>a. al_resource_type a = resource_type \<and> al_resource_id a = resource_id))
       (\<lambda>as. returnM (sort_desc al_timestamp as))"

definition get_workspace_audit_logs :: "uuid \<Rightarrow> nat \<Rightarrow> nat \<Rightarrow> ('z, AuditLog list) io" where
  "get_workspace_audit_logs ws limit offset = audit_get_by_workspace ws limit offset"

section \<open>Facts\<close>

lemma query_runs [simp]:
  "bindM get_system_roles f w = f (sort_key r_name (filter r_is_system (roles (db w)))) w"
  "bindM (get_active_members ws) g w =
     g (filter (\<lambda>m. m_workspace_id m = ws \<and> m_status m = MemberStatus_ACTIVE
                  \<and> deleted_at (m_soft m) = None) (workspace_members (db w))) w"
  "bindM (get_pending_invites ws) h w =
     h (filter (\<lambda>i. i_workspace_id i = ws \<and> i_status i = InviteStatus_PENDING)
         (workspace_invites (db w))) w"
  "bindM (get_role_permissions r) k w =
     k (concat (map (\<lambda>p. map (\<lambda>_. p)
          (filter (\<lambda>rp. rp_permission_id rp = p_id p \<and> rp_role_id rp = r) (role_permissions (db w))))
          (permissions (db w)))) w"
  by (simp_all add: get_system_roles_def get_active_members_def get_pending_invites_def
      get_role_permissions_def bindM_def)

lemma read_only_queries:
  "read_only (get_member ws u)" "read_only (get_by_email e b)" "read_only (get_by_slug s b)"
  "read_only (get_by_token tok)" "read_only get_system_roles" "read_only (get_active_members ws)"
  "read_only (get_pending_invites ws)" "read_only (get_role_permissions r)"
  "read_only (get_by_supabase_id sid b)"
  by (auto simp: read_only_def get_member_def get_by_email_def get_by_slug_def get_by_token_def
      get_system_roles_def get_active_members_def get_pending_invites_def get_role_permissions_def
      get_by_supabase_id_def intro!: ro_intros)

lemma create_audit_log_Inr:
  assumes "create_audit_log a t k ws u ov nv w = (Inr x, w')"
  shows "db w' = (db w)\<lparr>audit_logs := audit_logs (db w) @ [x]\<rparr>"
    and "al_action x = a" "al_resource_type x = t" "al_resource_id x = k" "al_workspace_id x = ws"
    and "al_actor_id x = u" "al_old_values x = ov" "al_new_values x = nv"
  using assms
  by (auto simp: create_audit_log_def create_def flush_new_def insert_row_Inr new_audit_log_def
      split: if_splits)

lemma create_notification_Inr:
  assumes "create Notification_model n w = (Inr x, w')"
  shows "db w' = (db w)\<lparr>notifications := notifications (db w) @ [x]\<rparr>"
    and "n_user_id x = n_user_id n" "n_workspace_id x = n_workspace_id n" "n_title x = n_title n"
    and "n_body x = n_body n"
  using assms by (auto simp: create_def flush_new_def insert_row_Inr)

context table_step
begin

lemmas obeys_queries [preserves_intros] = read_only_queries [THEN read_only_obeys]

lemma frame_create_audit_log:
  "(\<And>f d. proj (put AuditLog_model f d) = proj d) \<Longrightarrow>
   obeys rel (create_audit_log a t i w u ov nv)"
  unfolding create_audit_log_def by (intro obeys_then obeys_raise_if frame_create)

text \<open>Everything in a handler that no projection of the database sees.\<close>

lemmas handler_intros = obeys_bind obeys_then obeys_return obeys_raise obeys_raise_if obeys_read
  obeys_if obeys_when obeys_case_option obeys_let obeys_forM obeys_clock obeys_uuid4 obeys_token
  obeys_email obeys_select obeys_one_or_none frame_get_by_id frame_get_by_id_with obeys_queries

end

end
