(* ===== verification/Fixtures.thy ===== *)
theory Fixtures
  imports Base_Repository
begin

text \<open>
  One concrete world for the witnesses: two users, the system roles Owner and Editor, a workspace
  owned by the first user, with both users as its active members, and a campaign. Identities are
  small numbers, the clock ticks seconds, and the random sources count.
\<close>

definition fx_user :: "uuid \<Rightarrow> User" where
  "fx_user i =
     \<lparr>u_id = i, u_stamp = no_stamp, u_soft = not_deleted,
      u_email = (if i = 1 then ''ada@x.org'' else ''bob@x.org''), u_supabase_user_id = 100 + i,
      u_first_name = None, u_last_name = None, u_avatar_url = None, u_phone = None,
      u_job_title = None, u_language = ''en'', u_default_workspace_id = None,
      u_onboarding_completed = False, u_is_active = True\<rparr>"

definition fx_role :: "uuid \<Rightarrow> string \<Rightarrow> Role" where
  "fx_role i name =
     \<lparr>r_id = i, r_stamp = no_stamp, r_workspace_id = None, r_name = name, r_description = None,
      r_role_type = RoleType_SYSTEM, r_is_system = True\<rparr>"

definition fx_workspace :: Workspace where
  "fx_workspace =
     \<lparr>w_id = 20, w_stamp = no_stamp, w_soft = not_deleted, w_audit = no_audit, w_name = ''Acme'',
      w_slug = ''acme'', w_logo_url = None, w_timezone = ''UTC'', w_industry = None, w_country = None,
      w_default_language = ''en'', w_status = WorkspaceStatus_ACTIVE, w_plan_id = None, w_owner_id = 1\<rparr>"

definition fx_member :: "uuid \<Rightarrow> uuid \<Rightarrow> uuid \<Rightarrow> WorkspaceMember" where
  "fx_member i user role =
     \<lparr>m_id = i, m_stamp = no_stamp, m_soft = not_deleted, m_audit = no_audit, m_workspace_id = 20,
      m_user_id = user, m_role_id = role, m_status = MemberStatus_ACTIVE, m_invited_by = None,
      m_accepted_at = None, m_joined_at = None, m_last_active = None\<rparr>"

definition fx_database :: database where
  "fx_database = empty_database
     \<lparr>users := [fx_user 1, fx_user 2], roles := [fx_role 10 ''Owner'', fx_role 11 ''Editor''],
      workspaces := [fx_workspace], workspace_members := [fx_member 31 1 10, fx_member 32 2 11]\<rparr>"

definition world_of :: "database \<Rightarrow> world" where
  "world_of d =
     \<lparr>db = d, committed = d, clock = (\<lambda>n. seconds (int n)), ticks = 0, uuid_source = (\<lambda>n. 1000 + n),
      uuids_drawn = 0, token_source = (\<lambda>n. replicate n (CHR ''t'')), tokens_drawn = 0,
      exn_text = (\<lambda>_. ''error''), datetime_text = (\<lambda>_. ''time''), sent_emails = []\<rparr>"

definition fx :: world where
  "fx = world_of fx_database"

text \<open>An evaluation leaves the text of an identity as it is.\<close>

declare str_uuid_def [code del]

lemma world_of_simps [simp]: "db (world_of d) = d" "committed (world_of d) = d"
  by (simp_all add: world_of_def)

end
