(* ===== verification/Member_Service.thy ===== *)
theory Member_Service
  imports Tenancy_Repositories Fixtures
begin

text \<open>
  \<open>WorkspaceMemberService\<close> (\<open>app/services/workspace_member.py\<close>): listing, role changes, suspension,
  reactivation and removal of the members of a workspace, each with its audit entry and its
  notification, and the guard that keeps the last active owner in place.
\<close>

section \<open>The handlers\<close>

text \<open>Reading an attribute of \<open>None\<close>.\<close>

definition attribute_of :: "'a option \<Rightarrow> ('z, 'a) io" where
  "attribute_of x =
     (case x of None \<Rightarrow> raiseM (AttributeError ''NoneType'') | Some y \<Rightarrow> returnM y)"

text \<open>\<open>next((r for r in system_roles if r.name == "Owner"), None)\<close>\<close>

definition find_owner_role :: "Role list \<Rightarrow> Role option" where
  "find_owner_role rs = find (\<lambda>r. r_name r = ''Owner'') rs"

definition get_members :: "uuid \<Rightarrow> ('z, WorkspaceMember list) io" where
  "get_members ws = get_by_workspace ws"

definition get_workspace_member :: "uuid \<Rightarrow> uuid \<Rightarrow> ('z, WorkspaceMember) io" where
  "get_workspace_member ws member_id =
     bindM (get_by_id WorkspaceMember_model member_id) (\<lambda>member.
     case member of
       None \<Rightarrow> raiseM (HTTPException 404 ''Member not found'')
     | Some m \<Rightarrow>
         if m_workspace_id m \<noteq> ws then raiseM (HTTPException 404 ''Member not found'')
         else returnM m)"

definition protect_owner_role :: "uuid \<Rightarrow> WorkspaceMember \<Rightarrow> ('z, unit) io" where
  "protect_owner_role ws member_to_modify =
     bindM get_system_roles (\<lambda>system_roles.
     case find_owner_role system_roles of
       None \<Rightarrow> returnM ()
     | Some owner_role \<Rightarrow>
         if m_role_id member_to_modify = r_id owner_role
            \<and> m_status member_to_modify = MemberStatus_ACTIVE
         then bindM (get_active_members ws) (\<lambda>members.
              let active_owners = filter (\<lambda>m. m_role_id m = r_id owner_role) members in
              raise_if (length active_owners \<le> 1)
                (HTTPException 400
                   ''Cannot remove or demote the last active owner of the workspace.''))
         else returnM ())"

definition change_role :: "User \<Rightarrow> Workspace \<Rightarrow> uuid \<Rightarrow> uuid \<Rightarrow> ('z, WorkspaceMember) io" where
  "change_role user workspace member_id new_role_id =
     bindM (get_workspace_member (w_id workspace) member_id) (\<lambda>member.
     if m_role_id member = new_role_id then returnM member
     else
     thenM (protect_owner_role (w_id workspace) member) (
     bindM (get_by_id Role_model new_role_id) (\<lambda>role.
     case role of
       None \<Rightarrow> raiseM (HTTPException 404 ''Role not found'')
     | Some role \<Rightarrow>
     bindM get_system_roles (\<lambda>system_roles.
     bindM (attribute_of (find_owner_role system_roles)) (\<lambda>owner_role.
     thenM (raise_if
              ((new_role_id = r_id owner_role \<or> m_role_id member = r_id owner_role)
               \<and> w_owner_id workspace \<noteq> u_id user)
              (HTTPException 403 ''Only the workspace owner can assign or remove the Owner role.'')) (
     let old_role_id = m_role_id member in
     bindM (repo_change_role (m_id member) new_role_id) (\<lambda>changed.
     bindM (attribute_of changed) (\<lambda>member.
     thenM (create_audit_log ''UPDATE_MEMBER_ROLE'' ''workspace_member'' (str_uuid (m_id member))
              (Some (w_id workspace)) (Some (u_id user))
              (Some [(''role_id'', JStr (str_uuid old_role_id))])
              (Some [(''role_id'', JStr (str_uuid new_role_id))])) (
     thenM (create Notification_model
              (new_notification (w_id workspace) (m_user_id member) ''Role Updated''
                 (''Your role in '' @ w_name workspace @ '' has been updated to '' @ r_name role @ ''.'')
                 NotificationType_SYSTEM NotificationPriority_NORMAL))
       (returnM member))))))))))"

definition suspend_member :: "User \<Rightarrow> Workspace \<Rightarrow> uuid \<Rightarrow> ('z, WorkspaceMember) io" where
  "suspend_member user workspace member_id =
     bindM (get_workspace_member (w_id workspace) member_id) (\<lambda>member.
     if m_status member = MemberStatus_SUSPENDED then returnM member
     else
     thenM (protect_owner_role (w_id workspace) member) (
     bindM (repo_suspend_member (m_id member)) (\<lambda>suspended.
     bindM (attribute_of suspended) (\<lambda>member.
     thenM (create_audit_log ''SUSPEND_MEMBER'' ''workspace_member'' (str_uuid (m_id member))
              (Some (w_id workspace)) (Some (u_id user)) None None) (
     thenM (create Notification_model
              (new_notification (w_id workspace) (m_user_id member) ''Account Suspended''
                 (''Your access to '' @ w_name workspace @ '' has been suspended.'')
                 NotificationType_ALERT NotificationPriority_HIGH))
       (returnM member))))))"

definition reactivate_member :: "User \<Rightarrow> Workspace \<Rightarrow> uuid \<Rightarrow> ('z, WorkspaceMember) io" where
  "reactivate_member user workspace member_id =
     bindM (get_workspace_member (w_id workspace) member_id) (\<lambda>member.
     if m_status member = MemberStatus_ACTIVE then returnM member
     else
     bindM (repo_reactivate_member (m_id member)) (\<lambda>reactivated.
     bindM (attribute_of reactivated) (\<lambda>member.
     thenM (create_audit_log ''REACTIVATE_MEMBER'' ''workspace_member'' (str_uuid (m_id member))
              (Some (w_id workspace)) (Some (u_id user)) None None) (
     thenM (create Notification_model
              (new_notification (w_id workspace) (m_user_id member) ''Account Reactivated''
                 (''Your access to '' @ w_name workspace @ '' has been restored.'')
                 NotificationType_SYSTEM NotificationPriority_NORMAL))
       (returnM member)))))"

definition remove_member :: "User \<Rightarrow> Workspace \<Rightarrow> uuid \<Rightarrow> ('z, unit) io" where
  "remove_member user workspace member_id =
     bindM (get_workspace_member (w_id workspace) member_id) (\<lambda>member.
     thenM (raise_if (w_owner_id workspace \<noteq> u_id user)
              (HTTPException 403 ''Only the workspace owner can remove members.'')) (
     thenM (protect_owner_role (w_id workspace) member) (
     thenM (repo_remove_member (m_id member)) (
     thenM (create_audit_log ''REMOVE_MEMBER'' ''workspace_member'' (str_uuid (m_id member))
              (Some (w_id workspace)) (Some (u_id user)) None None) (
     thenM (create Notification_model
              (new_notification (w_id workspace) (m_user_id member) ''Removed from Workspace''
                 (''You have been removed from '' @ w_name workspace @ ''.'')
                 NotificationType_ALERT NotificationPriority_HIGH))
       (returnM ()))))))"

section \<open>The last active owner\<close>

definition owner_role_of :: "Role list \<Rightarrow> Role option" where
  "owner_role_of rs = find_owner_role (sort_key r_name (filter r_is_system rs))"

definition active_owner :: "Role \<Rightarrow> uuid \<Rightarrow> WorkspaceMember \<Rightarrow> bool" where
  "active_owner owner_role ws m \<longleftrightarrow>
     m_workspace_id m = ws \<and> m_status m = MemberStatus_ACTIVE \<and> deleted_at (m_soft m) = None \<and>
     m_role_id m = r_id owner_role"

text \<open>The workspace has an active owner (when the system has an Owner role at all).\<close>

definition owned :: "uuid \<Rightarrow> WorkspaceMember list \<Rightarrow> Role list \<Rightarrow> bool" where
  "owned ws ms rs \<longleftrightarrow>
     (case owner_role_of rs of None \<Rightarrow> True | Some owner_role \<Rightarrow> (\<exists>m \<in> set ms. active_owner owner_role ws m))"

definition ownership_inv :: "uuid \<Rightarrow> database \<Rightarrow> bool" where
  "ownership_inv ws d \<longleftrightarrow>
     distinct (map m_id (workspace_members d)) \<and> owned ws (workspace_members d) (roles d)"

text \<open>What the guard leaves for the write after it: the member is loaded, and if it is an active
  owner it is not the only one.\<close>

definition may_edit :: "uuid \<Rightarrow> WorkspaceMember \<Rightarrow> database \<Rightarrow> bool" where
  "may_edit ws m d \<longleftrightarrow>
     m \<in> set (workspace_members d) \<and> visible WorkspaceMember_model m \<and> m_workspace_id m = ws \<and>
     (\<forall>owner_role. owner_role_of (roles d) = Some owner_role \<longrightarrow> active_owner owner_role ws m \<longrightarrow>
        2 \<le> length (filter (active_owner owner_role ws) (workspace_members d)))"

lemma other_active_owner:
  assumes "distinct (map m_id ms)" and "2 \<le> length (filter p ms)"
  shows "\<exists>x \<in> set ms. p x \<and> m_id x \<noteq> i"
proof (rule ccontr)
  assume "\<not> ?thesis"
  then have "\<forall>x \<in> set (filter p ms). m_id x = i" by auto
  moreover have "distinct (map m_id (filter p ms))"
    using assms(1) by (rule distinct_map_filter)
  ultimately have "length (map m_id (filter p ms)) \<le> 1"
    by (metis (no_types, lifting) card.empty card_insert_disjoint distinct_card finite.emptyI
        image_subset_iff insertCI length_map card_mono empty_iff finite.insertI list.set_map One_nat_def)
  with assms(2) show False by simp
qed

lemma owned_edit:
  assumes inv: "ownership_inv ws' d" and may: "may_edit ws m d"
    and same: "m_workspace_id m' = m_workspace_id m"
  shows "owned ws' (upd_where (\<lambda>x. m_id x = m_id m) (\<lambda>_. m') (workspace_members d)) (roles d)"
proof (cases "owner_role_of (roles d)")
  case None
  then show ?thesis by (simp add: owned_def)
next
  case (Some owner_role)
  let ?ms = "workspace_members d"
  from inv Some obtain x where x: "x \<in> set ?ms" "active_owner owner_role ws' x"
    by (auto simp: ownership_inv_def owned_def)
  have "\<exists>y \<in> set ?ms. active_owner owner_role ws' y \<and> m_id y \<noteq> m_id m"
  proof (cases "m_id x = m_id m")
    case False
    with x show ?thesis by blast
  next
    case True
    with inv may x have "x = m"
      by (metis distinct_map_inj may_edit_def ownership_inv_def)
    with x may Some have "2 \<le> length (filter (active_owner owner_role ws') ?ms)"
      by (auto simp: may_edit_def active_owner_def)
    with inv show ?thesis
      by (auto simp: ownership_inv_def intro: other_active_owner)
  qed
  with Some show ?thesis by (auto simp: owned_def set_upd_where)
qed

section \<open>The guard and the edits\<close>

interpretation ownership: table_step "\<lambda>d. (workspace_members d, roles d)" "(=)"
  by unfold_locales auto

lemma ownership_framed:
  "obeys ownership.rel m \<Longrightarrow> obeys (keeps (\<lambda>w. ownership_inv ws (db w))) m"
  by (erule obeys_mono) (auto simp: keeps_def ownership_inv_def)

lemma triple_protect:
  "triple (\<lambda>w. ownership_inv ws' (db w) \<and> m \<in> set (workspace_members (db w)) \<and>
              visible WorkspaceMember_model m \<and> m_workspace_id m = ws)
     (protect_owner_role ws m)
     (\<lambda>_ w. ownership_inv ws' (db w) \<and> may_edit ws m (db w))
     (\<lambda>w. ownership_inv ws' (db w))"
proof (rule tripleI, goal_cases)
  case (1 w x w')
  then show ?case
    by (auto simp: protect_owner_role_def may_edit_def
        owner_role_of_def active_owner_def [abs_def] conj_ac split: option.splits if_splits)
next
  case (2 w e w')
  then show ?case
    by (auto simp: protect_owner_role_def
        split: option.splits if_splits)
qed

text \<open>Editing the loaded member, whatever is assigned, once the guard has passed.\<close>

lemma flush_member_edit:
  assumes "ownership_inv ws' (db w)" and "may_edit ws m (db w)"
    and f: "\<And>x. m_id (f x) = m_id x" "\<And>x. m_workspace_id (f x) = m_workspace_id x"
    and run: "flush_dirty WorkspaceMember_model (m_id m) f w = (r, w')"
  shows "ownership_inv ws' (db w')"
proof -
  have found: "find_pk WorkspaceMember_model (m_id m) (db w) = Some m"
    using assms(1,2) member_repo.find_pk_unique [of "db w" m]
    by (simp add: ownership_inv_def may_edit_def pk_unique_def)
  show ?thesis
  proof (cases "f m = m")
    case True
    with run found assms(1) show ?thesis by (simp add: flush_dirty_def)
  next
    case False
    let ?m = "touch WorkspaceMember_model (clock w (ticks w)) (f m)"
    from assms(1) have d: "distinct (map m_id (workspace_members (db w)))"
      by (simp add: ownership_inv_def)
    have "map m_id (upd_where (\<lambda>x. m_id x = m_id m) (\<lambda>_. ?m) (workspace_members (db w))) =
          map m_id (workspace_members (db w))"
      by (rule map_upd_key) (simp add: f)
    with d owned_edit [OF assms(1,2), of ?m] False run found assms(1) show ?thesis
      by (auto simp: flush_dirty_def update_row_def ownership_inv_def f split: if_splits)
  qed
qed

lemma triple_edit_member:
  assumes f: "\<And>x. m_id (f x) = m_id x" "\<And>x. m_workspace_id (f x) = m_workspace_id x"
  shows "triple (\<lambda>w. ownership_inv ws' (db w) \<and> may_edit ws m (db w))
     (edit_member (m_id m) f) (\<lambda>_ w. ownership_inv ws' (db w)) (\<lambda>w. ownership_inv ws' (db w))"
proof -
  have load: "get_by_id WorkspaceMember_model (m_id m) w = (Inr (Some m), w)"
    if "ownership_inv ws' (db w)" "may_edit ws m (db w)" for w :: "'a world_scheme"
    using that member_repo.get_by_id_iff [of w m]
    by (simp add: ownership_inv_def may_edit_def pk_unique_def)
  show ?thesis
    by (rule tripleI)
      (auto simp: edit_member_def bindM_eq_Inr bindM_eq_Inl load
        dest: flush_member_edit [OF _ _ f])
qed

lemma triple_load:
  "triple (\<lambda>w. ownership_inv ws' (db w)) (get_workspace_member ws i)
     (\<lambda>m w. ownership_inv ws' (db w) \<and> m \<in> set (workspace_members (db w)) \<and>
            visible WorkspaceMember_model m \<and> m_workspace_id m = ws)
     (\<lambda>w. ownership_inv ws' (db w))"
proof (rule triple_read_only)
  show "read_only (get_workspace_member ws i)"
    unfolding get_workspace_member_def using read_only_get_by_id unfolding read_only_def
    by (intro ro.obeys_bind ro.obeys_case_option ro.obeys_raise ro.obeys_if ro.obeys_return)
next
  fix w x
  assume I: "ownership_inv ws' (db w)" and run: "get_workspace_member ws i w = (Inr x, w)"
  then have "get_by_id WorkspaceMember_model i w = (Inr (Some x), w)" "m_workspace_id x = ws"
    by (auto simp: get_workspace_member_def bindM_eq_Inr split: option.splits if_splits
        dest: get_by_id_Some(1))
  with I get_by_id_Some [of WorkspaceMember_model i w x w]
  show "ownership_inv ws' (db w) \<and> x \<in> set (workspace_members (db w)) \<and>
        visible WorkspaceMember_model x \<and> m_workspace_id x = ws" by simp
qed simp

lemma triple_tail:
  "triple (\<lambda>w. ownership_inv ws' (db w))
     (thenM (create_audit_log a t k ws u ov nv)
        (thenM (create Notification_model n) (returnM x)))
     (\<lambda>_ w. ownership_inv ws' (db w)) (\<lambda>w. ownership_inv ws' (db w))"
  by (rule triple_keeps, rule ownership_framed)
    (intro ownership.obeys_then ownership.frame_create_audit_log ownership.frame_create
      ownership.obeys_return; simp)

lemma triple_attribute: "(\<And>w. P w \<Longrightarrow> E w) \<Longrightarrow> triple P (attribute_of x) (\<lambda>_. P) E"
  by (cases x) (auto simp: attribute_of_def intro: triple_raise triple_return)

lemma suspend_member_keeps:
  "obeys (keeps (\<lambda>w. ownership_inv ws' (db w))) (suspend_member user workspace i)"
  unfolding suspend_member_def repo_suspend_member_def
  apply (rule keeps_triple, rule triple_bind [OF triple_load], rule triple_if)
   apply (rule triple_return, simp)
  apply (rule triple_then [OF triple_protect], rule triple_bind [OF triple_edit_member])
    apply simp_all
  apply (rule triple_bind [OF triple_attribute])
    apply (simp_all add: triple_tail)
  done

lemma remove_member_edit:
  "triple (\<lambda>w. ownership_inv ws' (db w) \<and> may_edit ws m (db w))
     (repo_remove_member (m_id m)) (\<lambda>_ w. ownership_inv ws' (db w)) (\<lambda>w. ownership_inv ws' (db w))"
proof -
  have load: "get_by_id WorkspaceMember_model (m_id m) w = (Inr (Some m), w)"
    if "ownership_inv ws' (db w)" "may_edit ws m (db w)" for w :: "'a world_scheme"
    using that member_repo.get_by_id_iff [of w m]
    by (simp add: ownership_inv_def may_edit_def pk_unique_def)
  show ?thesis
    by (rule tripleI)
      (auto simp: repo_remove_member_def bindM_eq_Inr bindM_eq_Inl load
        dest!: flush_member_edit [rotated 4])
qed

lemma remove_member_keeps:
  "obeys (keeps (\<lambda>w. ownership_inv ws' (db w))) (remove_member user workspace i)"
  unfolding remove_member_def
  apply (rule keeps_triple, rule triple_bind [OF triple_load], rule triple_then [OF triple_pass], simp)
  apply (rule triple_then [OF triple_protect])
  apply (rule triple_then [OF remove_member_edit triple_tail])
  done

lemma triple_guarded_read:
  "read_only m \<Longrightarrow>
   triple (\<lambda>w. ownership_inv ws' (db w) \<and> may_edit ws x (db w)) m
     (\<lambda>_ w. ownership_inv ws' (db w) \<and> may_edit ws x (db w)) (\<lambda>w. ownership_inv ws' (db w))"
  by (rule triple_read_only) simp_all

lemma change_role_keeps:
  "obeys (keeps (\<lambda>w. ownership_inv ws' (db w))) (change_role user workspace i new_role_id)"
  unfolding change_role_def repo_change_role_def Let_def
  apply (rule keeps_triple, rule triple_bind [OF triple_load], rule triple_if)
   apply (rule triple_return, simp)
  apply (rule triple_then [OF triple_protect],
      rule triple_bind [OF triple_guarded_read [OF read_only_get_by_id]], rule triple_case_option)
   apply (rule triple_raise, simp)
  apply (rule triple_bind [OF triple_guarded_read [OF read_only_queries(5)]],
      rule triple_bind [OF triple_attribute], simp)
  apply (rule triple_then [OF triple_pass], simp)
  apply (rule triple_bind [OF triple_edit_member], simp, simp)
  apply (rule triple_bind [OF triple_attribute])
    apply (simp_all add: triple_tail)
  done

lemma reactivate_member_keeps:
  "obeys (keeps (\<lambda>w. ownership_inv ws' (db w))) (reactivate_member user workspace i)"
  unfolding reactivate_member_def repo_reactivate_member_def
  apply (rule keeps_triple, rule triple_bind [OF triple_load], rule triple_if)
   apply (rule triple_return, simp)
  apply (rule triple_bind [OF triple_pre [OF triple_edit_member]], simp, simp)
    apply (simp add: may_edit_def active_owner_def)
  apply (rule triple_bind [OF triple_attribute])
    apply (simp_all add: triple_tail)
  done

section \<open>Any sequence of member requests\<close>

datatype member_request =
    ChangeRole uuid uuid
  | SuspendMember uuid
  | ReactivateMember uuid
  | RemoveMember uuid

fun serve_member :: "User \<Rightarrow> Workspace \<Rightarrow> member_request \<Rightarrow> ('z, unit) io" where
  "serve_member u ws (ChangeRole i r) = thenM (change_role u ws i r) (returnM ())"
| "serve_member u ws (SuspendMember i) = thenM (suspend_member u ws i) (returnM ())"
| "serve_member u ws (ReactivateMember i) = thenM (reactivate_member u ws i) (returnM ())"
| "serve_member u ws (RemoveMember i) = remove_member u ws i"

text \<open>One request of any user in any workspace, whatever its outcome.\<close>

inductive member_step :: "'z world_scheme \<Rightarrow> 'z world_scheme \<Rightarrow> bool" where
  served: "serve_member user workspace req w = (r, w') \<Longrightarrow> member_step w w'"

inductive_cases member_stepE: "member_step w w'"

lemma serve_member_keeps:
  "obeys (keeps (\<lambda>w. ownership_inv ws' (db w))) (serve_member u ws req)"
  by (cases req)
    (auto intro: keeping.inv.obeys_then keeping.inv.obeys_return change_role_keeps
      suspend_member_keeps reactivate_member_keeps remove_member_keeps)

text \<open>C1 (invariant). The members service never leaves a workspace without an active owner: from a
  state in which the workspace has one, any sequence of role changes, suspensions, reactivations and
  removals, by any users and in any workspaces, successful or not, ends in a state in which it has
  one.\<close>

theorem members_keep_active_owner:
  assumes "member_step\<^sup>*\<^sup>* w w'" and "ownership_inv ws (db w)"
  shows "ownership_inv ws (db w')"
  using assms
proof (induction rule: rtranclp_induct)
  case base
  then show ?case .
next
  case (step y z)
  then show ?case
    by (auto elim!: member_stepE intro: keeping.keepsD [OF serve_member_keeps])
qed

lemma members_keep_active_owner_witness:
  "ownership_inv 20 (db (snd (serve_member (fx_user 1) fx_workspace (RemoveMember 32) fx)))"
proof (rule members_keep_active_owner)
  show "member_step\<^sup>*\<^sup>* fx (snd (serve_member (fx_user 1) fx_workspace (RemoveMember 32) fx))"
    by (rule r_into_rtranclp, rule member_step.served, rule prod.collapse [symmetric])
  show "ownership_inv 20 (db fx)" by code_simp
qed

section \<open>What a successful request does\<close>

lemma get_workspace_member_Inr:
  "get_workspace_member ws i w = (Inr m, w') \<longleftrightarrow>
     get_by_id WorkspaceMember_model i w = (Inr (Some m), w') \<and> m_workspace_id m = ws"
  by (auto simp: get_workspace_member_def bindM_eq_Inr split: option.splits if_splits)

lemma edit_member_Inr:
  assumes "edit_member i f w = (Inr x, w')"
    and "get_by_id WorkspaceMember_model i w = (Inr (Some m), w)"
    and "distinct (map m_id (workspace_members (db w)))"
    and "f m \<noteq> m" and "m_id (f m) = m_id m"
  shows "x = Some ((f m)\<lparr>m_stamp := touch_stamp (clock w (ticks w)) (m_stamp (f m))\<rparr>)"
    and "db w' = (db w)\<lparr>workspace_members :=
           upd_where (\<lambda>y. m_id y = i) (\<lambda>_. the x) (workspace_members (db w))\<rparr>"
proof -
  note m = get_by_id_Some [OF assms(2)]
  have "find_pk WorkspaceMember_model i (db w) = Some m"
    using member_repo.find_pk_unique [of "db w" m] m assms(3) by (simp add: pk_unique_def)
  with assms(1,2,4,5) m(3)
  show "x = Some ((f m)\<lparr>m_stamp := touch_stamp (clock w (ticks w)) (m_stamp (f m))\<rparr>)"
    and "db w' = (db w)\<lparr>workspace_members :=
           upd_where (\<lambda>y. m_id y = i) (\<lambda>_. the x) (workspace_members (db w))\<rparr>"
    by (auto simp: edit_member_def bindM_eq_Inr flush_dirty_def update_row_Inr)
qed

lemma protect_owner_role_Inr: "protect_owner_role ws m w = (Inr x, w') \<Longrightarrow> w' = w"
  by (auto simp: protect_owner_role_def split: option.splits if_splits)

lemma attribute_of_Inr: "attribute_of x w = (Inr y, w') \<longleftrightarrow> x = Some y \<and> w' = w"
  by (auto simp: attribute_of_def split: option.splits)

text \<open>C2 (functional). A role change that returns found the member in the caller's workspace, and
  either left everything as it was because the member already had the role, or: the new role exists,
  the acting user owns the workspace if the old or the new role is the Owner role, exactly the row of
  this member has the new role and nothing else of any member changed, and one audit entry with the
  old and the new role and one notification to the member were added.\<close>

theorem change_role_effect:
  assumes run: "change_role user workspace i new_role_id w = (Inr m, w')"
    and ids: "distinct (map m_id (workspace_members (db w)))"
  shows "\<exists>old \<in> set (workspace_members (db w)).
           m_id old = i \<and> m_workspace_id old = w_id workspace \<and>
           (m_role_id old = new_role_id \<and> m = old \<and> w' = w \<or>
            m_role_id old \<noteq> new_role_id \<and>
            (\<exists>role \<in> set (roles (db w)). r_id role = new_role_id) \<and>
            (\<exists>owner_role. owner_role_of (roles (db w)) = Some owner_role \<and>
               (r_id owner_role \<in> {new_role_id, m_role_id old} \<longrightarrow> w_owner_id workspace = u_id user)) \<and>
            (\<exists>t. m = old\<lparr>m_role_id := new_role_id, m_stamp := touch_stamp t (m_stamp old)\<rparr>) \<and>
            workspace_members (db w') =
              upd_where (\<lambda>x. m_id x = i) (\<lambda>_. m) (workspace_members (db w)) \<and>
            (\<exists>a. audit_logs (db w') = audit_logs (db w) @ [a] \<and> al_actor_id a = Some (u_id user) \<and>
                 al_old_values a = Some [(''role_id'', JStr (str_uuid (m_role_id old)))] \<and>
                 al_new_values a = Some [(''role_id'', JStr (str_uuid new_role_id))]) \<and>
            (\<exists>n. notifications (db w') = notifications (db w) @ [n] \<and> n_user_id n = m_user_id old))"
proof -
  from run obtain old where
    g: "get_by_id WorkspaceMember_model i w = (Inr (Some old), w)" and
    ws: "m_workspace_id old = w_id workspace"
    by (auto simp: change_role_def bindM_eq_Inr get_workspace_member_Inr dest: get_by_id_Some(1))
  note old = get_by_id_Some [OF g]
  show ?thesis
  proof (cases "m_role_id old = new_role_id")
    case True
    with run g ws old show ?thesis
      by (auto simp: change_role_def bindM_eq_Inr get_workspace_member_Inr)
  next
    case False
    from run g ws False obtain role owner_role w1 x w2 a w3 n where
      role: "get_by_id Role_model new_role_id w = (Inr (Some role), w1)" and
      owner: "find_owner_role (sort_key r_name (filter r_is_system (roles (db w1)))) = Some owner_role" and
      auth: "r_id owner_role \<in> {new_role_id, m_role_id old} \<longrightarrow> w_owner_id workspace = u_id user" and
      edit: "edit_member (m_id old) (\<lambda>m. m\<lparr>m_role_id := new_role_id\<rparr>) w1 = (Inr (Some m), w2)" and
      audit: "create_audit_log ''UPDATE_MEMBER_ROLE'' ''workspace_member'' (str_uuid (m_id m))
        (Some (w_id workspace)) (Some (u_id user))
        (Some [(''role_id'', JStr (str_uuid (m_role_id old)))])
        (Some [(''role_id'', JStr (str_uuid new_role_id))]) w2 = (Inr a, w3)" and
      ntf: "create Notification_model (new_notification (w_id workspace) (m_user_id m) ''Role Updated''
        (''Your role in '' @ w_name workspace @ '' has been updated to '' @ r_name role @ ''.'')
        NotificationType_SYSTEM NotificationPriority_NORMAL) w3 = (Inr n, w')"
      by (auto simp: change_role_def repo_change_role_def bindM_eq_Inr get_workspace_member_Inr
          attribute_of_Inr Let_def split: option.splits if_splits dest: protect_owner_role_Inr)
    have [simp]: "w1 = w" using get_by_id_Some(1) [OF role] .
    have edit': "edit_member i (\<lambda>m. m\<lparr>m_role_id := new_role_id\<rparr>) w = (Inr (Some m), w2)"
      using edit old(3) by simp
    have ne: "old\<lparr>m_role_id := new_role_id\<rparr> \<noteq> old"
      using False by (metis WorkspaceMember.simps(7) WorkspaceMember.surjective WorkspaceMember.update_convs(7))
    note e = edit_member_Inr [OF edit' g ids ne]
    note au = create_audit_log_Inr [OF audit]
    note no = create_notification_Inr [OF ntf]
    have m: "m = old\<lparr>m_role_id := new_role_id,
                     m_stamp := touch_stamp (clock w (ticks w)) (m_stamp old)\<rparr>"
      using e(1) by simp
    have "role \<in> set (roles (db w))" "r_id role = new_role_id"
      using get_by_id_Some(2,3) [OF role] by simp_all
    then have "\<exists>role \<in> set (roles (db w)). r_id role = new_role_id" by blast
    moreover have "owner_role_of (roles (db w)) = Some owner_role"
      using owner by (simp add: owner_role_of_def)
    moreover have "workspace_members (db w') =
        upd_where (\<lambda>x. m_id x = i) (\<lambda>_. m) (workspace_members (db w))"
      using e(2) au(1) no(1) by simp
    moreover have "audit_logs (db w') = audit_logs (db w) @ [a]"
      "notifications (db w') = notifications (db w) @ [n]"
      using e(2) au(1) no(1) by simp_all
    moreover have "n_user_id n = m_user_id old"
      using no(2) m by (simp add: new_notification_def)
    ultimately show ?thesis
      using False auth m au(6,7,8) old(2,3) ws by (intro bexI [of _ old]) auto
  qed
qed

lemma change_role_effect_witness:
  "\<exists>m w'. change_role (fx_user 1) fx_workspace 32 10 fx = (Inr m, w') \<and>
     (\<exists>a. audit_logs (db w') = audit_logs (db fx) @ [a] \<and> al_actor_id a = Some 1)"
proof -
  have "succeeds (change_role (fx_user 1) fx_workspace 32 10) fx" by code_simp
  then obtain m w' where run: "change_role (fx_user 1) fx_workspace 32 10 fx = (Inr m, w')"
    by (rule succeedsE)
  have "\<forall>m \<in> set (workspace_members (db fx)). m_id m = 32 \<longrightarrow> m_role_id m \<noteq> 10"
    and ids: "distinct (map m_id (workspace_members (db fx)))" by code_simp+
  with change_role_effect [OF run ids] run show ?thesis by (auto simp: fx_user_def)
qed

text \<open>C3 (safety). Tenants are isolated: a request on a member id that is not a live member of the
  caller's workspace is answered with 404 and changes nothing.\<close>

theorem members_tenant_isolation:
  assumes "distinct (map m_id (workspace_members (db w)))"
    and "\<forall>m \<in> set (workspace_members (db w)).
           m_id m = i \<and> deleted_at (m_soft m) = None \<longrightarrow> m_workspace_id m \<noteq> w_id workspace"
    and "req \<in> {ChangeRole i r, SuspendMember i, ReactivateMember i, RemoveMember i}"
  shows "serve_member user workspace req w = (Inl (HTTPException 404 ''Member not found''), w)"
proof -
  have "get_workspace_member (w_id workspace) i w = (Inl (HTTPException 404 ''Member not found''), w)"
  proof (cases "find (\<lambda>m. m_id m = i \<and> visible WorkspaceMember_model m) (workspace_members (db w))")
    case None
    then show ?thesis
      using member_repo.get_by_id_total [of w i] assms(1)
      by (simp add: get_workspace_member_def bindM_def pk_unique_def)
  next
    case (Some m)
    then have "m \<in> set (workspace_members (db w))" "m_id m = i" "deleted_at (m_soft m) = None"
      by (auto simp: find_Some_iff visible_def)
    with assms(2) have "m_workspace_id m \<noteq> w_id workspace" by blast
    with Some show ?thesis
      using member_repo.get_by_id_total [of w i] assms(1)
      by (simp add: get_workspace_member_def bindM_def pk_unique_def)
  qed
  with assms(3) show ?thesis
    by (auto simp: change_role_def suspend_member_def reactivate_member_def remove_member_def bindM_def)
qed

lemma members_tenant_isolation_witness:
  "serve_member (fx_user 1) (fx_workspace\<lparr>w_id := 21\<rparr>) (SuspendMember 32) fx =
     (Inl (HTTPException 404 ''Member not found''), fx)"
proof (rule members_tenant_isolation)
  show "distinct (map m_id (workspace_members (db fx)))" by code_simp
  show "\<forall>m \<in> set (workspace_members (db fx)). m_id m = 32 \<and> deleted_at (m_soft m) = None \<longrightarrow>
          m_workspace_id m \<noteq> w_id (fx_workspace\<lparr>w_id := 21\<rparr>)" by code_simp
  show "SuspendMember 32 \<in> {ChangeRole 32 0, SuspendMember 32, ReactivateMember 32, RemoveMember 32}"
    by simp
qed

end
