(* ===== verification/Workspace_Service.thy ===== *)
theory Workspace_Service
  imports Member_Service
begin

text \<open>
  \<open>WorkspaceService\<close> (\<open>app/services/workspace.py\<close>) and the request bodies it takes
  (\<open>app/schemas/workspace.py\<close>): slugs, creation with its first member, partial updates, the transfer
  of ownership and the soft deletion of a workspace.
\<close>

section \<open>Slugs\<close>

definition slug_char :: "char \<Rightarrow> bool" where
  "slug_char c = (let n = (of_char c :: nat) in (97 \<le> n \<and> n \<le> 122) \<or> (48 \<le> n \<and> n \<le> 57))"

text \<open>\<open>re.sub(r"[^a-z0-9]+", "-", s)\<close>\<close>

lemma length_dropWhile_less [termination_simp]: "length (dropWhile p cs) < Suc (length cs)"
  by (simp add: length_dropWhile_le le_imp_less_Suc)

fun sub_runs :: "string \<Rightarrow> string" where
  "sub_runs [] = []"
| "sub_runs (c # cs) =
     (if slug_char c then c # sub_runs cs
      else CHR ''-'' # sub_runs (dropWhile (\<lambda>x. \<not> slug_char x) cs))"

definition generate_slug :: "string \<Rightarrow> string" where
  "generate_slug name = strip_by (\<lambda>c. c = CHR ''-'') (sub_runs (py_lower name))"

section \<open>Request bodies\<close>

record WorkspaceCreateInternal =
  wc_name :: string
  wc_slug :: "string option"
  wc_logo_url :: "string option"
  wc_timezone :: string
  wc_industry :: "string option"
  wc_country :: "string option"
  wc_default_language :: string
  wc_status :: WorkspaceStatus
  wc_plan_id :: "uuid option"
  wc_owner_id :: uuid
  wc_created_by :: uuid

text \<open>A field of a partial update is unset (\<open>None\<close>), or set to a value that may itself be \<open>None\<close>.\<close>

record WorkspaceUpdate =
  wu_name :: "string option option"
  wu_slug :: "string option option"
  wu_logo_url :: "string option option"
  wu_timezone :: "string option option"
  wu_industry :: "string option option"
  wu_country :: "string option option"
  wu_default_language :: "string option option"
  wu_status :: "WorkspaceStatus option option"
  wu_plan_id :: "uuid option option"
  wu_updated_by :: "uuid option option"

record WorkspaceTransferOwnershipRequest =
  wt_new_owner_id :: uuid
  wt_new_role_id :: uuid

section \<open>The handlers\<close>

definition new_workspace :: "WorkspaceCreateInternal \<Rightarrow> string \<Rightarrow> Workspace" where
  "new_workspace data slug =
     \<lparr>w_id = 0, w_stamp = no_stamp, w_soft = not_deleted,
      w_audit = no_audit\<lparr>created_by := Some (wc_created_by data)\<rparr>,
      w_name = wc_name data, w_slug = slug, w_logo_url = wc_logo_url data,
      w_timezone = wc_timezone data, w_industry = wc_industry data, w_country = wc_country data,
      w_default_language = wc_default_language data, w_status = wc_status data,
      w_plan_id = wc_plan_id data, w_owner_id = wc_owner_id data\<rparr>"

definition new_member :: "uuid \<Rightarrow> uuid \<Rightarrow> uuid \<Rightarrow> uuid option \<Rightarrow> time option \<Rightarrow> time \<Rightarrow> WorkspaceMember" where
  "new_member ws user_id role_id invited_by accepted_at joined_at =
     \<lparr>m_id = 0, m_stamp = no_stamp, m_soft = not_deleted, m_audit = no_audit,
      m_workspace_id = ws, m_user_id = user_id, m_role_id = role_id,
      m_status = MemberStatus_ACTIVE, m_invited_by = invited_by, m_accepted_at = accepted_at,
      m_joined_at = Some joined_at, m_last_active = None\<rparr>"

definition create_workspace :: "User \<Rightarrow> WorkspaceCreateInternal \<Rightarrow> ('z, Workspace) io" where
  "create_workspace user data =
     (let slug = str_or (wc_slug data) (generate_slug (wc_name data)) in
     bindM (get_by_slug slug True) (\<lambda>existing.
     thenM (raise_if (existing \<noteq> None) (HTTPException 400 ''Workspace slug already exists.'')) (
     bindM (create Workspace_model (new_workspace data slug)) (\<lambda>workspace.
     bindM get_system_roles (\<lambda>system_roles.
     case find_owner_role system_roles of
       None \<Rightarrow> raiseM (HTTPException 500 ''System Owner role not found'')
     | Some owner_role \<Rightarrow>
     bindM get_utc_now (\<lambda>now.
     thenM (create WorkspaceMember_model
              (new_member (w_id workspace) (u_id user) (r_id owner_role) None None now)) (
     thenM (create_audit_log ''CREATE'' ''workspace'' (str_uuid (w_id workspace))
              (Some (w_id workspace)) (Some (u_id user)) None
              (Some [(''name'', JStr (w_name workspace)), (''slug'', JStr (w_slug workspace))]))
       (returnM workspace))))))))"

text \<open>The dictionary \<open>model_dump(exclude_unset=True)\<close> of an update, and the same keys of a row.\<close>

definition json_str :: "string option \<Rightarrow> json" where
  "json_str x = (case x of None \<Rightarrow> JNull | Some s \<Rightarrow> JStr s)"

definition json_uuid :: "uuid option \<Rightarrow> json" where
  "json_uuid x = (case x of None \<Rightarrow> JNull | Some u \<Rightarrow> JUuid u)"

fun WorkspaceStatus_value :: "WorkspaceStatus \<Rightarrow> string" where
  "WorkspaceStatus_value WorkspaceStatus_ACTIVE = ''ACTIVE''"
| "WorkspaceStatus_value WorkspaceStatus_SUSPENDED = ''SUSPENDED''"
| "WorkspaceStatus_value WorkspaceStatus_ARCHIVED = ''ARCHIVED''"
| "WorkspaceStatus_value WorkspaceStatus_TRIAL = ''TRIAL''"

definition entry :: "string \<Rightarrow> ('a \<Rightarrow> json) \<Rightarrow> 'a option \<Rightarrow> json_object" where
  "entry k enc x = (case x of None \<Rightarrow> [] | Some v \<Rightarrow> [(k, enc v)])"

definition update_data :: "WorkspaceUpdate \<Rightarrow> json_object" where
  "update_data u =
     entry ''name'' json_str (wu_name u) @ entry ''slug'' json_str (wu_slug u) @
     entry ''logo_url'' json_str (wu_logo_url u) @ entry ''timezone'' json_str (wu_timezone u) @
     entry ''industry'' json_str (wu_industry u) @ entry ''country'' json_str (wu_country u) @
     entry ''default_language'' json_str (wu_default_language u) @
     entry ''status'' (\<lambda>s. json_str (map_option WorkspaceStatus_value s)) (wu_status u) @
     entry ''plan_id'' json_uuid (wu_plan_id u) @ entry ''updated_by'' json_uuid (wu_updated_by u)"

definition row_values :: "Workspace \<Rightarrow> WorkspaceUpdate \<Rightarrow> json_object" where
  "row_values w u =
     entry ''name'' (\<lambda>_. JStr (w_name w)) (wu_name u) @
     entry ''slug'' (\<lambda>_. JStr (w_slug w)) (wu_slug u) @
     entry ''logo_url'' (\<lambda>_. json_str (w_logo_url w)) (wu_logo_url u) @
     entry ''timezone'' (\<lambda>_. JStr (w_timezone w)) (wu_timezone u) @
     entry ''industry'' (\<lambda>_. json_str (w_industry w)) (wu_industry u) @
     entry ''country'' (\<lambda>_. json_str (w_country w)) (wu_country u) @
     entry ''default_language'' (\<lambda>_. JStr (w_default_language w)) (wu_default_language u) @
     entry ''status'' (\<lambda>_. JStr (WorkspaceStatus_value (w_status w))) (wu_status u) @
     entry ''plan_id'' (\<lambda>_. json_uuid (w_plan_id w)) (wu_plan_id u) @
     entry ''updated_by'' (\<lambda>_. json_uuid (updated_by (w_audit w))) (wu_updated_by u)"

text \<open>A \<open>NOT NULL\<close> column set to \<open>None\<close> violates its constraint.\<close>

definition nulls_required_column :: "WorkspaceUpdate \<Rightarrow> bool" where
  "nulls_required_column u \<longleftrightarrow>
     wu_name u = Some None \<or> wu_slug u = Some None \<or> wu_timezone u = Some None \<or>
     wu_default_language u = Some None \<or> wu_status u = Some None"

definition set_or :: "'a option option \<Rightarrow> 'a \<Rightarrow> 'a" where
  "set_or x old = (case x of Some (Some v) \<Rightarrow> v | _ \<Rightarrow> old)"

definition set_nullable :: "'a option option \<Rightarrow> 'a option \<Rightarrow> 'a option" where
  "set_nullable x old = (case x of None \<Rightarrow> old | Some v \<Rightarrow> v)"

definition apply_update :: "WorkspaceUpdate \<Rightarrow> Workspace \<Rightarrow> Workspace" where
  "apply_update u w =
     w\<lparr>w_name := set_or (wu_name u) (w_name w), w_slug := set_or (wu_slug u) (w_slug w),
       w_logo_url := set_nullable (wu_logo_url u) (w_logo_url w),
       w_timezone := set_or (wu_timezone u) (w_timezone w),
       w_industry := set_nullable (wu_industry u) (w_industry w),
       w_country := set_nullable (wu_country u) (w_country w),
       w_default_language := set_or (wu_default_language u) (w_default_language w),
       w_status := set_or (wu_status u) (w_status w),
       w_plan_id := set_nullable (wu_plan_id u) (w_plan_id w),
       w_audit := (w_audit w)\<lparr>updated_by := set_nullable (wu_updated_by u) (updated_by (w_audit w))\<rparr>\<rparr>"

definition update_workspace :: "User \<Rightarrow> Workspace \<Rightarrow> WorkspaceUpdate \<Rightarrow> ('z, Workspace) io" where
  "update_workspace user workspace data =
     (if update_data data = [] then returnM workspace
      else
      thenM
        (case wu_slug data of
           None \<Rightarrow> returnM ()
         | Some slug \<Rightarrow>
             if slug = Some (w_slug workspace) then returnM ()
             else bindM (case slug of None \<Rightarrow> returnM None | Some s \<Rightarrow> get_by_slug s True) (\<lambda>existing.
                    raise_if (existing \<noteq> None) (HTTPException 400 ''Workspace slug already exists.''))) (
      let old_values = row_values workspace data in
      thenM (raise_if (nulls_required_column data) IntegrityError) (
      bindM (update Workspace_model (w_id workspace) (apply_update data)) (\<lambda>updated_workspace.
      thenM (create_audit_log ''UPDATE'' ''workspace'' (str_uuid (w_id workspace))
               (Some (w_id workspace)) (Some (u_id user)) (Some old_values) (Some (update_data data)))
        (returnM updated_workspace)))))"

definition transfer_ownership ::
  "User \<Rightarrow> Workspace \<Rightarrow> WorkspaceTransferOwnershipRequest \<Rightarrow> ('z, Workspace) io" where
  "transfer_ownership user workspace data =
     thenM (raise_if (w_owner_id workspace \<noteq> u_id user)
              (HTTPException 403 ''Only the owner can transfer ownership.'')) (
     bindM (get_member (w_id workspace) (wt_new_owner_id data)) (\<lambda>new_owner_member.
     case new_owner_member of
       None \<Rightarrow> raiseM (HTTPException 400 ''New owner must be an active member.'')
     | Some new_owner_member \<Rightarrow>
     thenM (raise_if (m_status new_owner_member \<noteq> MemberStatus_ACTIVE)
              (HTTPException 400 ''New owner must be an active member.'')) (
     bindM get_system_roles (\<lambda>system_roles.
     case find_owner_role system_roles of
       None \<Rightarrow> raiseM (HTTPException 500 ''System Owner role not found'')
     | Some owner_role \<Rightarrow>
     bindM (update Workspace_model (w_id workspace) (\<lambda>w. w\<lparr>w_owner_id := wt_new_owner_id data\<rparr>))
       (\<lambda>workspace.
     thenM (repo_change_role (m_id new_owner_member) (r_id owner_role)) (
     thenM (repo_transfer_ownership (w_id workspace) (u_id user) (wt_new_owner_id data)
              (wt_new_role_id data)) (
     thenM (create_audit_log ''TRANSFER_OWNERSHIP'' ''workspace'' (str_uuid (w_id workspace))
              (Some (w_id workspace)) (Some (u_id user))
              (Some [(''owner_id'', JStr (str_uuid (u_id user)))])
              (Some [(''owner_id'', JStr (str_uuid (wt_new_owner_id data)))])) (
     thenM (create Notification_model
              (new_notification (w_id workspace) (wt_new_owner_id data)
                 ''Workspace Ownership Transferred''
                 (''You are now the owner of '' @ w_name workspace @ ''.'')
                 NotificationType_SYSTEM NotificationPriority_HIGH))
       (returnM workspace)))))))))"

definition delete_workspace :: "User \<Rightarrow> Workspace \<Rightarrow> ('z, unit) io" where
  "delete_workspace user workspace =
     thenM (raise_if (w_owner_id workspace \<noteq> u_id user)
              (HTTPException 403 ''Only the owner can delete the workspace.'')) (
     thenM (delete Workspace_model (w_id workspace) True) (
     thenM (create_audit_log ''DELETE'' ''workspace'' (str_uuid (w_id workspace))
              (Some (w_id workspace)) (Some (u_id user)) None None)
       (returnM ())))"

section \<open>Slugs are canonical\<close>

definition slug_ok :: "string \<Rightarrow> bool" where
  "slug_ok s \<longleftrightarrow>
     list_all (\<lambda>c. slug_char c \<or> c = CHR ''-'') s \<and>
     successively (\<lambda>a b. \<not> (a = CHR ''-'' \<and> b = CHR ''-'')) s \<and>
     (s = [] \<or> hd s \<noteq> CHR ''-'' \<and> last s \<noteq> CHR ''-'')"

lemma hyphen_not_slug_char [simp]: "\<not> slug_char (CHR ''-'')"
  by (simp add: slug_char_def)

lemma set_sub_runs: "c \<in> set (sub_runs s) \<Longrightarrow> slug_char c \<or> c = CHR ''-''"
  by (induction s rule: sub_runs.induct) (auto split: if_splits)

lemma hd_sub_runs: "cs \<noteq> [] \<Longrightarrow> slug_char (hd cs) \<Longrightarrow> sub_runs cs \<noteq> [] \<and> hd (sub_runs cs) = hd cs"
  by (cases cs) auto

lemma successively_sub_runs:
  "successively (\<lambda>a b. \<not> (a = CHR ''-'' \<and> b = CHR ''-'')) (sub_runs s)"
proof (induction s rule: sub_runs.induct)
  case 1
  then show ?case by simp
next
  case (2 c cs)
  show ?case
  proof (cases "slug_char c")
    case True
    then have "c \<noteq> CHR ''-''" by auto
    with True 2 show ?thesis by (auto simp: successively_Cons)
  next
    case False
    let ?ds = "dropWhile (\<lambda>x. \<not> slug_char x) cs"
    have "?ds \<noteq> [] \<Longrightarrow> slug_char (hd ?ds)" using hd_dropWhile by force
    then have "?ds \<noteq> [] \<Longrightarrow> hd (sub_runs ?ds) \<noteq> CHR ''-''"
      using hd_sub_runs [of ?ds] by auto
    then have "sub_runs ?ds = [] \<or> hd (sub_runs ?ds) \<noteq> CHR ''-''"
      by (cases "?ds = []") (simp_all del: dropWhile_eq_Nil_conv)
    moreover have "successively (\<lambda>a b. \<not> (a = CHR ''-'' \<and> b = CHR ''-'')) (sub_runs ?ds)"
      using False 2 by blast
    moreover have "sub_runs (c # cs) = CHR ''-'' # sub_runs ?ds" using False by simp
    ultimately show ?thesis by (auto simp only: successively_Cons)
  qed
qed

lemma successively_strip_by: "successively P s \<Longrightarrow> successively P (strip_by p s)"
proof -
  assume s: "successively P s"
  have drop: "successively Q (dropWhile p xs)" if "successively Q xs" for Q xs
    using that by (metis successively_append_iff takeWhile_dropWhile_id)
  from s have "successively P (dropWhile p s)" by (rule drop)
  then have "successively (\<lambda>x y. P y x) (rev (dropWhile p s))" by (simp add: successively_rev)
  then have "successively (\<lambda>x y. P y x) (dropWhile p (rev (dropWhile p s)))" by (rule drop)
  then show ?thesis by (simp add: strip_by_def successively_rev)
qed

lemma slug_ok_generate: "slug_ok (generate_slug name)"
proof -
  let ?t = "sub_runs (py_lower name)"
  have "list_all (\<lambda>c. slug_char c \<or> c = CHR ''-'') (generate_slug name)"
    using set_strip_by [of "\<lambda>c. c = CHR ''-''" ?t] set_sub_runs [of _ "py_lower name"]
    by (auto simp: list_all_iff generate_slug_def)
  moreover have "successively (\<lambda>a b. \<not> (a = CHR ''-'' \<and> b = CHR ''-'')) (generate_slug name)"
    unfolding generate_slug_def by (rule successively_strip_by) (rule successively_sub_runs)
  moreover have "generate_slug name \<noteq> [] \<Longrightarrow>
      hd (generate_slug name) \<noteq> CHR ''-'' \<and> last (generate_slug name) \<noteq> CHR ''-''"
    unfolding generate_slug_def using hd_strip_by last_strip_by by blast
  ultimately show ?thesis by (auto simp: slug_ok_def)
qed

lemma sub_runs_id:
  assumes "list_all (\<lambda>c. slug_char c \<or> c = CHR ''-'') s"
    and "successively (\<lambda>a b. \<not> (a = CHR ''-'' \<and> b = CHR ''-'')) s"
  shows "sub_runs s = s"
  using assms
proof (induction s)
  case Nil
  then show ?case by simp
next
  case (Cons c cs)
  show ?case
  proof (cases "slug_char c")
    case True
    with Cons show ?thesis by (auto simp: successively_Cons)
  next
    case False
    with Cons.prems have c: "c = CHR ''-''" by simp
    with Cons.prems have "cs = [] \<or> slug_char (hd cs)"
      by (cases cs) (auto simp: successively_Cons)
    then have "dropWhile (\<lambda>x. \<not> slug_char x) cs = cs" by (auto intro: dropWhile_eq_self)
    with False c Cons show ?thesis by (auto simp: successively_Cons)
  qed
qed

lemma lower_slug_char: "slug_char c \<or> c = CHR ''-'' \<Longrightarrow> lower_char c = c"
  by (auto simp: slug_char_def lower_char_def Let_def)

lemma generate_slug_id: "slug_ok s \<Longrightarrow> generate_slug s = s"
proof -
  assume ok: "slug_ok s"
  then have "py_lower s = s"
    by (auto simp: py_lower_def slug_ok_def list_all_iff intro!: map_idI lower_slug_char)
  moreover from ok have "sub_runs s = s" by (auto simp: slug_ok_def intro: sub_runs_id)
  moreover have "strip_by (\<lambda>c. c = CHR ''-'') s = s"
  proof (cases "s = []")
    case True
    then show ?thesis by (simp add: strip_by_def)
  next
    case False
    with ok have "dropWhile (\<lambda>c. c = CHR ''-'') s = s"
      by (intro dropWhile_eq_self) (auto simp: slug_ok_def)
    moreover from False ok have "dropWhile (\<lambda>c. c = CHR ''-'') (rev s) = rev s"
      by (intro dropWhile_eq_self) (auto simp: slug_ok_def hd_rev)
    ultimately show ?thesis by (simp add: strip_by_def)
  qed
  ultimately show ?thesis by (simp add: generate_slug_def)
qed

text \<open>A generated slug uses only a-z, 0-9 and single inner hyphens, and generating a
  slug is idempotent: every slug of that form, in particular a generated one, is its own slug.\<close>

lemma generated_slug_canonical:
  "slug_ok (generate_slug name) \<and> (slug_ok s \<longrightarrow> generate_slug s = s)"
  using slug_ok_generate generate_slug_id by blast

lemma generated_slug_canonical_witness:
  "slug_ok (generate_slug ''  Acme -- Shop 24! '') \<and> generate_slug ''  Acme -- Shop 24! '' = ''acme-shop-24''
   \<and> generate_slug ''acme-shop-24'' = ''acme-shop-24''"
proof -
  have s: "generate_slug ''  Acme -- Shop 24! '' = ''acme-shop-24''" by code_simp
  with generated_slug_canonical [of "''  Acme -- Shop 24! ''" "''acme-shop-24''"] show ?thesis
    by metis
qed

section \<open>Ownership\<close>

lemma flush_role:
  assumes run: "flush_dirty WorkspaceMember_model i (\<lambda>m. m\<lparr>m_role_id := r\<rparr>) w = (Inr x, w')"
    and ids: "distinct (map m_id (workspace_members (db w)))"
  obtains m st where "m \<in> set (workspace_members (db w))" "m_id m = i"
    "x = m\<lparr>m_role_id := r, m_stamp := st\<rparr>"
    "db w' = (db w)\<lparr>workspace_members :=
       upd_where (\<lambda>y. m_id y = i) (\<lambda>_. x) (workspace_members (db w))\<rparr>"
proof -
  from run obtain m where found: "find_pk WorkspaceMember_model i (db w) = Some m"
    by (auto simp: flush_dirty_def split: option.splits)
  then have m: "m \<in> set (workspace_members (db w))" "m_id m = i"
    using find_pk_Some [of WorkspaceMember_model i "db w" m] by simp_all
  show ?thesis
  proof (cases "m\<lparr>m_role_id := r\<rparr> = m")
    case True
    have "upd_where (\<lambda>y. m_id y = i) (\<lambda>_. m) (workspace_members (db w)) = workspace_members (db w)"
      using m ids by (intro upd_where_id) (metis distinct_map_inj)
    with that [OF m, of "m_stamp m"] True run found show ?thesis
      by (simp add: flush_dirty_def)
  next
    case False
    with that [OF m, of "touch_stamp (clock w (ticks w)) (m_stamp m)"] run found m(2) show ?thesis
      by (auto simp: flush_dirty_def update_row_Inr)
  qed
qed

lemma get_by_slug_fresh:
  assumes "get_by_slug slug True w = (Inr None, w')"
  shows "w' = w" and "\<forall>x \<in> set (workspaces (db w)). w_slug x \<noteq> slug"
  using assms
  by (auto simp: get_by_slug_def scalar_one_or_none_None live_def filter_empty_conv)

lemma create_workspace_row:
  assumes "create Workspace_model r w = (Inr x, w')"
  shows "db w' = (db w)\<lparr>workspaces := workspaces (db w) @ [x]\<rparr>"
    and "w_slug x = w_slug r" "w_owner_id x = w_owner_id r" "w_name x = w_name r"
  using assms by (auto simp: create_def flush_new_def insert_row_Inr)

lemma create_member_row:
  assumes "create WorkspaceMember_model r w = (Inr x, w')"
  shows "db w' = (db w)\<lparr>workspace_members := workspace_members (db w) @ [x]\<rparr>"
    and "m_workspace_id x = m_workspace_id r" "m_user_id x = m_user_id r" "m_role_id x = m_role_id r"
    and "m_status x = m_status r" "m_soft x = m_soft r"
    and "\<forall>m \<in> set (workspace_members (db w)).
           m_workspace_id m = m_workspace_id r \<longrightarrow> m_user_id m \<noteq> m_user_id r"
proof -
  show "db w' = (db w)\<lparr>workspace_members := workspace_members (db w) @ [x]\<rparr>"
    and "m_workspace_id x = m_workspace_id r" "m_user_id x = m_user_id r" "m_role_id x = m_role_id r"
    and "m_status x = m_status r" "m_soft x = m_soft r"
    using assms by (auto simp: create_def flush_new_def insert_row_Inr)
  show "\<forall>m \<in> set (workspace_members (db w)).
          m_workspace_id m = m_workspace_id r \<longrightarrow> m_user_id m \<noteq> m_user_id r"
    using assms
    by (auto simp: create_def flush_new_def insert_row_Inr find_pk_None valid_WorkspaceMember_def
        unique_on_iff)
qed

text \<open>C4 (functional). Creating a workspace: the slug is the one asked for or the generated one, and
  no workspace, deleted ones included, has it; one workspace row is added, owned by the given owner;
  the creator, and nobody else, is added as a member, who is active and has the Owner role, so the
  new workspace has an active owner; and one audit entry names the workspace and the actor.\<close>

theorem create_workspace_effect:
  assumes run: "create_workspace user data w = (Inr ws, w')"
  shows "w_slug ws = str_or (wc_slug data) (generate_slug (wc_name data)) \<and>
         (\<forall>x \<in> set (workspaces (db w)). w_slug x \<noteq> w_slug ws) \<and>
         workspaces (db w') = workspaces (db w) @ [ws] \<and> w_owner_id ws = wc_owner_id data \<and>
         (\<exists>owner_role m. owner_role_of (roles (db w)) = Some owner_role \<and>
            workspace_members (db w') = workspace_members (db w) @ [m] \<and>
            active_owner owner_role (w_id ws) m \<and> m_user_id m = u_id user) \<and>
         owned (w_id ws) (workspace_members (db w')) (roles (db w')) \<and>
         (\<exists>a. audit_logs (db w') = audit_logs (db w) @ [a] \<and> al_action a = ''CREATE'' \<and>
              al_resource_id a = str_uuid (w_id ws) \<and> al_actor_id a = Some (u_id user))"
proof -
  let ?slug = "str_or (wc_slug data) (generate_slug (wc_name data))"
  from run obtain w1 w2 r m w3 a where
    fresh: "get_by_slug ?slug True w = (Inr None, w1)" and
    new: "create Workspace_model (new_workspace data ?slug) w1 = (Inr ws, w2)" and
    role: "find_owner_role (sort_key r_name (filter r_is_system (roles (db w2)))) = Some r" and
    mem: "create WorkspaceMember_model (new_member (w_id ws) (u_id user) (r_id r) None None
            (clock w2 (ticks w2))) (w2\<lparr>ticks := Suc (ticks w2)\<rparr>) = (Inr m, w3)" and
    audit: "create_audit_log ''CREATE'' ''workspace'' (str_uuid (w_id ws)) (Some (w_id ws))
            (Some (u_id user)) None (Some [(''name'', JStr (w_name ws)), (''slug'', JStr (w_slug ws))]) w3
            = (Inr a, w')"
    by (auto simp: create_workspace_def Let_def bindM_eq_Inr split: option.splits if_splits)
  note f = get_by_slug_fresh [OF fresh]
  note n = create_workspace_row [OF new]
  note m = create_member_row [OF mem]
  note au = create_audit_log_Inr [OF audit]
  have r: "owner_role_of (roles (db w)) = Some r" and rs: "roles (db w') = roles (db w)"
    using role f n(1) m(1) au(1) by (simp_all add: owner_role_of_def)
  have slug: "w_slug ws = ?slug" and owner: "w_owner_id ws = wc_owner_id data"
    using n by (simp_all add: new_workspace_def)
  have ms: "workspace_members (db w') = workspace_members (db w) @ [m]"
    using f n(1) m(1) au(1) by simp
  have act: "active_owner r (w_id ws) m" "m_user_id m = u_id user"
    using m by (simp_all add: active_owner_def new_member_def not_deleted_def)
  have "owned (w_id ws) (workspace_members (db w')) (roles (db w'))"
    using r rs ms act by (simp add: owned_def)
  moreover have "workspaces (db w') = workspaces (db w) @ [ws]" using f n(1) m(1) au(1) by simp
  moreover have "audit_logs (db w') = audit_logs (db w) @ [a]" using f n(1) m(1) au(1) by simp
  ultimately show ?thesis using slug owner r ms act f(2) au(2,4,6) by (intro conjI) auto
qed

definition fx_new_workspace :: WorkspaceCreateInternal where
  "fx_new_workspace =
     \<lparr>wc_name = ''Shop'', wc_slug = None, wc_logo_url = None, wc_timezone = ''UTC'',
      wc_industry = None, wc_country = None, wc_default_language = ''en'',
      wc_status = WorkspaceStatus_ACTIVE, wc_plan_id = None, wc_owner_id = 1, wc_created_by = 1\<rparr>"

lemma create_workspace_effect_witness:
  "\<exists>ws w'. create_workspace (fx_user 1) fx_new_workspace fx = (Inr ws, w') \<and>
     w_slug ws = ''shop'' \<and> workspaces (db w') = [fx_workspace, ws]"
proof -
  have "succeeds (create_workspace (fx_user 1) fx_new_workspace) fx" by code_simp
  then obtain ws w' where run: "create_workspace (fx_user 1) fx_new_workspace fx = (Inr ws, w')"
    by (rule succeedsE)
  moreover have "str_or (wc_slug fx_new_workspace) (generate_slug (wc_name fx_new_workspace)) = ''shop''"
    and "workspaces (db fx) = [fx_workspace]" by code_simp+
  ultimately show ?thesis using create_workspace_effect [OF run] by auto
qed

section \<open>The transfer of ownership\<close>

lemma get_member_Some:
  assumes "get_member ws u w = (Inr (Some m), w')"
  shows "w' = w" "m \<in> set (workspace_members (db w))" "m_workspace_id m = ws" "m_user_id m = u"
    "visible WorkspaceMember_model m" "deleted_at (m_soft m) = None"
proof -
  from assms have "w' = w" and
    "filter (\<lambda>m. m_workspace_id m = ws \<and> m_user_id m = u \<and> deleted_at (m_soft m) = None)
       (workspace_members (db w)) = [m]"
    by (auto simp: get_member_def scalar_one_or_none_Some)
  then have "w' = w" and "m \<in> set (filter (\<lambda>m. m_workspace_id m = ws \<and> m_user_id m = u \<and>
      deleted_at (m_soft m) = None) (workspace_members (db w)))" by simp_all
  then show "w' = w" "m \<in> set (workspace_members (db w))" "m_workspace_id m = ws" "m_user_id m = u"
    "visible WorkspaceMember_model m" "deleted_at (m_soft m) = None"
    by (auto simp: visible_def)
qed

lemma get_member_None:
  "get_member ws u w = (Inr None, w') \<Longrightarrow>
   w' = w \<and> (\<forall>m \<in> set (workspace_members (db w)).
      m_workspace_id m = ws \<longrightarrow> m_user_id m = u \<longrightarrow> deleted_at (m_soft m) \<noteq> None)"
  by (auto simp: get_member_def scalar_one_or_none_None filter_empty_conv)

text \<open>The rows after a role was written to row \<open>i\<close>: that one has it, the others are as they were.\<close>

definition role_written :: "uuid \<Rightarrow> uuid \<Rightarrow> WorkspaceMember list \<Rightarrow> WorkspaceMember list \<Rightarrow> bool" where
  "role_written i r ms ms' \<longleftrightarrow>
     (\<exists>m st. m \<in> set ms \<and> m_id m = i \<and>
        ms' = upd_where (\<lambda>y. m_id y = i) (\<lambda>_. m\<lparr>m_role_id := r, m_stamp := st\<rparr>) ms)"

lemma flush_role_written:
  assumes "flush_dirty WorkspaceMember_model i (\<lambda>m. m\<lparr>m_role_id := r\<rparr>) w = (Inr x, w')"
    and "distinct (map m_id (workspace_members (db w)))"
  shows "role_written i r (workspace_members (db w)) (workspace_members (db w'))"
    and "workspaces (db w') = workspaces (db w)" "roles (db w') = roles (db w)"
    "audit_logs (db w') = audit_logs (db w)"
  by (rule flush_role [OF assms], force simp: role_written_def)
    (rule flush_role [OF assms], simp)+

lemma role_written_ids:
  assumes "role_written i r ms ms'"
  shows "map m_id ms' = map m_id ms"
proof -
  from assms obtain m st where m: "m_id m = i"
    and ms': "ms' = upd_where (\<lambda>y. m_id y = i) (\<lambda>_. m\<lparr>m_role_id := r, m_stamp := st\<rparr>) ms"
    by (auto simp: role_written_def)
  show ?thesis unfolding ms' by (rule map_upd_where) (simp add: m)
qed

lemma role_written_other:
  "role_written i r ms ms' \<Longrightarrow> x \<in> set ms \<Longrightarrow> m_id x \<noteq> i \<Longrightarrow> x \<in> set ms'"
  by (force simp: role_written_def set_upd_where)

lemma role_written_row:
  assumes "role_written i r ms ms'" and "distinct (map m_id ms)" and "x \<in> set ms" and "m_id x = i"
  shows "\<exists>st. x\<lparr>m_role_id := r, m_stamp := st\<rparr> \<in> set ms'"
proof -
  from assms obtain m st where "m \<in> set ms" "m_id m = i"
    and ms': "ms' = upd_where (\<lambda>y. m_id y = i) (\<lambda>_. m\<lparr>m_role_id := r, m_stamp := st\<rparr>) ms"
    by (auto simp: role_written_def)
  with assms have "m = x" by (metis distinct_map_inj)
  with ms' assms show ?thesis by (force simp: set_upd_where)
qed

lemma repo_change_role_written:
  assumes run: "repo_change_role (m_id m) r w = (Inr x, w')"
    and u: "distinct (map m_id (workspace_members (db w)))"
    and m: "m \<in> set (workspace_members (db w))" "visible WorkspaceMember_model m"
  shows "role_written (m_id m) r (workspace_members (db w)) (workspace_members (db w'))"
    and "workspaces (db w') = workspaces (db w)" "roles (db w') = roles (db w)"
    "audit_logs (db w') = audit_logs (db w)"
proof -
  have "get_by_id WorkspaceMember_model (m_id m) w = (Inr (Some m), w)"
    using member_repo.get_by_id_iff [of w m] u m by (simp add: pk_unique_def)
  with run obtain y where
    "flush_dirty WorkspaceMember_model (m_id m) (\<lambda>m. m\<lparr>m_role_id := r\<rparr>) w = (Inr y, w')"
    by (auto simp: repo_change_role_def edit_member_def bindM_eq_Inr)
  from flush_role_written [OF this u]
  show "role_written (m_id m) r (workspace_members (db w)) (workspace_members (db w'))"
    and "workspaces (db w') = workspaces (db w)" "roles (db w') = roles (db w)"
    "audit_logs (db w') = audit_logs (db w)" by simp_all
qed

text \<open>What the demotion of the old owner does to the rows.\<close>

definition demoted :: "uuid \<Rightarrow> uuid \<Rightarrow> uuid \<Rightarrow> WorkspaceMember list \<Rightarrow> WorkspaceMember list \<Rightarrow> bool" where
  "demoted ws u r ms ms' \<longleftrightarrow>
     ms' = ms \<and> (\<forall>m \<in> set ms. \<not> (m_workspace_id m = ws \<and> m_user_id m = u \<and> deleted_at (m_soft m) = None)) \<or>
     (\<exists>m \<in> set ms. m_workspace_id m = ws \<and> m_user_id m = u \<and> deleted_at (m_soft m) = None \<and>
        role_written (m_id m) r ms ms')"

lemma repo_transfer_demotes:
  assumes "repo_transfer_ownership ws u v r w = (Inr b, w')"
    and u: "distinct (map m_id (workspace_members (db w)))"
  shows "demoted ws u r (workspace_members (db w)) (workspace_members (db w'))"
    and "workspaces (db w') = workspaces (db w)" "roles (db w') = roles (db w)"
    "audit_logs (db w') = audit_logs (db w)"
proof -
  from assms(1) obtain m w1 where g: "get_member ws u w = (Inr m, w1)"
    by (auto simp: repo_transfer_ownership_def bindM_eq_Inr)
  have "demoted ws u r (workspace_members (db w)) (workspace_members (db w')) \<and>
    workspaces (db w') = workspaces (db w) \<and> roles (db w') = roles (db w) \<and>
    audit_logs (db w') = audit_logs (db w)"
  proof (cases m)
    case None
    with assms(1) g get_member_None [of ws u w w1] show ?thesis
      by (auto simp: repo_transfer_ownership_def bindM_eq_Inr demoted_def)
  next
    case (Some y)
    with g have y: "get_member ws u w = (Inr (Some y), w1)" by simp
    with assms(1) get_member_Some(1) [OF y] obtain x where
      "flush_dirty WorkspaceMember_model (m_id y) (\<lambda>m. m\<lparr>m_role_id := r\<rparr>) w = (Inr x, w')"
      by (auto simp: repo_transfer_ownership_def bindM_eq_Inr)
    from flush_role_written [OF this u] get_member_Some [OF y] show ?thesis
      by (auto simp: demoted_def)
  qed
  then show "demoted ws u r (workspace_members (db w)) (workspace_members (db w'))"
    and "workspaces (db w') = workspaces (db w)" "roles (db w') = roles (db w)"
    "audit_logs (db w') = audit_logs (db w)" by simp_all
qed

lemma get_system_roles_InrE:
  assumes "get_system_roles w = (Inr rs, w')"
  obtains "rs = sort_key r_name (filter r_is_system (roles (db w)))" and "w' = w"
  using assms unfolding get_system_roles_def by (elim session_elims) (hypsubst, simp)

lemma update_workspace_rows:
  assumes "update Workspace_model i f w = (Inr x, w')" and "\<And>x. w_id (f x) = w_id x"
  shows "workspace_members (db w') = workspace_members (db w)" "roles (db w') = roles (db w)"
    "audit_logs (db w') = audit_logs (db w)"
    "workspaces (db w') = workspaces (db w) \<or>
       workspaces (db w') = upd_where (\<lambda>y. w_id y = i) (\<lambda>_. x) (workspaces (db w))"
    "\<exists>old \<in> set (workspaces (db w)). w_id old = i \<and> w_id x = i \<and> (\<exists>st. x = (f old)\<lparr>w_stamp := st\<rparr>)"
proof -
  from assms(1) obtain old where old: "find_pk Workspace_model i (db w) = Some old"
    and x: "x = (if f old = old then old else touch Workspace_model (clock w (ticks w)) (f old))"
    and chg: "f old \<noteq> old \<Longrightarrow> pk Workspace_model (f old) = i \<Longrightarrow>
       db w' = put Workspace_model (upd_where (\<lambda>y. pk Workspace_model y = i) (\<lambda>_. x)) (db w) \<and>
       valid_row Workspace_model (db w) x"
    and same: "f old = old \<Longrightarrow> w' = w"
    by (rule workspace_repo.update_row_result) blast
  have o: "old \<in> set (workspaces (db w))" "w_id old = i" using find_pk_Some [OF old] by simp_all
  have cases: "w' = w \<or> db w' = (db w)\<lparr>workspaces := upd_where (\<lambda>y. w_id y = i) (\<lambda>_. x) (workspaces (db w))\<rparr>"
    using chg same o assms(2) by auto
  then show "workspace_members (db w') = workspace_members (db w)" "roles (db w') = roles (db w)"
    "audit_logs (db w') = audit_logs (db w)"
    "workspaces (db w') = workspaces (db w) \<or>
       workspaces (db w') = upd_where (\<lambda>y. w_id y = i) (\<lambda>_. x) (workspaces (db w))" by auto
  have "old = old\<lparr>w_stamp := w_stamp old\<rparr>" by simp
  with x o assms(2) [of old]
  show "\<exists>old \<in> set (workspaces (db w)). w_id old = i \<and> w_id x = i \<and> (\<exists>st. x = (f old)\<lparr>w_stamp := st\<rparr>)"
    by (intro bexI [of _ old]) (auto split: if_splits intro: exI [of _ "w_stamp old"])
qed

lemma transfer_run:
  assumes run: "transfer_ownership user workspace data w = (Inr ws, w')"
    and u: "distinct (map m_id (workspace_members (db w)))"
  obtains nm owner_role ms where
    "w_owner_id workspace = u_id user" "w_id ws = w_id workspace" "w_owner_id ws = wt_new_owner_id data"
    "nm \<in> set (workspace_members (db w))" "m_workspace_id nm = w_id workspace"
    "m_user_id nm = wt_new_owner_id data" "deleted_at (m_soft nm) = None" "m_status nm = MemberStatus_ACTIVE"
    "owner_role_of (roles (db w)) = Some owner_role" "roles (db w') = roles (db w)"
    "role_written (m_id nm) (r_id owner_role) (workspace_members (db w)) ms"
    "demoted (w_id workspace) (u_id user) (wt_new_role_id data) ms (workspace_members (db w'))"
    "\<exists>a. audit_logs (db w') = audit_logs (db w) @ [a] \<and> al_action a = ''TRANSFER_OWNERSHIP''"
proof -
  obtain nm r w0 w1 y w2 b w3 a w4 n where
    own: "\<not> w_owner_id workspace \<noteq> u_id user" and
    mem: "get_member (w_id workspace) (wt_new_owner_id data) w = (Inr (Some nm), w0)" and
    act: "\<not> m_status nm \<noteq> MemberStatus_ACTIVE" and
    role: "find_owner_role (sort_key r_name (filter r_is_system (roles (db w0)))) = Some r" and
    upd: "update Workspace_model (w_id workspace) (\<lambda>w. w\<lparr>w_owner_id := wt_new_owner_id data\<rparr>) w0 = (Inr ws, w1)" and
    chg: "repo_change_role (m_id nm) (r_id r) w1 = (Inr y, w2)" and
    tr: "repo_transfer_ownership (w_id ws) (u_id user) (wt_new_owner_id data) (wt_new_role_id data) w2 = (Inr b, w3)" and
    audit: "create_audit_log ''TRANSFER_OWNERSHIP'' ''workspace'' (str_uuid (w_id ws)) (Some (w_id ws))
       (Some (u_id user)) (Some [(''owner_id'', JStr (str_uuid (u_id user)))])
       (Some [(''owner_id'', JStr (str_uuid (wt_new_owner_id data)))]) w3 = (Inr a, w4)" and
    ntf: "create Notification_model (new_notification (w_id ws) (wt_new_owner_id data)
       ''Workspace Ownership Transferred'' (''You are now the owner of '' @ w_name ws @ ''.'')
       NotificationType_SYSTEM NotificationPriority_HIGH) w4 = (Inr n, w')"
    using run unfolding transfer_ownership_def
    by (elim session_elims get_system_roles_InrE) (hypsubst, rule that, assumption+)
  note own = own [unfolded not_not] and act = act [unfolded not_not]
  note g = get_member_Some [OF mem]
  note up = update_workspace_rows [OF upd, simplified]
  have wid: "w_id ws = w_id workspace" "w_owner_id ws = wt_new_owner_id data" using up(5) by auto
  have u1: "distinct (map m_id (workspace_members (db w1)))" using u g(1) up(1) by simp
  have nm1: "nm \<in> set (workspace_members (db w1))" using g(1,2) up(1) by simp
  note c = repo_change_role_written [OF chg u1 nm1 g(5)]
  have u2: "distinct (map m_id (workspace_members (db w2)))" using u1 role_written_ids [OF c(1)] by simp
  note d = repo_transfer_demotes [OF tr u2]
  note au = create_audit_log_Inr [OF audit]
  note no = create_notification_Inr [OF ntf]
  show ?thesis
    by (rule that [OF own wid g(2,3,4,6) act, of r "workspace_members (db w2)"])
      (use role g(1) up(1,2,3) c d au(1,2) no(1) wid(1) in \<open>auto simp: owner_role_of_def\<close>)
qed

lemma demoted_other:
  "demoted ws u r ms ms' \<Longrightarrow> x \<in> set ms \<Longrightarrow> distinct (map m_id ms) \<Longrightarrow> m_user_id x \<noteq> u \<Longrightarrow> x \<in> set ms'"
  by (auto simp: demoted_def) (metis distinct_map_inj role_written_other)

lemma demoted_row:
  assumes d: "demoted ws u r ms ms'" and u: "distinct (map m_id ms)"
    and x: "x \<in> set ms'" "m_workspace_id x = ws" "m_user_id x = u" "deleted_at (m_soft x) = None"
    and one: "\<forall>a \<in> set ms. \<forall>b \<in> set ms. (m_workspace_id a, m_user_id a) = (m_workspace_id b, m_user_id b) \<longrightarrow> m_id a = m_id b"
  shows "m_role_id x = r"
  using d unfolding demoted_def
proof (elim disjE conjE bexE)
  assume "ms' = ms" "\<forall>m \<in> set ms. \<not> (m_workspace_id m = ws \<and> m_user_id m = u \<and> deleted_at (m_soft m) = None)"
  with x show ?thesis by blast
next
  fix m assume m: "m \<in> set ms" "m_workspace_id m = ws" "m_user_id m = u"
    and w: "role_written (m_id m) r ms ms'"
  then obtain y st where y: "y \<in> set ms" "m_id y = m_id m"
    and ms': "ms' = upd_where (\<lambda>y. m_id y = m_id m) (\<lambda>_. y\<lparr>m_role_id := r, m_stamp := st\<rparr>) ms"
    by (auto simp: role_written_def)
  from x(1) ms' obtain z where z: "z \<in> set ms"
    "x = (if m_id z = m_id m then y\<lparr>m_role_id := r, m_stamp := st\<rparr> else z)"
    by (auto simp: set_upd_where)
  show ?thesis
  proof (cases "m_id z = m_id m")
    case True
    with z(2) show ?thesis by simp
  next
    case False
    with z(2) x(2,3) m(2,3) have "(m_workspace_id z, m_user_id z) = (m_workspace_id m, m_user_id m)" by simp
    with one z(1) m(1) False show ?thesis by blast
  qed
qed

text \<open>One row per workspace and user, as \<open>uq_workspace_user\<close> says.\<close>

definition one_membership :: "WorkspaceMember list \<Rightarrow> bool" where
  "one_membership ms \<longleftrightarrow>
     (\<forall>a \<in> set ms. \<forall>b \<in> set ms.
        (m_workspace_id a, m_user_id a) = (m_workspace_id b, m_user_id b) \<longrightarrow> m_id a = m_id b)"

lemma one_membership_written:
  assumes "role_written i r ms ms'" and "one_membership ms"
  shows "one_membership ms'"
proof -
  from assms(1) obtain m st where m: "m \<in> set ms" "m_id m = i"
    and ms': "ms' = upd_where (\<lambda>y. m_id y = i) (\<lambda>_. m\<lparr>m_role_id := r, m_stamp := st\<rparr>) ms"
    by (auto simp: role_written_def)
  have "\<exists>z \<in> set ms. m_id z = m_id x \<and> m_workspace_id z = m_workspace_id x \<and> m_user_id z = m_user_id x"
    if "x \<in> set ms'" for x
    using that m unfolding ms' by (auto simp: set_upd_where)
  with assms(2) show ?thesis unfolding one_membership_def by (metis prod.inject)
qed

text \<open>C5 (functional). A transfer of ownership to somebody else that returns: only the owner can do it;
  the workspace row names the new owner; the new owner is an active member with the Owner role, so
  the workspace still has an active owner; every live membership of the old owner in this workspace
  has exactly the role the request gave for it; and the transfer is audited.\<close>

theorem transfer_ownership_effect:
  assumes run: "transfer_ownership user workspace data w = (Inr ws, w')"
    and u: "distinct (map m_id (workspace_members (db w)))"
    and one: "one_membership (workspace_members (db w))"
    and other: "wt_new_owner_id data \<noteq> u_id user"
  shows "w_owner_id workspace = u_id user \<and> w_id ws = w_id workspace \<and>
         w_owner_id ws = wt_new_owner_id data \<and>
         (\<exists>owner_role. owner_role_of (roles (db w')) = Some owner_role \<and>
            (\<exists>m \<in> set (workspace_members (db w')).
               active_owner owner_role (w_id workspace) m \<and> m_user_id m = wt_new_owner_id data)) \<and>
         owned (w_id workspace) (workspace_members (db w')) (roles (db w')) \<and>
         (\<forall>m \<in> set (workspace_members (db w')).
            m_workspace_id m = w_id workspace \<and> m_user_id m = u_id user \<and> deleted_at (m_soft m) = None
            \<longrightarrow> m_role_id m = wt_new_role_id data) \<and>
         (\<exists>a. audit_logs (db w') = audit_logs (db w) @ [a] \<and> al_action a = ''TRANSFER_OWNERSHIP'')"
proof -
  obtain nm r ms where own: "w_owner_id workspace = u_id user" "w_id ws = w_id workspace"
    "w_owner_id ws = wt_new_owner_id data"
    and nm: "nm \<in> set (workspace_members (db w))" "m_workspace_id nm = w_id workspace"
    "m_user_id nm = wt_new_owner_id data" "deleted_at (m_soft nm) = None" "m_status nm = MemberStatus_ACTIVE"
    and r: "owner_role_of (roles (db w)) = Some r" "roles (db w') = roles (db w)"
    and wr: "role_written (m_id nm) (r_id r) (workspace_members (db w)) ms"
    and dm: "demoted (w_id workspace) (u_id user) (wt_new_role_id data) ms (workspace_members (db w'))"
    and audit: "\<exists>a. audit_logs (db w') = audit_logs (db w) @ [a] \<and> al_action a = ''TRANSFER_OWNERSHIP''"
    using transfer_run [OF run u] .
  have u': "distinct (map m_id ms)" using u role_written_ids [OF wr] by simp
  obtain st where "nm\<lparr>m_role_id := r_id r, m_stamp := st\<rparr> \<in> set ms" (is "?m \<in> _")
    using role_written_row [OF wr u nm(1)] by blast
  then have "?m \<in> set (workspace_members (db w'))"
    by (rule demoted_other [OF dm]) (use u' nm other in simp_all)
  moreover have m: "active_owner r (w_id workspace) ?m" "m_user_id ?m = wt_new_owner_id data"
    using nm by (simp_all add: active_owner_def)
  ultimately have ex: "\<exists>m \<in> set (workspace_members (db w')).
      active_owner r (w_id workspace) m \<and> m_user_id m = wt_new_owner_id data" by blast
  have role: "owner_role_of (roles (db w')) = Some r" using r by simp
  have keeps: "owned (w_id workspace) (workspace_members (db w')) (roles (db w'))"
    unfolding owned_def role option.case using ex by blast
  have dem: "\<forall>m \<in> set (workspace_members (db w')).
      m_workspace_id m = w_id workspace \<and> m_user_id m = u_id user \<and> deleted_at (m_soft m) = None
      \<longrightarrow> m_role_id m = wt_new_role_id data"
    by (blast intro: demoted_row [OF dm u' _ _ _ _ one_membership_written [OF wr one, unfolded one_membership_def]])
  have new: "\<exists>owner_role. owner_role_of (roles (db w')) = Some owner_role \<and>
      (\<exists>m \<in> set (workspace_members (db w')).
         active_owner owner_role (w_id workspace) m \<and> m_user_id m = wt_new_owner_id data)"
    using role ex by (intro exI [of _ r] conjI)
  show ?thesis by (intro conjI) (rule own new keeps dem audit)+
qed

lemma transfer_ownership_effect_witness:
  "\<exists>ws w'. transfer_ownership (fx_user 1) fx_workspace \<lparr>wt_new_owner_id = 2, wt_new_role_id = 11\<rparr> fx
       = (Inr ws, w') \<and> w_owner_id ws = 2 \<and> owned 20 (workspace_members (db w')) (roles (db w'))"
proof -
  let ?data = "\<lparr>wt_new_owner_id = 2, wt_new_role_id = 11\<rparr>"
  have "succeeds (transfer_ownership (fx_user 1) fx_workspace ?data) fx" by code_simp
  then obtain ws w' where run: "transfer_ownership (fx_user 1) fx_workspace ?data fx = (Inr ws, w')"
    by (rule succeedsE)
  have u: "distinct (map m_id (workspace_members (db fx)))"
    and one: "one_membership (workspace_members (db fx))"
    and other: "wt_new_owner_id ?data \<noteq> u_id (fx_user 1)" and "w_id fx_workspace = 20" by code_simp+
  with transfer_ownership_effect [OF run u one other] run show ?thesis by auto
qed

text \<open>Nothing stops the owner from transferring the workspace to themselves: such a request
  returns, leaves them the owner of the workspace row, and gives their membership the role that was
  meant for the outgoing owner. The witness is a workspace that is left without an active owner.\<close>

lemma self_transfer_demotes_owner:
  assumes run: "transfer_ownership user workspace data w = (Inr ws, w')"
    and u: "distinct (map m_id (workspace_members (db w)))"
    and one: "one_membership (workspace_members (db w))"
    and self: "wt_new_owner_id data = u_id user"
  shows "w_owner_id ws = u_id user \<and>
         (\<forall>m \<in> set (workspace_members (db w')).
            m_workspace_id m = w_id workspace \<and> m_user_id m = u_id user \<and> deleted_at (m_soft m) = None
            \<longrightarrow> m_role_id m = wt_new_role_id data)"
proof -
  obtain nm :: WorkspaceMember and r :: Role and ms where own: "w_owner_id ws = wt_new_owner_id data"
    and wr: "role_written (m_id nm) (r_id r) (workspace_members (db w)) ms"
    and dm: "demoted (w_id workspace) (u_id user) (wt_new_role_id data) ms (workspace_members (db w'))"
    by (rule transfer_run [OF run u], rule that, assumption+)
  have u': "distinct (map m_id ms)" using u role_written_ids [OF wr] by simp
  from own self have "w_owner_id ws = u_id user" by simp
  then show ?thesis
    by (blast intro: demoted_row [OF dm u' _ _ _ _ one_membership_written [OF wr one, unfolded one_membership_def]])
qed

lemma self_transfer_demotes_owner_witness:
  "\<exists>ws w'. transfer_ownership (fx_user 1) fx_workspace \<lparr>wt_new_owner_id = 1, wt_new_role_id = 11\<rparr> fx
       = (Inr ws, w') \<and> w_owner_id ws = 1 \<and> \<not> owned 20 (workspace_members (db w')) (roles (db w'))"
proof -
  let ?data = "\<lparr>wt_new_owner_id = 1, wt_new_role_id = 11\<rparr>"
  let ?run = "transfer_ownership (fx_user 1) fx_workspace ?data fx"
  have "succeeds (transfer_ownership (fx_user 1) fx_workspace ?data) fx" by code_simp
  then obtain ws w' where run: "?run = (Inr ws, w')" by (rule succeedsE)
  have "\<not> owned 20 (workspace_members (db (snd ?run))) (roles (db (snd ?run)))" by code_simp
  with run have no: "\<not> owned 20 (workspace_members (db w')) (roles (db w'))" by simp
  have u: "distinct (map m_id (workspace_members (db fx)))"
    and one: "one_membership (workspace_members (db fx))"
    and self: "wt_new_owner_id ?data = u_id (fx_user 1)" and "u_id (fx_user 1) = 1" by code_simp+
  with self_transfer_demotes_owner [OF run u one self] run no show ?thesis by auto
qed

section \<open>Updates and deletion\<close>

text \<open>An update that sets a plan, or the updating user, cannot be saved: the audit entry
  gets the identity as a UUID object, which the JSON column cannot hold, and the flush raises.\<close>

lemma update_with_uuid_raises:
  assumes "wu_plan_id data = Some (Some i) \<or> wu_updated_by data = Some (Some i)"
  shows "\<exists>e. fst (update_workspace user workspace data w) = Inl e"
proof (cases "update_workspace user workspace data w")
  case (Pair r w')
  show ?thesis
  proof (cases r)
    case (Inl e)
    with Pair show ?thesis by simp
  next
    case (Inr ws)
    have "JUuid i \<in> snd ` set (update_data data)"
      using assms by (auto simp: update_data_def entry_def json_uuid_def)
    then have "\<not> serializable_object (Some (update_data data))" and ne: "update_data data \<noteq> []"
      by (force simp: serializable_object_def list_all_iff)+
    with Pair Inr show ?thesis
      unfolding update_workspace_def create_audit_log_def Let_def
      by (simp only: if_False) (elim session_elims, simp)
  qed
qed

definition fx_workspace_update :: WorkspaceUpdate where
  "fx_workspace_update =
     \<lparr>wu_name = None, wu_slug = None, wu_logo_url = None, wu_timezone = None, wu_industry = None,
      wu_country = None, wu_default_language = None, wu_status = None, wu_plan_id = Some (Some 40),
      wu_updated_by = None\<rparr>"

lemma update_with_uuid_raises_witness:
  "\<exists>e. fst (update_workspace (fx_user 1) fx_workspace fx_workspace_update fx) = Inl e"
  by (rule update_with_uuid_raises [where i = 40]) (simp add: fx_workspace_update_def)

end
