(* ===== verification/Row_Life.thy ===== *)
theory Row_Life
  imports Base_Repository
begin

text \<open>
  Life cycles of rows. A contract that says how one row of a table may change (\<open>moves\<close>) is lifted to
  the whole table: rows are never dropped, each one moves, and new ones come at the end. What a
  statement of the session must establish for its own row then gives the step of the table, and the
  steps compose through a handler because the lifted relation is a preorder (locale \<open>table_step\<close>).
\<close>

definition rows_evolve :: "('r \<Rightarrow> uuid) \<Rightarrow> ('r \<Rightarrow> 'r \<Rightarrow> bool) \<Rightarrow> 'r list \<Rightarrow> 'r list \<Rightarrow> bool" where
  "rows_evolve key moves xs ys \<longleftrightarrow>
     (distinct (map key xs) \<longrightarrow>
        distinct (map key ys) \<and> (\<exists>zs new. ys = zs @ new \<and> list_all2 moves xs zs))"

lemma rows_evolve_row:
  assumes "rows_evolve key moves xs ys" and "distinct (map key xs)" and "x \<in> set xs"
  shows "\<exists>y \<in> set ys. moves x y"
proof -
  from assms(1,2) obtain zs new where ys: "ys = zs @ new" and mv: "list_all2 moves xs zs"
    by (auto simp: rows_evolve_def)
  from mv assms(3) have "\<exists>y \<in> set zs. moves x y" by (induction rule: list_all2_induct) auto
  with ys show ?thesis by auto
qed

text \<open>A handler that ends by returning what a statement gave ends where the statement did.\<close>

lemma bindM_tail:
  assumes "bindM m (\<lambda>x. returnM (g x)) w = (r, w')"
  obtains y where "m w = (y, w')"
  using assms by (auto simp: bindM_def split: prod.splits sum.splits)

lemma if_runE:
  assumes "(if b then m else n) w = (r, w')"
  obtains "b" and "m w = (r, w')" | "\<not> b" and "n w = (r, w')"
  using assms by (cases b) simp_all

locale row_life = repository M for M :: "'r model" +
  fixes moves :: "'r \<Rightarrow> 'r \<Rightarrow> bool"
  assumes moves_refl [simp]: "moves r r"
    and moves_trans: "moves r s \<Longrightarrow> moves s u \<Longrightarrow> moves r u"
    and moves_pk: "moves r s \<Longrightarrow> pk M s = pk M r"
    and moves_touch: "moves r s \<Longrightarrow> s \<noteq> r \<Longrightarrow> moves r (touch M t s)"
begin

abbreviation evolve :: "'r list \<Rightarrow> 'r list \<Rightarrow> bool" where
  "evolve \<equiv> rows_evolve (pk M) moves"

lemma evolve_refl [simp]: "evolve xs xs"
proof -
  have "list_all2 moves xs xs" by (rule list_all2_refl) simp
  then show ?thesis unfolding rows_evolve_def by (metis append_Nil2)
qed

lemma evolve_trans:
  assumes "evolve xs ys" and "evolve ys zs"
  shows "evolve xs zs"
  unfolding rows_evolve_def
proof
  assume "distinct (map (pk M) xs)"
  with assms(1) obtain ys1 n1 where
    y: "distinct (map (pk M) ys)" "ys = ys1 @ n1" "list_all2 moves xs ys1"
    by (auto simp: rows_evolve_def)
  with assms(2) obtain zs1 n2 where
    z: "distinct (map (pk M) zs)" "zs = zs1 @ n2" "list_all2 moves ys zs1"
    by (auto simp: rows_evolve_def)
  from z(3) y(2) obtain a b where ab: "zs1 = a @ b" "list_all2 moves ys1 a"
    by (auto simp: list_all2_append1)
  have "list_all2 moves xs a"
    using list_all2_trans [OF _ y(3) ab(2), of moves] moves_trans by blast
  with z(1,2) ab(1)
  show "distinct (map (pk M) zs) \<and> (\<exists>u new. zs = u @ new \<and> list_all2 moves xs u)"
    by (metis append.assoc)
qed

sublocale table_step "tbl M" evolve
  by unfold_locales (simp, rule evolve_trans)

lemma evolve_map:
  assumes "\<And>x. x \<in> set xs \<Longrightarrow> moves x (f x)"
  shows "evolve xs (map f xs)"
proof -
  have "map (pk M) (map f xs) = map (pk M) xs"
    using assms by (simp add: moves_pk)
  moreover have "list_all2 moves xs (map f xs)"
    using assms by (simp add: list_all2_map2 list.rel_refl_strong)
  ultimately show ?thesis unfolding rows_evolve_def by (metis append_Nil2)
qed

lemma evolve_edit:
  assumes r: "r \<in> set xs" "pk M r = i" and m: "moves r r'"
  shows "evolve xs (upd_where (\<lambda>y. pk M y = i) (\<lambda>_. r') xs)"
proof (cases "distinct (map (pk M) xs)")
  case False
  then show ?thesis by (simp add: rows_evolve_def)
next
  case True
  have "x = r" if "x \<in> set xs" "pk M x = i" for x
    using that r True by (metis distinct_map_inj)
  then show ?thesis
    unfolding upd_where_def by (intro evolve_map) (use m in auto)
qed

lemma evolve_append: "\<forall>x \<in> set xs. pk M x \<noteq> pk M r \<Longrightarrow> evolve xs (xs @ [r])"
proof -
  assume fresh: "\<forall>x \<in> set xs. pk M x \<noteq> pk M r"
  have "list_all2 moves xs xs" by (rule list_all2_refl) simp
  with fresh show ?thesis by (auto simp: rows_evolve_def)
qed

lemma life_new: "obeys rel (flush_new M r)"
proof (rule obeysI)
  fix w x w'
  assume "flush_new M r w = (x, w')"
  then show "rel w w'"
    by (auto simp: flush_new_def insert_row_def find_pk_None split: if_splits intro!: evolve_append)
qed

lemma life_create: "obeys rel (create M r)"
  unfolding create_def by (rule life_new)

lemma life_dirty:
  assumes run: "flush_dirty M i f w = (x, w')"
    and f: "\<And>r. find_pk M i (db w) = Some r \<Longrightarrow> moves r (f r)"
  shows "rel w w'"
proof (cases "find_pk M i (db w)")
  case None
  with run show ?thesis by (auto simp: flush_dirty_def)
next
  case (Some r)
  have r: "r \<in> set (tbl M (db w))" "pk M r = i" using find_pk_Some [OF Some] by simp_all
  have mv: "moves r (f r)" by (rule f [OF Some])
  let ?y = "touch M (clock w (ticks w)) (f r)"
  have mv': "moves r ?y" if "f r \<noteq> r" using mv that by (rule moves_touch)
  have "rel w w'" if "f r = r" using that run Some by (auto simp: flush_dirty_def)
  moreover have "rel w w'" if ne: "f r \<noteq> r"
  proof -
    have "pk M ?y = i" using moves_pk [OF mv'] ne r(2) by simp
    with run Some ne evolve_edit [OF r mv' [OF ne]] show ?thesis
      by (auto simp: flush_dirty_def update_row_def split: if_splits)
  qed
  ultimately show ?thesis by blast
qed

lemma life_update_where:
  assumes "\<And>r t. p r \<Longrightarrow> moves r (touch M t (f r))"
  shows "obeys rel (update_where M p f)"
proof (rule obeysI)
  fix w x w'
  assume "update_where M p f w = (x, w')"
  moreover have "evolve (tbl M (db w)) (upd_where p (\<lambda>r. touch M t (f r)) (tbl M (db w)))" for t
    unfolding upd_where_def by (rule evolve_map) (use assms in auto)
  ultimately show "rel w w'"
    by (auto simp: update_where_def Let_def split: if_splits)
qed

text \<open>An edit of a stored row.\<close>

lemma life_stored:
  assumes "r \<in> set (tbl M (db w))" and "moves r (f r)"
    and run: "flush_dirty M (pk M r) f w2 = (x, w')" and "db w2 = db w"
    and u: "distinct (map (pk M) (tbl M (db w)))"
  shows "rel w w'"
proof -
  have "s = r" if "find_pk M (pk M r) (db w2) = Some s" for s
    using that assms(1) u assms(4) by (metis distinct_map_inj find_pk_Some)
  then have "rel w2 w'" using assms(2) by (intro life_dirty [OF run]) simp
  then show ?thesis using assms(4) by simp
qed

lemma life_loaded:
  assumes "get_by_id M i w = (Inr (Some r), w1)" and "moves r (f r)"
    and run: "flush_dirty M (pk M r) f w2 = (x, w')" and "db w2 = db w"
    and u: "distinct (map (pk M) (tbl M (db w)))"
  shows "rel w w'"
  by (rule life_stored [OF _ assms(2-5)]) (use get_by_id_Some [OF assms(1)] in simp)

text \<open>Handlers that load a row, check it, edit it and go on.\<close>

lemma life_read_then:
  assumes ro: "read_only load"
    and body: "\<And>s w r w'. load w = (Inr s, w) \<Longrightarrow> distinct (map (pk M) (tbl M (db w))) \<Longrightarrow>
      body s w = (r, w') \<Longrightarrow> rel w w'"
  shows "obeys rel (bindM load body)"
proof (rule obeysI)
  fix w r w' assume run: "bindM load body w = (r, w')"
  show "rel w w'"
  proof (cases "distinct (map (pk M) (tbl M (db w)))")
    case False
    then show ?thesis by (simp add: rows_evolve_def)
  next
    case True
    obtain v w1 where load: "load w = (v, w1)" by fastforce
    have w1: "w1 = w" using read_onlyD [OF ro load] .
    show ?thesis
    proof (cases v)
      case (Inl e)
      with run load w1 have "w' = w" by (simp add: bindM_def)
      then show ?thesis by (simp only: evolve_refl)
    next
      case (Inr s)
      with run load w1 have "body s w = (r, w')" by (simp add: bindM_def)
      with body [OF _ True] load Inr w1 show ?thesis by blast
    qed
  qed
qed

lemma life_then_read:
  assumes "thenM m k w = (r, w')" and "read_only m" and "k w = (r, w') \<Longrightarrow> rel w w'"
  shows "rel w w'"
proof -
  obtain v w1 where m: "m w = (v, w1)" by fastforce
  have w1: "w1 = w" using read_onlyD [OF assms(2) m] .
  show ?thesis
  proof (cases v)
    case (Inl e)
    with assms(1) m w1 have "w' = w" by (simp add: thenM_def bindM_def)
    then show ?thesis by (simp only: evolve_refl)
  next
    case (Inr x)
    with assms(1,3) m w1 show ?thesis by (simp add: thenM_def bindM_def)
  qed
qed

lemma life_case:
  assumes "(case x of None \<Rightarrow> n | Some s \<Rightarrow> k s) w = (r, w')" and "x = None \<Longrightarrow> obeys rel n"
    and "\<And>s. x = Some s \<Longrightarrow> k s w = (r, w') \<Longrightarrow> rel w w'"
  shows "rel w w'"
proof (cases x)
  case None
  with assms(1) have "n w = (r, w')" by simp
  with obeysD [OF assms(2) [OF None]] show ?thesis by blast
next
  case (Some s)
  with assms(1) have "k s w = (r, w')" by simp
  with assms(3) [OF Some] show ?thesis by blast
qed

lemma life_guard:
  assumes "thenM (raise_if b e) k w = (r, w')" and "\<not> b \<Longrightarrow> k w = (r, w') \<Longrightarrow> rel w w'"
  shows "rel w w'"
proof (cases b)
  case True
  with assms(1) have "w' = w" by simp
  then show ?thesis by (simp only: evolve_refl)
next
  case False
  with assms show ?thesis by simp
qed

lemma life_update:
  assumes "update M (pk M s) f w = (r, w')" and "s \<in> set (tbl M (db w))"
    and "distinct (map (pk M) (tbl M (db w)))" and "moves s (f s)"
  shows "rel w w'"
proof -
  have "flush_dirty M (pk M s) f w = (r, w')" using assms(1) by (simp add: update_def)
  from life_stored [OF assms(2) assms(4) this refl assms(3)] show ?thesis .
qed

lemma life_edit_then:
  assumes "bindM (update M (pk M s) f) k w = (r, w')" and "s \<in> set (tbl M (db w))"
    and "distinct (map (pk M) (tbl M (db w)))" and "moves s (f s)" and "\<And>u. obeys rel (k u)"
  shows "rel w w'"
proof -
  obtain v w1 where run: "flush_dirty M (pk M s) f w = (v, w1)" by fastforce
  have step: "rel w w1" by (rule life_stored [OF assms(2) assms(4) run refl assms(3)])
  show ?thesis
  proof (cases v)
    case (Inl e)
    with assms(1) run have "w' = w1" by (simp add: bindM_def update_def)
    with step show ?thesis by (simp only:)
  next
    case (Inr u)
    with assms(1) run have "k u w1 = (r, w')" by (simp add: bindM_def update_def)
    from step obeysD [OF assms(5) this] show ?thesis by (rule evolve_trans)
  qed
qed

text \<open>The shape "load, check, assign, flush" of the repositories.\<close>

lemma life_edit:
  assumes "\<And>a r. P r \<Longrightarrow> moves r (f a r)"
    and "\<And>w r x w'. get_by_id M i w = (Inr (Some r), w) \<Longrightarrow> body r w = (x, w') \<Longrightarrow>
           db w' = db w \<or>
           (\<exists>a w2 y. P r \<and> flush_dirty M (pk M r) (f a) w2 = (y, w') \<and> db w2 = db w)"
  shows "obeys rel (bindM (get_by_id M i) (\<lambda>found. case found of None \<Rightarrow> returnM z | Some r \<Rightarrow> body r))"
proof (rule obeysI)
  fix w x w'
  assume run: "bindM (get_by_id M i) (\<lambda>found. case found of None \<Rightarrow> returnM z | Some r \<Rightarrow> body r) w = (x, w')"
  show "rel w w'"
  proof (cases "get_by_id M i w")
    case (Pair v w1)
    have w1: "w1 = w" using read_onlyD [OF read_only_get_by_id Pair] .
    consider (e) e where "v = Inl e" | (n) "v = Inr None" | (s) r where "v = Inr (Some r)"
      by (cases v) (auto split: option.splits)
    then show ?thesis
    proof cases
      case (s r)
      with Pair w1 have g: "get_by_id M i w = (Inr (Some r), w)" by simp
      with run have "body r w = (x, w')" by (simp add: bindM_def)
      from assms(2) [OF g this] show ?thesis
      proof (elim disjE exE conjE)
        assume "db w' = db w"
        then show ?thesis by simp
      next
        fix a w2 y
        assume w2: "P r" "flush_dirty M (pk M r) (f a) w2 = (y, w')" "db w2 = db w"
        show ?thesis
        proof (cases "distinct (map (pk M) (tbl M (db w)))")
          case True
          show ?thesis by (rule life_loaded [OF g assms(1) [OF w2(1)] w2(2) w2(3) True])
        next
          case False
          then show ?thesis by (simp add: rows_evolve_def)
        qed
      qed
    qed (use run Pair w1 in \<open>auto simp: bindM_def\<close>)
  qed
qed

lemma life_soft_delete:
  assumes m: "\<And>r t. moves r (mark_deleted M t r)" and s: "soft M \<noteq> None"
  shows "obeys rel (delete M i True)"
proof -
  have body: "\<exists>now w2 y. flush_dirty M (pk M r) (mark_deleted M now) w2 = (y, w') \<and> db w2 = db w"
    if run: "thenM (if True \<and> soft M \<noteq> None
        then bindM get_utc_now (\<lambda>now. thenM (flush_dirty M (pk M r) (mark_deleted M now)) (returnM ()))
        else thenM (delete_where M (\<lambda>x. pk M x = i)) (returnM ())) (returnM True) w = (x, w')" for r w x w'
  proof -
    let ?w2 = "w\<lparr>ticks := Suc (ticks w)\<rparr>"
    obtain y w3 where f: "flush_dirty M (pk M r) (mark_deleted M (clock w (ticks w))) ?w2 = (y, w3)" by fastforce
    with run s have "w3 = w'" by (cases y) (auto simp: bindM_def)
    show ?thesis by (rule exI [of _ "clock w (ticks w)"], rule exI [of _ ?w2], rule exI [of _ y]) (use f \<open>w3 = w'\<close> in simp)
  qed
  show ?thesis
    unfolding delete_def
    by (rule life_edit [where P = "\<lambda>_. True" and f = "mark_deleted M", OF m]) (use body in blast)
qed

end

end
