(* ===== verification/Invitation_Service.thy ===== *)
theory Invitation_Service
  imports Workspace_Service Row_Life
begin

text \<open>
  \<open>WorkspaceInvitationService\<close> (\<open>app/services/workspace_invitation.py\<close>) with the sender it calls
  (\<open>app/services/email.py\<close>): inviting, revoking, resending and accepting. The sender only logs its
  message; the model records it.
\<close>

section \<open>The sender\<close>

definition send_invitation :: "string \<Rightarrow> string \<Rightarrow> string \<Rightarrow> string option \<Rightarrow> ('z, bool) io" where
  "send_invitation email workspace_name tok inviter_name =
     (let invite_url = ''https://frontend-url.com/invites/'' @ tok @ ''/accept'';
          inviter = str_or inviter_name ''Someone'' in
     thenM (send_email
       \<lparr>to_address = email,
        email_body =
          [''--- MOCK EMAIL SENDER ---'',
           ''To: '' @ email,
           ''Subject: You have been invited to join '' @ workspace_name,
           ''Body: '' @ inviter @ '' invited you to join their workspace. Click here to accept: '' @ invite_url,
           ''-------------------------'']\<rparr>)
       (returnM True))"

definition resend_invitation :: "string \<Rightarrow> string \<Rightarrow> string \<Rightarrow> ('z, bool) io" where
  "resend_invitation email workspace_name tok =
     send_invitation email workspace_name tok (Some ''Workspace Admin (Resend)'')"

section \<open>The handlers\<close>

definition get_invites :: "uuid \<Rightarrow> ('z, WorkspaceInvite list) io" where
  "get_invites ws = get_pending_invites ws"

definition new_invite :: "uuid \<Rightarrow> string \<Rightarrow> uuid \<Rightarrow> uuid \<Rightarrow> time \<Rightarrow> WorkspaceInvite" where
  "new_invite ws email role_id inviter_id expires_at =
     \<lparr>i_id = 0, i_stamp = no_stamp, i_workspace_id = ws, i_email = email, i_role_id = role_id,
      i_inviter_id = Some inviter_id, i_token = [], i_status = InviteStatus_PENDING,
      i_accepted_at = None, i_revoked_at = None, i_expires_at = expires_at\<rparr>"

text \<open>\<open>f"{first or ''} {last or ''}".strip() or "A member"\<close>\<close>

definition inviter_name :: "User \<Rightarrow> string" where
  "inviter_name user =
     (let s = py_strip (str_or (u_first_name user) [] @ '' '' @ str_or (u_last_name user) []) in
      if s = [] then ''A member'' else s)"

text \<open>"Prevent duplicate member".\<close>

definition reject_existing_member :: "Workspace \<Rightarrow> string \<Rightarrow> ('z, unit) io" where
  "reject_existing_member workspace email =
     bindM (get_by_email email False) (\<lambda>existing_user.
     case existing_user of
       None \<Rightarrow> returnM ()
     | Some u \<Rightarrow>
         bindM (get_member (w_id workspace) (u_id u)) (\<lambda>existing_member.
         case existing_member of
           None \<Rightarrow> returnM ()
         | Some m \<Rightarrow>
             raise_if (m_status m \<noteq> MemberStatus_REMOVED)
               (HTTPException 400 ''User is already a member of this workspace'')))"

definition create_invite :: "User \<Rightarrow> Workspace \<Rightarrow> string \<Rightarrow> uuid \<Rightarrow> ('z, WorkspaceInvite) io" where
  "create_invite user workspace raw_email role_id =
     (let email = py_strip (py_lower raw_email) in
     bindM (get_by_id Role_model role_id) (\<lambda>role.
     thenM (raise_if (role = None) (HTTPException 404 ''Role not found'')) (
     thenM (reject_existing_member workspace email) (
     bindM (get_pending_invites (w_id workspace)) (\<lambda>pending.
     thenM (forM pending (\<lambda>p.
              whenM (i_email p = email) (thenM (repo_revoke_invite (i_id p)) (returnM ())))) (
     bindM get_utc_now (\<lambda>now.
     bindM (create_invitation (new_invite (w_id workspace) email role_id (u_id user) (now + days 7)))
       (\<lambda>invite.
     thenM (send_invitation email (w_name workspace) (i_token invite) (Some (inviter_name user))) (
     thenM (create_audit_log ''INVITE_SENT'' ''workspace_invite'' (str_uuid (i_id invite))
              (Some (w_id workspace)) (Some (u_id user)) None
              (Some [(''email'', JStr email), (''role_id'', JStr (str_uuid role_id))])) (
     thenM (create Notification_model
              (new_notification (w_id workspace) (u_id user) ''Invitation Sent''
                 (''Invitation successfully sent to '' @ email @ ''.'')
                 NotificationType_SYSTEM NotificationPriority_LOW))
       (returnM invite)))))))))))"

text \<open>The invitation with this id, when it belongs to the workspace; both \<open>revoke_invite\<close> and
  \<open>resend_invite\<close> start with it.\<close>

definition workspace_invite :: "Workspace \<Rightarrow> uuid \<Rightarrow> ('z, WorkspaceInvite) io" where
  "workspace_invite workspace invite_id =
     bindM (get_by_id WorkspaceInvite_model invite_id) (\<lambda>invite.
     case invite of
       None \<Rightarrow> raiseM (HTTPException 404 ''Invitation not found'')
     | Some i \<Rightarrow>
         if i_workspace_id i \<noteq> w_id workspace then raiseM (HTTPException 404 ''Invitation not found'')
         else returnM i)"

definition revoke_invite :: "User \<Rightarrow> Workspace \<Rightarrow> uuid \<Rightarrow> ('z, WorkspaceInvite) io" where
  "revoke_invite user workspace invite_id =
     bindM (workspace_invite workspace invite_id) (\<lambda>invite.
     thenM (raise_if (i_status invite \<noteq> InviteStatus_PENDING)
              (HTTPException 400 ''Only pending invitations can be revoked'')) (
     bindM (repo_revoke_invite (i_id invite)) (\<lambda>revoked.
     bindM (attribute_of revoked) (\<lambda>invite.
     thenM (create_audit_log ''INVITE_REVOKED'' ''workspace_invite'' (str_uuid (i_id invite))
              (Some (w_id workspace)) (Some (u_id user)) None None)
       (returnM invite)))))"

definition resend_invite :: "User \<Rightarrow> Workspace \<Rightarrow> uuid \<Rightarrow> ('z, WorkspaceInvite) io" where
  "resend_invite user workspace invite_id =
     bindM (workspace_invite workspace invite_id) (\<lambda>invite.
     thenM (raise_if (i_status invite \<noteq> InviteStatus_PENDING)
              (HTTPException 400 ''Only pending invitations can be resent'')) (
     bindM get_utc_now (\<lambda>now.
     bindM (repo_resend_invite (i_id invite) (now + days 7)) (\<lambda>resent.
     bindM (attribute_of resent) (\<lambda>invite.
     thenM (resend_invitation (i_email invite) (w_name workspace) (i_token invite)) (
     thenM (create_audit_log ''INVITE_RESENT'' ''workspace_invite'' (str_uuid (i_id invite))
              (Some (w_id workspace)) (Some (u_id user)) None None)
       (returnM invite)))))))"

text \<open>The member row of an accepted invitation; \<open>accepted_at\<close> and \<open>joined_at\<close> are two readings.\<close>

definition joining_member :: "WorkspaceInvite \<Rightarrow> User \<Rightarrow> time \<Rightarrow> time \<Rightarrow> WorkspaceMember" where
  "joining_member invite user accepted_at joined_at =
     new_member (i_workspace_id invite) (u_id user) (i_role_id invite) (i_inviter_id invite)
       (Some accepted_at) joined_at"

text \<open>The checks on the invitation itself; \<open>or\<close> reads the clock only when the status is not \<open>EXPIRED\<close>.\<close>

definition check_invite :: "WorkspaceInvite \<Rightarrow> ('z, unit) io" where
  "check_invite invite =
     thenM (raise_if (i_status invite = InviteStatus_REVOKED)
              (HTTPException 400 ''Invitation has been revoked'')) (
     thenM (raise_if (i_status invite = InviteStatus_ACCEPTED)
              (HTTPException 400 ''Invitation has already been accepted'')) (
     if i_status invite = InviteStatus_EXPIRED
     then raiseM (HTTPException 400 ''Invitation has expired'')
     else bindM get_utc_now (\<lambda>now.
            raise_if (i_expires_at invite < now) (HTTPException 400 ''Invitation has expired''))))"

definition join_workspace :: "WorkspaceInvite \<Rightarrow> User \<Rightarrow> ('z, unit) io" where
  "join_workspace invite user =
     bindM (get_member (i_workspace_id invite) (u_id user)) (\<lambda>existing_member.
     if (case existing_member of None \<Rightarrow> False | Some m \<Rightarrow> m_status m \<noteq> MemberStatus_REMOVED)
     then returnM ()
     else
       bindM get_utc_now (\<lambda>accepted_at.
       bindM get_utc_now (\<lambda>joined_at.
       thenM (create WorkspaceMember_model (joining_member invite user accepted_at joined_at))
         (returnM ()))))"

definition accept_invite :: "User \<Rightarrow> string \<Rightarrow> ('z, unit) io" where
  "accept_invite authenticated_user tok =
     bindM (get_by_token tok) (\<lambda>found.
     case found of
       None \<Rightarrow> raiseM (HTTPException 404 ''Invalid invitation token'')
     | Some invite \<Rightarrow>
     thenM (check_invite invite) (
     thenM (raise_if (i_email invite \<noteq> u_email authenticated_user)
              (HTTPException 403 ''Invitation email does not match authenticated user email'')) (
     thenM (join_workspace invite authenticated_user) (
     thenM (repo_accept_invite (i_id invite)) (
     thenM (create_audit_log ''INVITE_ACCEPTED'' ''workspace_invite'' (str_uuid (i_id invite))
              (Some (i_workspace_id invite)) (Some (u_id authenticated_user)) None None) (
     case i_inviter_id invite of
       None \<Rightarrow> returnM ()
     | Some inviter_id \<Rightarrow>
         thenM (create Notification_model
                  (new_notification (i_workspace_id invite) inviter_id ''Invitation Accepted''
                     (u_email authenticated_user @ '' has accepted your invitation.'')
                     NotificationType_SYSTEM NotificationPriority_NORMAL))
           (returnM ())))))))"

section \<open>The life of an invitation\<close>

text \<open>
  What one step may do to an invitation: its identity, workspace, address, role, inviter and token never
  change, and once it is not pending it never changes again.
\<close>

definition invite_moves :: "WorkspaceInvite \<Rightarrow> WorkspaceInvite \<Rightarrow> bool" where
  "invite_moves i j \<longleftrightarrow>
     i_id j = i_id i \<and> i_workspace_id j = i_workspace_id i \<and> i_email j = i_email i \<and>
     i_role_id j = i_role_id i \<and> i_inviter_id j = i_inviter_id i \<and> i_token j = i_token i \<and>
     (i_status i \<noteq> InviteStatus_PENDING \<longrightarrow> j = i)"

interpretation life: row_life WorkspaceInvite_model invite_moves
  by unfold_locales (auto simp: invite_moves_def)

lemma life_repo_revoke: "obeys life.rel (repo_revoke_invite i)"
  unfolding repo_revoke_invite_def
  by (rule life.life_edit [where P = "\<lambda>i. i_status i = InviteStatus_PENDING" and
        f = "\<lambda>now i. i\<lparr>i_status := InviteStatus_REVOKED, i_revoked_at := Some now\<rparr>"])
    (auto simp: invite_moves_def split: if_splits elim!: bindM_tail intro!: exI)

lemma life_repo_resend: "obeys life.rel (repo_resend_invite i e)"
  unfolding repo_resend_invite_def
  by (rule life.life_edit [where P = "\<lambda>i. i_status i = InviteStatus_PENDING" and
        f = "\<lambda>_ i. i\<lparr>i_expires_at := e\<rparr>"])
    (auto simp: invite_moves_def split: if_splits elim!: bindM_tail intro!: exI)

lemma life_repo_accept: "obeys life.rel (repo_accept_invite i)"
  unfolding repo_accept_invite_def
  by (rule life.life_edit [where P = "\<lambda>i. i_status i = InviteStatus_PENDING" and
        f = "\<lambda>now i. i\<lparr>i_status := InviteStatus_ACCEPTED, i_accepted_at := Some now\<rparr>"])
    (auto simp: invite_moves_def split: if_splits elim!: bindM_tail intro!: exI)

lemma life_expire: "obeys life.rel expire_invites"
  unfolding expire_invites_def
  by (intro life.obeys_bind life.obeys_clock life.life_update_where) (auto simp: invite_moves_def)

lemma life_create_invitation: "obeys life.rel (create_invitation i)"
  unfolding create_invitation_def by (intro life.obeys_bind life.obeys_token life.life_new)

lemma life_audit: "obeys life.rel (create_audit_log a t k ws u ov nv)"
  by (rule life.frame_create_audit_log) simp

lemma life_notification: "obeys life.rel (create Notification_model n)"
  by (rule life.frame_create) simp

lemma life_member: "obeys life.rel (create WorkspaceMember_model m)"
  by (rule life.frame_create) simp

lemmas life_intros = life.handler_intros life_repo_revoke life_repo_resend life_repo_accept
  life_create_invitation life_audit life_notification life_member life.life_create

lemma life_send: "obeys life.rel (send_invitation a b c d)"
  unfolding send_invitation_def by (intro life_intros)

lemma life_attribute: "obeys life.rel (attribute_of x)"
  unfolding attribute_of_def by (intro life_intros)

lemma life_create_invite: "obeys life.rel (create_invite user workspace email role_id)"
  unfolding create_invite_def reject_existing_member_def by (intro life_intros life_send)

lemma life_workspace_invite: "obeys life.rel (workspace_invite workspace i)"
  unfolding workspace_invite_def by (intro life_intros)

lemma life_revoke_invite: "obeys life.rel (revoke_invite user workspace i)"
  unfolding revoke_invite_def by (intro life_intros life_workspace_invite life_attribute)

lemma life_resend_invite: "obeys life.rel (resend_invite user workspace i)"
  unfolding resend_invite_def resend_invitation_def
  by (intro life_intros life_workspace_invite life_attribute life_send)

lemma life_accept_invite: "obeys life.rel (accept_invite user tok)"
  unfolding accept_invite_def check_invite_def join_workspace_def by (intro life_intros)

datatype invite_request =
    CreateInvite User Workspace string uuid
  | RevokeInvite User Workspace uuid
  | ResendInvite User Workspace uuid
  | AcceptInvite User string
  | ExpireInvites

fun serve_invite :: "invite_request \<Rightarrow> ('z, unit) io" where
  "serve_invite (CreateInvite u ws e r) = thenM (create_invite u ws e r) (returnM ())"
| "serve_invite (RevokeInvite u ws i) = thenM (revoke_invite u ws i) (returnM ())"
| "serve_invite (ResendInvite u ws i) = thenM (resend_invite u ws i) (returnM ())"
| "serve_invite (AcceptInvite u tok) = accept_invite u tok"
| "serve_invite ExpireInvites = thenM expire_invites (returnM ())"

text \<open>One request, whatever its outcome.\<close>

inductive invite_step :: "'z world_scheme \<Rightarrow> 'z world_scheme \<Rightarrow> bool" where
  served: "serve_invite req w = (r, w') \<Longrightarrow> invite_step w w'"

inductive_cases invite_stepE: "invite_step w w'"

lemma life_serve: "obeys life.rel (serve_invite req)"
proof (cases req)
  case CreateInvite
  then show ?thesis by (simp only: serve_invite.simps) (intro life_intros life_create_invite)
next
  case RevokeInvite
  then show ?thesis by (simp only: serve_invite.simps) (intro life_intros life_revoke_invite)
next
  case ResendInvite
  then show ?thesis by (simp only: serve_invite.simps) (intro life_intros life_resend_invite)
next
  case AcceptInvite
  then show ?thesis by (simp only: serve_invite.simps life_accept_invite)
next
  case ExpireInvites
  then show ?thesis by (simp only: serve_invite.simps) (intro life_intros life_expire)
qed

lemma life_invite_step: "invite_step w w' \<Longrightarrow> life.rel w w'"
  by (erule invite_stepE) (rule obeysD [OF life_serve])

text \<open>C6 (invariant). Whatever requests are served, an invitation is never dropped, its workspace,
  address, role, inviter and token never change, and once it was accepted, revoked or expired it never
  changes again; only a pending invitation moves.\<close>

theorem invitation_lifecycle:
  assumes "invite_step\<^sup>*\<^sup>* w w'" and "distinct (map i_id (workspace_invites (db w)))"
    and "i \<in> set (workspace_invites (db w))"
  shows "\<exists>j \<in> set (workspace_invites (db w')).
           i_id j = i_id i \<and> i_workspace_id j = i_workspace_id i \<and> i_email j = i_email i \<and>
           i_role_id j = i_role_id i \<and> i_inviter_id j = i_inviter_id i \<and> i_token j = i_token i \<and>
           (i_status i \<noteq> InviteStatus_PENDING \<longrightarrow> j = i)"
proof -
  from assms(1) have "life.rel w w'" by (rule life.closure_obeys) (rule life_invite_step)
  from rows_evolve_row [OF this] assms(2,3) show ?thesis by (auto simp: invite_moves_def)
qed

definition fx_invite :: WorkspaceInvite where
  "fx_invite =
     \<lparr>i_id = 50, i_stamp = no_stamp, i_workspace_id = 20, i_email = ''bob@x.org'', i_role_id = 11,
      i_inviter_id = Some 1, i_token = ''tok'', i_status = InviteStatus_PENDING, i_accepted_at = None,
      i_revoked_at = None, i_expires_at = seconds 100\<rparr>"

text \<open>Bob is invited; his earlier membership, if any, is the argument.\<close>

definition fx_invited :: "WorkspaceMember list \<Rightarrow> world" where
  "fx_invited bob = world_of (fx_database
     \<lparr>workspace_members := fx_member 31 1 10 # bob, workspace_invites := [fx_invite]\<rparr>)"

lemma invitation_lifecycle_witness:
  "\<exists>j \<in> set (workspace_invites (db (snd (serve_invite (AcceptInvite (fx_user 2) ''tok'') (fx_invited []))))).
     i_email j = ''bob@x.org''"
proof -
  let ?req = "AcceptInvite (fx_user 2) ''tok''"
  have "invite_step\<^sup>*\<^sup>* (fx_invited []) (snd (serve_invite ?req (fx_invited [])))"
    by (rule r_into_rtranclp, rule invite_step.served, rule prod.collapse [symmetric])
  moreover have "distinct (map i_id (workspace_invites (db (fx_invited []))))" by code_simp
  moreover have "fx_invite \<in> set (workspace_invites (db (fx_invited [])))" by (simp add: fx_invited_def)
  ultimately have "\<exists>j \<in> set (workspace_invites (db (snd (serve_invite ?req (fx_invited []))))).
      i_email j = i_email fx_invite"
    using invitation_lifecycle by blast
  then show ?thesis by (simp add: fx_invite_def)
qed

section \<open>Inviting\<close>

text \<open>What inviting an address does to the earlier invitations.\<close>

definition superseded :: "uuid \<Rightarrow> string \<Rightarrow> WorkspaceInvite \<Rightarrow> WorkspaceInvite \<Rightarrow> bool" where
  "superseded ws email i j \<longleftrightarrow>
     j = i \<or>
     i_workspace_id i = ws \<and> i_email i = email \<and> i_status i = InviteStatus_PENDING \<and>
     i_status j = InviteStatus_REVOKED \<and> i_id j = i_id i \<and> i_workspace_id j = ws \<and> i_email j = email"

lemma superseded_ids: "list_all2 (superseded ws e) xs ys \<Longrightarrow> map i_id ys = map i_id xs"
  by (induction rule: list_all2_induct) (auto simp: superseded_def)

lemma superseded_edit:
  assumes "list_all2 (superseded ws e) xs ys" and "distinct (map i_id xs)"
    and "p \<in> set xs" "i_email p = e" "i_workspace_id p = ws" "i_status p = InviteStatus_PENDING"
    and "i_status r' = InviteStatus_REVOKED" "i_id r' = i_id p" "i_workspace_id r' = ws" "i_email r' = e"
  shows "list_all2 (superseded ws e) xs (upd_where (\<lambda>y. i_id y = i_id p) (\<lambda>_. r') ys)"
  unfolding list_all2_conv_all_nth
proof (intro conjI allI impI)
  show "length xs = length (upd_where (\<lambda>y. i_id y = i_id p) (\<lambda>_. r') ys)"
    using assms(1) by (simp add: list_all2_lengthD)
  fix n assume n: "n < length xs"
  then have ny: "n < length ys" using assms(1) by (simp add: list_all2_lengthD)
  have s: "superseded ws e (xs ! n) (ys ! n)" using assms(1) n by (simp add: list_all2_nthD)
  have id: "i_id (ys ! n) = i_id (xs ! n)" using s by (auto simp: superseded_def)
  show "superseded ws e (xs ! n) (upd_where (\<lambda>y. i_id y = i_id p) (\<lambda>_. r') ys ! n)"
  proof (cases "i_id (xs ! n) = i_id p")
    case True
    then have "xs ! n = p" using assms(2,3) n by (metis distinct_map_inj nth_mem)
    with True id ny assms(4-10) show ?thesis by (simp add: upd_where_def superseded_def)
  next
    case False
    with id ny s show ?thesis by (simp add: upd_where_def)
  qed
qed

lemma revoke_keeps_superseded:
  assumes p: "p \<in> set xs" "i_email p = e" "i_workspace_id p = ws" "i_status p = InviteStatus_PENDING"
    and d: "distinct (map i_id xs)"
  shows "obeys (keeps (\<lambda>w. list_all2 (superseded ws e) xs (workspace_invites (db w))))
           (repo_revoke_invite (i_id p))"
proof (rule obeysI)
  fix w r w'
  assume run: "repo_revoke_invite (i_id p) w = (r, w')"
  show "keeps (\<lambda>w. list_all2 (superseded ws e) xs (workspace_invites (db w))) w w'"
    unfolding keeps_def
  proof
    assume I: "list_all2 (superseded ws e) xs (workspace_invites (db w))"
    then have u: "pk_unique WorkspaceInvite_model (db w)"
      using d superseded_ids [OF I] by (simp add: pk_unique_def)
    show "list_all2 (superseded ws e) xs (workspace_invites (db w'))"
    proof (cases "find (\<lambda>r. i_id r = i_id p \<and> visible WorkspaceInvite_model r) (workspace_invites (db w))")
      case None
      with run I invite_repo.get_by_id_total [OF u, of "i_id p"] show ?thesis
        by (auto simp: repo_revoke_invite_def bindM_def)
    next
      case (Some x)
      then have x: "x \<in> set (workspace_invites (db w))" "i_id x = i_id p"
        by (auto simp: find_Some_iff)
      have "find_pk WorkspaceInvite_model (i_id p) (db w) = Some x"
        using invite_repo.find_pk_unique [OF u, of x] x by simp
      moreover have "superseded ws e p x"
      proof -
        from x(1) I obtain n where n: "n < length xs" "workspace_invites (db w) ! n = x"
          by (metis in_set_conv_nth list_all2_lengthD)
        with I have s: "superseded ws e (xs ! n) x" by (metis list_all2_nthD)
        then have "i_id (xs ! n) = i_id p" using x(2) by (auto simp: superseded_def)
        then have "xs ! n = p" using p(1) d n(1) by (metis distinct_map_inj nth_mem)
        with s show ?thesis by simp
      qed
      ultimately have
        "workspace_invites (db w') = workspace_invites (db w) \<or>
         (\<exists>r'. workspace_invites (db w') =
            upd_where (\<lambda>y. i_id y = i_id p) (\<lambda>_. r') (workspace_invites (db w)) \<and>
            i_status r' = InviteStatus_REVOKED \<and> i_id r' = i_id x \<and>
            i_workspace_id r' = i_workspace_id x \<and> i_email r' = i_email x)"
        and sx: "superseded ws e p x"
        using run x invite_repo.get_by_id_total [OF u, of "i_id p"] Some
        by (auto simp: repo_revoke_invite_def bindM_def flush_dirty_def update_row_def split: if_splits)
      then show ?thesis
      proof (elim disjE exE conjE)
        fix r' assume r': "workspace_invites (db w') =
            upd_where (\<lambda>y. i_id y = i_id p) (\<lambda>_. r') (workspace_invites (db w))"
          "i_status r' = InviteStatus_REVOKED" "i_id r' = i_id x"
          "i_workspace_id r' = i_workspace_id x" "i_email r' = i_email x"
        have "i_id r' = i_id p" "i_workspace_id r' = ws" "i_email r' = e"
          using r' sx x(2) p(2,3) by (auto simp: superseded_def)
        with superseded_edit [OF I d p r'(2)] show ?thesis by (simp add: r'(1))
      qed (use I in simp)
    qed
  qed
qed

lemma create_invitation_Inr:
  assumes "create_invitation i w = (Inr x, w')"
  shows "db w' = (db w)\<lparr>workspace_invites := workspace_invites (db w) @ [x]\<rparr>"
    and "i_email x = py_strip (py_lower (i_email i))" "i_workspace_id x = i_workspace_id i"
    and "i_role_id x = i_role_id i" "i_inviter_id x = i_inviter_id i" "i_status x = i_status i"
    and "i_expires_at x = i_expires_at i"
    and "\<forall>y \<in> set (workspace_invites (db w)). i_id y \<noteq> i_id x"
    and "valid_WorkspaceInvite (db w) x"
  using assms
  by (auto simp: create_invitation_def flush_new_def insert_row_Inr find_pk_None)

lemma send_invitation_Inr:
  assumes "send_invitation email name tok sender w = (Inr b, w')"
  shows "db w' = db w" and "\<exists>e. sent_emails w' = sent_emails w @ [e] \<and> to_address e = email"
  using assms by (auto simp: send_invitation_def Let_def)

lemma read_only_reject: "read_only (reject_existing_member workspace email)"
  unfolding reject_existing_member_def
  using read_only_queries(1,2) unfolding read_only_def
  by (intro ro.obeys_bind ro.obeys_case_option ro.obeys_return ro.obeys_raise_if)

lemma get_pending_InrE:
  assumes "get_pending_invites ws w = (Inr ps, w')"
  obtains "ps = filter (\<lambda>i. i_workspace_id i = ws \<and> i_status i = InviteStatus_PENDING)
              (workspace_invites (db w))" and "w' = w"
  using assms unfolding get_pending_invites_def by (elim select_InrE) simp

text \<open>The handler, as far as the invitations are concerned.\<close>

lemma create_invite_run:
  assumes run: "create_invite user workspace raw role_id w = (Inr i, w')"
  defines "email \<equiv> py_strip (py_lower raw)"
  obtains role w0 x w1 r w2 w3 b w4 a w5 n where
    "get_by_id Role_model role_id w = (Inr role, w0)" "role \<noteq> None"
    "reject_existing_member workspace email w0 = (Inr x, w1)"
    "forM (filter (\<lambda>i. i_workspace_id i = w_id workspace \<and> i_status i = InviteStatus_PENDING)
             (workspace_invites (db w1)))
       (\<lambda>p. whenM (i_email p = email) (thenM (repo_revoke_invite (i_id p)) (returnM ()))) w1 = (Inr r, w2)"
    "create_invitation (new_invite (w_id workspace) email role_id (u_id user)
        (clock w2 (ticks w2) + days 7)) (w2\<lparr>ticks := Suc (ticks w2)\<rparr>) = (Inr i, w3)"
    "send_invitation email (w_name workspace) (i_token i) (Some (inviter_name user)) w3 = (Inr b, w4)"
    "create_audit_log ''INVITE_SENT'' ''workspace_invite'' (str_uuid (i_id i))
       (Some (w_id workspace)) (Some (u_id user)) None
       (Some [(''email'', JStr email), (''role_id'', JStr (str_uuid role_id))]) w4 = (Inr a, w5)"
    "create Notification_model (new_notification (w_id workspace) (u_id user) ''Invitation Sent''
       (''Invitation successfully sent to '' @ email @ ''.'')
       NotificationType_SYSTEM NotificationPriority_LOW) w5 = (Inr n, w')"
  using run unfolding create_invite_def Let_def email_def [symmetric]
  by (elim session_elims get_pending_InrE) (hypsubst, rule that, assumption+)

lemma superseded_pending:
  assumes "list_all2 (superseded ws e) xs ys" and "y \<in> set ys" "i_status y = InviteStatus_PENDING"
  shows "y \<in> set xs"
proof -
  from assms(1,2) have "\<exists>x \<in> set xs. superseded ws e x y" by (induction rule: list_all2_induct) auto
  with assms(3) show ?thesis by (auto simp: superseded_def)
qed

interpretation audit_frame: table_step audit_logs "(=)"
  by unfold_locales auto

lemma audit_frame_revokes:
  "obeys audit_frame.rel (forM ps (\<lambda>p. whenM (i_email p = e) (thenM (repo_revoke_invite (i_id p)) (returnM ()))))"
  unfolding repo_revoke_invite_def
  by (intro audit_frame.handler_intros audit_frame.frame_dirty) simp



section \<open>Accepting\<close>

lemma join_workspace_Inr:
  assumes "join_workspace i user w = (Inr x, w')"
  shows "(workspace_members (db w') = workspace_members (db w) \<and>
            (\<exists>m \<in> set (workspace_members (db w)). m_workspace_id m = i_workspace_id i \<and>
               m_user_id m = u_id user \<and> deleted_at (m_soft m) = None \<and> m_status m \<noteq> MemberStatus_REMOVED)) \<or>
         (\<exists>m. workspace_members (db w') = workspace_members (db w) @ [m] \<and>
            m_workspace_id m = i_workspace_id i \<and> m_user_id m = u_id user \<and>
            m_role_id m = i_role_id i \<and> m_status m = MemberStatus_ACTIVE \<and>
            deleted_at (m_soft m) = None \<and> m_invited_by m = i_inviter_id i \<and>
            (\<forall>y \<in> set (workspace_members (db w)).
               m_workspace_id y = i_workspace_id i \<longrightarrow> m_user_id y \<noteq> u_id user))"
    (is "?stays \<or> ?joins")
    and "workspace_invites (db w') = workspace_invites (db w)" "audit_logs (db w') = audit_logs (db w)"
    "clock w' = clock w" "ticks w \<le> ticks w'"
proof -
  obtain em w1 where g: "get_member (i_workspace_id i) (u_id user) w = (Inr em, w1)"
    using assms unfolding join_workspace_def by (elim bindM_InrE) 
  have w1: "w1 = w" using read_onlyD [OF read_only_queries(1) g] .
  have "(?stays \<or> ?joins) \<and> workspace_invites (db w') = workspace_invites (db w) \<and>
        audit_logs (db w') = audit_logs (db w) \<and> clock w' = clock w \<and> ticks w \<le> ticks w'"
  proof (cases "case em of None \<Rightarrow> False | Some m \<Rightarrow> m_status m \<noteq> MemberStatus_REMOVED")
    case True
    then obtain m where m: "em = Some m" "m_status m \<noteq> MemberStatus_REMOVED"
      by (auto split: option.splits)
    then have "w' = w" using assms g w1 by (auto simp: join_workspace_def bindM_def)
    with g m get_member_Some [of "i_workspace_id i" "u_id user" w m w1] show ?thesis by blast
  next
    case False
    with assms g w1 obtain m w2 where
      c: "create WorkspaceMember_model (joining_member i user (clock w (ticks w)) (clock w (Suc (ticks w))))
            (w\<lparr>ticks := Suc (Suc (ticks w))\<rparr>) = (Inr m, w2)" and w2: "w2 = w'"
      by (auto simp: join_workspace_def bindM_def split: prod.splits sum.splits)
    note c' = create_member_row [OF c, unfolded w2]
    have "m_invited_by m = i_inviter_id i" "clock w' = clock w" "ticks w \<le> ticks w'"
      using c w2 by (auto simp: create_def flush_new_def insert_row_Inr joining_member_def new_member_def)
    with c' show ?thesis by (auto simp: joining_member_def new_member_def not_deleted_def)
  qed
  then show "?stays \<or> ?joins" "workspace_invites (db w') = workspace_invites (db w)"
    "audit_logs (db w') = audit_logs (db w)" "clock w' = clock w" "ticks w \<le> ticks w'" by simp_all
qed

lemma check_invite_Inr:
  assumes "check_invite i w = (Inr x, w')"
  shows "i_status i = InviteStatus_PENDING" "clock w (ticks w) \<le> i_expires_at i"
    "w' = w\<lparr>ticks := Suc (ticks w)\<rparr>"
  using assms by (cases "i_status i"; auto simp: check_invite_def split: if_splits)+

lemma repo_accept_Inr:
  assumes run: "repo_accept_invite (i_id i) w = (Inr x, w')"
    and d: "distinct (map i_id (workspace_invites (db w)))"
    and i: "i \<in> set (workspace_invites (db w))" "i_status i = InviteStatus_PENDING"
  shows "if clock w (ticks w) < i_expires_at i
         then \<exists>t st. workspace_invites (db w') =
                upd_where (\<lambda>y. i_id y = i_id i)
                  (\<lambda>_. i\<lparr>i_status := InviteStatus_ACCEPTED, i_accepted_at := Some t, i_stamp := st\<rparr>)
                  (workspace_invites (db w))
         else workspace_invites (db w') = workspace_invites (db w)"
    and "workspace_members (db w') = workspace_members (db w)" "audit_logs (db w') = audit_logs (db w)"
proof -
  have u: "pk_unique WorkspaceInvite_model (db w)" using d by (simp add: pk_unique_def)
  have g: "get_by_id WorkspaceInvite_model (i_id i) w = (Inr (Some i), w)"
    using invite_repo.get_by_id_iff [OF u, of i] i(1) by (simp add: visible_def)
  have f: "find_pk WorkspaceInvite_model (i_id i) (db w) = Some i"
    using invite_repo.find_pk_unique [OF u, of i] i(1) by simp
  have ne: "i\<lparr>i_status := InviteStatus_ACCEPTED, i_accepted_at := Some t\<rparr> \<noteq> i" for t
    using i(2) by (metis InviteStatus.distinct(1) WorkspaceInvite.select_convs(8) WorkspaceInvite.surjective
        WorkspaceInvite.update_convs(8,9))
  show "if clock w (ticks w) < i_expires_at i
         then \<exists>t st. workspace_invites (db w') =
                upd_where (\<lambda>y. i_id y = i_id i)
                  (\<lambda>_. i\<lparr>i_status := InviteStatus_ACCEPTED, i_accepted_at := Some t, i_stamp := st\<rparr>)
                  (workspace_invites (db w))
         else workspace_invites (db w') = workspace_invites (db w)"
    and "workspace_members (db w') = workspace_members (db w)" "audit_logs (db w') = audit_logs (db w)"
    using run g f ne i(2)
    by (auto simp: repo_accept_invite_def bindM_def flush_dirty_def update_row_def
        split: if_splits intro!: exI)
qed

lemma get_by_token_Some:
  assumes "get_by_token tok w = (Inr (Some i), w')"
  shows "w' = w" "i \<in> set (workspace_invites (db w))" "i_token i = tok"
proof -
  from assms have f: "filter (\<lambda>i. i_token i = tok) (workspace_invites (db w)) = [i]" and "w' = w"
    by (auto simp: get_by_token_def scalar_one_or_none_Some)
  then show "w' = w" by simp
  from f have "i \<in> set (filter (\<lambda>i. i_token i = tok) (workspace_invites (db w)))" by simp
  then show "i \<in> set (workspace_invites (db w))" "i_token i = tok" by simp_all
qed

lemma accept_invite_run:
  assumes run: "accept_invite user tok w = (Inr x, w')"
  obtains i w0 a w1 b w2 c w3 d w4 where
    "get_by_token tok w = (Inr (Some i), w0)" "check_invite i w0 = (Inr a, w1)"
    "i_email i = u_email user" "join_workspace i user w1 = (Inr b, w2)"
    "repo_accept_invite (i_id i) w2 = (Inr c, w3)"
    "create_audit_log ''INVITE_ACCEPTED'' ''workspace_invite'' (str_uuid (i_id i))
       (Some (i_workspace_id i)) (Some (u_id user)) None None w3 = (Inr d, w4)"
    "workspace_members (db w') = workspace_members (db w4)"
    "workspace_invites (db w') = workspace_invites (db w4)" "audit_logs (db w') = audit_logs (db w4)"
proof -
  obtain i w0 a w1 b w2 c w3 d w4 where
    r: "get_by_token tok w = (Inr (Some i), w0)" "check_invite i w0 = (Inr a, w1)"
    "\<not> i_email i \<noteq> u_email user" "join_workspace i user w1 = (Inr b, w2)"
    "repo_accept_invite (i_id i) w2 = (Inr c, w3)"
    "create_audit_log ''INVITE_ACCEPTED'' ''workspace_invite'' (str_uuid (i_id i))
       (Some (i_workspace_id i)) (Some (u_id user)) None None w3 = (Inr d, w4)" and
    tail: "(case i_inviter_id i of None \<Rightarrow> returnM ()
       | Some inviter_id \<Rightarrow> thenM (create Notification_model
                  (new_notification (i_workspace_id i) inviter_id ''Invitation Accepted''
                     (u_email user @ '' has accepted your invitation.'')
                     NotificationType_SYSTEM NotificationPriority_NORMAL))
           (returnM ())) w4 = (Inr x, w')"
    using run unfolding accept_invite_def
    by (elim session_elims) (hypsubst, rule that, assumption+)
  have "workspace_members (db w') = workspace_members (db w4) \<and>
    workspace_invites (db w') = workspace_invites (db w4) \<and> audit_logs (db w') = audit_logs (db w4)"
    using tail by (cases "i_inviter_id i") (auto simp: bindM_eq_Inr dest: create_notification_Inr(1))
  then show ?thesis using r by (intro that) simp_all
qed

lemma accept_invite_effect_aux:
  assumes run: "accept_invite user tok w = (Inr x, w')"
  obtains i where "i \<in> set (workspace_invites (db w))" "i_token i = tok"
    "(\<exists>m \<in> set (workspace_members (db w)). m_workspace_id m = i_workspace_id i \<and>
        m_user_id m = u_id user \<and> deleted_at (m_soft m) = None) \<or>
     (\<forall>y \<in> set (workspace_members (db w)).
        m_workspace_id y = i_workspace_id i \<longrightarrow> m_user_id y \<noteq> u_id user)"
proof -
  obtain i w0 a w1 b w2 where
    tok: "get_by_token tok w = (Inr (Some i), w0)" and chk: "check_invite i w0 = (Inr a, w1)" and
    join: "join_workspace i user w1 = (Inr b, w2)"
    by (rule accept_invite_run [OF run], rule that, assumption+)
  note t = get_by_token_Some [OF tok]
  have w1: "db w1 = db w" using t(1) check_invite_Inr(3) [OF chk] by simp
  show ?thesis
    by (rule that [OF t(2,3)]) (use join_workspace_Inr(1) [OF join, unfolded w1] in blast)
qed

text \<open>C8 (functional). Accepting an invitation: the token names a pending invitation that had not expired
  at the first reading of the clock and that is addressed to this user; afterwards either the user
  was already a live member and no membership changed, or exactly one active membership with the
  invited role was added and the user had none, deleted ones included, before; the invitation is
  accepted exactly if it expires after a later reading of the clock, and is otherwise left as it was;
  and the acceptance is audited.\<close>

theorem accept_invite_effect:
  assumes run: "accept_invite user tok w = (Inr x, w')"
    and d: "distinct (map i_id (workspace_invites (db w)))"
  shows "\<exists>i \<in> set (workspace_invites (db w)).
           i_token i = tok \<and> i_status i = InviteStatus_PENDING \<and> i_email i = u_email user \<and>
           clock w (ticks w) \<le> i_expires_at i \<and>
           ((workspace_members (db w') = workspace_members (db w) \<and>
               (\<exists>m \<in> set (workspace_members (db w)). m_workspace_id m = i_workspace_id i \<and>
                  m_user_id m = u_id user \<and> deleted_at (m_soft m) = None \<and> m_status m \<noteq> MemberStatus_REMOVED)) \<or>
            (\<exists>m. workspace_members (db w') = workspace_members (db w) @ [m] \<and>
               m_workspace_id m = i_workspace_id i \<and> m_user_id m = u_id user \<and>
               m_role_id m = i_role_id i \<and> m_status m = MemberStatus_ACTIVE \<and>
               deleted_at (m_soft m) = None \<and> m_invited_by m = i_inviter_id i \<and>
               (\<forall>y \<in> set (workspace_members (db w)).
                  m_workspace_id y = i_workspace_id i \<longrightarrow> m_user_id y \<noteq> u_id user))) \<and>
           (\<exists>n > ticks w.
              if clock w n < i_expires_at i
              then \<exists>t st. workspace_invites (db w') =
                     upd_where (\<lambda>y. i_id y = i_id i)
                       (\<lambda>_. i\<lparr>i_status := InviteStatus_ACCEPTED, i_accepted_at := Some t, i_stamp := st\<rparr>)
                       (workspace_invites (db w))
              else workspace_invites (db w') = workspace_invites (db w)) \<and>
           (\<exists>a. audit_logs (db w') = audit_logs (db w) @ [a] \<and> al_action a = ''INVITE_ACCEPTED'')"
proof -
  obtain i w0 a w1 b w2 c w3 e w4 where
    tok: "get_by_token tok w = (Inr (Some i), w0)" and chk: "check_invite i w0 = (Inr a, w1)" and
    mail: "i_email i = u_email user" and join: "join_workspace i user w1 = (Inr b, w2)" and
    acc: "repo_accept_invite (i_id i) w2 = (Inr c, w3)" and
    audit: "create_audit_log ''INVITE_ACCEPTED'' ''workspace_invite'' (str_uuid (i_id i))
       (Some (i_workspace_id i)) (Some (u_id user)) None None w3 = (Inr e, w4)" and
    tail: "workspace_members (db w') = workspace_members (db w4)"
    "workspace_invites (db w') = workspace_invites (db w4)" "audit_logs (db w') = audit_logs (db w4)"
    by (rule accept_invite_run [OF run], rule that, assumption+)
  note t = get_by_token_Some [OF tok]
  note k = check_invite_Inr [OF chk]
  have w1: "db w1 = db w" "clock w1 = clock w" "ticks w1 = Suc (ticks w)" using t(1) k(3) by simp_all
  note j = join_workspace_Inr [OF join, unfolded w1]
  have d2: "distinct (map i_id (workspace_invites (db w2)))"
    and i2: "i \<in> set (workspace_invites (db w2))" using j(2) d t(2) by simp_all
  note ac = repo_accept_Inr [OF acc d2 i2 k(1), unfolded j(2,4)]
  note au = create_audit_log_Inr [OF audit]
  have n: "ticks w < ticks w2" using j(5) by simp
  have "\<exists>n > ticks w.
      if clock w n < i_expires_at i
      then \<exists>t st. workspace_invites (db w') =
             upd_where (\<lambda>y. i_id y = i_id i)
               (\<lambda>_. i\<lparr>i_status := InviteStatus_ACCEPTED, i_accepted_at := Some t, i_stamp := st\<rparr>)
               (workspace_invites (db w))
      else workspace_invites (db w') = workspace_invites (db w)"
    using ac(1) n tail(2) au(1) by (intro exI [of _ "ticks w2"]) simp
  moreover have "workspace_members (db w') = workspace_members (db w2)"
    using tail(1) au(1) ac(2) by simp
  moreover have "audit_logs (db w') = audit_logs (db w) @ [e]" using tail(3) au(1) ac(3) j(3) by simp
  moreover have "clock w (ticks w) \<le> i_expires_at i" using k(2) t(1) by simp
  ultimately show ?thesis
    using t(2,3) k(1) mail j(1) au(2) by (intro bexI [of _ i]) auto
qed

lemma accept_invite_effect_witness:
  "\<exists>w'. accept_invite (fx_user 2) ''tok'' (fx_invited []) = (Inr (), w') \<and>
     (\<exists>a. audit_logs (db w') = [a] \<and> al_action a = ''INVITE_ACCEPTED'')"
proof -
  have "succeeds (accept_invite (fx_user 2) ''tok'') (fx_invited [])" by code_simp
  then obtain x w' where run: "accept_invite (fx_user 2) ''tok'' (fx_invited []) = (Inr x, w')"
    by (rule succeedsE)
  have d: "distinct (map i_id (workspace_invites (db (fx_invited []))))"
    and "audit_logs (db (fx_invited [])) = []" by code_simp+
  with accept_invite_effect [OF run d] run show ?thesis by auto
qed

text \<open>An invitation accepted at its very deadline joins the workspace and stays pending: the
  service refuses only \<open>expires_at < now\<close> and the repository accepts only \<open>expires_at > now\<close>, so when
  the clock stands at the deadline the request returns and no invitation changes.\<close>

lemma accept_at_deadline_stays_pending:
  assumes run: "accept_invite user tok w = (Inr x, w')"
    and d: "distinct (map i_id (workspace_invites (db w)))"
    and deadline: "\<forall>i \<in> set (workspace_invites (db w)). i_token i = tok \<longrightarrow> (\<forall>n. clock w n = i_expires_at i)"
  shows "workspace_invites (db w') = workspace_invites (db w) \<and>
         (\<exists>i \<in> set (workspace_invites (db w')). i_token i = tok \<and> i_status i = InviteStatus_PENDING \<and>
            (\<exists>m \<in> set (workspace_members (db w')). m_workspace_id m = i_workspace_id i \<and> m_user_id m = u_id user))"
proof -
  obtain i w0 a w1 b w2 c w3 e w4 where
    tok: "get_by_token tok w = (Inr (Some i), w0)" and chk: "check_invite i w0 = (Inr a, w1)" and
    join: "join_workspace i user w1 = (Inr b, w2)" and
    acc: "repo_accept_invite (i_id i) w2 = (Inr c, w3)" and
    audit: "create_audit_log ''INVITE_ACCEPTED'' ''workspace_invite'' (str_uuid (i_id i))
       (Some (i_workspace_id i)) (Some (u_id user)) None None w3 = (Inr e, w4)" and
    tail: "workspace_members (db w') = workspace_members (db w4)"
    "workspace_invites (db w') = workspace_invites (db w4)"
    by (rule accept_invite_run [OF run], rule that, assumption+)
  note t = get_by_token_Some [OF tok]
  note k = check_invite_Inr [OF chk]
  have w1: "db w1 = db w" "clock w1 = clock w" "ticks w1 = Suc (ticks w)" using t(1) k(3) by simp_all
  note j = join_workspace_Inr [OF join, unfolded w1]
  have d2: "distinct (map i_id (workspace_invites (db w2)))"
    and i2: "i \<in> set (workspace_invites (db w2))" using j(2) d t(2) by simp_all
  note ac = repo_accept_Inr [OF acc d2 i2 k(1), unfolded j(2,4)]
  note au = create_audit_log_Inr [OF audit]
  have "\<not> clock w (ticks w2) < i_expires_at i" using deadline t by simp
  then have same: "workspace_invites (db w') = workspace_invites (db w)" using ac(1) tail(2) au(1) by simp
  have "workspace_members (db w') = workspace_members (db w2)" using tail(1) au(1) ac(2) by simp
  then have "\<exists>m \<in> set (workspace_members (db w')). m_workspace_id m = i_workspace_id i \<and> m_user_id m = u_id user"
    using j(1) by auto
  with same t(2,3) k(1) show ?thesis by auto
qed

lemma accept_at_deadline_stays_pending_witness:
  "\<exists>w'. accept_invite (fx_user 2) ''tok'' (fx_invited []\<lparr>clock := \<lambda>_. seconds 100\<rparr>) = (Inr (), w') \<and>
     workspace_invites (db w') = [fx_invite]"
proof -
  let ?w = "fx_invited []\<lparr>clock := \<lambda>_. seconds 100\<rparr>"
  have "succeeds (accept_invite (fx_user 2) ''tok'') ?w" by code_simp
  then obtain x w' where run: "accept_invite (fx_user 2) ''tok'' ?w = (Inr x, w')"
    by (rule succeedsE)
  have d: "distinct (map i_id (workspace_invites (db ?w)))" by code_simp
  have deadline: "\<forall>i \<in> set (workspace_invites (db ?w)). i_token i = ''tok'' \<longrightarrow>
      (\<forall>n. clock ?w n = i_expires_at i)"
    by (simp add: fx_invited_def fx_invite_def)
  have "workspace_invites (db ?w) = [fx_invite]" by (simp add: fx_invited_def)
  with accept_at_deadline_stays_pending [OF run d deadline] run show ?thesis by auto
qed

text \<open>A removed member cannot come back: removing leaves the row of the workspace and the
  user behind, marked deleted, which the search for a membership does not see and the insertion of a
  new one runs into, so no invitation to that workspace can be accepted by that user.\<close>

lemma removed_member_cannot_rejoin:
  assumes one: "one_membership (workspace_members (db w))"
    and d: "distinct (map m_id (workspace_members (db w)))"
    and gone: "m \<in> set (workspace_members (db w))" "m_user_id m = u_id user" "deleted_at (m_soft m) \<noteq> None"
    and inv: "\<forall>i \<in> set (workspace_invites (db w)). i_token i = tok \<longrightarrow> i_workspace_id i = m_workspace_id m"
  shows "\<exists>e. fst (accept_invite user tok w) = Inl e"
proof (cases "accept_invite user tok w")
  case (Pair r w')
  show ?thesis
  proof (cases r)
    case (Inl e)
    with Pair show ?thesis by simp
  next
    case (Inr x)
    with Pair have "accept_invite user tok w = (Inr x, w')" by simp
    from accept_invite_effect_aux [OF this] obtain i where
      i: "i \<in> set (workspace_invites (db w))" "i_token i = tok" and
      m': "(\<exists>m \<in> set (workspace_members (db w)). m_workspace_id m = i_workspace_id i \<and>
             m_user_id m = u_id user \<and> deleted_at (m_soft m) = None) \<or>
           (\<forall>y \<in> set (workspace_members (db w)).
              m_workspace_id y = i_workspace_id i \<longrightarrow> m_user_id y \<noteq> u_id user)" by blast
    from i inv have ws: "i_workspace_id i = m_workspace_id m" by blast
    with m' gone obtain y where y: "y \<in> set (workspace_members (db w))" "m_workspace_id y = m_workspace_id m"
      "m_user_id y = u_id user" "deleted_at (m_soft y) = None" by metis
    then have "(m_workspace_id y, m_user_id y) = (m_workspace_id m, m_user_id m)" using gone(2) by simp
    then have "m_id y = m_id m" using one y(1) gone(1) unfolding one_membership_def by blast
    then have "y = m" using y(1) gone(1) d by (metis distinct_map_inj)
    with y gone show ?thesis by simp
  qed
qed

lemma removed_member_cannot_rejoin_witness:
  "\<exists>e. fst (accept_invite (fx_user 2) ''tok''
     (fx_invited [fx_member 32 2 11\<lparr>m_status := MemberStatus_REMOVED, m_soft := delete_mark 5 not_deleted\<rparr>]))
     = Inl e"
  by (rule removed_member_cannot_rejoin [where
        m = "fx_member 32 2 11\<lparr>m_status := MemberStatus_REMOVED, m_soft := delete_mark 5 not_deleted\<rparr>"])
    (simp_all add: fx_invited_def one_membership_def fx_member_def fx_user_def fx_invite_def
      delete_mark_def not_deleted_def)

end
