(* ===== verification/Transactions.thy ===== *)
theory Transactions
  imports Tenancy_Repositories
begin

text \<open>
  What a handler cannot touch. The statements of a session change the open transaction, the counters of
  the random sources and of the clock, and the e-mails sent. Whatever else there is in the world, the
  committed database above all, only \<open>commit\<close> changes. The locale collects that once for every
  statement and every repository operation, for any part of the world that the statements do not see.
\<close>

locale beyond_session =
  fixes proj :: "'z world_scheme \<Rightarrow> 'p"
  assumes proj_db [simp]: "proj (w\<lparr>db := d\<rparr>) = proj w"
    and proj_ticks [simp]: "proj (w\<lparr>ticks := n\<rparr>) = proj w"
    and proj_uuids [simp]: "proj (w\<lparr>uuids_drawn := n\<rparr>) = proj w"
    and proj_tokens [simp]: "proj (w\<lparr>tokens_drawn := n\<rparr>) = proj w"
    and proj_emails [simp]: "proj (w\<lparr>sent_emails := es\<rparr>) = proj w"
begin

definition same :: "'z world_scheme \<Rightarrow> 'z world_scheme \<Rightarrow> bool" where
  "same w w' \<longleftrightarrow> proj w' = proj w"

sublocale step_preorder same
  by unfold_locales (auto simp: same_def)

lemma same_clock: "obeys same get_utc_now"
  by (simp add: obeys_def same_def)

lemma same_uuid4: "obeys same uuid4"
  by (simp add: obeys_def same_def)

lemma same_token: "obeys same token_urlsafe"
  by (simp add: obeys_def same_def)

lemma same_email: "obeys same (send_email e)"
  by (simp add: obeys_def same_def)

lemma same_rollback: "obeys same rollback"
  by (simp add: obeys_def same_def)

lemma same_select: "obeys same (select M p)"
  by (rule read_only_obeys) (rule read_only_select)

lemma same_one_or_none: "obeys same (scalar_one_or_none rs)"
  by (rule read_only_obeys) (rule read_only_scalar_one_or_none)

lemma same_insert: "obeys same (insert_row M r)"
  by (simp add: obeys_def same_def insert_row_def)

lemma same_new: "obeys same (flush_new M r)"
  unfolding flush_new_def by (intro obeys_bind same_clock same_uuid4 same_insert)

lemma same_update_row: "obeys same (update_row M r)"
  by (simp add: obeys_def same_def update_row_def)

lemma same_dirty: "obeys same (flush_dirty M i f)"
  unfolding flush_dirty_def
  by (intro obeys_bind obeys_read obeys_case_option obeys_raise obeys_if obeys_return same_clock
      same_update_row)

lemma same_update_where: "obeys same (update_where M p f)"
  by (simp add: obeys_def same_def update_where_def Let_def)

lemma same_delete_where: "obeys same (delete_where M p)"
  by (simp add: obeys_def same_def delete_where_def)

lemma same_get: "obeys same (get_by_id M i)" "obeys same (get_by_id_with M b i)"
  by (rule read_only_obeys, rule read_only_get_by_id)
    (rule read_only_obeys, rule read_only_get_by_id_with)

lemma same_get_all: "obeys same (get_all M s l fs k ds b)"
  by (rule read_only_obeys) (rule read_only_get_all)

lemma same_create: "obeys same (create M r)"
  unfolding create_def by (rule same_new)

lemma same_update: "obeys same (update M i f)"
  unfolding update_def by (rule same_dirty)

lemma same_delete: "obeys same (delete M i b)"
  unfolding delete_def
  by (intro obeys_bind same_get obeys_case_option obeys_return obeys_then obeys_if same_clock
      same_dirty same_delete_where)

lemmas same_queries = read_only_queries [THEN read_only_obeys]

lemma same_audit: "obeys same (create_audit_log a t i ws u ov nv)"
  unfolding create_audit_log_def by (intro obeys_then obeys_raise_if same_create)

lemmas same_intros = obeys_bind obeys_then obeys_return obeys_raise obeys_raise_if obeys_read
  obeys_if obeys_when obeys_case_option obeys_case_list obeys_let obeys_forM obeys_catch same_clock same_uuid4
  same_token same_email same_rollback same_select same_one_or_none same_new same_dirty same_update_where
  same_delete_where same_get same_get_all same_create same_update same_delete same_queries same_audit

end

text \<open>The parts of the world that only a commit, or nothing at all, changes.\<close>

interpretation uncommitted: beyond_session
  "\<lambda>w. (committed w, clock w, uuid_source w, token_source w, exn_text w, datetime_text w)"
  by unfold_locales simp_all

text \<open>A request whose handler never commits persists nothing.\<close>

lemma session_without_commit:
  assumes "obeys uncommitted.same m" and "get_db_session m w = (r, w')"
  shows "committed w' = committed w" and "db w' = committed w"
proof -
  obtain x w1 where "m w = (x, w1)" by fastforce
  with obeysD [OF assms(1) this] assms(2)
  show "committed w' = committed w" and "db w' = committed w"
    by (auto simp: get_db_session_def with_session_def uncommitted.same_def)
qed

text \<open>
  The shape of the endpoints that persist: do the work, commit, answer. If the work fails, nothing is
  persisted; if it returns, exactly what it did is.
\<close>

lemma session_then_commit:
  assumes "obeys uncommitted.same m"
    and "get_db_session (bindM m (\<lambda>x. thenM commit (returnM (f x)))) w = (r, w')"
  shows "(\<exists>e w1. m w = (Inl e, w1) \<and> r = Inl e \<and> committed w' = committed w) \<or>
         (\<exists>x w1. m w = (Inr x, w1) \<and> r = Inr (f x) \<and> committed w' = db w1)"
    and "db w' = committed w'"
proof -
  obtain x w1 where m: "m w = (x, w1)" by fastforce
  with obeysD [OF assms(1) this] assms(2)
  show "(\<exists>e w1. m w = (Inl e, w1) \<and> r = Inl e \<and> committed w' = committed w) \<or>
        (\<exists>x w1. m w = (Inr x, w1) \<and> r = Inr (f x) \<and> committed w' = db w1)"
    and "db w' = committed w'"
    by (auto simp: get_db_session_def with_session_def uncommitted.same_def bindM_def split: sum.splits)
qed

end
