(* ===== verification/Auth.thy ===== *)
theory Auth
  imports Invitation_Service Transactions
begin

text \<open>
  Who may do what: \<open>SupabaseAuthService\<close> (\<open>app/services/supabase_auth.py\<close>) and the dependencies of the
  endpoints (\<open>app/api/dependencies/auth.py\<close>), which resolve the user of a token, the workspace of the
  path and the permission of the route. Decoding and verifying a token is done by PyJWT against the
  key set of the identity provider; it is the parameter \<open>decode\<close>.
\<close>

section \<open>Tokens and users\<close>

datatype jwt_error = ExpiredSignatureError | PyJWKClientError | InvalidTokenError

record token_payload =
  claim_sub :: "string option"
  claim_email :: "string option"

type_synonym jwt_decoder = "string \<Rightarrow> jwt_error + token_payload"

definition verify_jwt :: "jwt_decoder \<Rightarrow> string \<Rightarrow> ('z, token_payload) io" where
  "verify_jwt decode tok =
     (case decode tok of
        Inr payload \<Rightarrow> returnM payload
      | Inl ExpiredSignatureError \<Rightarrow> raiseM (HTTPException 401 ''Token has expired'')
      | Inl PyJWKClientError \<Rightarrow> raiseM (HTTPException 401 ''Invalid authentication token'')
      | Inl InvalidTokenError \<Rightarrow> raiseM (HTTPException 401 ''Invalid authentication token''))"

definition new_user :: "uuid \<Rightarrow> string \<Rightarrow> User" where
  "new_user supabase_user_id email =
     \<lparr>u_id = 0, u_stamp = no_stamp, u_soft = not_deleted, u_email = email,
      u_supabase_user_id = supabase_user_id, u_first_name = None, u_last_name = None,
      u_avatar_url = None, u_phone = None, u_job_title = None, u_language = ''en'',
      u_default_workspace_id = None, u_onboarding_completed = False, u_is_active = True\<rparr>"

definition get_or_create_user :: "token_payload \<Rightarrow> ('z, User) io" where
  "get_or_create_user payload =
     (if \<not> truthy_str (claim_sub payload) \<or> \<not> truthy_str (claim_email payload)
      then raiseM (HTTPException 401 ''Token payload missing required fields (sub, email)'')
      else
      case uuid_of_str (the (claim_sub payload)) of
        None \<Rightarrow> raiseM (ValueError ''badly formed hexadecimal UUID string'')
      | Some supabase_user_id \<Rightarrow>
          bindM (get_by_supabase_id supabase_user_id False) (\<lambda>user.
          case user of
            Some u \<Rightarrow> returnM u
          | None \<Rightarrow> create User_model
              (new_user supabase_user_id (py_strip (py_lower (the (claim_email payload)))))))"

definition get_current_user :: "jwt_decoder \<Rightarrow> string \<Rightarrow> ('z, User) io" where
  "get_current_user decode tok =
     bindM (verify_jwt decode tok) (\<lambda>payload.
     bindM (get_or_create_user payload) (\<lambda>user.
     thenM (raise_if (\<not> u_is_active user) (HTTPException 400 ''Inactive user''))
       (returnM user)))"

section \<open>Workspace context and permissions\<close>

definition get_current_workspace :: "uuid \<Rightarrow> User \<Rightarrow> ('z, Workspace) io" where
  "get_current_workspace workspace_id user =
     bindM (get_by_id Workspace_model workspace_id) (\<lambda>workspace.
     case workspace of
       None \<Rightarrow> raiseM (HTTPException 404 ''Workspace not found'')
     | Some workspace \<Rightarrow>
         bindM (get_member (w_id workspace) (u_id user)) (\<lambda>member.
         thenM (raise_if
                  ((case member of None \<Rightarrow> True | Some m \<Rightarrow> m_status m \<noteq> MemberStatus_ACTIVE)
                   \<and> w_owner_id workspace \<noteq> u_id user)
                  (HTTPException 403 ''Not a member of this workspace''))
           (returnM workspace)))"

definition require_permission :: "string \<Rightarrow> string \<Rightarrow> uuid \<Rightarrow> User \<Rightarrow> ('z, bool) io" where
  "require_permission resource action workspace_id user =
     bindM (get_member workspace_id (u_id user)) (\<lambda>member.
     case member of
       None \<Rightarrow>
         bindM (get_by_id Workspace_model workspace_id) (\<lambda>workspace.
         if (case workspace of None \<Rightarrow> False | Some w \<Rightarrow> w_owner_id w = u_id user)
         then returnM True
         else raiseM (HTTPException 403 ''Not authorized''))
     | Some member \<Rightarrow>
         bindM (get_role_permissions (m_role_id member)) (\<lambda>permissions.
         let has_permission = list_ex (\<lambda>p. p_resource p = resource \<and> p_action p = action) permissions in
         thenM (raise_if (\<not> has_permission)
                  (HTTPException 403 (''Missing required permission: '' @ resource @ ''.'' @ action)))
           (returnM True)))"

section \<open>What the dependencies decide\<close>

lemma read_only_workspace: "read_only (get_current_workspace i user)"
  unfolding get_current_workspace_def
  using read_only_get_by_id read_only_queries(1) unfolding read_only_def
  by (intro ro.obeys_bind ro.obeys_case_option ro.obeys_raise ro.obeys_then ro.obeys_raise_if
      ro.obeys_return)

lemma read_only_permission: "read_only (require_permission r a i user)"
  unfolding require_permission_def Let_def
  using read_only_get_by_id read_only_queries(1,8) unfolding read_only_def
  by (intro ro.obeys_bind ro.obeys_case_option ro.obeys_raise ro.obeys_then ro.obeys_raise_if
      ro.obeys_return ro.obeys_if)

definition granted :: "database \<Rightarrow> uuid \<Rightarrow> string \<Rightarrow> string \<Rightarrow> bool" where
  "granted d role_id resource action \<longleftrightarrow>
     (\<exists>p \<in> set (permissions d). p_resource p = resource \<and> p_action p = action \<and>
        (\<exists>rp \<in> set (role_permissions d). rp_role_id rp = role_id \<and> rp_permission_id rp = p_id p))"

lemma require_permission_Inr:
  assumes "require_permission resource action i user w = (Inr b, w')"
  shows "(\<exists>m \<in> set (workspace_members (db w)). m_workspace_id m = i \<and> m_user_id m = u_id user \<and>
            deleted_at (m_soft m) = None \<and> granted (db w) (m_role_id m) resource action) \<or>
         (\<forall>m \<in> set (workspace_members (db w)). m_workspace_id m = i \<longrightarrow> m_user_id m = u_id user \<longrightarrow>
            deleted_at (m_soft m) \<noteq> None) \<and>
         (\<exists>ws \<in> set (workspaces (db w)). w_id ws = i \<and> w_owner_id ws = u_id user \<and> visible Workspace_model ws)"
proof -
  obtain mem w1 where g: "get_member i (u_id user) w = (Inr mem, w1)"
    using assms unfolding require_permission_def by (elim bindM_InrE)
  have w1: "w1 = w" using read_onlyD [OF read_only_queries(1) g] .
  show ?thesis
  proof (cases mem)
    case (Some m)
    with g assms w1 have "list_ex (\<lambda>p. p_resource p = resource \<and> p_action p = action)
        (concat (map (\<lambda>p. map (\<lambda>_. p) (filter (\<lambda>rp. rp_permission_id rp = p_id p \<and> rp_role_id rp = m_role_id m)
           (role_permissions (db w)))) (permissions (db w))))"
      by (auto simp: require_permission_def bindM_def [of "get_member _ _"] split: if_splits)
    then have "granted (db w) (m_role_id m) resource action"
      by (auto simp: granted_def list_ex_iff)
    with g Some get_member_Some [of i "u_id user" w m w1] show ?thesis by blast
  next
    case None
    with g assms w1 obtain ws w2 where
      "get_by_id Workspace_model i w = (Inr (Some ws), w2)" "w_owner_id ws = u_id user"
      by (auto simp: require_permission_def bindM_def split: prod.splits sum.splits option.splits if_splits)
    with get_by_id_Some [of Workspace_model i w ws w2] None g get_member_None [of i "u_id user" w w1]
    show ?thesis by auto
  qed
qed

lemma get_current_workspace_Inr:
  assumes "get_current_workspace i user w = (Inr ws, w')"
  shows "w' = w" "ws \<in> set (workspaces (db w))" "w_id ws = i" "visible Workspace_model ws"
    "(\<exists>m \<in> set (workspace_members (db w)). m_workspace_id m = i \<and> m_user_id m = u_id user \<and>
        deleted_at (m_soft m) = None \<and> m_status m = MemberStatus_ACTIVE) \<or> w_owner_id ws = u_id user"
proof -
  obtain x w1 mem w2 where g: "get_by_id Workspace_model i w = (Inr (Some x), w1)"
    and m: "get_member (w_id x) (u_id user) w1 = (Inr mem, w2)"
    and ok: "\<not> ((case mem of None \<Rightarrow> True | Some m \<Rightarrow> m_status m \<noteq> MemberStatus_ACTIVE) \<and>
               w_owner_id x \<noteq> u_id user)" and ws: "ws = x" and w': "w' = w2"
    using assms unfolding get_current_workspace_def
    by (elim session_elims) (hypsubst, rule that, (assumption | rule refl)+)
  note x = get_by_id_Some [OF g]
  have w2: "w2 = w1" using read_onlyD [OF read_only_queries(1) m] .
  show "w' = w" "ws \<in> set (workspaces (db w))" "w_id ws = i" "visible Workspace_model ws"
    using x w2 w' ws by simp_all
  show "(\<exists>m \<in> set (workspace_members (db w)). m_workspace_id m = i \<and> m_user_id m = u_id user \<and>
        deleted_at (m_soft m) = None \<and> m_status m = MemberStatus_ACTIVE) \<or> w_owner_id ws = u_id user"
  proof (cases "w_owner_id x = u_id user")
    case False
    with ok obtain y where y: "mem = Some y" "m_status y = MemberStatus_ACTIVE"
      by (auto split: option.splits)
    with m get_member_Some [of "w_id x" "u_id user" w1 y w2] x show ?thesis by auto
  qed (use ws in simp)
qed

text \<open>The three dependencies that the endpoints of a workspace declare, in their order.\<close>

definition authorize ::
  "jwt_decoder \<Rightarrow> string \<Rightarrow> uuid \<Rightarrow> string \<Rightarrow> string \<Rightarrow> ('z, User \<times> Workspace) io" where
  "authorize decode tok workspace_id resource action =
     bindM (get_current_user decode tok) (\<lambda>user.
     bindM (get_current_workspace workspace_id user) (\<lambda>workspace.
     thenM (require_permission resource action workspace_id user)
       (returnM (user, workspace))))"

lemma get_or_create_user_Inr:
  assumes "get_or_create_user payload w = (Inr user, w')"
  shows "\<exists>s. claim_sub payload = Some s \<and> uuid_of_str s = Some (u_supabase_user_id user)"
    and "user \<in> set (users (db w'))" "workspace_members (db w') = workspace_members (db w)"
proof -
  from assms have t: "truthy_str (claim_sub payload)" "truthy_str (claim_email payload)"
    by (auto simp: get_or_create_user_def split: if_splits)
  then obtain s where s: "claim_sub payload = Some s" by (auto simp: truthy_str_def split: option.splits)
  from assms t s obtain i where i: "uuid_of_str s = Some i"
    by (auto simp: get_or_create_user_def split: option.splits)
  with assms t s obtain found w1 where f: "get_by_supabase_id i False w = (Inr found, w1)"
    by (auto simp: get_or_create_user_def bindM_def split: prod.splits sum.splits)
  have w1: "w1 = w" using read_onlyD [OF read_only_queries(9) f] .
  have "u_supabase_user_id user = i \<and> user \<in> set (users (db w')) \<and>
    workspace_members (db w') = workspace_members (db w)"
  proof (cases found)
    case (Some u)
    with f have "filter (\<lambda>u. u_supabase_user_id u = i \<and> live User_model False u) (users (db w)) = [u]"
      by (auto simp: get_by_supabase_id_def scalar_one_or_none_Some)
    then have "u \<in> set (filter (\<lambda>u. u_supabase_user_id u = i \<and> live User_model False u) (users (db w)))"
      by simp
    with assms t s i f w1 Some show ?thesis
      by (auto simp: get_or_create_user_def bindM_def)
  next
    case None
    with assms t s i f w1 show ?thesis
      by (auto simp: get_or_create_user_def bindM_def create_def flush_new_def insert_row_Inr new_user_def)
  qed
  with s i show "\<exists>s. claim_sub payload = Some s \<and> uuid_of_str s = Some (u_supabase_user_id user)"
    and "user \<in> set (users (db w'))" "workspace_members (db w') = workspace_members (db w)" by auto
qed

lemma verify_jwt_Inr: "verify_jwt decode tok w = (Inr payload, w') \<longleftrightarrow> decode tok = Inr payload \<and> w' = w"
  by (auto simp: verify_jwt_def split: sum.splits jwt_error.splits)

lemma get_current_user_Inr:
  assumes "get_current_user decode tok w = (Inr user, w')"
  shows "u_is_active user" "user \<in> set (users (db w'))"
    "\<exists>payload s. decode tok = Inr payload \<and> claim_sub payload = Some s \<and>
        uuid_of_str s = Some (u_supabase_user_id user)"
proof -
  from assms obtain payload where "decode tok = Inr payload" "u_is_active user"
    "get_or_create_user payload w = (Inr user, w')"
    by (auto simp: get_current_user_def bindM_eq_Inr verify_jwt_Inr split: if_splits)
  with get_or_create_user_Inr [of payload w user w']
  show "u_is_active user" "user \<in> set (users (db w'))"
    "\<exists>payload s. decode tok = Inr payload \<and> claim_sub payload = Some s \<and>
        uuid_of_str s = Some (u_supabase_user_id user)" by auto
qed

definition fx_decode :: jwt_decoder where
  "fx_decode tok =
     (if tok = ''token''
      then Inr \<lparr>claim_sub = Some ''00000000-0000-0000-0000-000000000066'', claim_email = Some ''bob@x.org''\<rparr>
      else Inl InvalidTokenError)"

text \<open>The Editor role may read the workspace.\<close>

definition fx_granted :: world where
  "fx_granted = world_of (fx_database
     \<lparr>permissions := [\<lparr>p_id = 60, p_stamp = no_stamp, p_name = ''workspace.read'', p_resource = ''workspace'',
        p_action = ''read'', p_description = None, p_is_system = True\<rparr>],
      role_permissions := [\<lparr>rp_id = 61, rp_role_id = 11, rp_permission_id = 60, rp_created_at = 0\<rparr>]\<rparr>)"

text \<open>C9 (safety). Only an authorized user gets past the dependencies of a workspace endpoint: the token
  was verified and names this user, the account is active, the workspace of the path exists and is
  not deleted, and either the user has a membership in it that is not removed, whose role grants the
  permission of the route, and that is active unless the user owns the workspace; or the user owns
  the workspace and has no membership in it.\<close>

theorem authorize_sound:
  assumes run: "authorize decode tok i resource action w = (Inr (user, ws), w')"
  shows "u_is_active user \<and> user \<in> set (users (db w')) \<and>
         (\<exists>payload s. decode tok = Inr payload \<and> claim_sub payload = Some s \<and>
            uuid_of_str s = Some (u_supabase_user_id user)) \<and>
         ws \<in> set (workspaces (db w')) \<and> w_id ws = i \<and> deleted_at (w_soft ws) = None \<and>
         ((\<exists>m \<in> set (workspace_members (db w')). m_workspace_id m = i \<and> m_user_id m = u_id user \<and>
             deleted_at (m_soft m) = None \<and> granted (db w') (m_role_id m) resource action) \<and>
          ((\<exists>m \<in> set (workspace_members (db w')). m_workspace_id m = i \<and> m_user_id m = u_id user \<and>
             deleted_at (m_soft m) = None \<and> m_status m = MemberStatus_ACTIVE) \<or> w_owner_id ws = u_id user) \<or>
          (\<forall>m \<in> set (workspace_members (db w')). m_workspace_id m = i \<longrightarrow> m_user_id m = u_id user \<longrightarrow>
             deleted_at (m_soft m) \<noteq> None) \<and> w_owner_id ws = u_id user)"
proof -
  obtain w1 w2 b where u: "get_current_user decode tok w = (Inr user, w1)"
    and ws: "get_current_workspace i user w1 = (Inr ws, w2)"
    and p: "require_permission resource action i user w2 = (Inr b, w')"
    using run by (auto simp: authorize_def bindM_eq_Inr)
  note u' = get_current_user_Inr [OF u]
  note ws' = get_current_workspace_Inr [OF ws]
  note p' = require_permission_Inr [OF p]
  have "w' = w1" using ws'(1) read_onlyD [OF read_only_permission p] by simp
  with u' ws' p' show ?thesis by (auto simp: visible_def)
qed

section \<open>The audit route\<close>

text \<open>\<open>app/operations/audit/router.py\<close> declares the permission only.\<close>

definition audit_logs_endpoint ::
  "jwt_decoder \<Rightarrow> string \<Rightarrow> uuid \<Rightarrow> nat \<Rightarrow> nat \<Rightarrow> ('z, AuditLog list) io" where
  "audit_logs_endpoint decode tok workspace_id limit offset =
     get_db_session
       (bindM (get_current_user decode tok) (\<lambda>user.
        thenM (require_permission ''workspace'' ''read'' workspace_id user)
          (get_workspace_audit_logs workspace_id limit offset)))"

lemma get_member_the:
  assumes "one_membership (workspace_members (db w))" and "distinct (map m_id (workspace_members (db w)))"
    and "m \<in> set (workspace_members (db w))" "deleted_at (m_soft m) = None"
  shows "get_member (m_workspace_id m) (m_user_id m) w = (Inr (Some m), w)"
proof -
  have eq: "m_workspace_id x = m_workspace_id m \<and> m_user_id x = m_user_id m \<and> deleted_at (m_soft x) = None
      \<longleftrightarrow> m_id x = m_id m" if "x \<in> set (workspace_members (db w))" for x
    using assms that unfolding one_membership_def by (metis distinct_map_inj prod.inject)
  have "filter (\<lambda>x. m_workspace_id x = m_workspace_id m \<and> m_user_id x = m_user_id m \<and>
      deleted_at (m_soft x) = None) (workspace_members (db w)) =
    filter (\<lambda>x. m_id x = m_id m) (workspace_members (db w))"
    by (rule filter_cong [OF refl]) (rule eq)
  also have "\<dots> = [m]" using assms(2,3) by (rule filter_unique_key)
  finally show ?thesis by (simp add: get_member_def)
qed

lemma authorize_sound_witness:
  "\<exists>user ws w'. authorize fx_decode ''token'' 20 ''workspace'' ''read'' fx_granted = (Inr (user, ws), w') \<and>
     u_is_active user"
proof -
  have "succeeds (authorize fx_decode ''token'' 20 ''workspace'' ''read'') fx_granted" by code_simp
  then obtain p w' where "authorize fx_decode ''token'' 20 ''workspace'' ''read'' fx_granted = (Inr p, w')"
    by (rule succeedsE)
  then obtain user ws where
    run: "authorize fx_decode ''token'' 20 ''workspace'' ''read'' fx_granted = (Inr (user, ws), w')"
    by (cases p) auto
  from authorize_sound [OF run] run show ?thesis by auto
qed

text \<open>A suspended member whose role may read the workspace is refused by every endpoint that
  resolves the workspace, and still reads its audit trail, because that route asks for the permission
  only and the permission check does not look at the status of the membership.\<close>

lemma suspended_member_reads_audit:
  assumes m: "m \<in> set (workspace_members (db w))" "deleted_at (m_soft m) = None"
    "m_status m = MemberStatus_SUSPENDED" "m_user_id m = u_id user"
    and one: "one_membership (workspace_members (db w))" "distinct (map m_id (workspace_members (db w)))"
    and grant: "granted (db w) (m_role_id m) ''workspace'' ''read''"
    and user: "get_current_user decode tok w = (Inr user, w)"
    and ws: "get_by_id Workspace_model (m_workspace_id m) w = (Inr (Some ws), w)" "w_owner_id ws \<noteq> u_id user"
  shows "fst (authorize decode tok (m_workspace_id m) resource action w) =
           Inl (HTTPException 403 ''Not a member of this workspace'') \<and>
         fst (audit_logs_endpoint decode tok (m_workspace_id m) limit offset w) =
           fst (get_workspace_audit_logs (m_workspace_id m) limit offset w)"
proof
  have g: "get_member (m_workspace_id m) (u_id user) w = (Inr (Some m), w)"
    using get_member_the [OF one m(1,2)] m(4) by simp
  have id: "w_id ws = m_workspace_id m" using get_by_id_Some(3) [OF ws(1)] by simp
  show "fst (authorize decode tok (m_workspace_id m) resource action w) =
           Inl (HTTPException 403 ''Not a member of this workspace'')"
    using user ws g m(3) id
    by (simp add: authorize_def get_current_workspace_def bindM_def)
  from grant have "list_ex (\<lambda>p. p_resource p = ''workspace'' \<and> p_action p = ''read'')
      (concat (map (\<lambda>p. map (\<lambda>_. p) (filter (\<lambda>rp. rp_permission_id rp = p_id p \<and> rp_role_id rp = m_role_id m)
         (role_permissions (db w)))) (permissions (db w))))"
    by (auto simp: granted_def list_ex_iff filter_empty_conv)
  with g have "require_permission ''workspace'' ''read'' (m_workspace_id m) user w = (Inr True, w)"
    by (simp add: require_permission_def bindM_def [of "get_member _ _"])
  with user show "fst (audit_logs_endpoint decode tok (m_workspace_id m) limit offset w) =
           fst (get_workspace_audit_logs (m_workspace_id m) limit offset w)"
    by (simp add: audit_logs_endpoint_def get_db_session_def with_session_def bindM_def split: prod.splits)
qed

lemma suspended_member_reads_audit_witness:
  "\<exists>w :: world. fst (authorize fx_decode ''token'' 20 ''workspace'' ''read'' w) =
         Inl (HTTPException 403 ''Not a member of this workspace'') \<and>
       fst (audit_logs_endpoint fx_decode ''token'' 20 10 0 w) = Inr []"
proof -
  let ?m = "fx_member 32 2 11\<lparr>m_status := MemberStatus_SUSPENDED\<rparr>"
  let ?w = "world_of (db fx_granted\<lparr>workspace_members := [fx_member 31 1 10, ?m]\<rparr>)"
  have "fst (authorize fx_decode ''token'' (m_workspace_id ?m) ''workspace'' ''read'' ?w) =
          Inl (HTTPException 403 ''Not a member of this workspace'') \<and>
        fst (audit_logs_endpoint fx_decode ''token'' (m_workspace_id ?m) 10 0 ?w) =
          fst (get_workspace_audit_logs (m_workspace_id ?m) 10 0 ?w)"
  proof (rule suspended_member_reads_audit)
    show "?m \<in> set (workspace_members (db ?w))" by simp
    show "deleted_at (m_soft ?m) = None" "m_status ?m = MemberStatus_SUSPENDED"
      "m_user_id ?m = u_id (fx_user 2)" by (simp_all add: fx_member_def not_deleted_def fx_user_def)
    show "one_membership (workspace_members (db ?w))"
      "distinct (map m_id (workspace_members (db ?w)))" by code_simp+
    show "granted (db ?w) (m_role_id ?m) ''workspace'' ''read''" by code_simp
    have u: "fst (get_current_user fx_decode ''token'' ?w) = Inr (fx_user 2)" by code_simp
    have "get_current_user fx_decode ''token'' ?w = (fst (get_current_user fx_decode ''token'' ?w), ?w)"
      by (simp add: get_current_user_def verify_jwt_def fx_decode_def bindM_def get_or_create_user_def
          truthy_str_def get_by_supabase_id_def fx_granted_def fx_database_def fx_user_def uuid_of_str_def
          live_def visible_def not_deleted_def hex_value_def)
    with u show "get_current_user fx_decode ''token'' ?w = (Inr (fx_user 2), ?w)" by simp
    have "w_id fx_workspace = m_workspace_id ?m" by (simp add: fx_workspace_def fx_member_def)
    then show "get_by_id Workspace_model (m_workspace_id ?m) ?w = (Inr (Some fx_workspace), ?w)"
      by (simp add: get_by_id_run fx_granted_def fx_database_def visible_def fx_workspace_def not_deleted_def)
    show "w_owner_id fx_workspace \<noteq> u_id (fx_user 2)" by (simp add: fx_workspace_def fx_user_def)
  qed
  moreover have "m_workspace_id ?m = 20" "fst (get_workspace_audit_logs 20 10 0 ?w) = Inr []" by code_simp+
  ultimately show ?thesis by (intro exI [of _ ?w]) simp
qed

end
