(* ===== verification/Tenancy_Endpoints.thy ===== *)
theory Tenancy_Endpoints
  imports Auth
begin

text \<open>
  The routes of workspaces, members and invitations (\<open>app/api/v1/endpoints/workspaces.py\<close>,
  \<open>members.py\<close>, \<open>invites.py\<close>). A route runs its dependencies and its handler in one session; the ones
  that write commit at the end. \<open>refresh\<close> reads the row back and the response model copies it, so the
  answer is the row.
\<close>

section \<open>Shapes\<close>

definition workspace_route ::
  "jwt_decoder \<Rightarrow> string \<Rightarrow> uuid \<Rightarrow> string \<Rightarrow> string \<Rightarrow> (User \<Rightarrow> Workspace \<Rightarrow> ('z, 'a) io) \<Rightarrow> ('z, 'a) io" where
  "workspace_route decode tok workspace_id resource action handler =
     bindM (authorize decode tok workspace_id resource action) (\<lambda>(user, workspace). handler user workspace)"

definition then_commit :: "('z, 'a) io \<Rightarrow> ('z, 'a) io" where
  "then_commit m = bindM m (\<lambda>x. thenM commit (returnM x))"

section \<open>Workspaces\<close>

text \<open>\<open>WorkspaceCreateInternal(**data.model_dump(), owner_id=user.id, created_by=user.id)\<close>\<close>

definition internal_data :: "WorkspaceCreateInternal \<Rightarrow> User \<Rightarrow> WorkspaceCreateInternal" where
  "internal_data data user = data\<lparr>wc_owner_id := u_id user, wc_created_by := u_id user\<rparr>"

definition route_create_workspace ::
  "jwt_decoder \<Rightarrow> string \<Rightarrow> WorkspaceCreateInternal \<Rightarrow> ('z, Workspace) io" where
  "route_create_workspace decode tok data =
     bindM (get_current_user decode tok) (\<lambda>user. create_workspace user (internal_data data user))"

definition route_get_workspaces :: "jwt_decoder \<Rightarrow> string \<Rightarrow> ('z, Workspace list) io" where
  "route_get_workspaces decode tok =
     bindM (get_current_user decode tok) (\<lambda>user. get_user_workspaces (u_id user))"

definition route_get_workspace :: "jwt_decoder \<Rightarrow> string \<Rightarrow> uuid \<Rightarrow> ('z, Workspace) io" where
  "route_get_workspace decode tok i =
     workspace_route decode tok i ''workspace'' ''read'' (\<lambda>user workspace. returnM workspace)"

definition route_update_workspace ::
  "jwt_decoder \<Rightarrow> string \<Rightarrow> uuid \<Rightarrow> WorkspaceUpdate \<Rightarrow> ('z, Workspace) io" where
  "route_update_workspace decode tok i data =
     workspace_route decode tok i ''workspace'' ''update''
       (\<lambda>user workspace. update_workspace user workspace data)"

definition route_delete_workspace :: "jwt_decoder \<Rightarrow> string \<Rightarrow> uuid \<Rightarrow> ('z, unit) io" where
  "route_delete_workspace decode tok i =
     workspace_route decode tok i ''workspace'' ''delete''
       (\<lambda>user workspace. delete_workspace user workspace)"

definition route_transfer_ownership ::
  "jwt_decoder \<Rightarrow> string \<Rightarrow> uuid \<Rightarrow> WorkspaceTransferOwnershipRequest \<Rightarrow> ('z, Workspace) io" where
  "route_transfer_ownership decode tok i data =
     workspace_route decode tok i ''workspace'' ''update''
       (\<lambda>user workspace. transfer_ownership user workspace data)"

section \<open>Members\<close>

definition route_get_members :: "jwt_decoder \<Rightarrow> string \<Rightarrow> uuid \<Rightarrow> ('z, WorkspaceMember list) io" where
  "route_get_members decode tok i =
     workspace_route decode tok i ''workspace_member'' ''read''
       (\<lambda>user workspace. get_members (w_id workspace))"

definition route_get_member :: "jwt_decoder \<Rightarrow> string \<Rightarrow> uuid \<Rightarrow> uuid \<Rightarrow> ('z, WorkspaceMember) io" where
  "route_get_member decode tok i member_id =
     workspace_route decode tok i ''workspace_member'' ''read''
       (\<lambda>user workspace. get_workspace_member (w_id workspace) member_id)"

definition route_update_member ::
  "jwt_decoder \<Rightarrow> string \<Rightarrow> uuid \<Rightarrow> uuid \<Rightarrow> uuid \<Rightarrow> ('z, WorkspaceMember) io" where
  "route_update_member decode tok i member_id role_id =
     workspace_route decode tok i ''workspace_member'' ''update''
       (\<lambda>user workspace. change_role user workspace member_id role_id)"

definition route_remove_member :: "jwt_decoder \<Rightarrow> string \<Rightarrow> uuid \<Rightarrow> uuid \<Rightarrow> ('z, unit) io" where
  "route_remove_member decode tok i member_id =
     workspace_route decode tok i ''workspace_member'' ''delete''
       (\<lambda>user workspace. remove_member user workspace member_id)"

definition route_suspend_member :: "jwt_decoder \<Rightarrow> string \<Rightarrow> uuid \<Rightarrow> uuid \<Rightarrow> ('z, WorkspaceMember) io" where
  "route_suspend_member decode tok i member_id =
     workspace_route decode tok i ''workspace_member'' ''update''
       (\<lambda>user workspace. suspend_member user workspace member_id)"

definition route_reactivate_member :: "jwt_decoder \<Rightarrow> string \<Rightarrow> uuid \<Rightarrow> uuid \<Rightarrow> ('z, WorkspaceMember) io" where
  "route_reactivate_member decode tok i member_id =
     workspace_route decode tok i ''workspace_member'' ''update''
       (\<lambda>user workspace. reactivate_member user workspace member_id)"

section \<open>Invitations\<close>

definition route_create_invite ::
  "jwt_decoder \<Rightarrow> string \<Rightarrow> uuid \<Rightarrow> string \<Rightarrow> uuid \<Rightarrow> ('z, WorkspaceInvite) io" where
  "route_create_invite decode tok i email role_id =
     workspace_route decode tok i ''workspace_invite'' ''create''
       (\<lambda>user workspace. create_invite user workspace email role_id)"

definition route_get_invites :: "jwt_decoder \<Rightarrow> string \<Rightarrow> uuid \<Rightarrow> ('z, WorkspaceInvite list) io" where
  "route_get_invites decode tok i =
     workspace_route decode tok i ''workspace_invite'' ''read''
       (\<lambda>user workspace. get_invites (w_id workspace))"

definition route_revoke_invite :: "jwt_decoder \<Rightarrow> string \<Rightarrow> uuid \<Rightarrow> uuid \<Rightarrow> ('z, WorkspaceInvite) io" where
  "route_revoke_invite decode tok i invite_id =
     workspace_route decode tok i ''workspace_invite'' ''delete''
       (\<lambda>user workspace. revoke_invite user workspace invite_id)"

definition route_resend_invite :: "jwt_decoder \<Rightarrow> string \<Rightarrow> uuid \<Rightarrow> uuid \<Rightarrow> ('z, WorkspaceInvite) io" where
  "route_resend_invite decode tok i invite_id =
     workspace_route decode tok i ''workspace_invite'' ''update''
       (\<lambda>user workspace. resend_invite user workspace invite_id)"

definition route_accept_invite :: "jwt_decoder \<Rightarrow> string \<Rightarrow> string \<Rightarrow> ('z, unit) io" where
  "route_accept_invite decode tok invite_token =
     bindM (get_current_user decode tok) (\<lambda>user. accept_invite user invite_token)"

section \<open>The requests\<close>

datatype tenancy_call =
    PostWorkspace WorkspaceCreateInternal
  | GetWorkspaces
  | GetWorkspace uuid
  | PatchWorkspace uuid WorkspaceUpdate
  | DeleteWorkspace uuid
  | PostTransfer uuid WorkspaceTransferOwnershipRequest
  | GetMembers uuid
  | GetMember uuid uuid
  | PatchMember uuid uuid uuid
  | DeleteMember uuid uuid
  | PostSuspend uuid uuid
  | PostReactivate uuid uuid
  | PostInvite uuid string uuid
  | GetInvites uuid
  | PostRevoke uuid uuid
  | PostResend uuid uuid
  | PostAccept string

definition answered :: "('z, 'a) io \<Rightarrow> ('z, unit) io" where
  "answered m = thenM m (returnM ())"

text \<open>What a request does before its commit, if it has one.\<close>

fun tenancy_work :: "jwt_decoder \<Rightarrow> string \<Rightarrow> tenancy_call \<Rightarrow> ('z, unit) io" where
  "tenancy_work dec tok (PostWorkspace data) = answered (route_create_workspace dec tok data)"
| "tenancy_work dec tok GetWorkspaces = answered (route_get_workspaces dec tok)"
| "tenancy_work dec tok (GetWorkspace i) = answered (route_get_workspace dec tok i)"
| "tenancy_work dec tok (PatchWorkspace i data) = answered (route_update_workspace dec tok i data)"
| "tenancy_work dec tok (DeleteWorkspace i) = answered (route_delete_workspace dec tok i)"
| "tenancy_work dec tok (PostTransfer i data) = answered (route_transfer_ownership dec tok i data)"
| "tenancy_work dec tok (GetMembers i) = answered (route_get_members dec tok i)"
| "tenancy_work dec tok (GetMember i m) = answered (route_get_member dec tok i m)"
| "tenancy_work dec tok (PatchMember i m r) = answered (route_update_member dec tok i m r)"
| "tenancy_work dec tok (DeleteMember i m) = answered (route_remove_member dec tok i m)"
| "tenancy_work dec tok (PostSuspend i m) = answered (route_suspend_member dec tok i m)"
| "tenancy_work dec tok (PostReactivate i m) = answered (route_reactivate_member dec tok i m)"
| "tenancy_work dec tok (PostInvite i email r) = answered (route_create_invite dec tok i email r)"
| "tenancy_work dec tok (GetInvites i) = answered (route_get_invites dec tok i)"
| "tenancy_work dec tok (PostRevoke i v) = answered (route_revoke_invite dec tok i v)"
| "tenancy_work dec tok (PostResend i v) = answered (route_resend_invite dec tok i v)"
| "tenancy_work dec tok (PostAccept t) = answered (route_accept_invite dec tok t)"

fun is_read :: "tenancy_call \<Rightarrow> bool" where
  "is_read GetWorkspaces = True"
| "is_read (GetWorkspace i) = True"
| "is_read (GetMembers i) = True"
| "is_read (GetMember i m) = True"
| "is_read (GetInvites i) = True"
| "is_read _ = False"

definition serve_tenancy :: "jwt_decoder \<Rightarrow> string \<Rightarrow> tenancy_call \<Rightarrow> ('z, unit) io" where
  "serve_tenancy decode tok call =
     get_db_session
       (if is_read call then tenancy_work decode tok call
        else then_commit (tenancy_work decode tok call))"

section \<open>No handler commits\<close>

lemma same_user: "obeys uncommitted.same (get_current_user decode tok)"
  unfolding get_current_user_def verify_jwt_def get_or_create_user_def
  by (intro uncommitted.same_intros)
    (auto split: sum.splits jwt_error.splits intro!: uncommitted.same_intros)

lemma same_authorize: "obeys uncommitted.same (authorize decode tok i r a)"
  unfolding authorize_def
  using read_only_workspace read_only_permission
  by (intro uncommitted.same_intros same_user uncommitted.read_only_obeys)

lemma same_route:
  "(\<And>u ws. obeys uncommitted.same (h u ws)) \<Longrightarrow> obeys uncommitted.same (workspace_route decode tok i r a h)"
  unfolding workspace_route_def by (intro uncommitted.obeys_bind same_authorize) auto

lemma same_answered: "obeys uncommitted.same m \<Longrightarrow> obeys uncommitted.same (answered m)"
  unfolding answered_def by (intro uncommitted.obeys_then uncommitted.obeys_return)

lemma same_attribute: "obeys uncommitted.same (attribute_of x)"
  unfolding attribute_of_def by (intro uncommitted.same_intros)

lemma same_member_lookup:
  "obeys uncommitted.same (get_workspace_member i m)" "obeys uncommitted.same (protect_owner_role i x)"
  "obeys uncommitted.same (edit_member m f)" "obeys uncommitted.same (repo_remove_member m)"
  "obeys uncommitted.same (repo_transfer_ownership i a b c)"
  unfolding get_workspace_member_def protect_owner_role_def edit_member_def repo_remove_member_def
    repo_transfer_ownership_def Let_def
  by (intro uncommitted.same_intros)+

lemma same_member_handlers:
  "obeys uncommitted.same (change_role u ws m r)" "obeys uncommitted.same (suspend_member u ws m)"
  "obeys uncommitted.same (reactivate_member u ws m)" "obeys uncommitted.same (remove_member u ws m)"
  unfolding change_role_def suspend_member_def reactivate_member_def remove_member_def Let_def
    repo_change_role_def repo_suspend_member_def repo_reactivate_member_def
  by (intro uncommitted.same_intros same_member_lookup same_attribute)+

lemma same_workspace_handlers:
  "obeys uncommitted.same (create_workspace u c)" "obeys uncommitted.same (update_workspace u ws d)"
  "obeys uncommitted.same (delete_workspace u ws)" "obeys uncommitted.same (transfer_ownership u ws t)"
  unfolding create_workspace_def update_workspace_def delete_workspace_def transfer_ownership_def Let_def
    repo_change_role_def
  by (intro uncommitted.same_intros same_member_lookup)+

lemma same_invite_repository:
  "obeys uncommitted.same (repo_revoke_invite i)" "obeys uncommitted.same (repo_resend_invite i t)"
  "obeys uncommitted.same (repo_accept_invite i)" "obeys uncommitted.same (create_invitation v)"
  "obeys uncommitted.same (send_invitation a b c d)" "obeys uncommitted.same (workspace_invite ws i)"
  "obeys uncommitted.same (reject_existing_member ws email)" "obeys uncommitted.same (check_invite v)"
  "obeys uncommitted.same (join_workspace v u)"
  unfolding repo_revoke_invite_def repo_resend_invite_def repo_accept_invite_def create_invitation_def
    send_invitation_def workspace_invite_def reject_existing_member_def check_invite_def
    join_workspace_def Let_def
  by (intro uncommitted.same_intros)+

lemma same_invite_handlers:
  "obeys uncommitted.same (create_invite u ws email r)" "obeys uncommitted.same (revoke_invite u ws i)"
  "obeys uncommitted.same (resend_invite u ws i)" "obeys uncommitted.same (accept_invite u t)"
  unfolding create_invite_def revoke_invite_def resend_invite_def accept_invite_def Let_def
    resend_invitation_def
  by (intro uncommitted.same_intros same_invite_repository same_attribute)+

lemmas tenancy_routes = route_create_workspace_def route_get_workspaces_def route_get_workspace_def
  route_update_workspace_def route_delete_workspace_def route_transfer_ownership_def
  route_get_members_def route_get_member_def route_update_member_def route_remove_member_def
  route_suspend_member_def route_reactivate_member_def route_create_invite_def route_get_invites_def
  route_revoke_invite_def route_resend_invite_def route_accept_invite_def

lemma same_tenancy_work: "obeys uncommitted.same (tenancy_work decode tok call)"
  by (cases call; simp only: tenancy_work.simps tenancy_routes get_user_workspaces_def get_members_def
      get_by_workspace_def get_invites_def;
      intro same_answered same_route uncommitted.obeys_bind same_user same_member_handlers
        same_workspace_handlers same_invite_handlers same_member_lookup uncommitted.obeys_return
        uncommitted.obeys_read uncommitted.same_select uncommitted.same_queries)

text \<open>C10 (safety). Every request on workspaces, members and invitations is all or nothing: after it the
  session is closed on what is persisted; a request that answers with an error persists nothing, and
  neither does one that only reads; and a request that writes and answers persists exactly what its
  handler did.\<close>

theorem tenancy_requests_atomic:
  assumes "serve_tenancy decode tok call w = (r, w')"
  shows "db w' = committed w' \<and>
         (\<forall>e. r = Inl e \<longrightarrow> committed w' = committed w) \<and>
         (is_read call \<longrightarrow> committed w' = committed w) \<and>
         (r = Inr () \<and> \<not> is_read call \<longrightarrow>
            tenancy_work decode tok call w = (Inr (), snd (tenancy_work decode tok call w)) \<and>
            committed w' = db (snd (tenancy_work decode tok call w)))"
proof (cases "is_read call")
  case True
  with assms have "get_db_session (tenancy_work decode tok call) w = (r, w')"
    by (simp add: serve_tenancy_def)
  from session_without_commit [OF same_tenancy_work this] True show ?thesis by simp
next
  case False
  with assms have run: "get_db_session
      (bindM (tenancy_work decode tok call) (\<lambda>x. thenM commit (returnM (id x)))) w = (r, w')"
    by (simp add: serve_tenancy_def then_commit_def)
  from session_then_commit [OF same_tenancy_work run] False show ?thesis by auto
qed

lemma tenancy_requests_atomic_witness:
  "committed (snd (serve_tenancy fx_decode ''bad'' (DeleteWorkspace 20) fx_granted)) = committed fx_granted"
proof -
  have e: "fst (serve_tenancy fx_decode ''bad'' (DeleteWorkspace 20) fx_granted) =
      Inl (HTTPException 401 ''Invalid authentication token'')" by code_simp
  from tenancy_requests_atomic [OF prod.collapse [symmetric], of fx_decode "''bad''" "DeleteWorkspace 20" fx_granted] e
  show ?thesis by blast
qed

end
