(* ===== verification/Campaign_Service.thy ===== *)
theory Campaign_Service
  imports Tenancy_Endpoints "HOL-Library.Sublist"
begin

text \<open>
  Campaigns: the repository (\<open>app/repositories/campaign.py\<close>), the service (\<open>app/services/campaign.py\<close>),
  its request bodies (\<open>app/schemas/campaign.py\<close>) and its routes
  (\<open>app/api/v1/endpoints/campaigns.py\<close>).
\<close>

section \<open>The repository\<close>

text \<open>SQL's \<open>LIKE\<close>: a percent sign matches any run of characters, an underscore any one character, and a backslash takes the next
  character as it is.\<close>

function like :: "string \<Rightarrow> string \<Rightarrow> bool" where
  "like [] s = (s = [])"
| "like (p # ps) s =
     (if p = CHR ''%'' then like ps s \<or> (case s of [] \<Rightarrow> False | _ # cs \<Rightarrow> like (p # ps) cs)
      else if p = CHR ''_'' then (case s of [] \<Rightarrow> False | _ # cs \<Rightarrow> like ps cs)
      else if p = CHR 0x5C
        then (case ps of [] \<Rightarrow> False
              | q # qs \<Rightarrow> (case s of [] \<Rightarrow> False | c # cs \<Rightarrow> c = q \<and> like qs cs))
      else (case s of [] \<Rightarrow> False | c # cs \<Rightarrow> c = p \<and> like ps cs))"
  by pat_completeness auto
termination
  by (relation "measure (\<lambda>(p, s). length p + length s)") auto

definition ilike :: "string option \<Rightarrow> string \<Rightarrow> bool" where
  "ilike col pattern = (case col of None \<Rightarrow> False | Some s \<Rightarrow> like (py_lower pattern) (py_lower s))"

definition newest_campaigns :: "nat \<Rightarrow> nat \<Rightarrow> (Campaign \<Rightarrow> bool) \<Rightarrow> ('z, Campaign list) io" where
  "newest_campaigns skip limit p =
     bindM (select Campaign_model p)
       (\<lambda>cs. returnM (page skip limit (sort_desc (\<lambda>c. created_at (c_stamp c)) cs)))"

definition get_by_workspace_id :: "uuid \<Rightarrow> nat \<Rightarrow> nat \<Rightarrow> ('z, Campaign list) io" where
  "get_by_workspace_id ws skip limit =
     newest_campaigns skip limit (\<lambda>c. c_workspace_id c = ws \<and> deleted_at (c_soft c) = None)"

definition get_by_status :: "uuid \<Rightarrow> CampaignStatus \<Rightarrow> nat \<Rightarrow> nat \<Rightarrow> ('z, Campaign list) io" where
  "get_by_status ws st skip limit =
     newest_campaigns skip limit
       (\<lambda>c. c_workspace_id c = ws \<and> c_status c = CampaignStatus_value st \<and> deleted_at (c_soft c) = None)"

definition search_campaigns :: "uuid \<Rightarrow> string \<Rightarrow> nat \<Rightarrow> nat \<Rightarrow> ('z, Campaign list) io" where
  "search_campaigns ws query skip limit =
     (let search_pattern = ''%'' @ query @ ''%'' in
     newest_campaigns skip limit
       (\<lambda>c. c_workspace_id c = ws \<and> deleted_at (c_soft c) = None \<and>
            (ilike (Some (c_campaign_name c)) search_pattern \<or> ilike (c_description c) search_pattern \<or>
             ilike (c_objective c) search_pattern)))"

section \<open>Request bodies\<close>

record CampaignCreate =
  ca_campaign_name :: string
  ca_description :: "string option"
  ca_objective :: "string option"
  ca_campaign_type :: "string option"
  ca_target_channels :: "string option"
  ca_budget :: "int option"
  ca_currency :: "string option"
  ca_start_date :: "time option"
  ca_end_date :: "time option"
  ca_brand_kit_id :: "uuid option"

record CampaignUpdate =
  cu_campaign_name :: "string option option"
  cu_description :: "string option option"
  cu_objective :: "string option option"
  cu_campaign_type :: "string option option"
  cu_target_channels :: "string option option"
  cu_budget :: "int option option"
  cu_currency :: "string option option"
  cu_start_date :: "time option option"
  cu_end_date :: "time option option"
  cu_brand_kit_id :: "uuid option option"

text \<open>Reading a field of a partial update: the default \<open>None\<close> when it is unset.\<close>

definition field :: "'a option option \<Rightarrow> 'a option" where
  "field x = (case x of None \<Rightarrow> None | Some v \<Rightarrow> v)"

section \<open>The service\<close>

definition check_dates :: "time option \<Rightarrow> time option \<Rightarrow> ('z, unit) io" where
  "check_dates start_date end_date =
     raise_if (case (start_date, end_date) of (Some s, Some e) \<Rightarrow> e \<le> s | _ \<Rightarrow> False)
       (HTTPException 400 ''End date must be after start date'')"

definition check_brand_kit :: "uuid \<Rightarrow> uuid \<Rightarrow> ('z, unit) io" where
  "check_brand_kit workspace_id brand_kit_id =
     bindM (select BrandKit_model (\<lambda>b. b_id b = brand_kit_id \<and> b_workspace_id b = workspace_id)) (\<lambda>rows.
     bindM (scalar_one_or_none rows) (\<lambda>kit.
     raise_if (kit = None) (HTTPException 404 ''Brand kit not found in this workspace'')))"

definition new_campaign :: "uuid \<Rightarrow> uuid \<Rightarrow> CampaignCreate \<Rightarrow> Campaign" where
  "new_campaign workspace_id owner_id data =
     \<lparr>c_id = 0, c_stamp = no_stamp, c_soft = not_deleted, c_audit = no_audit,
      c_workspace_id = workspace_id, c_owner_id = owner_id, c_brand_kit_id = ca_brand_kit_id data,
      c_campaign_name = ca_campaign_name data, c_description = ca_description data,
      c_objective = ca_objective data, c_campaign_type = ca_campaign_type data,
      c_target_channels = ca_target_channels data, c_status = CampaignStatus_value CampaignStatus_DRAFT,
      c_budget = ca_budget data, c_currency = ca_currency data, c_start_date = ca_start_date data,
      c_end_date = ca_end_date data\<rparr>"

definition create_campaign :: "uuid \<Rightarrow> uuid \<Rightarrow> CampaignCreate \<Rightarrow> ('z, Campaign) io" where
  "create_campaign workspace_id owner_id campaign_in =
     thenM (check_dates (ca_start_date campaign_in) (ca_end_date campaign_in)) (
     thenM (case ca_brand_kit_id campaign_in of
              None \<Rightarrow> returnM ()
            | Some kit \<Rightarrow> check_brand_kit workspace_id kit)
       (create Campaign_model (new_campaign workspace_id owner_id campaign_in)))"

definition get_campaign :: "uuid \<Rightarrow> uuid \<Rightarrow> ('z, Campaign) io" where
  "get_campaign workspace_id campaign_id =
     bindM (get_by_id Campaign_model campaign_id) (\<lambda>campaign.
     case campaign of
       None \<Rightarrow> raiseM (HTTPException 404 ''Campaign not found'')
     | Some c \<Rightarrow>
         if c_workspace_id c \<noteq> workspace_id then raiseM (HTTPException 404 ''Campaign not found'')
         else returnM c)"

definition get_campaigns ::
  "uuid \<Rightarrow> nat \<Rightarrow> nat \<Rightarrow> CampaignStatus option \<Rightarrow> string option \<Rightarrow> ('z, Campaign list) io" where
  "get_campaigns workspace_id skip limit st search =
     (if truthy_str search then search_campaigns workspace_id (the search) skip limit
      else case st of
        Some s \<Rightarrow> get_by_status workspace_id s skip limit
      | None \<Rightarrow> get_by_workspace_id workspace_id skip limit)"

definition campaign_assign :: "CampaignUpdate \<Rightarrow> Campaign \<Rightarrow> Campaign" where
  "campaign_assign u c =
     c\<lparr>c_campaign_name := set_or (cu_campaign_name u) (c_campaign_name c),
       c_description := set_nullable (cu_description u) (c_description c),
       c_objective := set_nullable (cu_objective u) (c_objective c),
       c_campaign_type := set_nullable (cu_campaign_type u) (c_campaign_type c),
       c_target_channels := set_nullable (cu_target_channels u) (c_target_channels c),
       c_budget := set_nullable (cu_budget u) (c_budget c),
       c_currency := set_nullable (cu_currency u) (c_currency c),
       c_start_date := set_nullable (cu_start_date u) (c_start_date c),
       c_end_date := set_nullable (cu_end_date u) (c_end_date c),
       c_brand_kit_id := set_nullable (cu_brand_kit_id u) (c_brand_kit_id c)\<rparr>"

text \<open>\<open>x if x is not None else old\<close>\<close>

definition given_or :: "'a option \<Rightarrow> 'a option \<Rightarrow> 'a option" where
  "given_or x old = (case x of None \<Rightarrow> old | Some v \<Rightarrow> Some v)"

definition update_campaign :: "uuid \<Rightarrow> uuid \<Rightarrow> CampaignUpdate \<Rightarrow> ('z, Campaign) io" where
  "update_campaign workspace_id campaign_id campaign_in =
     bindM (get_campaign workspace_id campaign_id) (\<lambda>campaign.
     let new_start = given_or (field (cu_start_date campaign_in)) (c_start_date campaign);
         new_end = given_or (field (cu_end_date campaign_in)) (c_end_date campaign) in
     thenM (check_dates new_start new_end) (
     thenM (case field (cu_brand_kit_id campaign_in) of
              None \<Rightarrow> returnM ()
            | Some kit \<Rightarrow>
                whenM (Some kit \<noteq> c_brand_kit_id campaign) (check_brand_kit workspace_id kit)) (
     thenM (raise_if (cu_campaign_name campaign_in = Some None) IntegrityError)
       (update Campaign_model (c_id campaign) (campaign_assign campaign_in)))))"

definition delete_campaign :: "uuid \<Rightarrow> uuid \<Rightarrow> ('z, Campaign) io" where
  "delete_campaign workspace_id campaign_id =
     bindM (get_campaign workspace_id campaign_id) (\<lambda>campaign.
     bindM (delete Campaign_model (c_id campaign) True) (\<lambda>deleted.
     thenM (raise_if (\<not> deleted) (HTTPException 404 ''Campaign not found''))
       (returnM campaign)))"

text \<open>The table \<open>valid_transitions\<close>, looked up with the string that the column holds; the members are
  strings too, equal to their values.\<close>

definition valid_transitions :: "string \<Rightarrow> CampaignStatus list" where
  "valid_transitions s =
     (if s = ''DRAFT'' then [CampaignStatus_ACTIVE, CampaignStatus_ARCHIVED]
      else if s = ''ACTIVE'' then [CampaignStatus_PAUSED, CampaignStatus_COMPLETED, CampaignStatus_ARCHIVED]
      else if s = ''PAUSED'' then [CampaignStatus_ACTIVE, CampaignStatus_COMPLETED, CampaignStatus_ARCHIVED]
      else if s = ''COMPLETED'' then [CampaignStatus_ARCHIVED]
      else [])"

text \<open>The loaded status is a plain string, so building the message of the refusal reads an attribute
  that strings do not have.\<close>

definition change_status :: "uuid \<Rightarrow> uuid \<Rightarrow> CampaignStatus \<Rightarrow> ('z, Campaign) io" where
  "change_status workspace_id campaign_id new_status =
     bindM (get_campaign workspace_id campaign_id) (\<lambda>campaign.
     let current_status = c_status campaign in
     if current_status = CampaignStatus_value new_status then returnM campaign
     else
     thenM (raise_if (\<not> list_ex (\<lambda>s. s = new_status) (valid_transitions current_status))
              (AttributeError ''value''))
       (update Campaign_model (c_id campaign) (\<lambda>c. c\<lparr>c_status := CampaignStatus_value new_status\<rparr>)))"

section \<open>The routes\<close>

text \<open>The permission of a campaign route is in its \<open>dependencies\<close>, which come first.\<close>

definition campaign_route ::
  "jwt_decoder \<Rightarrow> string \<Rightarrow> uuid \<Rightarrow> string \<Rightarrow> (User \<Rightarrow> ('z, 'a) io) \<Rightarrow> ('z, 'a) io" where
  "campaign_route decode tok workspace_id action handler =
     get_db_session
       (bindM (get_current_user decode tok) (\<lambda>user.
        thenM (require_permission ''campaign'' action workspace_id user) (
        thenM (get_current_workspace workspace_id user)
          (handler user))))"

definition route_create_campaign ::
  "jwt_decoder \<Rightarrow> string \<Rightarrow> uuid \<Rightarrow> CampaignCreate \<Rightarrow> ('z, Campaign) io" where
  "route_create_campaign decode tok ws campaign_in =
     campaign_route decode tok ws ''create''
       (\<lambda>user. then_commit (create_campaign ws (u_id user) campaign_in))"

definition route_list_campaigns ::
  "jwt_decoder \<Rightarrow> string \<Rightarrow> uuid \<Rightarrow> nat \<Rightarrow> nat \<Rightarrow> CampaignStatus option \<Rightarrow> string option
   \<Rightarrow> ('z, Campaign list) io" where
  "route_list_campaigns decode tok ws skip limit st search =
     campaign_route decode tok ws ''read'' (\<lambda>user. get_campaigns ws skip limit st search)"

definition route_get_campaign :: "jwt_decoder \<Rightarrow> string \<Rightarrow> uuid \<Rightarrow> uuid \<Rightarrow> ('z, Campaign) io" where
  "route_get_campaign decode tok ws i = campaign_route decode tok ws ''read'' (\<lambda>user. get_campaign ws i)"

definition route_update_campaign ::
  "jwt_decoder \<Rightarrow> string \<Rightarrow> uuid \<Rightarrow> uuid \<Rightarrow> CampaignUpdate \<Rightarrow> ('z, Campaign) io" where
  "route_update_campaign decode tok ws i campaign_in =
     campaign_route decode tok ws ''update'' (\<lambda>user. update_campaign ws i campaign_in)"

definition route_delete_campaign :: "jwt_decoder \<Rightarrow> string \<Rightarrow> uuid \<Rightarrow> uuid \<Rightarrow> ('z, Campaign) io" where
  "route_delete_campaign decode tok ws i =
     campaign_route decode tok ws ''delete'' (\<lambda>user. then_commit (delete_campaign ws i))"

definition route_change_campaign_status ::
  "jwt_decoder \<Rightarrow> string \<Rightarrow> uuid \<Rightarrow> uuid \<Rightarrow> CampaignStatus \<Rightarrow> ('z, Campaign) io" where
  "route_change_campaign_status decode tok ws i new_status =
     campaign_route decode tok ws ''update'' (\<lambda>user. change_status ws i new_status)"

section \<open>Tenants\<close>

lemma get_campaign_Inr:
  "get_campaign ws i w = (Inr c, w') \<longleftrightarrow>
     get_by_id Campaign_model i w = (Inr (Some c), w') \<and> c_workspace_id c = ws"
  by (auto simp: get_campaign_def bindM_eq_Inr split: option.splits if_splits)

lemma read_only_get_campaign: "read_only (get_campaign ws i)"
  unfolding get_campaign_def using read_only_get_by_id unfolding read_only_def
  by (intro ro.obeys_bind ro.obeys_case_option ro.obeys_raise ro.obeys_if ro.obeys_return)

text \<open>C11 (safety). Campaigns are isolated between workspaces: reading, updating, deleting or moving a
  campaign that is not a live campaign of the workspace of the request is answered with 404 and
  changes nothing.\<close>

theorem campaigns_tenant_isolation:
  assumes "distinct (map c_id (campaigns (db w)))"
    and "\<forall>c \<in> set (campaigns (db w)).
           c_id c = i \<and> deleted_at (c_soft c) = None \<longrightarrow> c_workspace_id c \<noteq> ws"
  shows "get_campaign ws i w = (Inl (HTTPException 404 ''Campaign not found''), w) \<and>
         update_campaign ws i data w = (Inl (HTTPException 404 ''Campaign not found''), w) \<and>
         delete_campaign ws i w = (Inl (HTTPException 404 ''Campaign not found''), w) \<and>
         change_status ws i st w = (Inl (HTTPException 404 ''Campaign not found''), w)"
proof -
  have "get_campaign ws i w = (Inl (HTTPException 404 ''Campaign not found''), w)"
  proof (cases "find (\<lambda>c. c_id c = i \<and> visible Campaign_model c) (campaigns (db w))")
    case None
    then show ?thesis
      using campaign_repo.get_by_id_total [of w i] assms(1)
      by (simp add: get_campaign_def bindM_def pk_unique_def)
  next
    case (Some c)
    then have "c \<in> set (campaigns (db w))" "c_id c = i" "deleted_at (c_soft c) = None"
      by (auto simp: find_Some_iff visible_def)
    with assms(2) have "c_workspace_id c \<noteq> ws" by blast
    with Some show ?thesis
      using campaign_repo.get_by_id_total [of w i] assms(1)
      by (simp add: get_campaign_def bindM_def pk_unique_def)
  qed
  then show ?thesis
    by (simp add: update_campaign_def delete_campaign_def change_status_def bindM_def)
qed

section \<open>Dates and brand kits\<close>

definition dates_ok :: "Campaign \<Rightarrow> bool" where
  "dates_ok c \<longleftrightarrow> (\<forall>s e. c_start_date c = Some s \<longrightarrow> c_end_date c = Some e \<longrightarrow> s < e)"

definition kit_ok :: "BrandKit list \<Rightarrow> Campaign \<Rightarrow> bool" where
  "kit_ok kits c \<longleftrightarrow>
     (\<forall>k. c_brand_kit_id c = Some k \<longrightarrow>
        (\<exists>b \<in> set kits. b_id b = k \<and> b_workspace_id b = c_workspace_id c))"

definition campaigns_inv :: "database \<Rightarrow> bool" where
  "campaigns_inv d \<longleftrightarrow>
     distinct (map c_id (campaigns d)) \<and>
     (\<forall>c \<in> set (campaigns d). dates_ok c \<and> kit_ok (brand_kits d) c)"

lemma check_brand_kit_Inr:
  "check_brand_kit ws k w = (Inr x, w') \<Longrightarrow>
   w' = w \<and> (\<exists>b \<in> set (brand_kits (db w)). b_id b = k \<and> b_workspace_id b = ws)"
  by (auto simp: check_brand_kit_def bindM_eq_Inr scalar_one_or_none_Some split: if_splits)
    (metis (mono_tags, lifting) filter_eq_ConsD in_set_conv_decomp)+

lemma read_only_check_brand_kit: "read_only (check_brand_kit ws k)"
  unfolding check_brand_kit_def read_only_def
  by (intro ro_intros ro.obeys_raise_if)

text \<open>An edit that keeps identity and workspace and leaves an acceptable row.\<close>

lemma campaigns_inv_dirty:
  assumes inv: "campaigns_inv (db w)" and run: "flush_dirty Campaign_model i f w = (r, w')"
    and f: "\<And>c. c \<in> set (campaigns (db w)) \<Longrightarrow> c_id c = i \<Longrightarrow>
              c_id (f c) = c_id c \<and> dates_ok (f c) \<and> kit_ok (brand_kits (db w)) (f c)"
  shows "campaigns_inv (db w')"
proof (cases "find_pk Campaign_model i (db w)")
  case None
  with run inv show ?thesis by (auto simp: flush_dirty_def)
next
  case (Some c)
  have c: "c \<in> set (campaigns (db w))" "c_id c = i" using find_pk_Some [OF Some] by simp_all
  let ?y = "f c\<lparr>c_stamp := touch_stamp (clock w (ticks w)) (c_stamp (f c))\<rparr>"
  have y: "c_id ?y = i" "dates_ok ?y" "kit_ok (brand_kits (db w)) ?y"
    using f [OF c] c(2) by (simp_all add: dates_ok_def kit_ok_def)
  have "map c_id (upd_where (\<lambda>x. c_id x = i) (\<lambda>_. ?y) (campaigns (db w))) = map c_id (campaigns (db w))"
    by (rule map_upd_where) (simp add: y(1))
  with y inv run Some show ?thesis
    by (auto simp: flush_dirty_def update_row_def campaigns_inv_def set_upd_where split: if_splits)
qed

lemma campaigns_inv_create:
  assumes inv: "campaigns_inv (db w)" and run: "create Campaign_model c w = (r, w')"
    and c: "dates_ok c" "kit_ok (brand_kits (db w)) c"
  shows "campaigns_inv (db w')"
  using assms campaign_repo.pk_unique_create [of w c r w']
  by (auto simp: create_def flush_new_def insert_row_def campaigns_inv_def pk_unique_def dates_ok_def
      kit_ok_def split: if_splits)

lemma triple_check_dates:
  assumes "\<And>w. P w \<Longrightarrow> (\<forall>a b. s = Some a \<longrightarrow> e = Some b \<longrightarrow> a < b) \<Longrightarrow> Q w" and "\<And>w. P w \<Longrightarrow> E w"
  shows "triple P (check_dates s e) (\<lambda>_. Q) E"
  unfolding check_dates_def
  by (rule triple_raise_if) (use assms in \<open>auto split: option.splits\<close>)

lemma triple_check_kit:
  assumes "\<And>w. P w \<Longrightarrow> \<exists>b \<in> set (brand_kits (db w)). b_id b = k \<and> b_workspace_id b = ws \<Longrightarrow> Q w"
    and "\<And>w. P w \<Longrightarrow> E w"
  shows "triple P (check_brand_kit ws k) (\<lambda>_. Q) E"
  by (rule triple_read_only [OF read_only_check_brand_kit assms(2)])
    (use assms(1) check_brand_kit_Inr in blast)+

lemma create_campaign_keeps: "obeys (keeps (\<lambda>w. campaigns_inv (db w))) (create_campaign ws u data)"
proof (rule keeps_triple)
  let ?c = "new_campaign ws u data"
  let ?I = "\<lambda>w. campaigns_inv (db w)"
  have dates: "triple ?I (check_dates (ca_start_date data) (ca_end_date data))
      (\<lambda>_ w. ?I w \<and> dates_ok ?c) ?I"
    by (rule triple_check_dates) (auto simp: dates_ok_def new_campaign_def)
  have kit: "triple (\<lambda>w. ?I w \<and> dates_ok ?c)
      (case ca_brand_kit_id data of None \<Rightarrow> returnM () | Some kit \<Rightarrow> check_brand_kit ws kit)
      (\<lambda>_ w. ?I w \<and> dates_ok ?c \<and> kit_ok (brand_kits (db w)) ?c) ?I"
  proof (rule triple_case_option)
    assume "ca_brand_kit_id data = None"
    then show "triple (\<lambda>w. ?I w \<and> dates_ok ?c) (returnM ())
        (\<lambda>_ w. ?I w \<and> dates_ok ?c \<and> kit_ok (brand_kits (db w)) ?c) ?I"
      by (intro triple_return) (simp add: kit_ok_def new_campaign_def)
  next
    fix k assume "ca_brand_kit_id data = Some k"
    then show "triple (\<lambda>w. ?I w \<and> dates_ok ?c) (check_brand_kit ws k)
        (\<lambda>_ w. ?I w \<and> dates_ok ?c \<and> kit_ok (brand_kits (db w)) ?c) ?I"
      by (intro triple_check_kit) (simp_all add: kit_ok_def new_campaign_def)
  qed
  have new: "triple (\<lambda>w. ?I w \<and> dates_ok ?c \<and> kit_ok (brand_kits (db w)) ?c)
      (create Campaign_model ?c) (\<lambda>_. ?I) ?I"
    by (rule tripleI) (auto dest: campaigns_inv_create)
  show "triple ?I (create_campaign ws u data) (\<lambda>_. ?I) ?I"
    unfolding create_campaign_def by (rule triple_then [OF dates triple_then [OF kit new]])
qed

lemma triple_get_campaign:
  "triple (\<lambda>w. campaigns_inv (db w)) (get_campaign ws i)
     (\<lambda>c w. campaigns_inv (db w) \<and> c \<in> set (campaigns (db w)) \<and> c_workspace_id c = ws)
     (\<lambda>w. campaigns_inv (db w))"
  by (rule triple_read_only [OF read_only_get_campaign])
    (auto simp: get_campaign_Inr dest: get_by_id_Some(2))

lemma campaign_by_id:
  "campaigns_inv d \<Longrightarrow> c \<in> set (campaigns d) \<Longrightarrow> x \<in> set (campaigns d) \<Longrightarrow> c_id x = c_id c \<Longrightarrow> x = c"
  unfolding campaigns_inv_def by (metis distinct_map_inj)

lemma triple_update_loaded:
  assumes f: "\<And>w. campaigns_inv (db w) \<Longrightarrow> P w \<Longrightarrow> c \<in> set (campaigns (db w)) \<Longrightarrow>
      c_id (f c) = c_id c \<and> dates_ok (f c) \<and> kit_ok (brand_kits (db w)) (f c)"
  shows "triple (\<lambda>w. campaigns_inv (db w) \<and> c \<in> set (campaigns (db w)) \<and> P w)
     (update Campaign_model (c_id c) f) (\<lambda>_ w. campaigns_inv (db w)) (\<lambda>w. campaigns_inv (db w))"
proof -
  have "campaigns_inv (db w')"
    if "campaigns_inv (db w)" "c \<in> set (campaigns (db w))" "P w"
      "flush_dirty Campaign_model (c_id c) f w = (r, w')" for w r w'
    by (rule campaigns_inv_dirty [OF that(1,4)]) (use f campaign_by_id that in blast)
  then show ?thesis unfolding update_def by (intro tripleI) blast+
qed

lemma campaign_assign_simps [simp]:
  "c_id (campaign_assign u c) = c_id c"
  "c_workspace_id (campaign_assign u c) = c_workspace_id c"
  "c_owner_id (campaign_assign u c) = c_owner_id c"
  "c_status (campaign_assign u c) = c_status c"
  "c_start_date (campaign_assign u c) = set_nullable (cu_start_date u) (c_start_date c)"
  "c_end_date (campaign_assign u c) = set_nullable (cu_end_date u) (c_end_date c)"
  "c_brand_kit_id (campaign_assign u c) = set_nullable (cu_brand_kit_id u) (c_brand_kit_id c)"
  by (simp_all add: campaign_assign_def)

lemma set_nullable_field:
  "field x = Some k \<Longrightarrow> set_nullable x old = Some k"
  "field x = None \<Longrightarrow> set_nullable x old = Some k \<Longrightarrow> old = Some k"
  by (auto simp: set_nullable_def field_def split: option.splits)

lemma set_nullable_given: "set_nullable x old = Some a \<Longrightarrow> given_or (field x) old = Some a"
  by (auto simp: set_nullable_def given_or_def field_def split: option.splits)

lemma update_campaign_keeps: "obeys (keeps (\<lambda>w. campaigns_inv (db w))) (update_campaign ws i data)"
proof (rule keeps_triple)
  let ?I = "\<lambda>w. campaigns_inv (db w)"
  let ?L = "\<lambda>c w. ?I w \<and> c \<in> set (campaigns (db w)) \<and> c_workspace_id c = ws"
  let ?D = "\<lambda>c. dates_ok (campaign_assign data c)"
  let ?K = "\<lambda>c w. kit_ok (brand_kits (db w)) (campaign_assign data c)"
  have dates: "triple (?L c)
      (check_dates (given_or (field (cu_start_date data)) (c_start_date c))
         (given_or (field (cu_end_date data)) (c_end_date c)))
      (\<lambda>_ w. ?L c w \<and> ?D c) ?I" for c
    by (rule triple_check_dates)
      (auto simp: dates_ok_def dest!: set_nullable_given)
  have kit: "triple (\<lambda>w. ?L c w \<and> ?D c)
      (case field (cu_brand_kit_id data) of None \<Rightarrow> returnM ()
       | Some kit \<Rightarrow> whenM (Some kit \<noteq> c_brand_kit_id c) (check_brand_kit ws kit))
      (\<lambda>_ w. ?L c w \<and> ?D c \<and> ?K c w) ?I" for c
  proof (rule triple_case_option)
    assume "field (cu_brand_kit_id data) = None"
    then show "triple (\<lambda>w. ?L c w \<and> ?D c) (returnM ()) (\<lambda>_ w. ?L c w \<and> ?D c \<and> ?K c w) ?I"
      by (intro triple_return)
        (auto simp: kit_ok_def campaigns_inv_def dest: set_nullable_field(2))
  next
    fix k assume k: "field (cu_brand_kit_id data) = Some k"
    show "triple (\<lambda>w. ?L c w \<and> ?D c) (whenM (Some k \<noteq> c_brand_kit_id c) (check_brand_kit ws k))
        (\<lambda>_ w. ?L c w \<and> ?D c \<and> ?K c w) ?I"
    proof (cases "Some k = c_brand_kit_id c")
      case True
      then show ?thesis
        using set_nullable_field(1) [OF k, of "c_brand_kit_id c"]
        by (auto simp: triple_def kit_ok_def campaigns_inv_def)
    next
      case False
      show ?thesis
        unfolding whenM_def if_P [OF False]
        by (rule triple_check_kit)
          (use k in \<open>auto simp: kit_ok_def set_nullable_field(1)\<close>)
    qed
  qed
  have null: "triple (\<lambda>w. ?L c w \<and> ?D c \<and> ?K c w) (raise_if (cu_campaign_name data = Some None) IntegrityError)
      (\<lambda>_ w. ?I w \<and> c \<in> set (campaigns (db w)) \<and> (?D c \<and> ?K c w)) ?I" for c
    by (rule triple_raise_if) auto
  have upd: "triple (\<lambda>w. ?I w \<and> c \<in> set (campaigns (db w)) \<and> (?D c \<and> ?K c w))
      (update Campaign_model (c_id c) (campaign_assign data)) (\<lambda>_. ?I) ?I" for c
    by (rule triple_update_loaded) simp
  show "triple ?I (update_campaign ws i data) (\<lambda>_. ?I) ?I"
    unfolding update_campaign_def Let_def
    by (rule triple_bind [OF triple_get_campaign])
      (rule triple_then [OF dates triple_then [OF kit triple_then [OF null upd]]])
qed

lemma change_status_keeps: "obeys (keeps (\<lambda>w. campaigns_inv (db w))) (change_status ws i st)"
proof (rule keeps_triple)
  let ?I = "\<lambda>w. campaigns_inv (db w)"
  have upd: "triple (\<lambda>w. ?I w \<and> c \<in> set (campaigns (db w)) \<and> c_workspace_id c = ws)
      (update Campaign_model (c_id c) (\<lambda>c. c\<lparr>c_status := v\<rparr>)) (\<lambda>_. ?I) ?I" for c v
    by (rule triple_update_loaded) (auto simp: campaigns_inv_def dates_ok_def kit_ok_def)
  show "triple ?I (change_status ws i st) (\<lambda>_. ?I) ?I"
    unfolding change_status_def Let_def
    by (rule triple_bind [OF triple_get_campaign], rule triple_if, rule triple_return, simp)
      (rule triple_then [OF triple_pass upd], simp)
qed

lemma delete_campaign_keeps: "obeys (keeps (\<lambda>w. campaigns_inv (db w))) (delete_campaign ws i)"
proof (rule keeps_triple)
  let ?I = "\<lambda>w. campaigns_inv (db w)"
  have del: "obeys (keeps ?I) (delete Campaign_model j True)" for j
  proof (rule keeping.keepsI)
    fix w r w' assume I: "?I w" and run: "delete Campaign_model j True w = (r, w')"
    have keep: "?I w2" if "flush_dirty Campaign_model k (mark_deleted Campaign_model t)
        (w\<lparr>ticks := n\<rparr>) = (x, w2)" for k t n x w2
      by (rule campaigns_inv_dirty [OF _ that]) (use I in \<open>auto simp: campaigns_inv_def dates_ok_def kit_ok_def\<close>)
    show "?I w'"
      using run I unfolding delete_def
      by (auto simp: bindM_def campaign_repo.get_by_id_total campaigns_inv_def pk_unique_def
          split: option.splits prod.splits sum.splits dest!: keep) 
  qed
  show "triple ?I (delete_campaign ws i) (\<lambda>_. ?I) ?I"
    unfolding delete_campaign_def
    by (rule triple_bind [OF triple_weaken [OF triple_get_campaign, where Q' = "\<lambda>_. ?I" and P' = ?I and E' = ?I]], simp_all)
      (rule triple_bind [OF triple_keeps [OF del]], rule triple_then [OF triple_pass triple_return], simp_all)
qed

section \<open>Any sequence of campaign requests\<close>

datatype campaign_request =
    CreateCampaign uuid uuid CampaignCreate
  | UpdateCampaign uuid uuid CampaignUpdate
  | RemoveCampaign uuid uuid
  | ChangeStatus uuid uuid CampaignStatus

fun serve_campaign :: "campaign_request \<Rightarrow> ('z, Campaign) io" where
  "serve_campaign (CreateCampaign ws u data) = create_campaign ws u data"
| "serve_campaign (UpdateCampaign ws i data) = update_campaign ws i data"
| "serve_campaign (RemoveCampaign ws i) = delete_campaign ws i"
| "serve_campaign (ChangeStatus ws i st) = change_status ws i st"

inductive campaign_step :: "'z world_scheme \<Rightarrow> 'z world_scheme \<Rightarrow> bool" where
  served: "serve_campaign req w = (r, w') \<Longrightarrow> campaign_step w w'"

inductive_cases campaign_stepE: "campaign_step w w'"

lemma serve_campaign_keeps: "obeys (keeps (\<lambda>w. campaigns_inv (db w))) (serve_campaign req)"
  by (cases req) (simp_all add: create_campaign_keeps update_campaign_keeps delete_campaign_keeps
      change_status_keeps)

text \<open>C12 (invariant). Over any sequence of campaign requests, successful or not, every stored campaign
  that has both dates ends after it starts, and a campaign that has a brand kit has one of its own
  workspace.\<close>

theorem campaigns_stay_valid:
  assumes "campaign_step\<^sup>*\<^sup>* w w'" and "campaigns_inv (db w)"
  shows "campaigns_inv (db w')"
  using assms
proof (induction rule: rtranclp_induct)
  case (step y z)
  then show ?case by (auto elim!: campaign_stepE intro: keeping.keepsD [OF serve_campaign_keeps])
qed

section \<open>The life of a campaign\<close>

text \<open>The table of transitions, with the statuses as the column holds them.\<close>

definition status_step :: "string \<Rightarrow> string \<Rightarrow> bool" where
  "status_step a b \<longleftrightarrow> (\<exists>s \<in> set (valid_transitions a). b = CampaignStatus_value s)"

definition campaign_moves :: "Campaign \<Rightarrow> Campaign \<Rightarrow> bool" where
  "campaign_moves c d \<longleftrightarrow>
     c_id d = c_id c \<and> c_workspace_id d = c_workspace_id c \<and> c_owner_id d = c_owner_id c \<and>
     status_step\<^sup>*\<^sup>* (c_status c) (c_status d)"

interpretation clife: row_life Campaign_model campaign_moves
  by unfold_locales (auto simp: campaign_moves_def)

lemma status_step_simps [simp]:
  "status_step ''DRAFT'' b \<longleftrightarrow> b = ''ACTIVE'' \<or> b = ''ARCHIVED''"
  "status_step ''ACTIVE'' b \<longleftrightarrow> b = ''PAUSED'' \<or> b = ''COMPLETED'' \<or> b = ''ARCHIVED''"
  "status_step ''PAUSED'' b \<longleftrightarrow> b = ''ACTIVE'' \<or> b = ''COMPLETED'' \<or> b = ''ARCHIVED''"
  "status_step ''COMPLETED'' b \<longleftrightarrow> b = ''ARCHIVED''"
  "\<not> status_step ''ARCHIVED'' b"
  by (auto simp: status_step_def valid_transitions_def)

lemma archived_is_final: "status_step\<^sup>*\<^sup>* ''ARCHIVED'' b \<Longrightarrow> b = ''ARCHIVED''"
  by (induction rule: rtranclp_induct) auto

lemma no_step_to_draft: "status_step a b \<Longrightarrow> b \<noteq> ''DRAFT''"
  by (auto simp: status_step_def valid_transitions_def split: if_splits)

lemma never_back_to_draft: "status_step\<^sup>*\<^sup>* a ''DRAFT'' \<Longrightarrow> a = ''DRAFT''"
  by (erule rtranclp.cases) (auto dest: no_step_to_draft)

lemma completed_only_archived: "status_step\<^sup>*\<^sup>* ''COMPLETED'' b \<Longrightarrow> b = ''COMPLETED'' \<or> b = ''ARCHIVED''"
  by (induction rule: rtranclp_induct) auto

lemma clife_get: "obeys clife.rel (get_campaign ws i)"
  by (rule clife.read_only_obeys) (rule read_only_get_campaign)

lemma clife_kit: "obeys clife.rel (check_brand_kit ws k)"
  by (rule clife.read_only_obeys) (rule read_only_check_brand_kit)

lemma get_campaign_stored: "get_campaign ws i w = (Inr c, w') \<Longrightarrow> c \<in> set (campaigns (db w))"
  by (auto simp: get_campaign_Inr dest: get_by_id_Some(2))

lemma clife_create: "obeys clife.rel (create_campaign ws u data)"
  unfolding create_campaign_def check_dates_def
  by (intro clife.obeys_then clife.obeys_raise_if clife.obeys_case_option clife.obeys_return clife_kit
      clife.life_create)

lemma read_only_new_kit:
  "read_only (case k of None \<Rightarrow> returnM () | Some kit \<Rightarrow> whenM (p kit) (check_brand_kit ws kit))"
  using read_only_check_brand_kit unfolding read_only_def
  by (auto intro!: ro.obeys_case_option ro.obeys_return ro.obeys_when)

lemmas clife_refl [simp] = clife.evolve_refl [unfolded Campaign_model_simps]

lemma clife_update: "obeys clife.rel (update_campaign ws i data)"
  unfolding update_campaign_def check_dates_def Let_def
proof (rule clife.life_read_then [OF read_only_get_campaign], elim clife.life_guard clife.life_then_read)
  fix c w r w'
  assume "get_campaign ws i w = (Inr c, w)" "distinct (map (pk Campaign_model) (tbl Campaign_model (db w)))"
    "update Campaign_model (c_id c) (campaign_assign data) w = (r, w')"
  then show "clife.rel w w'"
    by (intro clife.life_update [of c "campaign_assign data" w r w'])
      (simp_all add: campaign_moves_def get_campaign_stored)
qed (rule read_only_new_kit)

lemma clife_status: "obeys clife.rel (change_status ws i st)"
  unfolding change_status_def Let_def
proof (rule clife.life_read_then [OF read_only_get_campaign], elim if_runE clife.life_guard)
  fix c w r w'
  assume load: "get_campaign ws i w = (Inr c, w)"
    "distinct (map (pk Campaign_model) (tbl Campaign_model (db w)))"
    and legal: "\<not> \<not> list_ex (\<lambda>s. s = st) (valid_transitions (c_status c))"
    and run: "update Campaign_model (c_id c) (\<lambda>c. c\<lparr>c_status := CampaignStatus_value st\<rparr>) w = (r, w')"
  have "status_step (c_status c) (CampaignStatus_value st)"
    using legal by (auto simp: status_step_def list_ex_iff)
  with load run show "clife.rel w w'"
    by (intro clife.life_update [of c "\<lambda>c. c\<lparr>c_status := CampaignStatus_value st\<rparr>" w r w'])
      (auto simp: campaign_moves_def get_campaign_stored intro: r_into_rtranclp)
qed simp

lemma clife_soft_delete: "obeys clife.rel (delete Campaign_model j True)"
  by (rule clife.life_soft_delete) (simp_all add: campaign_moves_def)

lemma clife_delete: "obeys clife.rel (delete_campaign ws i)"
  unfolding delete_campaign_def
  by (intro clife.obeys_bind clife_get clife.obeys_then clife.obeys_raise_if clife.obeys_return
      clife_soft_delete)

lemma clife_serve: "obeys clife.rel (serve_campaign req)"
  by (cases req; simp only: serve_campaign.simps; intro clife_create clife_update clife_delete clife_status)

lemma clife_steps:
  assumes "campaign_step\<^sup>*\<^sup>* w w'"
  shows "clife.rel w w'"
  using assms
proof (induction rule: rtranclp_induct)
  case base
  show ?case by (rule clife.evolve_refl)
next
  case (step y z)
  from step.hyps(2) have "clife.rel y z" by (auto elim!: campaign_stepE dest: obeysD [OF clife_serve])
  with step.IH show ?case by (rule clife.evolve_trans)
qed

text \<open>C13 (invariant). Over any sequence of campaign requests, successful or not, a stored campaign is never
  dropped and keeps its identity, workspace and owner; its status moves along the table of transitions,
  so an archived campaign stays archived, a completed one can only be archived, and none goes back to
  being a draft.\<close>

theorem campaign_lifecycle:
  assumes "campaign_step\<^sup>*\<^sup>* w w'" and "distinct (map c_id (campaigns (db w)))"
    and "c \<in> set (campaigns (db w))"
  shows "\<exists>d \<in> set (campaigns (db w')). c_id d = c_id c \<and> c_workspace_id d = c_workspace_id c \<and>
     c_owner_id d = c_owner_id c \<and> status_step\<^sup>*\<^sup>* (c_status c) (c_status d) \<and>
     (c_status c = ''ARCHIVED'' \<longrightarrow> c_status d = ''ARCHIVED'') \<and>
     (c_status c = ''COMPLETED'' \<longrightarrow> c_status d \<in> {''COMPLETED'', ''ARCHIVED''}) \<and>
     (c_status d = ''DRAFT'' \<longrightarrow> c_status c = ''DRAFT'')"
proof -
  obtain d where d: "d \<in> set (campaigns (db w'))" "campaign_moves c d"
    using rows_evolve_row [OF clife_steps [OF assms(1)]] assms(2,3) by auto
  then show ?thesis
    by (intro bexI [of _ d])
      (auto simp: campaign_moves_def dest: archived_is_final never_back_to_draft completed_only_archived)
qed

section \<open>Changing the status\<close>

text \<open>A transition that the table does not allow is not answered with the intended 400: the
  request fails with an \<open>AttributeError\<close>, whatever the campaign; nothing changes. Asking for the
  current status answers with the campaign as it is.\<close>

lemma illegal_transition_raises:
  assumes "get_campaign ws i w = (Inr c, w)"
  shows "(c_status c = CampaignStatus_value st \<longrightarrow> change_status ws i st w = (Inr c, w)) \<and>
     (c_status c \<noteq> CampaignStatus_value st \<and> \<not> status_step (c_status c) (CampaignStatus_value st) \<longrightarrow>
        change_status ws i st w = (Inl (AttributeError ''value''), w))"
proof -
  have "list_ex (\<lambda>s. s = st) (valid_transitions (c_status c)) \<Longrightarrow>
      status_step (c_status c) (CampaignStatus_value st)"
    by (auto simp: status_step_def list_ex_iff)
  then show ?thesis
    using assms by (auto simp: change_status_def bindM_def Let_def)
qed

section \<open>What is persisted\<close>

lemma same_campaign_handlers:
  "obeys uncommitted.same (get_campaign ws i)" "obeys uncommitted.same (create_campaign ws u d)"
  "obeys uncommitted.same (update_campaign ws i x)" "obeys uncommitted.same (delete_campaign ws i)"
  "obeys uncommitted.same (change_status ws i st)"
  unfolding create_campaign_def update_campaign_def delete_campaign_def change_status_def
    get_campaign_def check_dates_def check_brand_kit_def Let_def
  by (intro uncommitted.same_intros)+

lemma campaign_route_uncommitted:
  assumes "\<And>user. obeys uncommitted.same (h user)"
  shows "committed (snd (campaign_route decode tok ws action h w)) = committed w"
proof -
  have "obeys uncommitted.same
     (bindM (get_current_user decode tok) (\<lambda>user.
        thenM (require_permission ''campaign'' action ws user) (
        thenM (get_current_workspace ws user) (h user))))"
    using read_only_workspace read_only_permission
    by (intro uncommitted.same_intros same_user uncommitted.read_only_obeys assms)
  from session_without_commit(1) [OF this prod.collapse [symmetric]]
  show ?thesis unfolding campaign_route_def .
qed

text \<open>The routes that edit a campaign and that move its status never commit: whatever they
  answer, the request persists nothing.\<close>

lemma campaign_edits_not_persisted:
  "committed (snd (route_update_campaign decode tok ws i data w)) = committed w \<and>
   committed (snd (route_change_campaign_status decode tok ws i st w)) = committed w"
  unfolding route_update_campaign_def route_change_campaign_status_def
  by (intro conjI campaign_route_uncommitted same_campaign_handlers)

section \<open>Searching\<close>

lemma like_any: "like ''%'' s"
  by (induction s) auto

lemma like_percent: "like (CHR ''%'' # ps) s \<longleftrightarrow> (\<exists>a b. s = a @ b \<and> like ps b)"
proof (induction s)
  case (Cons x s)
  have "like (CHR ''%'' # ps) (x # s) \<longleftrightarrow> like ps (x # s) \<or> (\<exists>a b. s = a @ b \<and> like ps b)"
    using Cons by simp
  also have "\<dots> \<longleftrightarrow> (\<exists>a b. x # s = a @ b \<and> like ps b)"
    by (metis append_Cons append_Nil list.exhaust list.inject)
  finally show ?case .
qed simp

definition literal :: "char \<Rightarrow> bool" where
  "literal c \<longleftrightarrow> c \<noteq> CHR ''%'' \<and> c \<noteq> CHR ''_'' \<and> c \<noteq> CHR 0x5C"

lemma like_literal: "list_all literal q \<Longrightarrow> like (q @ ps) s \<longleftrightarrow> (\<exists>b. s = q @ b \<and> like ps b)"
proof (induction q arbitrary: s)
  case (Cons c q)
  then show ?case by (cases s) (auto simp: literal_def)
qed simp

lemma literal_lower: "literal (lower_char c) = literal c"
proof -
  have n: "(of_char (lower_char c) :: nat) =
      (let n = of_char c in if (65 \<le> n \<and> n \<le> 90) \<or> (192 \<le> n \<and> n \<le> 214) \<or> (216 \<le> n \<and> n \<le> 222)
       then n + 32 else n)"
    by (auto simp: lower_char_def Let_def of_char_of)
  have l: "literal c \<longleftrightarrow> of_char c \<notin> {37, 95, 92 :: nat}" for c
    unfolding literal_def by (auto simp flip: of_char_eq_iff [where 'a = nat])
  show ?thesis unfolding l n by (auto simp: Let_def)
qed

definition contains :: "string \<Rightarrow> string \<Rightarrow> bool" where
  "contains q s \<longleftrightarrow> sublist (py_lower q) (py_lower s)"

text \<open>C14 (equivalence). When the query has no pattern characters, the search is the one of the reference: the live
  campaigns of the workspace whose name, description or objective contains the query, ignoring case,
  newest first, cut to the page.\<close>

theorem search_is_containment:
  assumes "list_all literal query"
  shows "search_campaigns ws query skip limit w =
     (Inr (page skip limit (sort_desc (\<lambda>c. created_at (c_stamp c))
        (filter (\<lambda>c. c_workspace_id c = ws \<and> deleted_at (c_soft c) = None \<and>
             (contains query (c_campaign_name c) \<or>
              list_ex (contains query) (case c_description c of None \<Rightarrow> [] | Some s \<Rightarrow> [s]) \<or>
              list_ex (contains query) (case c_objective c of None \<Rightarrow> [] | Some s \<Rightarrow> [s])))
           (campaigns (db w))))), w)"
proof -
  have lit: "list_all literal (py_lower query)"
    using assms by (simp add: py_lower_def list.pred_map comp_def literal_lower)
  have pat: "py_lower (''%'' @ query @ ''%'') = CHR ''%'' # py_lower query @ ''%''"
    by (simp add: py_lower_def lower_char_def)
  have "like (py_lower (''%'' @ query @ ''%'')) (py_lower s) \<longleftrightarrow> contains query s" for s
    unfolding pat like_percent like_literal [OF lit] contains_def sublist_def by (auto simp: like_any)
  then have "ilike x (''%'' @ query @ ''%'') \<longleftrightarrow>
      list_ex (contains query) (case x of None \<Rightarrow> [] | Some s \<Rightarrow> [s])" for x
    by (simp add: ilike_def split: option.splits)
  then show ?thesis
    by (simp add: search_campaigns_def newest_campaigns_def Let_def cong: option.case_cong)
qed

section \<open>Concrete requests\<close>

definition fx_campaign :: "uuid \<Rightarrow> CampaignStatus \<Rightarrow> Campaign" where
  "fx_campaign i st =
     \<lparr>c_id = i, c_stamp = no_stamp, c_soft = not_deleted, c_audit = no_audit, c_workspace_id = 20,
      c_owner_id = 1, c_brand_kit_id = None, c_campaign_name = (if i = 40 then ''Spring Sale'' else ''Clearance''), c_description = None,
      c_objective = Some ''Sell'', c_campaign_type = None, c_target_channels = None,
      c_status = CampaignStatus_value st, c_budget = None, c_currency = None,
      c_start_date = Some 10, c_end_date = Some 20\<rparr>"

definition fx_campaigns :: world where
  "fx_campaigns = world_of (fx_database
     \<lparr>campaigns := [fx_campaign 40 CampaignStatus_DRAFT, fx_campaign 41 CampaignStatus_ARCHIVED]\<rparr>)"

lemma fx_campaigns_rows [simp]:
  "campaigns (db fx_campaigns) = [fx_campaign 40 CampaignStatus_DRAFT, fx_campaign 41 CampaignStatus_ARCHIVED]"
  by (simp add: fx_campaigns_def)

lemma campaigns_tenant_isolation_witness:
  "change_status 21 40 CampaignStatus_ACTIVE fx_campaigns =
     (Inl (HTTPException 404 ''Campaign not found''), fx_campaigns)"
proof -
  have "distinct (map c_id (campaigns (db fx_campaigns)))"
    and "\<forall>c \<in> set (campaigns (db fx_campaigns)).
      c_id c = 40 \<and> deleted_at (c_soft c) = None \<longrightarrow> c_workspace_id c \<noteq> 21"
    by (simp_all add: fx_campaign_def)
  from campaigns_tenant_isolation [OF this] show ?thesis by blast
qed

lemma fx_activated:
  obtains w where "campaign_step\<^sup>*\<^sup>* fx_campaigns w" and "campaigns (db w) \<noteq> campaigns (db fx_campaigns)"
proof -
  let ?w = "snd (serve_campaign (ChangeStatus 20 40 CampaignStatus_ACTIVE) fx_campaigns)"
  have after: "map c_status (campaigns (db ?w)) = [''ACTIVE'', ''ARCHIVED'']" by code_simp
  have before: "map c_status (campaigns (db fx_campaigns)) = [''DRAFT'', ''ARCHIVED'']" by code_simp
  have "campaigns (db ?w) \<noteq> campaigns (db fx_campaigns)"
  proof
    assume same: "campaigns (db ?w) = campaigns (db fx_campaigns)"
    from after before show False unfolding same by simp
  qed
  moreover have "campaign_step\<^sup>*\<^sup>* fx_campaigns ?w"
    by (rule r_into_rtranclp, rule served) (rule prod.collapse [symmetric])
  ultimately show thesis by (intro that)
qed

lemma campaigns_stay_valid_witness:
  "\<exists>w :: world. campaign_step\<^sup>*\<^sup>* fx_campaigns w \<and> campaigns (db w) \<noteq> campaigns (db fx_campaigns) \<and>
     campaigns_inv (db w)"
proof -
  obtain w where w: "campaign_step\<^sup>*\<^sup>* fx_campaigns w" "campaigns (db w) \<noteq> campaigns (db fx_campaigns)"
    by (rule fx_activated)
  have "campaigns_inv (db fx_campaigns)"
    by (auto simp: campaigns_inv_def dates_ok_def kit_ok_def fx_campaign_def)
  from campaigns_stay_valid [OF w(1) this] w show ?thesis by blast
qed

lemma campaign_lifecycle_witness:
  "\<exists>w :: world. campaign_step\<^sup>*\<^sup>* fx_campaigns w \<and> campaigns (db w) \<noteq> campaigns (db fx_campaigns) \<and>
     (\<exists>d \<in> set (campaigns (db w)). c_id d = 41 \<and> c_status d = ''ARCHIVED'')"
proof -
  obtain w where w: "campaign_step\<^sup>*\<^sup>* fx_campaigns w" "campaigns (db w) \<noteq> campaigns (db fx_campaigns)"
    by (rule fx_activated)
  from campaign_lifecycle [OF w(1), of "fx_campaign 41 CampaignStatus_ARCHIVED"] w
  show ?thesis by (auto simp: fx_campaign_def)
qed

lemma illegal_transition_raises_witness:
  "change_status 20 41 CampaignStatus_DRAFT fx_campaigns = (Inl (AttributeError ''value''), fx_campaigns)"
proof -
  have "fst (get_campaign 20 41 fx_campaigns) = Inr (fx_campaign 41 CampaignStatus_ARCHIVED)"
    by code_simp
  then have "get_campaign 20 41 fx_campaigns = (Inr (fx_campaign 41 CampaignStatus_ARCHIVED), fx_campaigns)"
    using read_onlyD [OF read_only_get_campaign prod.collapse [symmetric]]
    by (metis prod.collapse)
  from illegal_transition_raises [OF this, of CampaignStatus_DRAFT] show ?thesis
    by (simp add: fx_campaign_def)
qed

lemma search_is_containment_witness:
  "search_campaigns 20 ''SALE'' 0 1 fx_campaigns = (Inr [fx_campaign 40 CampaignStatus_DRAFT], fx_campaigns)"
proof -
  have lit: "list_all literal ''SALE''" by (simp add: literal_def)
  have sub: "contains ''SALE'' ''Spring Sale''"
  proof -
    have lower: "py_lower ''SALE'' = ''sale''" "py_lower ''Spring Sale'' = ''spring '' @ ''sale'' @ []"
      by code_simp+
    show ?thesis
      unfolding contains_def sublist_def lower
      by (rule exI [of _ "''spring ''"], rule exI [of _ "[]"]) (rule refl)
  qed
  show ?thesis
    unfolding search_is_containment [OF lit] by (simp add: fx_campaign_def not_deleted_def sub page_def sort_desc_def)
qed

end
