(* ===== verification/Campaign_Scheduler.thy ===== *)
theory Campaign_Scheduler
  imports Campaign_Service
begin

text \<open>
  Scheduling and publishing of campaigns: the repository (\<open>app/repositories/campaign_schedule.py\<close>), the
  request bodies (\<open>app/schemas/campaign_schedule.py\<close>), the service
  (\<open>app/services/campaign_scheduler.py\<close>) with its background task, the routes
  (\<open>app/api/v1/campaign_schedule.py\<close>) and the dependencies they use (\<open>app/api/deps.py\<close>).

  The notification that the background task ends with (\<open>app/services/notification_service.py\<close>) is a log
  line, so the model leaves it out, as it leaves out the pause of two seconds: what may happen in
  between is the subject of the step relation below, where a background task is a step of its own.
\<close>

section \<open>The repository\<close>

definition get_by_campaign_id :: "uuid \<Rightarrow> uuid option \<Rightarrow> ('z, CampaignSchedule option) io" where
  "get_by_campaign_id campaign_id workspace_id =
     bindM (select CampaignSchedule_model
       (\<lambda>s. s_campaign_id s = campaign_id \<and>
            (case workspace_id of None \<Rightarrow> True | Some ws \<Rightarrow> s_workspace_id s = ws)))
       scalar_one_or_none"

section \<open>Request bodies\<close>

text \<open>A \<open>datetime\<close> of a request carries an offset or does not, and Python refuses to compare the two.\<close>

datatype py_datetime = Aware time | Naive time

fun py_less :: "py_datetime \<Rightarrow> py_datetime \<Rightarrow> exn + bool" where
  "py_less (Aware a) (Aware b) = Inr (a < b)"
| "py_less (Naive a) (Naive b) = Inr (a < b)"
| "py_less _ _ = Inl (TypeError ''can't compare offset-naive and offset-aware datetimes'')"

fun instant :: "py_datetime \<Rightarrow> time" where
  "instant (Aware t) = t"
| "instant (Naive t) = t"

text \<open>The time zone is \<open>None\<close> when it is unset, and then it is UTC.\<close>

record CampaignScheduleCreate =
  sc_publish_date :: py_datetime
  sc_timezone :: "string option"

record CampaignScheduleUpdate =
  su_publish_date :: "py_datetime option option"
  su_timezone :: "string option option"
  su_status :: "ScheduleStatus option option"

definition timezone_of :: "CampaignScheduleCreate \<Rightarrow> string" where
  "timezone_of data = (case sc_timezone data of None \<Rightarrow> ''UTC'' | Some z \<Rightarrow> z)"

text \<open>\<open>CampaignScheduleCreate(**schedule_data.model_dump(exclude_unset=True))\<close>: the date is required, and
  neither field may be null.\<close>

definition schedule_create_of :: "CampaignScheduleUpdate \<Rightarrow> exn + CampaignScheduleCreate" where
  "schedule_create_of u =
     (case (su_publish_date u, su_timezone u) of
        (Some (Some t), None) \<Rightarrow> Inr \<lparr>sc_publish_date = t, sc_timezone = None\<rparr>
      | (Some (Some t), Some (Some z)) \<Rightarrow> Inr \<lparr>sc_publish_date = t, sc_timezone = Some z\<rparr>
      | _ \<Rightarrow> Inl (ValueError ''CampaignScheduleCreate''))"

section \<open>The service\<close>

text \<open>\<open>sanitize_dict\<close> writes UUIDs and datetimes as text.\<close>

fun sanitize_value :: "(time \<Rightarrow> string) \<Rightarrow> json \<Rightarrow> json" where
  "sanitize_value txt (JUuid u) = JStr (str_uuid u)"
| "sanitize_value txt (JTime t) = JStr (txt t)"
| "sanitize_value txt v = v"

definition sanitize_dict :: "(time \<Rightarrow> string) \<Rightarrow> json_object option \<Rightarrow> json_object option" where
  "sanitize_dict txt d =
     (case d of None \<Rightarrow> None
      | Some kvs \<Rightarrow> if kvs = [] then None else Some (map (\<lambda>(k, v). (k, sanitize_value txt v)) kvs))"

definition log_audit ::
  "uuid \<Rightarrow> uuid \<Rightarrow> string \<Rightarrow> uuid \<Rightarrow> json_object option \<Rightarrow> json_object option \<Rightarrow> ('z, unit) io" where
  "log_audit workspace_id user_id action campaign_id old_values new_values =
     bindM (readM datetime_text) (\<lambda>txt.
     thenM (create_audit_log action ''CAMPAIGN_SCHEDULE'' (str_uuid campaign_id) (Some workspace_id)
              (Some user_id) (sanitize_dict txt old_values) (sanitize_dict txt new_values))
       (returnM ()))"

definition get_and_validate_schedule :: "uuid \<Rightarrow> uuid \<Rightarrow> ('z, CampaignSchedule) io" where
  "get_and_validate_schedule campaign_id workspace_id =
     bindM (get_by_campaign_id campaign_id (Some workspace_id)) (\<lambda>schedule.
     case schedule of
       None \<Rightarrow> raiseM (HTTPException 404 ''Campaign schedule not found'')
     | Some s \<Rightarrow> returnM s)"

definition new_schedule :: "uuid \<Rightarrow> uuid \<Rightarrow> uuid \<Rightarrow> time \<Rightarrow> string \<Rightarrow> CampaignSchedule" where
  "new_schedule workspace_id campaign_id user_id publish_date tz =
     \<lparr>s_id = 0, s_stamp = no_stamp, s_audit = \<lparr>created_by = Some user_id, updated_by = None\<rparr>,
      s_workspace_id = workspace_id, s_campaign_id = campaign_id, s_publish_date = publish_date,
      s_timezone = tz, s_status = ScheduleStatus_SCHEDULED, s_error_message = None, s_retry_count = 0\<rparr>"

text \<open>Setting the status, and who did it.\<close>

definition set_status :: "uuid \<Rightarrow> ScheduleStatus \<Rightarrow> CampaignSchedule \<Rightarrow> CampaignSchedule" where
  "set_status user_id st s =
     s\<lparr>s_status := st, s_audit := (s_audit s)\<lparr>updated_by := Some user_id\<rparr>\<rparr>"

definition status_value :: "ScheduleStatus \<Rightarrow> json_object option" where
  "status_value st = Some [(''status'', JStr (ScheduleStatus_value st))]"

text \<open>The raw query of the campaign does not look at \<open>deleted_at\<close>.\<close>

definition check_schedulable :: "uuid \<Rightarrow> uuid \<Rightarrow> ('z, unit) io" where
  "check_schedulable campaign_id workspace_id =
     bindM (select Campaign_model (\<lambda>c. c_id c = campaign_id \<and> c_workspace_id c = workspace_id)) (\<lambda>rows.
     bindM (scalar_one_or_none rows) (\<lambda>row.
     let camp_status = map_option c_status row in
     thenM (raise_if (\<not> truthy_str camp_status) (HTTPException 404 ''Campaign not found''))
       (raise_if (the camp_status \<in> {''COMPLETED'', ''ARCHIVED''})
          (HTTPException 400 (''Cannot schedule a '' @ the camp_status @ '' campaign'')))))"

definition check_future :: "py_datetime \<Rightarrow> ('z, unit) io" where
  "check_future publish_date =
     bindM get_utc_now (\<lambda>now.
     case py_less publish_date (Aware now) of
       Inl e \<Rightarrow> raiseM e
     | Inr past \<Rightarrow> raise_if past (HTTPException 400 ''Cannot schedule in the past''))"

definition reschedule ::
  "uuid \<Rightarrow> CampaignScheduleCreate \<Rightarrow> uuid \<Rightarrow> uuid \<Rightarrow> CampaignSchedule \<Rightarrow> ('z, CampaignSchedule) io" where
  "reschedule campaign_id schedule_data workspace_id user_id existing =
     (let t = instant (sc_publish_date schedule_data);
          dump = (''publish_date'', JTime t) #
            (case sc_timezone schedule_data of None \<Rightarrow> [] | Some z \<Rightarrow> [(''timezone'', JStr z)]) @
            [(''status'', JStr ''SCHEDULED''), (''error_message'', JNull), (''updated_by'', JUuid user_id)] in
      bindM (update CampaignSchedule_model (s_id existing)
               (\<lambda>x. set_status user_id ScheduleStatus_SCHEDULED
                  (x\<lparr>s_publish_date := t,
                     s_timezone := (case sc_timezone schedule_data of None \<Rightarrow> s_timezone x | Some z \<Rightarrow> z),
                     s_error_message := None\<rparr>))) (\<lambda>updated.
      thenM (log_audit workspace_id user_id ''UPDATE_SCHEDULE'' campaign_id None (Some dump))
        (returnM updated)))"

definition first_schedule ::
  "uuid \<Rightarrow> CampaignScheduleCreate \<Rightarrow> uuid \<Rightarrow> uuid \<Rightarrow> ('z, CampaignSchedule) io" where
  "first_schedule campaign_id schedule_data workspace_id user_id =
     (let t = instant (sc_publish_date schedule_data);
          dump = [(''publish_date'', JTime t), (''timezone'', JStr (timezone_of schedule_data)),
            (''campaign_id'', JUuid campaign_id), (''workspace_id'', JUuid workspace_id),
            (''created_by'', JUuid user_id), (''status'', JStr ''SCHEDULED'')] in
      bindM (create CampaignSchedule_model
               (new_schedule workspace_id campaign_id user_id t (timezone_of schedule_data))) (\<lambda>s.
      thenM (log_audit workspace_id user_id ''CREATE_SCHEDULE'' campaign_id None (Some dump))
        (returnM s)))"

definition schedule_campaign ::
  "uuid \<Rightarrow> CampaignScheduleCreate \<Rightarrow> uuid \<Rightarrow> uuid \<Rightarrow> ('z, CampaignSchedule) io" where
  "schedule_campaign campaign_id schedule_data workspace_id user_id =
     thenM (check_future (sc_publish_date schedule_data)) (
     thenM (check_schedulable campaign_id workspace_id) (
     bindM (get_by_campaign_id campaign_id (Some workspace_id)) (\<lambda>existing.
     case existing of
       Some s \<Rightarrow>
         thenM (raise_if (s_status s = ScheduleStatus_PUBLISHED)
                  (HTTPException 400 ''Campaign is already published''))
           (reschedule campaign_id schedule_data workspace_id user_id s)
     | None \<Rightarrow> first_schedule campaign_id schedule_data workspace_id user_id)))"

text \<open>A background task \<open>(campaign_id, workspace_id, user_id)\<close> runs \<open>execute_publish\<close>. A handler gives the
  tasks it adds beside its answer.\<close>

type_synonym background_task = "uuid \<times> uuid \<times> uuid"

definition publish_immediately ::
  "uuid \<Rightarrow> uuid \<Rightarrow> uuid \<Rightarrow> ('z, CampaignSchedule \<times> background_task list) io" where
  "publish_immediately campaign_id workspace_id user_id =
     bindM (get_by_campaign_id campaign_id (Some workspace_id)) (\<lambda>found.
     thenM (raise_if (map_option s_status found = Some ScheduleStatus_PUBLISHED)
              (HTTPException 400 ''Campaign is already published'')) (
     bindM (case found of
              Some s \<Rightarrow> returnM s
            | None \<Rightarrow>
                bindM get_utc_now (\<lambda>now.
                create CampaignSchedule_model (new_schedule workspace_id campaign_id user_id now ''UTC'')))
       (\<lambda>schedule.
     bindM (update CampaignSchedule_model (s_id schedule) (\<lambda>x. x\<lparr>s_status := ScheduleStatus_SCHEDULED\<rparr>)) (\<lambda>updated.
     thenM (log_audit workspace_id user_id ''TRIGGER_PUBLISH'' campaign_id None None)
       (returnM (updated, [(campaign_id, workspace_id, user_id)]))))))"

definition pause_schedule :: "uuid \<Rightarrow> uuid \<Rightarrow> uuid \<Rightarrow> ('z, CampaignSchedule) io" where
  "pause_schedule campaign_id workspace_id user_id =
     bindM (get_and_validate_schedule campaign_id workspace_id) (\<lambda>schedule.
     thenM (raise_if (s_status schedule \<noteq> ScheduleStatus_SCHEDULED)
              (HTTPException 400 ''Only SCHEDULED campaigns can be paused'')) (
     bindM (update CampaignSchedule_model (s_id schedule) (set_status user_id ScheduleStatus_PAUSED)) (\<lambda>updated.
     thenM (log_audit workspace_id user_id ''PAUSE_SCHEDULE'' campaign_id
              (status_value ScheduleStatus_SCHEDULED) (status_value ScheduleStatus_PAUSED))
       (returnM updated))))"

definition resume_schedule :: "uuid \<Rightarrow> uuid \<Rightarrow> uuid \<Rightarrow> ('z, CampaignSchedule) io" where
  "resume_schedule campaign_id workspace_id user_id =
     bindM (get_and_validate_schedule campaign_id workspace_id) (\<lambda>schedule.
     thenM (raise_if (s_status schedule \<noteq> ScheduleStatus_PAUSED)
              (HTTPException 400 ''Only PAUSED campaigns can be resumed'')) (
     bindM (update CampaignSchedule_model (s_id schedule) (set_status user_id ScheduleStatus_SCHEDULED)) (\<lambda>updated.
     thenM (log_audit workspace_id user_id ''RESUME_SCHEDULE'' campaign_id
              (status_value ScheduleStatus_PAUSED) (status_value ScheduleStatus_SCHEDULED))
       (returnM updated))))"

text \<open>The audit entry reads the old status after the update, from the object that was updated.\<close>

definition cancel_schedule :: "uuid \<Rightarrow> uuid \<Rightarrow> uuid \<Rightarrow> ('z, CampaignSchedule) io" where
  "cancel_schedule campaign_id workspace_id user_id =
     bindM (get_and_validate_schedule campaign_id workspace_id) (\<lambda>schedule.
     thenM (raise_if (s_status schedule \<in> {ScheduleStatus_PUBLISHED, ScheduleStatus_CANCELLED})
              (HTTPException 400 ''Cannot cancel a published or already cancelled schedule'')) (
     bindM (update CampaignSchedule_model (s_id schedule) (set_status user_id ScheduleStatus_CANCELLED)) (\<lambda>updated.
     thenM (log_audit workspace_id user_id ''CANCEL_SCHEDULE'' campaign_id
              (status_value (s_status updated)) (status_value ScheduleStatus_CANCELLED))
       (returnM updated))))"

definition retry_failed_publishing ::
  "uuid \<Rightarrow> uuid \<Rightarrow> uuid \<Rightarrow> ('z, CampaignSchedule \<times> background_task list) io" where
  "retry_failed_publishing campaign_id workspace_id user_id =
     bindM (get_and_validate_schedule campaign_id workspace_id) (\<lambda>schedule.
     thenM (raise_if (s_status schedule \<noteq> ScheduleStatus_FAILED)
              (HTTPException 400 ''Only FAILED campaigns can be retried'')) (
     bindM (update CampaignSchedule_model (s_id schedule)
              (\<lambda>x. set_status user_id ScheduleStatus_SCHEDULED
                 (x\<lparr>s_retry_count := s_retry_count schedule + 1\<rparr>))) (\<lambda>updated.
     thenM (log_audit workspace_id user_id ''RETRY_PUBLISH'' campaign_id None None)
       (returnM (updated, [(campaign_id, workspace_id, user_id)])))))"

text \<open>After an exception during a flush SQLAlchemy refuses further statements on the session until it is
  rolled back, so the \<open>except\<close> branch gets past its first query only when the exception came from
  elsewhere.\<close>

fun raised_by_flush :: "exn \<Rightarrow> bool" where
  "raised_by_flush IntegrityError = True"
| "raised_by_flush StaleDataError = True"
| "raised_by_flush (TypeError m) = True"
| "raised_by_flush _ = False"

definition execute_publish :: "background_task \<Rightarrow> ('z, unit) io" where
  "execute_publish = (\<lambda>(campaign_id, workspace_id, user_id).
     catchM
       (bindM (get_by_campaign_id campaign_id (Some workspace_id)) (\<lambda>schedule.
        case schedule of
          None \<Rightarrow> returnM ()
        | Some s \<Rightarrow>
            thenM (update CampaignSchedule_model (s_id s)
                     (\<lambda>x. x\<lparr>s_status := ScheduleStatus_PUBLISHED, s_error_message := None\<rparr>))
              (log_audit workspace_id user_id ''PUBLISH_SUCCESS'' campaign_id None None)))
       (\<lambda>e.
        thenM (raise_if (raised_by_flush e) (PyException ''PendingRollbackError'')) (
        bindM (readM exn_text) (\<lambda>text.
        bindM (get_by_campaign_id campaign_id (Some workspace_id)) (\<lambda>schedule.
        case schedule of
          None \<Rightarrow> returnM ()
        | Some s \<Rightarrow>
            thenM (update CampaignSchedule_model (s_id s)
                     (\<lambda>x. x\<lparr>s_status := ScheduleStatus_FAILED, s_error_message := Some (text e)\<rparr>))
              (log_audit workspace_id user_id ''PUBLISH_FAILED'' campaign_id None
                 (Some [(''error'', JStr (text e))])))))))"

definition get_history :: "uuid \<Rightarrow> ('z, AuditLog list) io" where
  "get_history campaign_id =
     bindM (select AuditLog_model
       (\<lambda>a. al_resource_type a = ''CAMPAIGN_SCHEDULE'' \<and> al_resource_id a = str_uuid campaign_id))
       (\<lambda>as. returnM (sort_desc al_timestamp as))"

section \<open>The routes\<close>

text \<open>\<open>app/api/deps.py\<close>: the user and the workspace of a request are drawn at random.\<close>

definition deps_get_current_user :: "('z, uuid) io" where
  "deps_get_current_user = uuid4"

definition deps_get_current_workspace :: "('z, uuid) io" where
  "deps_get_current_workspace = uuid4"

definition schedule_route :: "(uuid \<Rightarrow> uuid \<Rightarrow> ('z, 'a) io) \<Rightarrow> ('z, 'a) io" where
  "schedule_route handler =
     get_db_session
       (bindM deps_get_current_user (\<lambda>user_id.
        bindM deps_get_current_workspace (\<lambda>workspace_id.
          handler workspace_id user_id)))"

definition route_schedule_campaign :: "uuid \<Rightarrow> CampaignScheduleCreate \<Rightarrow> ('z, CampaignSchedule) io" where
  "route_schedule_campaign campaign_id schedule_data =
     schedule_route (schedule_campaign campaign_id schedule_data)"

definition route_update_campaign_schedule ::
  "uuid \<Rightarrow> CampaignScheduleUpdate \<Rightarrow> ('z, CampaignSchedule) io" where
  "route_update_campaign_schedule campaign_id schedule_data =
     schedule_route (\<lambda>ws user.
       case schedule_create_of schedule_data of
         Inl e \<Rightarrow> raiseM e
       | Inr create_data \<Rightarrow> schedule_campaign campaign_id create_data ws user)"

definition route_cancel_campaign_schedule :: "uuid \<Rightarrow> ('z, CampaignSchedule) io" where
  "route_cancel_campaign_schedule campaign_id = schedule_route (cancel_schedule campaign_id)"

text \<open>The session is closed before the background tasks run; what they do on it starts a transaction that
  nobody commits.\<close>

definition route_publish_campaign_immediately :: "uuid \<Rightarrow> ('z, CampaignSchedule) io" where
  "route_publish_campaign_immediately campaign_id =
     bindM (schedule_route (publish_immediately campaign_id)) (\<lambda>(schedule, tasks).
     thenM (catchM (forM tasks (\<lambda>t. with_session (execute_publish t))) (\<lambda>e. returnM ()))
       (returnM schedule))"

definition route_pause_campaign_schedule :: "uuid \<Rightarrow> ('z, CampaignSchedule) io" where
  "route_pause_campaign_schedule campaign_id = schedule_route (pause_schedule campaign_id)"

definition route_resume_campaign_schedule :: "uuid \<Rightarrow> ('z, CampaignSchedule) io" where
  "route_resume_campaign_schedule campaign_id = schedule_route (resume_schedule campaign_id)"

definition route_get_campaign_publishing_history :: "uuid \<Rightarrow> ('z, AuditLog list) io" where
  "route_get_campaign_publishing_history campaign_id =
     schedule_route (\<lambda>ws user. get_history campaign_id)"

section \<open>Queries and the audit trail\<close>

lemma read_only_get_by_campaign: "read_only (get_by_campaign_id c ws)"
  unfolding get_by_campaign_id_def read_only_def by (intro ro_intros)

lemma read_only_validate: "read_only (get_and_validate_schedule c ws)"
  unfolding get_and_validate_schedule_def using read_only_get_by_campaign unfolding read_only_def
  by (intro ro.obeys_bind ro.obeys_case_option ro.obeys_raise ro.obeys_return)

lemma read_only_check_schedulable: "read_only (check_schedulable c ws)"
  unfolding check_schedulable_def read_only_def Let_def
  by (intro ro_intros ro.obeys_then ro.obeys_raise_if)

lemma get_by_campaign_Some:
  assumes "get_by_campaign_id c (Some ws) w = (Inr (Some s), w')"
  shows "s \<in> set (campaign_schedules (db w))" and "s_campaign_id s = c" and "s_workspace_id s = ws"
proof -
  have "filter (\<lambda>s. s_campaign_id s = c \<and> s_workspace_id s = ws) (campaign_schedules (db w)) = [s]"
    using assms by (auto simp: get_by_campaign_id_def bindM_eq_Inr scalar_one_or_none_Some)
  then have "s \<in> set (filter (\<lambda>s. s_campaign_id s = c \<and> s_workspace_id s = ws) (campaign_schedules (db w)))"
    by simp
  then show "s \<in> set (campaign_schedules (db w))" and "s_campaign_id s = c" and "s_workspace_id s = ws"
    by simp_all
qed

lemma validate_Inr:
  "get_and_validate_schedule c ws w = (Inr s, w') \<Longrightarrow> s \<in> set (campaign_schedules (db w))"
  by (auto simp: get_and_validate_schedule_def bindM_eq_Inr split: option.splits
      dest!: get_by_campaign_Some(1))

section \<open>The life of a schedule\<close>

definition schedule_moves :: "CampaignSchedule \<Rightarrow> CampaignSchedule \<Rightarrow> bool" where
  "schedule_moves s t \<longleftrightarrow>
     s_id t = s_id s \<and> s_campaign_id t = s_campaign_id s \<and> s_workspace_id t = s_workspace_id s \<and>
     (s_status s = ScheduleStatus_PUBLISHED \<longrightarrow> s_status t = ScheduleStatus_PUBLISHED) \<and>
     (s_status t = ScheduleStatus_FAILED \<longrightarrow> s_status s = ScheduleStatus_FAILED) \<and>
     (s_status s \<noteq> ScheduleStatus_FAILED \<longrightarrow> s_retry_count t = s_retry_count s)"

interpretation slife: row_life CampaignSchedule_model schedule_moves
proof unfold_locales
  show "schedule_moves r u" if "schedule_moves r s" "schedule_moves s u" for r s u
    using that unfolding schedule_moves_def by metis
qed (simp_all add: schedule_moves_def)

lemma slife_log: "obeys slife.rel (log_audit ws u a c ov nv)"
  unfolding log_audit_def
  by (intro slife.obeys_bind slife.obeys_read slife.obeys_then slife.obeys_return
      slife.frame_create_audit_log) simp

lemmas slife_reads =
  slife.life_read_then [OF read_only_get_by_campaign] slife.life_read_then [OF read_only_validate]

lemma slife_then_log:
  assumes "bindM (update CampaignSchedule_model (s_id s) f)
      (\<lambda>u. thenM (log_audit ws user a c (ov u) nv) (returnM (g u))) w = (r, w')"
    and "s \<in> set (campaign_schedules (db w))"
    and "distinct (map (pk CampaignSchedule_model) (tbl CampaignSchedule_model (db w)))"
    and "schedule_moves s (f s)"
  shows "slife.rel w w'"
proof -
  have "bindM (update CampaignSchedule_model (pk CampaignSchedule_model s) f)
      (\<lambda>u. thenM (log_audit ws user a c (ov u) nv) (returnM (g u))) w = (r, w')"
    using assms(1) by simp
  from slife.life_edit_then [OF this _ assms(3,4)] show ?thesis
    using assms(2) slife_log slife.obeys_then slife.obeys_return by fastforce
qed

lemma slife_schedule: "obeys slife.rel (schedule_campaign c data ws u)"
proof -
  have future: "obeys slife.rel (check_future t)" for t
    unfolding check_future_def
  proof (intro slife.obeys_bind slife.obeys_clock)
    show "obeys slife.rel (case py_less t (Aware now) of Inl e \<Rightarrow> raiseM e
        | Inr past \<Rightarrow> raise_if past (HTTPException 400 ''Cannot schedule in the past''))" for now
      by (cases "py_less t (Aware now)") (simp_all only: sum.case slife.obeys_raise slife.obeys_raise_if)
  qed
  have first: "obeys slife.rel (first_schedule c data ws u)"
    unfolding first_schedule_def Let_def
    by (intro slife.obeys_bind slife.obeys_then slife.obeys_return slife.life_create slife_log)
  show ?thesis
    unfolding schedule_campaign_def
  proof (intro slife.obeys_then future slife.read_only_obeys [OF read_only_check_schedulable],
      rule slife_reads, elim slife.life_case slife.life_guard)
    fix existing s w r w'
    assume "get_by_campaign_id c (Some ws) w = (Inr existing, w)"
      "distinct (map (pk CampaignSchedule_model) (tbl CampaignSchedule_model (db w)))"
      "existing = Some s" "s_status s \<noteq> ScheduleStatus_PUBLISHED"
      "reschedule c data ws u s w = (r, w')"
    then show "slife.rel w w'"
      unfolding reschedule_def Let_def
      by (elim slife_then_log) (auto simp: schedule_moves_def set_status_def dest: get_by_campaign_Some(1))
  qed (rule first)
qed

lemma slife_pause: "obeys slife.rel (pause_schedule c ws u)"
  unfolding pause_schedule_def
  by (rule slife_reads, elim slife.life_guard slife_then_log)
    (auto simp: schedule_moves_def set_status_def dest: validate_Inr)

lemma slife_resume: "obeys slife.rel (resume_schedule c ws u)"
  unfolding resume_schedule_def
  by (rule slife_reads, elim slife.life_guard slife_then_log)
    (auto simp: schedule_moves_def set_status_def dest: validate_Inr)

lemma slife_cancel: "obeys slife.rel (cancel_schedule c ws u)"
  unfolding cancel_schedule_def
  by (rule slife_reads, elim slife.life_guard slife_then_log)
    (auto simp: schedule_moves_def set_status_def dest: validate_Inr)

lemma slife_retry: "obeys slife.rel (retry_failed_publishing c ws u)"
  unfolding retry_failed_publishing_def
  by (rule slife_reads, elim slife.life_guard slife_then_log)
    (auto simp: schedule_moves_def set_status_def dest: validate_Inr)

lemma slife_publish: "obeys slife.rel (publish_immediately c ws u)"
  unfolding publish_immediately_def
proof (rule slife_reads(1), elim slife.life_guard)
  let ?new = "\<lambda>now. create CampaignSchedule_model (new_schedule ws c u now ''UTC'')"
  let ?rest = "\<lambda>schedule. bindM (update CampaignSchedule_model (s_id schedule)
      (\<lambda>x. x\<lparr>s_status := ScheduleStatus_SCHEDULED\<rparr>))
      (\<lambda>updated. thenM (log_audit ws u ''TRIGGER_PUBLISH'' c None None) (returnM (updated, [(c, ws, u)])))"
  fix found w r w'
  assume g: "get_by_campaign_id c (Some ws) w = (Inr found, w)"
    and dist: "distinct (map (pk CampaignSchedule_model) (tbl CampaignSchedule_model (db w)))"
    and np: "map_option s_status found \<noteq> Some ScheduleStatus_PUBLISHED"
    and run: "bindM (case found of None \<Rightarrow> bindM get_utc_now ?new | Some s \<Rightarrow> returnM s) ?rest w = (r, w')"
  show "slife.rel w w'"
  proof (cases found)
    case (Some s)
    with run have "?rest s w = (r, w')" by simp
    then show ?thesis
      by (rule slife_then_log [OF _ _ dist])
        (use Some np get_by_campaign_Some(1) [of c ws w s w] g in \<open>auto simp: schedule_moves_def\<close>)
  next
    case None
    obtain v w1 where new: "bindM get_utc_now ?new w = (v, w1)" by fastforce
    have step: "slife.rel w w1"
      by (rule obeysD [OF slife.obeys_bind [OF slife.obeys_clock slife.life_create] new])
    show ?thesis
    proof (cases v)
      case (Inl e)
      with run None new have "w' = w1" by (simp add: bindM_def)
      with step show ?thesis by (simp only:)
    next
      case (Inr s)
      have s: "s \<in> set (campaign_schedules (db w1))" "s_status s = ScheduleStatus_SCHEDULED"
        using new Inr by (auto simp: create_def flush_new_def insert_row_Inr new_schedule_def)
      have "?rest s w1 = (r, w')" using run None new Inr by (simp add: bindM_def)
      then have "slife.rel w1 w'"
        by (rule slife_then_log) (use s step dist in \<open>auto simp: schedule_moves_def rows_evolve_def\<close>)
      with step show ?thesis by (rule slife.evolve_trans)
    qed
  qed
qed

lemma update_raises: "update M i f w = (Inl e, w') \<Longrightarrow> raised_by_flush e"
  by (auto simp: update_def flush_dirty_def update_row_def split: option.splits if_splits)

lemma log_raises: "log_audit ws u a c ov nv w = (Inl e, w') \<Longrightarrow> raised_by_flush e"
  by (auto simp: log_audit_def create_audit_log_def create_def flush_new_def insert_row_def bindM_def
      split: if_splits)

lemma slife_execute: "obeys slife.rel (execute_publish t)"
proof (rule obeysI)
  fix w r w' assume run: "execute_publish t w = (r, w')"
  show "slife.rel w w'"
  proof (cases "distinct (map (pk CampaignSchedule_model) (tbl CampaignSchedule_model (db w)))")
    case False
    then show ?thesis by (simp add: rows_evolve_def)
  next
    case u: True
    obtain c ws user where t: "t = (c, ws, user)" by (cases t)
    obtain found w1 where g: "get_by_campaign_id c (Some ws) w = (found, w1)" by fastforce
    have w1: "w1 = w" using read_onlyD [OF read_only_get_by_campaign g] .
    consider (err) e where "found = Inl e" | (none) "found = Inr None" | (some) s where "found = Inr (Some s)"
      by (metis obj_sumE option.exhaust)
    then show ?thesis
    proof cases
      case err
      with run g w1 have "w' = w" by (auto simp: execute_publish_def t catchM_def bindM_def split: if_splits)
      then show ?thesis by (simp only: slife.evolve_refl)
    next
      case none
      with run g w1 have "w' = w" by (simp add: execute_publish_def t catchM_def bindM_def)
      then show ?thesis by (simp only: slife.evolve_refl)
    next
      case some
      let ?body = "thenM (update CampaignSchedule_model (s_id s)
            (\<lambda>x. x\<lparr>s_status := ScheduleStatus_PUBLISHED, s_error_message := None\<rparr>))
          (log_audit ws user ''PUBLISH_SUCCESS'' c None None)"
      obtain x w2 where body: "?body w = (x, w2)" by fastforce
      have s: "s \<in> set (tbl CampaignSchedule_model (db w))"
        using get_by_campaign_Some(1) g some w1 by simp
      have "slife.rel w w2"
        by (rule slife.life_edit_then [OF body [unfolded thenM_def, folded CampaignSchedule_model_simps(3)] s u])
          (auto simp: schedule_moves_def slife_log [unfolded CampaignSchedule_model_simps])
      moreover have "w' = w2"
      proof (cases x)
        case (Inl e)
        then have "raised_by_flush e"
          using body by (auto simp: bindM_def split: prod.splits sum.splits dest: update_raises log_raises)
        with run g some w1 Inl body show ?thesis
          by (simp add: execute_publish_def t catchM_def bindM_def)
      next
        case (Inr y)
        with run g some w1 body show ?thesis
          by (simp add: execute_publish_def t catchM_def bindM_def)
      qed
      ultimately show ?thesis by (simp only:)
    qed
  qed
qed

section \<open>Any interleaving of requests and background tasks\<close>

datatype schedule_request =
    ScheduleCampaign uuid CampaignScheduleCreate uuid uuid
  | PublishNow uuid uuid uuid
  | PauseSchedule uuid uuid uuid
  | ResumeSchedule uuid uuid uuid
  | CancelSchedule uuid uuid uuid
  | RetryPublishing uuid uuid uuid

text \<open>Serving a request gives the background tasks it adds.\<close>

fun serve_schedule :: "schedule_request \<Rightarrow> ('z, background_task list) io" where
  "serve_schedule (ScheduleCampaign c data ws u) = thenM (schedule_campaign c data ws u) (returnM [])"
| "serve_schedule (PublishNow c ws u) = bindM (publish_immediately c ws u) (\<lambda>x. returnM (snd x))"
| "serve_schedule (PauseSchedule c ws u) = thenM (pause_schedule c ws u) (returnM [])"
| "serve_schedule (ResumeSchedule c ws u) = thenM (resume_schedule c ws u) (returnM [])"
| "serve_schedule (CancelSchedule c ws u) = thenM (cancel_schedule c ws u) (returnM [])"
| "serve_schedule (RetryPublishing c ws u) = bindM (retry_failed_publishing c ws u) (\<lambda>x. returnM (snd x))"

inductive schedule_step ::
  "'z world_scheme \<times> background_task list \<Rightarrow> 'z world_scheme \<times> background_task list \<Rightarrow> bool" where
  answered: "serve_schedule req w = (Inr ts, w') \<Longrightarrow> schedule_step (w, q) (w', q @ ts)"
| refused: "serve_schedule req w = (Inl e, w') \<Longrightarrow> schedule_step (w, q) (w', q)"
| background: "execute_publish t w = (r, w') \<Longrightarrow> schedule_step (w, q1 @ t # q2) (w', q1 @ q2)"

lemma slife_serve: "obeys slife.rel (serve_schedule req)"
  by (cases req; simp only: serve_schedule.simps; intro slife.obeys_then slife.obeys_bind slife.obeys_return
      slife_schedule slife_publish slife_pause slife_resume slife_cancel slife_retry)

lemma slife_steps:
  assumes "schedule_step\<^sup>*\<^sup>* x y"
  shows "slife.rel (fst x) (fst y)"
  using assms
proof (induction rule: rtranclp_induct)
  case base
  show ?case by (rule slife.evolve_refl)
next
  case (step y z)
  have "slife.rel (fst y) (fst z)"
    using step.hyps(2)
  proof (cases rule: schedule_step.cases)
    case answered
    from obeysD [OF slife_serve answered(3)] show ?thesis by (simp only: answered(1,2) fst_conv)
  next
    case refused
    from obeysD [OF slife_serve refused(3)] show ?thesis by (simp only: refused(1,2) fst_conv)
  next
    case background
    from obeysD [OF slife_execute background(3)] show ?thesis by (simp only: background(1,2) fst_conv)
  qed
  with step.IH show ?case by (rule slife.evolve_trans)
qed


section \<open>Background tasks and cancellations\<close>

lemma schedule_update_stored:
  assumes "update CampaignSchedule_model i f w = (Inr r, w')" and "\<And>x. s_id (f x) = s_id x"
  obtains x t where "r \<in> set (campaign_schedules (db w'))" and "s_id r = i"
    and "r = f x \<or> r = (f x)\<lparr>s_stamp := t\<rparr>"
proof -
  from assms obtain x where x: "find_pk CampaignSchedule_model i (db w) = Some x"
    by (auto simp: update_def flush_dirty_def split: option.splits)
  then have stored: "x \<in> set (campaign_schedules (db w))" "s_id x = i" by (auto dest: find_pk_Some)
  show thesis
  proof (cases "f x = x")
    case True
    with assms(1) x stored show thesis
      by (intro that [of x undefined]) (auto simp: update_def flush_dirty_def)
  next
    case False
    with assms x stored show thesis
      by (intro that [of x "touch_stamp (clock w (ticks w)) (s_stamp (f x))"])
        (auto simp: update_def flush_dirty_def update_row_Inr set_upd_where)
  qed
qed

lemma log_audit_Inr: "log_audit ws u a c ov nv w = (Inr x, w') \<Longrightarrow> campaign_schedules (db w') = campaign_schedules (db w)"
  by (auto simp: log_audit_def bindM_eq_Inr dest!: create_audit_log_Inr(1))

text \<open>The background task does not look at the status of the schedule: whatever it is when
  the task runs, cancelled and paused included, a run that ends leaves the schedule published.\<close>

lemma background_publish_ignores_status:
  assumes "get_by_campaign_id c (Some ws) w = (Inr (Some s), w)"
    and "execute_publish (c, ws, user) w = (Inr (), w')"
  shows "\<exists>t \<in> set (campaign_schedules (db w')). s_id t = s_id s \<and>
     s_status t = ScheduleStatus_PUBLISHED \<and> s_error_message t = None"
proof -
  let ?set = "\<lambda>x. x\<lparr>s_status := ScheduleStatus_PUBLISHED, s_error_message := None\<rparr>"
  obtain v w1 where upd: "update CampaignSchedule_model (s_id s) ?set w = (v, w1)" by fastforce
  obtain y w2 where log: "log_audit ws user ''PUBLISH_SUCCESS'' c None None w1 = (y, w2)" by fastforce
  have "\<exists>r. v = Inr r \<and> y = Inr () \<and> w' = w2"
    using assms upd log
    by (cases v; cases y)
      (auto simp: execute_publish_def catchM_def bindM_def dest: update_raises log_raises)
  then obtain r where r: "v = Inr r" "y = Inr ()" "w' = w2" by blast
  have "campaign_schedules (db w') = campaign_schedules (db w1)"
    using log_audit_Inr log r by blast
  moreover obtain x t where "r \<in> set (campaign_schedules (db w1))" "s_id r = s_id s"
    "r = ?set x \<or> r = (?set x)\<lparr>s_stamp := t\<rparr>"
    by (rule schedule_update_stored [OF upd [unfolded r(1)]]) auto
  ultimately show ?thesis by (intro bexI [of _ r]) auto
qed

text \<open>A publish date without an offset is not refused as a bad request: comparing it with the
  clock raises a \<open>TypeError\<close> before anything else is looked at.\<close>

lemma naive_date_raises:
  "fst (schedule_campaign c \<lparr>sc_publish_date = Naive t, sc_timezone = z\<rparr> ws u w) =
     Inl (TypeError ''can't compare offset-naive and offset-aware datetimes'') \<and>
   db (snd (schedule_campaign c \<lparr>sc_publish_date = Naive t, sc_timezone = z\<rparr> ws u w)) = db w"
  by (simp add: schedule_campaign_def check_future_def bindM_def)

section \<open>What is persisted\<close>

lemma same_future: "obeys uncommitted.same (check_future t)"
  unfolding check_future_def
proof (intro uncommitted.same_intros)
  show "obeys uncommitted.same (case py_less t (Aware now) of Inl e \<Rightarrow> raiseM e
      | Inr past \<Rightarrow> raise_if past (HTTPException 400 ''Cannot schedule in the past''))" for now
    by (cases "py_less t (Aware now)") (simp_all only: sum.case uncommitted.obeys_raise uncommitted.obeys_raise_if)
qed

lemma same_log: "obeys uncommitted.same (log_audit ws u a c ov nv)"
  unfolding log_audit_def by (intro uncommitted.same_intros)

lemma same_validate: "obeys uncommitted.same (get_and_validate_schedule c ws)"
  "obeys uncommitted.same (get_by_campaign_id c x)"
  by (rule uncommitted.read_only_obeys, rule read_only_validate)
    (rule uncommitted.read_only_obeys, rule read_only_get_by_campaign)

lemma same_scheduler:
  "obeys uncommitted.same (schedule_campaign c data ws u)" "obeys uncommitted.same (publish_immediately c ws u)"
  "obeys uncommitted.same (pause_schedule c ws u)" "obeys uncommitted.same (resume_schedule c ws u)"
  "obeys uncommitted.same (cancel_schedule c ws u)" "obeys uncommitted.same (execute_publish t)"
  unfolding schedule_campaign_def publish_immediately_def pause_schedule_def resume_schedule_def
    cancel_schedule_def reschedule_def first_schedule_def check_schedulable_def execute_publish_def Let_def split_beta
  by (intro uncommitted.same_intros same_future same_log same_validate)+

lemma schedule_route_uncommitted:
  assumes "\<And>ws u. obeys uncommitted.same (h ws u)"
  shows "committed (snd (schedule_route h w)) = committed w"
proof -
  have "obeys uncommitted.same (bindM deps_get_current_user (\<lambda>user_id.
      bindM deps_get_current_workspace (\<lambda>workspace_id. h workspace_id user_id)))"
    unfolding deps_get_current_user_def deps_get_current_workspace_def
    by (intro uncommitted.same_intros assms)
  from session_without_commit(1) [OF this prod.collapse [symmetric]]
  show ?thesis unfolding schedule_route_def .
qed

lemma background_uncommitted:
  "committed (snd (forM ts (\<lambda>t. with_session (execute_publish t)) w)) = committed w"
proof (induction ts arbitrary: w)
  case (Cons t ts)
  obtain r w1 where run: "execute_publish t w = (r, w1)" by fastforce
  have "committed w1 = committed w"
    using obeysD [OF same_scheduler(6) run] by (simp add: uncommitted.same_def)
  then show ?case
    using Cons [of "w1\<lparr>db := committed w1\<rparr>"] run
    by (cases r) (simp_all add: with_session_def bindM_def)
qed simp

text \<open>No scheduling request persists anything: neither its handler nor the background task it
  starts commits.\<close>

lemma scheduling_persists_nothing:
  "committed (snd (route_schedule_campaign c data w)) = committed w \<and>
   committed (snd (route_update_campaign_schedule c upd w)) = committed w \<and>
   committed (snd (route_cancel_campaign_schedule c w)) = committed w \<and>
   committed (snd (route_pause_campaign_schedule c w)) = committed w \<and>
   committed (snd (route_resume_campaign_schedule c w)) = committed w \<and>
   committed (snd (route_publish_campaign_immediately c w)) = committed w"
proof (intro conjI)
  show "committed (snd (route_update_campaign_schedule c upd w)) = committed w"
    unfolding route_update_campaign_schedule_def
    by (cases "schedule_create_of upd")
      (simp_all only: sum.case schedule_route_uncommitted uncommitted.obeys_raise same_scheduler)
  show "committed (snd (route_publish_campaign_immediately c w)) = committed w"
  proof -
    obtain r w1 where run: "schedule_route (publish_immediately c) w = (r, w1)" by fastforce
    have "committed (snd (schedule_route (publish_immediately c) w)) = committed w"
      by (rule schedule_route_uncommitted) (rule same_scheduler)
    then have w1: "committed w1 = committed w" by (simp add: run)
    show ?thesis
    proof (cases r)
      case (Inl e)
      with run w1 show ?thesis by (simp add: route_publish_campaign_immediately_def bindM_def)
    next
      case (Inr p)
      obtain s ts where p: "p = (s, ts)" by (cases p)
      obtain x w2 where tasks: "forM ts (\<lambda>t. with_session (execute_publish t)) w1 = (x, w2)" by fastforce
      have "committed w2 = committed w1" using background_uncommitted [of ts w1] tasks by simp
      with run w1 Inr p tasks show ?thesis
        by (cases x) (simp_all add: route_publish_campaign_immediately_def bindM_def catchM_def)
    qed
  qed
qed (simp_all only: route_schedule_campaign_def route_cancel_campaign_schedule_def
    route_pause_campaign_schedule_def route_resume_campaign_schedule_def
    schedule_route_uncommitted same_scheduler)

section \<open>Concrete requests\<close>

definition fx_schedules :: world where
  "fx_schedules = world_of (fx_database
     \<lparr>campaigns := [fx_campaign 40 CampaignStatus_ACTIVE],
       campaign_schedules := [(new_schedule 20 40 1 99 ''UTC'')\<lparr>s_id := 60, s_status := ScheduleStatus_CANCELLED\<rparr>]\<rparr>)"

lemma background_publish_ignores_status_witness:
  "\<exists>w' :: world. execute_publish (40, 20, 1) fx_schedules = (Inr (), w') \<and>
     (\<exists>t \<in> set (campaign_schedules (db w')). s_id t = 60 \<and> s_status t = ScheduleStatus_PUBLISHED)"
proof -
  let ?s = "(new_schedule 20 40 1 99 ''UTC'')\<lparr>s_id := 60, s_status := ScheduleStatus_CANCELLED\<rparr>"
  have "fst (get_by_campaign_id 40 (Some 20) fx_schedules) = Inr (Some ?s)" by code_simp
  then have g: "get_by_campaign_id 40 (Some 20) fx_schedules = (Inr (Some ?s), fx_schedules)"
    using read_onlyD [OF read_only_get_by_campaign prod.collapse [symmetric]] by (metis prod.collapse)
  have "fst (execute_publish (40, 20, 1) fx_schedules) = Inr ()" by code_simp
  then have run: "execute_publish (40, 20, 1) fx_schedules = (Inr (), snd (execute_publish (40, 20, 1) fx_schedules))"
    by (metis prod.collapse)
  from background_publish_ignores_status [OF g run] run show ?thesis by auto
qed


end
