(* ===== verification/Row_Edits.thy ===== *)
theory Row_Edits
  imports Row_Life
begin

text \<open>
  How a run splits at the queries it makes, and what one statement does to its table as a list: an
  update rewrites the row it names, a creation appends a row, a soft deletion marks one. A failed
  statement leaves the table as it was.
\<close>

lemma bindM_read_onlyE:
  assumes "bindM m k w = (r, w')" and "read_only m"
  obtains e where "r = Inl e" "w' = w" "m w = (Inl e, w)" | x where "m w = (Inr x, w)" "k x w = (r, w')"
proof -
  obtain v w1 where m: "m w = (v, w1)" by fastforce
  have w1: "w1 = w" using read_onlyD [OF assms(2) m] .
  show thesis
  proof (cases v)
    case (Inl e)
    with assms(1) m w1 show thesis by (intro that(1) [of e]) (simp_all add: bindM_def)
  next
    case (Inr x)
    with assms(1) m w1 show thesis by (intro that(2) [of x]) (simp_all add: bindM_def)
  qed
qed

lemma thenM_read_onlyE:
  assumes "thenM m k w = (r, w')" and "read_only m"
  obtains e where "r = Inl e" "w' = w" "m w = (Inl e, w)" | x where "m w = (Inr x, w)" "k w = (r, w')"
  using assms unfolding thenM_def by (elim bindM_read_onlyE) blast+

lemma guardE:
  assumes "thenM (raise_if b e) k w = (r, w')"
  obtains "b" "r = Inl e" "w' = w" | "\<not> b" "k w = (r, w')"
  using assms by (cases b) simp_all

text \<open>The shape "do this, then that": the first part fails, or the second runs from where it ended.\<close>

lemma thenM_runE:
  assumes "thenM m k w = (r, w')"
  obtains e where "m w = (Inl e, w')" "r = Inl e" | x w1 where "m w = (Inr x, w1)" "k w1 = (r, w')"
  using assms by (auto simp: thenM_def bindM_def split: prod.splits sum.splits)

lemma bindM_runE:
  assumes "bindM m k w = (r, w')"
  obtains e where "m w = (Inl e, w')" "r = Inl e" | x w1 where "m w = (Inr x, w1)" "k x w1 = (r, w')"
  using assms by (auto simp: bindM_def split: prod.splits sum.splits)

definition edit_row :: "('r \<Rightarrow> uuid) \<Rightarrow> uuid \<Rightarrow> ('r \<Rightarrow> 'r) \<Rightarrow> 'r list \<Rightarrow> 'r list" where
  "edit_row key i f xs = map (\<lambda>x. if key x = i then f x else x) xs"

lemma map_edit_row: "(\<And>x. key (f x) = key x) \<Longrightarrow> map key (edit_row key i f xs) = map key xs"
  by (simp add: edit_row_def)

lemma set_edit_row: "set (edit_row key i f xs) = (\<lambda>x. if key x = i then f x else x) ` set xs"
  by (simp add: edit_row_def)

lemma edit_row_stored: "x \<in> set xs \<Longrightarrow> (if key x = i then f x else x) \<in> set (edit_row key i f xs)"
  by (simp add: set_edit_row)

lemma filter_edit_row:
  "(\<And>x. x \<in> set xs \<Longrightarrow> key x = i \<Longrightarrow> \<not> q x \<and> \<not> q (f x)) \<Longrightarrow> filter q (edit_row key i f xs) = filter q xs"
  by (induction xs) (auto simp: edit_row_def)

context repository
begin

lemma upd_where_edit:
  assumes "distinct (map (pk M) xs)" and "r \<in> set xs" and "pk M r = i"
  shows "upd_where (\<lambda>x. pk M x = i) (\<lambda>_. g r) xs = edit_row (pk M) i g xs"
proof -
  have "x = r" if "x \<in> set xs" "pk M x = i" for x
    using that assms by (metis distinct_map_inj)
  then show ?thesis by (auto simp: upd_where_def edit_row_def)
qed

lemma flush_dirty_edits:
  assumes u: "distinct (map (pk M) (tbl M (db w)))" and f: "\<And>x. pk M (f x) = pk M x"
    and run: "flush_dirty M i f w = (v, w')"
  obtains e where "v = Inl e" "tbl M (db w') = tbl M (db w)"
  | r t where "v = Inr r" "r \<in> set (tbl M (db w'))" "pk M r = i"
      "tbl M (db w') = edit_row (pk M) i (\<lambda>x. if f x = x then x else touch M t (f x)) (tbl M (db w))"
proof (cases "find_pk M i (db w)")
  case None
  with run that(1) show thesis by (auto simp: flush_dirty_def)
next
  case (Some r)
  note r = find_pk_Some [OF Some]
  let ?t = "clock w (ticks w)"
  let ?g = "\<lambda>x. if f x = x then x else touch M ?t (f x)"
  have edit: "upd_where (\<lambda>x. pk M x = i) (\<lambda>_. ?g r) (tbl M (db w)) = edit_row (pk M) i ?g (tbl M (db w))"
    by (rule upd_where_edit [where g = ?g]) (use u r in auto)
  have mem: "?g r \<in> set (edit_row (pk M) i ?g (tbl M (db w)))"
    using r by (auto simp: set_edit_row intro!: image_eqI [of _ _ r])
  show thesis
  proof (cases "f r = r")
    case True
    have "upd_where (\<lambda>x. pk M x = i) (\<lambda>_. r) (tbl M (db w)) = tbl M (db w)"
      by (rule upd_where_id) (use u r in \<open>metis distinct_map_inj\<close>)
    with run Some True r edit mem show thesis
      by (intro that(2) [of r ?t]) (auto simp: flush_dirty_def)
  next
    case False
    with run Some have row: "update_row M (touch M ?t (f r)) (w\<lparr>ticks := Suc (ticks w)\<rparr>) = (v, w')"
      by (simp add: flush_dirty_def)
    show thesis
    proof (cases v)
      case (Inl e)
      with row show thesis by (intro that(1)) (auto simp: update_row_def split: if_splits)
    next
      case (Inr y)
      with row r f False edit mem show thesis
        by (intro that(2) [of "?g r" ?t]) (auto simp: update_row_Inr)
    qed
  qed
qed

lemmas update_edits = flush_dirty_edits [folded update_def]

lemma create_appends:
  assumes "create M r w = (v, w')"
  obtains e where "v = Inl e" "tbl M (db w') = tbl M (db w)"
  | i t u where "v = Inr (fill M i t u r)" "tbl M (db w') = tbl M (db w) @ [fill M i t u r]"
      "i \<notin> pk M ` set (tbl M (db w))"
proof (cases v)
  case (Inl e)
  with assms that(1) show thesis
    by (auto simp: create_def flush_new_def insert_row_def split: if_splits)
next
  case (Inr x)
  note row = create_row [OF assms [unfolded Inr]]
  show thesis
    by (rule that(2)) (use row Inr in \<open>auto simp: find_pk_None\<close>)
qed

lemma soft_delete_edits:
  assumes u: "distinct (map (pk M) (tbl M (db w)))" and s: "soft M \<noteq> None"
    and run: "delete M i True w = (v, w')"
  obtains (unchanged) "v \<noteq> Inr True" "tbl M (db w') = tbl M (db w)"
  | (marked) t t' where "v = Inr True"
      "tbl M (db w') = edit_row (pk M) i
         (\<lambda>x. if mark_deleted M t x = x then x else touch M t' (mark_deleted M t x)) (tbl M (db w))"
  using run unfolding delete_def
proof (elim bindM_read_onlyE [OF _ read_only_get_by_id])
  fix e assume "v = Inl e" "w' = w"
  then show thesis by (intro unchanged) simp_all
next
  fix found
  assume g: "get_by_id M i w = (Inr found, w)"
    and rest: "(case found of None \<Rightarrow> returnM False
      | Some r \<Rightarrow> thenM
          (if True \<and> soft M \<noteq> None
           then bindM get_utc_now (\<lambda>now. thenM (flush_dirty M (pk M r) (mark_deleted M now)) (returnM ()))
           else thenM (delete_where M (\<lambda>x. pk M x = i)) (returnM ())) (returnM True)) w = (v, w')"
  show thesis
  proof (cases found)
    case None
    with rest show thesis by (intro unchanged) auto
  next
    case (Some r)
    have r: "pk M r = i" using get_by_id_Some [of M i w r w] g Some by simp
    let ?w = "w\<lparr>ticks := Suc (ticks w)\<rparr>" and ?t = "clock w (ticks w)"
    obtain x w1 where f: "flush_dirty M i (mark_deleted M ?t) ?w = (x, w1)" by fastforce
    have u': "distinct (map (pk M) (tbl M (db ?w)))" using u by simp
    show thesis
    proof (rule flush_dirty_edits [OF u' pk_mark f])
      fix e assume "x = Inl e" "tbl M (db w1) = tbl M (db ?w)"
      with rest Some s f r show thesis by (intro unchanged) (auto simp: bindM_def)
    next
      fix y t'
      assume "x = Inr y" "tbl M (db w1) = edit_row (pk M) i
        (\<lambda>x. if mark_deleted M ?t x = x then x else touch M t' (mark_deleted M ?t x)) (tbl M (db ?w))"
      with rest Some s f r show thesis by (intro marked [of ?t t']) (auto simp: bindM_def)
    qed
  qed
qed

text \<open>An update of a row that is there: what it gives, and the table afterwards.\<close>

lemma update_found:
  assumes u: "distinct (map (pk M) (tbl M (db w)))" and r: "r \<in> set (tbl M (db w))"
    and f: "\<And>x. pk M (f x) = pk M x" and run: "update M (pk M r) f w = (Inr y, w')"
  obtains t where "y = (if f r = r then r else touch M t (f r))" and "y \<in> set (tbl M (db w'))"
    and "tbl M (db w') = edit_row (pk M) (pk M r) (\<lambda>x. if f x = x then x else touch M t (f x)) (tbl M (db w))"
proof (rule update_edits [OF u f run])
  fix t z
  let ?g = "\<lambda>x. if f x = x then x else touch M t (f x)"
  assume z: "Inr y = Inr z" "z \<in> set (tbl M (db w'))" "pk M z = pk M r"
    and t: "tbl M (db w') = edit_row (pk M) (pk M r) ?g (tbl M (db w))"
  have key: "pk M (?g x) = pk M x" for x by (simp add: f)
  from z t obtain x where x: "x \<in> set (tbl M (db w))" "z = (if pk M x = pk M r then ?g x else x)"
    by (auto simp: set_edit_row)
  then have "pk M x = pk M r" using z(3) key by (cases "pk M x = pk M r") simp_all
  with x r u have "x = r" by (blast intro: distinct_map_inj)
  with x z t show thesis by (intro that [of t]) simp_all
qed simp

lemma update_result:
  assumes "distinct (map (pk M) (tbl M (db w)))" and "r \<in> set (tbl M (db w))"
    and "\<And>x. pk M (f x) = pk M x" and "update M (pk M r) f w = (Inr y, w')"
    and "P (f r)" and "\<And>t. P (touch M t (f r))"
  shows "P y" and "y \<in> set (tbl M (db w'))"
proof -
  obtain t where y: "y = (if f r = r then r else touch M t (f r))" "y \<in> set (tbl M (db w'))"
    by (rule update_found [OF assms(1-4)])
  then show "P y" using assms(5,6) by (cases "f r = r") simp_all
  show "y \<in> set (tbl M (db w'))" by fact
qed

text \<open>A property that the edit and the stamp do not see: the rows that have it not are left alone.\<close>

lemma update_leaves:
  assumes "distinct (map (pk M) (tbl M (db w)))" and r: "r \<in> set (tbl M (db w))" and f: "\<And>x. pk M (f x) = pk M x"
    and "update M (pk M r) f w = (v, w')"
    and q: "\<not> q r" "\<not> q (f r)" "\<And>t. \<not> q (touch M t (f r))"
  shows "filter q (tbl M (db w')) = filter q (tbl M (db w))"
proof (rule update_edits [OF assms(1,3,4)])
  fix t
  let ?g = "\<lambda>x. if f x = x then x else touch M t (f x)"
  assume "tbl M (db w') = edit_row (pk M) (pk M r) ?g (tbl M (db w))"
  moreover have "filter q (edit_row (pk M) (pk M r) ?g (tbl M (db w))) = filter q (tbl M (db w))"
  proof (rule filter_edit_row)
    fix x assume "x \<in> set (tbl M (db w))" "pk M x = pk M r"
    with r assms(1) have "x = r" by (blast intro: distinct_map_inj)
    with q show "\<not> q x \<and> \<not> q (?g x)" by simp
  qed
  ultimately show ?thesis by simp
qed simp

end

end
