(* ===== verification/Jobs.thy ===== *)
theory Jobs
  imports Transactions Row_Edits Fixtures "HOL-Library.AList"
begin

text \<open>
  Background jobs (\<open>app/jobs\<close>): the payload serializer, the repository and the service of job executions,
  the queue facade, the scheduler facade and the worker that runs a task; and what administrators do with jobs
  (\<open>app/operations/admin\<close>). The message broker (Celery) and the task functions are parameters.

  A block \<open>async with AsyncSessionLocal()\<close> is a session of its own. The worker and the queue open one
  when they hold no uncommitted change, so a nested session starts from what is committed, and
  afterwards the next statement sees what is committed then: this is \<open>with_session\<close>.
\<close>

section \<open>Serialization\<close>

text \<open>\<open>json.loads(json.dumps(payload, cls=UUIDEncoder))\<close>: UUIDs become text, datetimes are refused.\<close>

function serialize_value :: "json \<Rightarrow> json option" where
  "serialize_value (JUuid u) = Some (JStr (str_uuid u))"
| "serialize_value (JTime t) = None"
| "serialize_value (JList xs) =
     (if list_all (\<lambda>x. serialize_value x \<noteq> None) xs
      then Some (JList (map (\<lambda>x. the (serialize_value x)) xs)) else None)"
| "serialize_value (JObj kvs) =
     (if list_all (\<lambda>kv. serialize_value (snd kv) \<noteq> None) kvs
      then Some (JObj (map (\<lambda>kv. (fst kv, the (serialize_value (snd kv)))) kvs)) else None)"
| "serialize_value JNull = Some JNull"
| "serialize_value (JBool b) = Some (JBool b)"
| "serialize_value (JInt i) = Some (JInt i)"
| "serialize_value (JStr s) = Some (JStr s)"
  by pat_completeness auto
termination
  by (relation "measure size") (auto intro: size_list_estimation' simp: less_Suc_eq_le)

definition serialize :: "json_object \<Rightarrow> ('z, json_object) io" where
  "serialize payload =
     (case serialize_value (JObj payload) of
        Some (JObj kvs) \<Rightarrow> returnM kvs
      | _ \<Rightarrow> raiseM (TypeError ''Object is not JSON serializable''))"

section \<open>The repository\<close>

definition get_by_job_status :: "JobStatus \<Rightarrow> nat \<Rightarrow> ('z, JobExecution list) io" where
  "get_by_job_status st limit =
     bindM (select JobExecution_model (\<lambda>j. j_status j = st)) (\<lambda>js. returnM (take limit js))"

definition repo_mark_started :: "uuid \<Rightarrow> ('z, JobExecution option) io" where
  "repo_mark_started job_id =
     bindM get_utc_now (\<lambda>now.
     thenM (update_where JobExecution_model (\<lambda>j. j_id j = job_id)
              (\<lambda>j. j\<lparr>j_status := JobStatus_RUNNING, j_started_at := Some now\<rparr>))
       (get_by_id JobExecution_model job_id))"

definition repo_mark_completed :: "uuid \<Rightarrow> json_object option \<Rightarrow> ('z, JobExecution option) io" where
  "repo_mark_completed job_id result =
     bindM get_utc_now (\<lambda>now.
     thenM (raise_if (\<not> serializable_object result) (TypeError ''not JSON serializable'')) (
     thenM (update_where JobExecution_model (\<lambda>j. j_id j = job_id)
              (\<lambda>j. j\<lparr>j_status := JobStatus_COMPLETED, j_completed_at := Some now, j_result := result\<rparr>))
       (get_by_id JobExecution_model job_id)))"

definition repo_mark_failed :: "uuid \<Rightarrow> string \<Rightarrow> bool \<Rightarrow> ('z, JobExecution option) io" where
  "repo_mark_failed job_id error_message increment_attempt =
     bindM (get_by_id JobExecution_model job_id) (\<lambda>found.
     case found of
       None \<Rightarrow> returnM None
     | Some job \<Rightarrow>
         let new_attempts = (if increment_attempt then j_attempts job + 1 else j_attempts job);
             new_status = (if j_max_attempts job \<le> new_attempts then JobStatus_FAILED else JobStatus_RETRYING) in
         bindM (if new_status = JobStatus_FAILED
                then bindM get_utc_now (\<lambda>now. returnM (Some now)) else returnM None) (\<lambda>failed_at.
         thenM (update_where JobExecution_model (\<lambda>j. j_id j = job_id)
                  (\<lambda>j. j\<lparr>j_status := new_status, j_failed_at := failed_at,
                         j_error_message := Some error_message, j_attempts := new_attempts\<rparr>))
           (get_by_id JobExecution_model job_id)))"

section \<open>The service\<close>

definition new_job ::
  "string \<Rightarrow> json_object \<Rightarrow> string \<Rightarrow> JobPriority \<Rightarrow> int \<Rightarrow> JobExecution" where
  "new_job job_name payload queue priority max_attempts =
     \<lparr>j_id = 0, j_stamp = no_stamp, j_job_name = job_name, j_queue = queue, j_status = JobStatus_QUEUED,
      j_priority = priority, j_attempts = 0, j_max_attempts = max_attempts, j_payload = payload,
      j_result = None, j_error_message = None, j_started_at = None, j_completed_at = None,
      j_failed_at = None\<rparr>"

definition create_job ::
  "string \<Rightarrow> json_object \<Rightarrow> string \<Rightarrow> JobPriority \<Rightarrow> int \<Rightarrow> ('z, JobExecution) io" where
  "create_job job_name payload queue priority max_attempts =
     create JobExecution_model (new_job job_name payload queue priority max_attempts)"

definition get_job :: "uuid \<Rightarrow> ('z, JobExecution option) io" where
  "get_job job_id = get_by_id JobExecution_model job_id"

definition mark_started :: "uuid \<Rightarrow> ('z, JobExecution option) io" where
  "mark_started job_id = repo_mark_started job_id"

definition mark_completed :: "uuid \<Rightarrow> json_object option \<Rightarrow> ('z, JobExecution option) io" where
  "mark_completed job_id result = repo_mark_completed job_id result"

definition mark_failed :: "uuid \<Rightarrow> string \<Rightarrow> ('z, JobExecution option) io" where
  "mark_failed job_id error_message = repo_mark_failed job_id error_message True"

section \<open>The queue and the scheduler\<close>

text \<open>\<open>CeleryAdapter.enqueue\<close>: the name of the task, its arguments, the queue and the countdown; it gives the
  broker's task id, or raises when the broker is down.\<close>

type_synonym 'z broker = "string \<Rightarrow> json_object \<Rightarrow> string \<Rightarrow> int \<Rightarrow> ('z, string) io"

definition enqueue ::
  "'z broker \<Rightarrow> string \<Rightarrow> json_object \<Rightarrow> string \<Rightarrow> JobPriority \<Rightarrow> int \<Rightarrow> int \<Rightarrow> ('z, uuid) io" where
  "enqueue broker job_name payload queue priority countdown max_attempts =
     bindM (serialize payload) (\<lambda>serialized_payload.
     bindM (with_session
              (bindM (create_job job_name serialized_payload queue priority max_attempts) (\<lambda>job.
               thenM commit (returnM (j_id job))))) (\<lambda>job_id.
     thenM
       (catchM
          (thenM (broker job_name (AList.update ''job_execution_id'' (JStr (str_uuid job_id)) serialized_payload)
                    queue countdown) (returnM ()))
          (\<lambda>e. with_session
             (bindM (readM exn_text) (\<lambda>text.
              thenM (mark_failed job_id (''Broker failure: '' @ text e)) commit))))
       (returnM job_id)))"

definition schedule_at :: "'z broker \<Rightarrow> string \<Rightarrow> json_object \<Rightarrow> int \<Rightarrow> string \<Rightarrow> ('z, uuid) io" where
  "schedule_at broker job_name payload run_at_seconds queue =
     enqueue broker job_name payload queue JobPriority_DEFAULT run_at_seconds 3"

section \<open>The worker\<close>

text \<open>\<open>WorkerBase.execute_job\<close>. The task is an action that gives the JSON value it returns; it works in
  sessions of its own.\<close>

definition execute_job :: "string \<Rightarrow> ('z, json) io \<Rightarrow> ('z, json) io" where
  "execute_job execution_id task_func =
     (case (if execution_id = [] then None else uuid_of_str execution_id) of
        None \<Rightarrow> with_session task_func
      | Some job_id \<Rightarrow>
          with_session
            (bindM (mark_started job_id) (\<lambda>job.
             if job = None then with_session task_func
             else
             thenM commit
               (catchM
                  (bindM (with_session task_func) (\<lambda>result.
                   thenM (mark_completed job_id (Some [(''result'', JStr ''success''), (''data'', result)])) (
                   thenM commit (returnM result))))
                  (\<lambda>e.
                   bindM (readM exn_text) (\<lambda>text.
                   thenM (mark_failed job_id (text e)) (
                   thenM commit
                     (raiseM (JobExecutionError (''Task failed: '' @ text e))))))))))"

section \<open>Administration\<close>

definition get_system_jobs :: "nat \<Rightarrow> nat \<Rightarrow> ('z, JobExecution list) io" where
  "get_system_jobs limit offset =
     bindM (select JobExecution_model (\<lambda>j. True))
       (\<lambda>js. returnM (page offset limit (sort_desc (\<lambda>j. created_at (j_stamp j)) js)))"

text \<open>The arguments of the call read columns that jobs do not have.\<close>

definition retry_job :: "uuid \<Rightarrow> ('z, JobExecution) io" where
  "retry_job execution_id =
     bindM (get_by_id JobExecution_model execution_id) (\<lambda>found.
     case found of
       None \<Rightarrow> raiseM (ValueError ''Job not found'')
     | Some job \<Rightarrow>
         thenM (raise_if (j_status job \<notin> {JobStatus_FAILED, JobStatus_COMPLETED})
                  (ValueError (''Job is currently '' @ JobStatus_value (j_status job) @ '', cannot retry.'')))
           (raiseM (AttributeError ''workspace_id'')))"

text \<open>\<open>error_stack\<close> is not a column, so assigning it writes nothing.\<close>

definition cancel_job :: "uuid \<Rightarrow> ('z, JobExecution) io" where
  "cancel_job execution_id =
     bindM (get_by_id JobExecution_model execution_id) (\<lambda>found.
     case found of
       None \<Rightarrow> raiseM (ValueError ''Job not found'')
     | Some job \<Rightarrow>
         if j_status job \<in> {JobStatus_PENDING, JobStatus_QUEUED}
         then bindM (update JobExecution_model (j_id job) (\<lambda>j. j\<lparr>j_status := JobStatus_FAILED\<rparr>))
                (\<lambda>updated. thenM commit (returnM updated))
         else returnM job)"

text \<open>The routes answer a \<open>ValueError\<close> with 400.\<close>

definition admin_route :: "('z, JobExecution) io \<Rightarrow> ('z, JobExecution) io" where
  "admin_route m =
     get_db_session
       (catchM m (\<lambda>e. case e of ValueError d \<Rightarrow> raiseM (HTTPException 400 d) | _ \<Rightarrow> raiseM e))"

definition route_list_jobs :: "nat \<Rightarrow> nat \<Rightarrow> ('z, JobExecution list) io" where
  "route_list_jobs limit offset = get_db_session (get_system_jobs limit offset)"

definition route_retry_job :: "uuid \<Rightarrow> ('z, JobExecution) io" where
  "route_retry_job execution_id = admin_route (retry_job execution_id)"

definition route_cancel_job :: "uuid \<Rightarrow> ('z, JobExecution) io" where
  "route_cancel_job execution_id = admin_route (cancel_job execution_id)"

section \<open>Tracked jobs\<close>

definition tracked :: "uuid \<Rightarrow> (JobExecution \<Rightarrow> bool) \<Rightarrow> JobExecution list \<Rightarrow> bool" where
  "tracked i P js \<longleftrightarrow> distinct (map j_id js) \<and> (\<exists>j \<in> set js. j_id j = i \<and> P j)"

lemma tracked_weaken: "tracked i P js \<Longrightarrow> (\<And>j. P j \<Longrightarrow> Q j) \<Longrightarrow> tracked i Q js"
  by (auto simp: tracked_def)

lemma get_tracked:
  assumes "tracked i P (job_executions (db w))"
  obtains j where "get_by_id JobExecution_model i w = (Inr (Some j), w)" and "P j"
proof -
  from assms obtain j where j: "j \<in> set (job_executions (db w))" "j_id j = i" "P j"
    by (auto simp: tracked_def)
  have "get_by_id JobExecution_model (pk JobExecution_model j) w = (Inr (Some j), w)"
    by (rule job_repo.get_by_id_iff) (use assms j in \<open>auto simp: pk_unique_def tracked_def visible_def\<close>)
  with j that show thesis by simp
qed

text \<open>The statement of the repository, on a tracked job: it succeeds and the job is rewritten.\<close>

lemma update_tracked:
  assumes "tracked i P (job_executions (db w))" and "\<And>j. j_id (f j) = j_id j"
    and "\<And>j t. P j \<Longrightarrow> Q (f j\<lparr>j_stamp := t\<rparr>)"
  obtains j w1 where "thenM (update_where JobExecution_model (\<lambda>j. j_id j = i) f) (get_by_id JobExecution_model i) w =
      (Inr (Some j), w1)" and "tracked i Q (job_executions (db w1))" and "committed w1 = committed w"
proof -
  let ?t = "clock w (ticks w)"
  let ?g = "\<lambda>j. touch JobExecution_model ?t (f j)"
  let ?w1 = "w\<lparr>ticks := Suc (ticks w),
    db := db w\<lparr>job_executions := upd_where (\<lambda>j. j_id j = i) ?g (job_executions (db w))\<rparr>\<rparr>"
  have upd: "update_where JobExecution_model (\<lambda>j. j_id j = i) f w =
      (Inr (length (filter (\<lambda>j. j_id j = i) (job_executions (db w)))), ?w1)"
    by (simp add: update_where_def Let_def valid_JobExecution_def list_all_iff)
  have keys: "map j_id (upd_where (\<lambda>j. j_id j = i) ?g (job_executions (db w))) = map j_id (job_executions (db w))"
    by (rule map_upd_where) (simp add: assms(2))
  from assms(1) obtain x where x: "x \<in> set (job_executions (db w))" "j_id x = i" "P x"
    by (auto simp: tracked_def)
  then have "?g x \<in> set (upd_where (\<lambda>j. j_id j = i) ?g (job_executions (db w)))"
    by (auto simp: set_upd_where)
  moreover have "j_id (?g x) = i" "Q (?g x)" using x assms(2,3) by simp_all
  ultimately have "\<exists>j \<in> set (upd_where (\<lambda>j. j_id j = i) ?g (job_executions (db w))). j_id j = i \<and> Q j"
    by (intro bexI [of _ "?g x"] conjI)
  moreover have "distinct (map j_id (upd_where (\<lambda>j. j_id j = i) ?g (job_executions (db w))))"
    unfolding keys using assms(1) by (simp add: tracked_def)
  ultimately have tr: "tracked i Q (job_executions (db ?w1))" by (simp add: tracked_def)
  from get_tracked [OF tr] obtain j where "get_by_id JobExecution_model i ?w1 = (Inr (Some j), ?w1)" .
  with upd tr that [of j ?w1] show thesis by (simp add: bindM_def)
qed

lemma mark_started_tracked:
  assumes "tracked i (\<lambda>j. j_attempts j = a \<and> j_max_attempts j = m) (job_executions (db w))"
  obtains j w1 where "mark_started i w = (Inr (Some j), w1)" and "committed w1 = committed w"
    and "tracked i (\<lambda>j. j_attempts j = a \<and> j_max_attempts j = m) (job_executions (db w1))"
proof -
  let ?w = "w\<lparr>ticks := Suc (ticks w)\<rparr>"
  from assms have "tracked i (\<lambda>j. j_attempts j = a \<and> j_max_attempts j = m) (job_executions (db ?w))" by simp
  then obtain j w1 where "thenM (update_where JobExecution_model (\<lambda>j. j_id j = i)
      (\<lambda>j. j\<lparr>j_status := JobStatus_RUNNING, j_started_at := Some (clock w (ticks w))\<rparr>))
      (get_by_id JobExecution_model i) ?w = (Inr (Some j), w1)"
    "tracked i (\<lambda>j. j_attempts j = a \<and> j_max_attempts j = m) (job_executions (db w1))"
    "committed w1 = committed ?w"
    by (rule update_tracked [where f = "\<lambda>j. j\<lparr>j_status := JobStatus_RUNNING, j_started_at := Some (clock w (ticks w))\<rparr>"
          and Q = "\<lambda>j. j_attempts j = a \<and> j_max_attempts j = m"]) simp_all
  then show thesis by (intro that [of j w1]) (simp_all add: mark_started_def repo_mark_started_def)
qed

lemma mark_completed_tracked:
  assumes "tracked i P (job_executions (db w))" and "serializable_object res"
  obtains j w1 where "mark_completed i res w = (Inr (Some j), w1)"
    and "tracked i (\<lambda>j. j_status j = JobStatus_COMPLETED \<and> j_result j = res) (job_executions (db w1))"
proof -
  let ?w = "w\<lparr>ticks := Suc (ticks w)\<rparr>"
  from assms have "tracked i P (job_executions (db ?w))" by simp
  then obtain j w1 where "thenM (update_where JobExecution_model (\<lambda>j. j_id j = i)
      (\<lambda>j. j\<lparr>j_status := JobStatus_COMPLETED, j_completed_at := Some (clock w (ticks w)), j_result := res\<rparr>))
      (get_by_id JobExecution_model i) ?w = (Inr (Some j), w1)"
    "tracked i (\<lambda>j. j_status j = JobStatus_COMPLETED \<and> j_result j = res) (job_executions (db w1))"
    by (rule update_tracked [where f = "\<lambda>j. j\<lparr>j_status := JobStatus_COMPLETED,
          j_completed_at := Some (clock w (ticks w)), j_result := res\<rparr>"
          and Q = "\<lambda>j. j_status j = JobStatus_COMPLETED \<and> j_result j = res"]) simp_all
  then show thesis using assms(2)
    by (intro that [of j w1]) (simp_all add: mark_completed_def repo_mark_completed_def)
qed

definition failure_status :: "int \<Rightarrow> int \<Rightarrow> JobStatus" where
  "failure_status attempts max_attempts =
     (if max_attempts \<le> attempts then JobStatus_FAILED else JobStatus_RETRYING)"

lemma mark_failed_tracked:
  assumes "tracked i (\<lambda>j. R j \<and> j_attempts j = a \<and> j_max_attempts j = m) (job_executions (db w))"
    and R: "\<And>j s fa msg k t. R j \<Longrightarrow> R (j\<lparr>j_status := s, j_failed_at := fa, j_error_message := msg,
      j_attempts := k, j_stamp := t\<rparr>)"
  obtains j w1 where "mark_failed i msg w = (Inr (Some j), w1)"
    and "tracked i (\<lambda>j. R j \<and> j_attempts j = a + 1 \<and> j_max_attempts j = m \<and>
      j_status j = failure_status (a + 1) m \<and> j_error_message j = Some msg) (job_executions (db w1))"
proof -
  note found = that
  let ?P = "\<lambda>j. R j \<and> j_attempts j = a \<and> j_max_attempts j = m"
  obtain job where job: "get_by_id JobExecution_model i w = (Inr (Some job), w)" "?P job"
    by (rule get_tracked [OF assms(1)])
  let ?Q = "\<lambda>j. R j \<and> j_attempts j = a + 1 \<and> j_max_attempts j = m \<and> j_status j = failure_status (a + 1) m \<and>
    j_error_message j = Some msg"
  let ?f = "\<lambda>failed j. j\<lparr>j_status := failure_status (a + 1) m, j_failed_at := failed,
    j_error_message := Some msg, j_attempts := a + 1\<rparr>"
  have step: thesis if w2: "db w2 = db w" and run: "mark_failed i msg w = thenM (update_where JobExecution_model (\<lambda>j. j_id j = i) (?f failed))
      (get_by_id JobExecution_model i) w2" for w2 failed
  proof -
    from assms(1) w2 have "tracked i ?P (job_executions (db w2))" by simp
    then obtain j w1 where "thenM (update_where JobExecution_model (\<lambda>j. j_id j = i) (?f failed))
        (get_by_id JobExecution_model i) w2 = (Inr (Some j), w1)" "tracked i ?Q (job_executions (db w1))"
      by (rule update_tracked [where f = "?f failed" and Q = ?Q]) (simp_all add: R)
    with run show thesis by (intro found [of j w1]) (simp_all only:)
  qed
  show thesis
  proof (cases "m \<le> a + 1")
    case True
    with job show thesis
      by (intro step [of "w\<lparr>ticks := Suc (ticks w)\<rparr>" "Some (clock w (ticks w))"])
        (simp_all add: mark_failed_def repo_mark_failed_def bindM_def failure_status_def Let_def)
  next
    case False
    with job show thesis
      by (intro step [of w None])
        (simp_all add: mark_failed_def repo_mark_failed_def bindM_def failure_status_def Let_def)
  qed
qed

section \<open>Running a job\<close>


text \<open>A job with one attempt, run with a task that returns 1, and the empty broker.\<close>

definition fx_job :: "uuid \<Rightarrow> JobExecution" where
  "fx_job i = (new_job ''post.publish'' [] ''default'' JobPriority_DEFAULT 1)\<lparr>j_id := i\<rparr>"

definition fx_jobs :: world where
  "fx_jobs = world_of (empty_database\<lparr>job_executions := [fx_job 5]\<rparr>)"

definition fx_broker :: "(unit) broker" where
  "fx_broker n p q c = returnM ''task''"

lemma fx_jobs_tracked:
  "tracked 5 (\<lambda>j. j_attempts j = 0 \<and> j_max_attempts j = 1) (job_executions (db fx_jobs))"
  by (simp add: tracked_def fx_jobs_def fx_job_def new_job_def)


section \<open>Putting a job into the queue\<close>

lemma create_job_tracked:
  assumes "distinct (map j_id (job_executions (db w)))"
    and "create_job name q queue priority m w = (v, w')"
  obtains j where "v = Inr j" and "tracked (j_id j) (\<lambda>j. (j_job_name j = name \<and> j_payload j = q \<and>
      j_status j = JobStatus_QUEUED) \<and> j_attempts j = 0 \<and> j_max_attempts j = m) (job_executions (db w'))"
    | "v = Inl IntegrityError"
  using assms(2) unfolding create_job_def
proof (cases v)
  case (Inl e)
  with assms(2) that(2) show thesis
    by (auto simp: create_job_def create_def flush_new_def insert_row_def split: if_splits)
next
  case (Inr x)
  note row = job_repo.create_row [OF assms(2) [unfolded create_job_def Inr]]
  show thesis
    by (rule that(1) [OF Inr])
      (use row Inr assms(1) in \<open>auto simp: tracked_def new_job_def find_pk_None\<close>)
qed

text \<open>C22 (functional). Whatever the broker does, as long as it leaves the database alone, a request to enqueue that
  returns has committed the job with its serialized payload. The job is QUEUED when the broker took the
  message; when the broker failed, an attempt is counted already and the job is RETRYING unless it has only
  one attempt.\<close>

theorem enqueue_persists_job:
  assumes broker: "\<And>n p q c v r v'. broker n p q c v = (r, v') \<Longrightarrow> db v' = db v \<and> committed v' = committed v"
    and ids: "distinct (map j_id (job_executions (db w)))"
    and run: "enqueue broker name payload queue priority countdown m w = (Inr i, w')"
  shows "\<exists>q. serialize payload w = (Inr q, w) \<and>
     tracked i (\<lambda>j. j_job_name j = name \<and> j_payload j = q \<and> j_max_attempts j = m \<and>
       (j_status j = JobStatus_QUEUED \<and> j_attempts j = 0 \<or>
        j_status j = failure_status 1 m \<and> j_attempts j = 1)) (job_executions (committed w'))"
proof -
  let ?made = "\<lambda>q j. (j_job_name j = name \<and> j_payload j = q \<and> j_status j = JobStatus_QUEUED) \<and>
    j_attempts j = 0 \<and> j_max_attempts j = m"
  let ?kept = "\<lambda>q j. (j_job_name j = name \<and> j_payload j = q) \<and> j_attempts j = 0 \<and> j_max_attempts j = m"
  obtain q where q: "serialize payload w = (Inr q, w)"
    using run by (auto simp: enqueue_def serialize_def bindM_def split: option.splits json.splits)
  obtain v w1 where c: "create_job name q queue priority m w = (v, w1)" by fastforce
  have "v \<noteq> Inl IntegrityError" using run q c by (auto simp: enqueue_def with_session_def bindM_def)
  then obtain j where v: "v = Inr j" and made: "tracked (j_id j) (?made q) (job_executions (db w1))"
    using create_job_tracked [OF ids c] by blast
  let ?w1 = "w1\<lparr>committed := db w1\<rparr>"
  let ?p = "AList.update ''job_execution_id'' (JStr (str_uuid (j_id j))) q"
  obtain b w2 where b: "broker name ?p queue countdown ?w1 = (b, w2)" by fastforce
  have w2: "db w2 = db w1" "committed w2 = db w1" using broker [OF b] by simp_all
  have i: "i = j_id j"
    using run q c v b
    by (auto simp: enqueue_def with_session_def bindM_def catchM_def split: prod.splits sum.splits)
  show ?thesis
  proof (cases b)
    case (Inr t)
    with run q c v b have "w' = w2"
      by (simp add: enqueue_def with_session_def bindM_def catchM_def)
    with made w2 i q show ?thesis by (auto intro!: exI [of _ q] elim: tracked_weaken)
  next
    case (Inl e)
    let ?msg = "''Broker failure: '' @ exn_text w2 e"
    have "tracked (j_id j) (?kept q) (job_executions (db w2))"
      unfolding w2 by (rule tracked_weaken [OF made]) simp
    then obtain j' w3 where f: "mark_failed (j_id j) ?msg w2 = (Inr (Some j'), w3)"
      and t: "tracked (j_id j) (\<lambda>j. (j_job_name j = name \<and> j_payload j = q) \<and> j_attempts j = 0 + 1 \<and>
        j_max_attempts j = m \<and> j_status j = failure_status (0 + 1) m \<and> j_error_message j = Some ?msg)
        (job_executions (db w3))"
      by (rule mark_failed_tracked) simp
    from Inl run q c v b f have "committed w' = db w3"
      by (auto simp: enqueue_def with_session_def bindM_def catchM_def)
    with t i q show ?thesis by (auto intro!: exI [of _ q] elim: tracked_weaken)
  qed
qed

section \<open>Retrying as an administrator\<close>

text \<open>Retrying a job as an administrator never works: a job that may be retried ends in an
  \<open>AttributeError\<close>, every other request in another error, and nothing is enqueued or changed.\<close>

lemma retry_job_raises:
  "\<exists>e. retry_job i w = (Inl e, w) \<and>
     (e = AttributeError ''workspace_id'') =
       (\<exists>j. get_by_id JobExecution_model i w = (Inr (Some j), w) \<and>
          j_status j \<in> {JobStatus_FAILED, JobStatus_COMPLETED})"
proof -
  obtain v w1 where g: "get_by_id JobExecution_model i w = (v, w1)" by fastforce
  have "w1 = w" using read_onlyD [OF read_only_get_by_id g] .
  moreover have "e = MultipleResultsFound" if "v = Inl e" for e
    using g that by (auto simp: get_by_id_def get_by_id_with_def scalar_one_or_none_def bindM_def split: list.splits)
  ultimately show ?thesis
    using g by (cases v) (auto simp: retry_job_def bindM_def split: option.splits)
qed

theorem enqueue_persists_job_witness:
  "\<exists>i w'. tracked i (\<lambda>j. j_job_name j = ''post.publish'' \<and> j_max_attempts j = 3) (job_executions (committed (w' :: world)))"
proof -
  have "succeeds (enqueue fx_broker ''post.publish'' [(''n'', JInt 1)] ''default'' JobPriority_HIGH 0 3) fx_jobs"
    by code_simp
  then obtain i w' where run: "enqueue fx_broker ''post.publish'' [(''n'', JInt 1)] ''default'' JobPriority_HIGH 0 3
      fx_jobs = (Inr i, w')" by (rule succeedsE)
  have "db v' = db v \<and> committed v' = committed v" if "fx_broker n p q c v = (r, v')" for n p q c v r v'
    using that by (simp add: fx_broker_def)
  moreover have "distinct (map j_id (job_executions (db fx_jobs)))" by (simp add: fx_jobs_def)
  ultimately show ?thesis using enqueue_persists_job [OF _ _ run] by (blast intro: tracked_weaken)
qed

end
