(* ===== verification/Resilience.thy ===== *)
theory Resilience
  imports Complex_Main Action_Monad
begin

text \<open>
  The guards around calls to other services: the circuit breaker
  (\<open>app/integrations/circuit_breaker/breaker.py\<close>), the retry decorator
  (\<open>app/integrations/retry/policy.py\<close>) and the token bucket
  (\<open>app/integrations/rate_limit/limiter.py\<close>).

  A Python float (a time in seconds, a delay, a number of tokens) is the rational number it denotes;
  the rounding of float arithmetic is not modelled. The readings of the clock are arguments.
\<close>

section \<open>The circuit breaker\<close>

datatype CircuitState = CircuitState_CLOSED | CircuitState_OPEN | CircuitState_HALF_OPEN

record CircuitBreaker =
  failure_threshold :: int
  recovery_timeout :: rat
  cb_state :: CircuitState
  failure_count :: int
  last_failure_time :: rat

definition new_breaker :: "int \<Rightarrow> rat \<Rightarrow> CircuitBreaker" where
  "new_breaker threshold timeout =
     \<lparr>failure_threshold = threshold, recovery_timeout = timeout, cb_state = CircuitState_CLOSED,
      failure_count = 0, last_failure_time = 0\<rparr>"

text \<open>Reading the property \<open>state\<close> moves an open breaker to half-open once the timeout has passed.\<close>

definition read_state :: "rat \<Rightarrow> CircuitBreaker \<Rightarrow> CircuitState \<times> CircuitBreaker" where
  "read_state now b =
     (let b' = (if cb_state b = CircuitState_OPEN \<and> recovery_timeout b \<le> now - last_failure_time b
                then b\<lparr>cb_state := CircuitState_HALF_OPEN\<rparr> else b)
      in (cb_state b', b'))"

definition record_failure :: "rat \<Rightarrow> CircuitBreaker \<Rightarrow> CircuitBreaker" where
  "record_failure now b =
     (let b' = b\<lparr>failure_count := failure_count b + 1, last_failure_time := now\<rparr>
      in if cb_state b' = CircuitState_HALF_OPEN \<or> failure_threshold b' \<le> failure_count b'
         then b'\<lparr>cb_state := CircuitState_OPEN\<rparr> else b')"

definition record_success :: "CircuitBreaker \<Rightarrow> CircuitBreaker" where
  "record_success b = b\<lparr>cb_state := CircuitState_CLOSED, failure_count := 0\<rparr>"

text \<open>The beginning of \<open>call\<close>: whether the function may run.\<close>

definition admit :: "rat \<Rightarrow> CircuitBreaker \<Rightarrow> bool \<times> CircuitBreaker" where
  "admit now b = (case read_state now b of (s, b') \<Rightarrow> (s \<noteq> CircuitState_OPEN, b'))"

text \<open>\<open>call\<close> without interleaving: the clock is read when the call enters and, if the function raises, when
  the failure is recorded. The function runs on a state of its own.\<close>

definition call ::
  "(exn \<Rightarrow> bool) \<Rightarrow> rat \<Rightarrow> rat \<Rightarrow> ('s, 'a) action \<Rightarrow> (CircuitBreaker \<times> 's, 'a) action" where
  "call expected t_enter t_fail func = (\<lambda>(b, s).
     case admit t_enter b of
       (False, b') \<Rightarrow> (Inl (CircuitBreakerOpenError ''Circuit breaker is OPEN.''), b', s)
     | (True, b') \<Rightarrow>
         (case func s of
            (Inr x, s') \<Rightarrow> (Inr x, record_success b', s')
          | (Inl e, s') \<Rightarrow> (Inl e, if expected e then record_failure t_fail b' else b', s')))"

text \<open>The registry of breakers, one per provider.\<close>

definition get_circuit_breaker ::
  "string \<Rightarrow> (string \<rightharpoonup> CircuitBreaker) \<Rightarrow> CircuitBreaker \<times> (string \<rightharpoonup> CircuitBreaker)" where
  "get_circuit_breaker provider m =
     (case m provider of
        Some b \<Rightarrow> (b, m)
      | None \<Rightarrow> (let b = new_breaker 5 60 in (b, m(provider \<mapsto> b))))"

section \<open>What a circuit breaker promises\<close>

text \<open>
  The abstract breaker has no counter once it is open: it is closed with a number of failures since the
  last success, open since a time, or half-open. Calls that overlap are sequences of events: a call
  enters, and later its success or its failure is recorded.
\<close>

datatype circuit = Closed int | Open rat | Half

datatype circuit_event = Enter rat | Failed rat | Succeeded

fun circuit_step :: "int \<Rightarrow> rat \<Rightarrow> circuit_event \<Rightarrow> circuit \<Rightarrow> bool \<times> circuit" where
  "circuit_step threshold timeout (Enter t) (Open since) =
     (if timeout \<le> t - since then (True, Half) else (False, Open since))"
| "circuit_step threshold timeout (Enter t) c = (True, c)"
| "circuit_step threshold timeout (Failed t) (Closed n) =
     (True, if threshold \<le> n + 1 then Open t else Closed (n + 1))"
| "circuit_step threshold timeout (Failed t) c = (True, Open t)"
| "circuit_step threshold timeout Succeeded c = (True, Closed 0)"

definition circuit_of :: "CircuitBreaker \<Rightarrow> circuit" where
  "circuit_of b =
     (case cb_state b of
        CircuitState_CLOSED \<Rightarrow> Closed (failure_count b)
      | CircuitState_OPEN \<Rightarrow> Open (last_failure_time b)
      | CircuitState_HALF_OPEN \<Rightarrow> Half)"

fun breaker_step :: "circuit_event \<Rightarrow> CircuitBreaker \<Rightarrow> bool \<times> CircuitBreaker" where
  "breaker_step (Enter t) b = admit t b"
| "breaker_step (Failed t) b = (True, record_failure t b)"
| "breaker_step Succeeded b = (True, record_success b)"

text \<open>Running a list of events, with the answers given to the calls that entered.\<close>

fun run_events :: "('e \<Rightarrow> 's \<Rightarrow> bool \<times> 's) \<Rightarrow> 'e list \<Rightarrow> 's \<Rightarrow> bool list \<times> 's" where
  "run_events step [] s = ([], s)"
| "run_events step (e # es) s =
     (case step e s of (b, s') \<Rightarrow> (case run_events step es s' of (bs, s'') \<Rightarrow> (b # bs, s'')))"

lemmas breaker_defs = admit_def read_state_def record_failure_def record_success_def circuit_of_def

lemma breaker_step_params:
  "failure_threshold (snd (breaker_step e b)) = failure_threshold b"
  "recovery_timeout (snd (breaker_step e b)) = recovery_timeout b"
  by (cases e; simp add: breaker_defs Let_def)+

lemma breaker_step_simulates:
  "circuit_step (failure_threshold b) (recovery_timeout b) e (circuit_of b) =
     (fst (breaker_step e b), circuit_of (snd (breaker_step e b)))"
  by (cases e; cases "cb_state b") (auto simp: breaker_defs Let_def)

text \<open>C18 (refinement). However calls to a provider overlap, the breaker admits and refuses exactly the calls that the
  abstract breaker does, and represents its state.\<close>

theorem breaker_refines_circuit:
  "run_events (circuit_step (failure_threshold b) (recovery_timeout b)) es (circuit_of b) =
     (fst (run_events breaker_step es b), circuit_of (snd (run_events breaker_step es b)))"
proof (induction es arbitrary: b)
  case (Cons e es)
  obtain a b' where step: "breaker_step e b = (a, b')" by fastforce
  with breaker_step_params [of e b] have "failure_threshold b' = failure_threshold b"
    "recovery_timeout b' = recovery_timeout b" by simp_all
  with Cons [of b'] breaker_step_simulates [of b e] step show ?case
    by (simp split: prod.splits)
qed simp

section \<open>The retry decorator\<close>

fun breaker_is_open :: "exn \<Rightarrow> bool" where
  "breaker_is_open (CircuitBreakerOpenError m) = True"
| "breaker_is_open _ = False"

text \<open>The loop of \<open>wrapper\<close>, from a number of retries made and the delay before the next one. The result comes with
  the delays slept.\<close>

function retry_loop ::
  "('s, 'a) action \<Rightarrow> (exn \<Rightarrow> bool) \<Rightarrow> int \<Rightarrow> rat \<Rightarrow> int \<Rightarrow> rat \<Rightarrow> 's \<Rightarrow> (exn + 'a) \<times> 's \<times> rat list" where
  "retry_loop func expected max_retries backoff retries delay s =
     (case func s of
        (Inr x, s') \<Rightarrow> (Inr x, s', [])
      | (Inl e, s') \<Rightarrow>
          if \<not> expected e \<or> breaker_is_open e \<or> max_retries < retries + 1 then (Inl e, s', [])
          else (case retry_loop func expected max_retries backoff (retries + 1) (delay * backoff) s' of
                  (r, s'', ds) \<Rightarrow> (r, s'', delay # ds)))"
  by pat_completeness auto
termination
  by (relation "measure (\<lambda>(_, _, max_retries, _, retries, _, _). nat (max_retries - retries))") auto

declare retry_loop.simps [simp del]

definition retry_policy ::
  "int \<Rightarrow> rat \<Rightarrow> rat \<Rightarrow> (exn \<Rightarrow> bool) \<Rightarrow> ('s, 'a) action \<Rightarrow> 's \<Rightarrow> (exn + 'a) \<times> 's \<times> rat list" where
  "retry_policy max_retries initial_delay backoff_factor expected func =
     retry_loop func expected max_retries backoff_factor 0 initial_delay"

text \<open>The state before the n-th attempt.\<close>

primrec before_attempt :: "('s, 'a) action \<Rightarrow> nat \<Rightarrow> 's \<Rightarrow> 's" where
  "before_attempt func 0 s = s"
| "before_attempt func (Suc n) s = before_attempt func n (snd (func s))"

definition retriable :: "(exn \<Rightarrow> bool) \<Rightarrow> exn + 'a \<Rightarrow> bool" where
  "retriable expected r = (case r of Inl e \<Rightarrow> expected e \<and> \<not> breaker_is_open e | Inr x \<Rightarrow> False)"

lemma retry_loop_attempts:
  assumes "retry_loop func expected max_retries backoff retries delay s = (r, s', ds)"
  shows "ds = map (\<lambda>i. delay * backoff ^ i) [0..<length ds] \<and>
     (r, s') = func (before_attempt func (length ds) s) \<and>
     (\<forall>i < length ds. retriable expected (fst (func (before_attempt func i s)))) \<and>
     (retriable expected r \<longrightarrow> int (length ds) = max 0 (max_retries - retries)) \<and>
     int (length ds) \<le> max 0 (max_retries - retries)"
  using assms
proof (induction func expected max_retries backoff retries delay s arbitrary: r s' ds rule: retry_loop.induct)
  case (1 func expected max_retries backoff retries delay s)
  obtain v s1 where run: "func s = (v, s1)" by fastforce
  show ?case
  proof (cases "retriable expected v \<and> retries + 1 \<le> max_retries")
    case False
    with 1(2) run show ?thesis
      by (subst (asm) retry_loop.simps) (auto simp: retriable_def split: sum.splits if_splits)
  next
    case True
    then obtain e where e: "v = Inl e" "expected e" "\<not> breaker_is_open e"
      by (auto simp: retriable_def split: sum.splits)
    obtain ds1 where rest: "retry_loop func expected max_retries backoff (retries + 1) (delay * backoff) s1 = (r, s', ds1)"
      and ds: "ds = delay # ds1"
      using 1(2) run e True by (subst (asm) retry_loop.simps) (auto split: prod.splits)
    have cond: "\<not> (\<not> expected e \<or> breaker_is_open e \<or> max_retries < retries + 1)"
      using e True by simp
    note IH = 1(1) [OF run [symmetric] e(1) cond rest]
    have "ds = map (\<lambda>i. delay * backoff ^ i) [0..<length ds]"
    proof -
      have "map (\<lambda>i. delay * backoff ^ i) [0..<Suc (length ds1)] =
          delay # map (\<lambda>i. delay * backoff ^ Suc i) [0..<length ds1]"
        by (simp add: upt_conv_Cons map_Suc_upt [symmetric] comp_def del: upt_Suc map_Suc_upt)
      also have "\<dots> = ds" using IH ds by (simp add: mult.assoc)
      finally show ?thesis by (simp add: ds)
    qed
    moreover have "\<forall>i < length ds. retriable expected (fst (func (before_attempt func i s)))"
    proof (intro allI impI)
      fix i assume "i < length ds"
      with IH run ds True show "retriable expected (fst (func (before_attempt func i s)))"
        by (cases i) auto
    qed
    ultimately show ?thesis using IH run ds True by auto
  qed
qed

text \<open>C19 (termination). The retry loop ends whatever the function does: after n sleeps, growing geometrically from the initial
  delay, it answers with the outcome of attempt n + 1, where all earlier attempts ended in a retriable
  exception; and if the last one did too, all retries were used.\<close>

theorem retry_policy_attempts:
  "\<exists>r s' n. retry_policy max_retries initial_delay backoff_factor expected func s =
       (r, s', map (\<lambda>i. initial_delay * backoff_factor ^ i) [0..<n]) \<and>
     (r, s') = func (before_attempt func n s) \<and>
     (\<forall>i < n. retriable expected (fst (func (before_attempt func i s)))) \<and>
     int n \<le> max 0 max_retries \<and> (retriable expected r \<longrightarrow> int n = max 0 max_retries)"
proof -
  obtain r s' ds where
    run: "retry_loop func expected max_retries backoff_factor 0 initial_delay s = (r, s', ds)"
    using prod_cases3 by blast
  from retry_loop_attempts [OF run] run show ?thesis
    unfolding retry_policy_def by (intro exI [of _ r] exI [of _ s'] exI [of _ "length ds"]) auto
qed

lemma retry_policy_attempts_witness:
  "\<exists>r s'. retry_policy 2 1 2 (\<lambda>e. True) (raiseM (PyException ''down'') :: (unit, unit) action) () = (r, s', [1, 2])"
proof -
  obtain r s' n where
    run: "retry_policy 2 1 2 (\<lambda>e. True) (raiseM (PyException ''down'') :: (unit, unit) action) () =
      (r, s', map (\<lambda>i. 1 * 2 ^ i) [0..<n])"
    and last: "(r, s') = raiseM (PyException ''down'') (before_attempt (raiseM (PyException ''down'') :: (unit, unit) action) n ())"
    and all: "retriable (\<lambda>e. True) r \<longrightarrow> int n = max 0 2"
    using retry_policy_attempts [of 2 1 2 "\<lambda>e. True" "raiseM (PyException ''down'') :: (unit, unit) action" "()"]
    by blast
  from last have "retriable (\<lambda>e. True) r" by (simp add: retriable_def)
  with all have "n = Suc (Suc 0)" by simp
  with run have "retry_policy 2 1 2 (\<lambda>e. True) (raiseM (PyException ''down'') :: (unit, unit) action) () = (r, s', [1, 2])"
    by (simp del: upt_Suc add: upt_rec)
  then show ?thesis by blast
qed

section \<open>The rate limiter\<close>

record RateLimiter =
  capacity :: rat
  tokens :: rat
  refill_rate :: rat
  last_refill :: rat

definition new_limiter :: "rat \<Rightarrow> rat \<Rightarrow> rat \<Rightarrow> RateLimiter" where
  "new_limiter cap rate now = \<lparr>capacity = cap, tokens = cap, refill_rate = rate, last_refill = now\<rparr>"

definition acquire :: "rat \<Rightarrow> RateLimiter \<Rightarrow> bool \<times> RateLimiter" where
  "acquire now l =
     (let elapsed = now - last_refill l;
          new_tokens = elapsed * refill_rate l;
          l' = (if new_tokens > 0
                then l\<lparr>tokens := min (capacity l) (tokens l + new_tokens), last_refill := now\<rparr> else l)
      in if tokens l' \<ge> 1 then (True, l'\<lparr>tokens := tokens l' - 1\<rparr>) else (False, l'))"

definition rate_limit :: "rat \<Rightarrow> ('s, 'a) action \<Rightarrow> (RateLimiter \<times> 's, 'a) action" where
  "rate_limit now func = (\<lambda>(l, s).
     case acquire now l of
       (False, l') \<Rightarrow> (Inl (RateLimitExceededError ''Rate limit exceeded''), l', s)
     | (True, l') \<Rightarrow> (case func s of (r, s') \<Rightarrow> (r, l', s')))"

definition limiter_ok :: "RateLimiter \<Rightarrow> bool" where
  "limiter_ok l \<longleftrightarrow> 0 \<le> tokens l \<and> tokens l \<le> capacity l \<and> 0 \<le> refill_rate l"

lemma acquire_step:
  assumes "limiter_ok l" and "acquire now l = (granted, l')"
  shows "limiter_ok l' \<and> capacity l' = capacity l \<and> refill_rate l' = refill_rate l \<and>
     last_refill l \<le> last_refill l' \<and> last_refill l' \<le> max (last_refill l) now \<and>
     (if granted then 1 else 0) + tokens l' \<le> tokens l + refill_rate l * (last_refill l' - last_refill l)"
proof -
  have pos: "last_refill l < now" if "0 < refill_rate l * (now - last_refill l)"
    using that assms(1) by (auto simp: limiter_ok_def zero_less_mult_iff)
  from assms show ?thesis
    by (auto simp: acquire_def limiter_ok_def Let_def min_def mult.commute split: if_splits dest!: pos)
qed

text \<open>C20 (bounds). Whatever the times at which a limiter is asked, it never grants more calls than the tokens it had plus
  what the rate refills until the latest of the times, and its tokens stay between none and its capacity.\<close>

theorem rate_limiter_bound:
  assumes "limiter_ok l" and "run_events acquire ts l = (granted, l')" and "\<forall>t \<in> set ts. t \<le> until"
    and "last_refill l \<le> until"
  shows "of_nat (length (filter (\<lambda>b. b) granted)) \<le> tokens l + refill_rate l * (until - last_refill l) \<and>
     limiter_ok l' \<and> capacity l' = capacity l"
proof -
  have "of_nat (length (filter (\<lambda>b. b) granted)) + tokens l' \<le> tokens l + refill_rate l * (last_refill l' - last_refill l) \<and>
      last_refill l' \<le> until \<and> limiter_ok l' \<and> capacity l' = capacity l \<and> refill_rate l' = refill_rate l"
    using assms
  proof (induction ts arbitrary: l granted)
    case (Cons t ts)
    obtain g l1 where step: "acquire t l = (g, l1)" by fastforce
    obtain gs where rest: "run_events acquire ts l1 = (gs, l')" and granted: "granted = g # gs"
      using Cons.prems(2) step by (auto split: prod.splits)
    note one = acquire_step [OF Cons.prems(1) step]
    from one Cons.prems(3,4) have "last_refill l1 \<le> until" by (auto simp: max_def split: if_splits)
    with Cons.IH [OF _ rest] one Cons.prems(3) have IH:
      "of_nat (length (filter (\<lambda>b. b) gs)) + tokens l' \<le> tokens l1 + refill_rate l * (last_refill l' - last_refill l1)"
      "last_refill l' \<le> until" "limiter_ok l'" "capacity l' = capacity l" "refill_rate l' = refill_rate l"
      by simp_all
    have "of_nat (length (filter (\<lambda>b. b) granted)) = (if g then 1 else 0) + (of_nat (length (filter (\<lambda>b. b) gs)) :: rat)"
      by (simp add: granted)
    with IH one show ?case by (auto simp: algebra_simps)
  qed simp
  moreover from this have "refill_rate l * (last_refill l' - last_refill l) \<le> refill_rate l * (until - last_refill l)"
    and "0 \<le> tokens l'"
    using assms(1) by (auto simp: limiter_ok_def intro!: mult_left_mono)
  ultimately show ?thesis by linarith
qed

lemma rate_limiter_bound_witness:
  "length (filter (\<lambda>b. b) (fst (run_events acquire [1, 1, 1, 2, 5] (new_limiter 2 1 0)))) \<le> 7"
proof -
  have "limiter_ok (new_limiter 2 1 0)" by (simp add: limiter_ok_def new_limiter_def)
  from rate_limiter_bound [OF this prod.collapse [symmetric], of "[1, 1, 1, 2, 5]" 5]
  have "of_nat (length (filter (\<lambda>b. b) (fst (run_events acquire [1, 1, 1, 2, 5] (new_limiter 2 1 0))))) \<le> (7 :: rat)"
    by (simp add: new_limiter_def)
  then show ?thesis by linarith
qed

end
