(* ===== verification/Integrations.thy ===== *)
theory Integrations
  imports Jobs Resilience Auth
begin

text \<open>
  Integrations (\<open>app/integrations\<close>): the OAuth states, the token vault, the registry of connectors, the service that
  connects and disconnects a provider, and the routes. A connector talks to a provider over HTTP; what a
  provider answers is a parameter (\<open>sv_provider\<close>), and so are the Fernet cipher, the environment and the hash
  of a PKCE challenge. The mock connector, and the call that the Google connector refuses, are modelled.

  The process keeps two dictionaries that are not in the database: the OAuth states that were issued and the
  circuit breakers. They extend the world, with the clock of the breakers and the nonces of the cipher.
\<close>

section \<open>The world of an integration\<close>

record oauth_state =
  st_workspace_id :: string
  st_provider :: string
  st_code_verifier :: "string option"

record integration_world = world +
  oauth_states :: "string \<rightharpoonup> oauth_state"
  breakers :: "string \<rightharpoonup> CircuitBreaker"
  monotonic :: "nat \<Rightarrow> rat"
  monotonic_reads :: nat
  nonces :: nat
  json_text :: "json \<Rightarrow> string"

type_synonym ('z, 'a) iio = "('z integration_world_scheme, 'a) action"

record 'z connector =
  cn_connect :: "string \<Rightarrow> string option \<Rightarrow> ('z, json_object) iio"
  cn_disconnect :: "('z, bool) iio"
  cn_sync :: "json \<Rightarrow> ('z, json_object) iio"
  cn_can_sync :: bool

text \<open>The credentials of a provider: the client id and the client secret.\<close>

record 'z services =
  sv_encrypt :: "nat \<Rightarrow> string \<Rightarrow> string"
  sv_decrypt :: "string \<Rightarrow> string option"
  sv_secret :: "string \<Rightarrow> string option"
  sv_provider :: "string \<Rightarrow> string \<times> string \<Rightarrow> string option \<Rightarrow> 'z connector"
  sv_challenge :: "string \<Rightarrow> string"

section \<open>OAuth states\<close>

definition PKCE_PROVIDERS :: "string list" where
  "PKCE_PROVIDERS = [''x'', ''twitter'']"

definition put_state :: "string \<Rightarrow> oauth_state \<Rightarrow> ('z, unit) iio" where
  "put_state state d = modifyM (\<lambda>w. w\<lparr>oauth_states := (oauth_states w)(state \<mapsto> d)\<rparr>)"

definition generate_state :: "string \<Rightarrow> string \<Rightarrow> ('z, string) iio" where
  "generate_state workspace_id provider =
     bindM token_urlsafe (\<lambda>state.
     bindM (if List.member PKCE_PROVIDERS (py_lower provider)
            then bindM token_urlsafe (\<lambda>v. returnM (Some v)) else returnM None) (\<lambda>code_verifier.
     thenM (put_state state \<lparr>st_workspace_id = workspace_id, st_provider = provider, st_code_verifier = code_verifier\<rparr>)
       (returnM state)))"

text \<open>\<open>_states.pop(state, None)\<close>\<close>

definition validate_state :: "string \<Rightarrow> ('z, oauth_state option) iio" where
  "validate_state state =
     bindM (readM (\<lambda>w. oauth_states w state)) (\<lambda>d.
     thenM (modifyM (\<lambda>w. w\<lparr>oauth_states := (oauth_states w)(state := None)\<rparr>)) (returnM d))"

text \<open>\<open>urllib.parse.urlencode\<close>: unreserved characters stay, a space is a plus sign, any other character is the percent
  form of its UTF-8 bytes.\<close>

definition percent :: "nat \<Rightarrow> string" where
  "percent n = CHR ''%'' # map (\<lambda>d. if d < 10 then char_of (48 + d) else char_of (55 + d)) [n div 16, n mod 16]"

definition quote_plus_char :: "char \<Rightarrow> string" where
  "quote_plus_char c =
     (let n = (of_char c :: nat) in
      if (48 \<le> n \<and> n \<le> 57) \<or> (65 \<le> n \<and> n \<le> 90) \<or> (97 \<le> n \<and> n \<le> 122) \<or> List.member ''_.-~'' c then [c]
      else if n = 32 then ''+''
      else if n < 128 then percent n
      else percent (192 + n div 64) @ percent (128 + n mod 64))"

definition quote_plus :: "string \<Rightarrow> string" where
  "quote_plus s = concat (map quote_plus_char s)"

fun urlencode :: "(string \<times> string) list \<Rightarrow> string" where
  "urlencode [] = []"
| "urlencode [(k, v)] = quote_plus k @ ''='' @ quote_plus v"
| "urlencode ((k, v) # kvs) = quote_plus k @ ''='' @ quote_plus v @ ''&'' @ urlencode kvs"

definition google_scopes :: string where
  "google_scopes =
     ''openid email profile https://www.googleapis.com/auth/business.manage https://www.googleapis.com/auth/youtube.upload''"

definition META_GRAPH_API_VERSION :: string where
  "META_GRAPH_API_VERSION = ''v26.0''"

definition get_authorization_url ::
  "'z services \<Rightarrow> string \<Rightarrow> string \<Rightarrow> string \<Rightarrow> string \<Rightarrow> ('z, string) iio" where
  "get_authorization_url sv provider state redirect_uri client_id =
     (let p = py_lower provider in
      bindM (readM (\<lambda>w. oauth_states w state)) (\<lambda>state_data.
      let code_challenge =
            (case state_data of
               None \<Rightarrow> None
             | Some d \<Rightarrow> if truthy_str (st_code_verifier d)
                          then Some (sv_challenge sv (the (st_code_verifier d))) else None);
          basic = [(''client_id'', client_id), (''redirect_uri'', redirect_uri), (''state'', state)];
          meta = ''https://www.facebook.com/'' @ META_GRAPH_API_VERSION @ ''/dialog/oauth?'' in
      if p = ''slack'' then
        returnM (''https://slack.com/oauth/v2/authorize?client_id='' @ client_id @ ''&state='' @ state
                 @ ''&redirect_uri='' @ redirect_uri @ ''&scope=chat:write,commands'')
      else if p = ''mock'' then
        returnM (''https://mockprovider.com/oauth/authorize?client_id='' @ client_id @ ''&state='' @ state
                 @ ''&redirect_uri='' @ redirect_uri)
      else if p = ''google'' then
        returnM (''https://accounts.google.com/o/oauth2/v2/auth?'' @
                 urlencode ((''response_type'', ''code'') # basic
                            @ [(''scope'', google_scopes), (''access_type'', ''offline''), (''prompt'', ''consent'')]))
      else if p = ''facebook'' then
        returnM (meta @ urlencode (basic @
                   [(''scope'', ''pages_show_list,pages_read_engagement,pages_manage_posts'')]))
      else if p = ''instagram'' then
        returnM (meta @ urlencode (basic @
                   [(''scope'', ''instagram_basic,instagram_content_publish,pages_show_list,pages_read_engagement'')]))
      else if List.member PKCE_PROVIDERS p then
        returnM (''https://twitter.com/i/oauth2/authorize?'' @
                 urlencode (filter (\<lambda>(k, v). v \<noteq> [])
                   ((''response_type'', ''code'') # basic
                    @ (case code_challenge of None \<Rightarrow> [] | Some c \<Rightarrow> [(''code_challenge'', c)])
                    @ [(''code_challenge_method'', ''S256''),
                       (''scope'', ''tweet.read tweet.write users.read offline.access'')])))
      else raiseM (ValueError (''Unsupported provider for OAuth: '' @ p))))"

section \<open>The token vault\<close>

text \<open>\<open>str.upper\<close>; the letters whose capital is beyond the code points of the model stay.\<close>

definition upper_char :: "char \<Rightarrow> string" where
  "upper_char c =
     (let n = (of_char c :: nat) in
      if (97 \<le> n \<and> n \<le> 122) \<or> (224 \<le> n \<and> n \<le> 246) \<or> (248 \<le> n \<and> n \<le> 254) then [char_of (n - 32)]
      else if n = 223 then ''SS'' else [c])"

definition py_upper :: "string \<Rightarrow> string" where
  "py_upper s = concat (map upper_char s)"

definition get_provider_credentials :: "'z services \<Rightarrow> string \<Rightarrow> string \<times> string" where
  "get_provider_credentials sv provider =
     (str_or (sv_secret sv (py_upper provider @ ''_CLIENT_ID'')) [],
      str_or (sv_secret sv (py_upper provider @ ''_CLIENT_SECRET'')) [])"

definition next_nonce :: "('z, nat) iio" where
  "next_nonce w = (Inr (nonces w), w\<lparr>nonces := Suc (nonces w)\<rparr>)"

definition encrypt_token :: "'z services \<Rightarrow> string \<Rightarrow> ('z, string) iio" where
  "encrypt_token sv tok =
     (if tok = [] then returnM tok else bindM next_nonce (\<lambda>n. returnM (sv_encrypt sv n tok)))"

definition decrypt_token :: "'z services \<Rightarrow> string option \<Rightarrow> string option" where
  "decrypt_token sv encrypted_token =
     (case encrypted_token of
        None \<Rightarrow> None
      | Some t \<Rightarrow>
          if t = [] then Some t
          else (case sv_decrypt sv t of Some u \<Rightarrow> Some u | None \<Rightarrow> Some t))"

section \<open>Connectors\<close>

definition hex8 :: "uuid \<Rightarrow> string" where
  "hex8 u = take 8 (hex_digits 32 u)"

definition mock_connector :: "string option \<Rightarrow> 'z connector" where
  "mock_connector access_token =
     \<lparr>cn_connect = (\<lambda>auth_code code_verifier.
        thenM (raise_if (auth_code = ''invalid_code'') (ValueError ''Invalid auth code'')) (
        bindM uuid4 (\<lambda>a.
        bindM uuid4 (\<lambda>b.
        bindM get_utc_now (\<lambda>now.
        returnM [(''access_token'', JStr (''mock_access_'' @ hex8 a)),
                 (''refresh_token'', JStr (''mock_refresh_'' @ hex8 b)),
                 (''expires_at'', JTime (now + seconds 3600)),
                 (''mock_account_id'', JStr ''acc_12345'')]))))),
      cn_disconnect = returnM True,
      cn_sync = (\<lambda>sync_type.
        thenM (raise_if (\<not> truthy_str access_token) (ValueError ''Not connected''))
          (returnM [(''status'', JStr ''synced''), (''records'', JInt 42)])),
      cn_can_sync = True\<rparr>"

text \<open>\<open>GoogleConnector.connect\<close> has no parameter \<open>code_verifier\<close>, and every call passes one.\<close>

definition google_connector :: "'z connector \<Rightarrow> 'z connector" where
  "google_connector c =
     c\<lparr>cn_connect := \<lambda>auth_code code_verifier.
         raiseM (TypeError ''GoogleConnector.connect() got an unexpected keyword argument code_verifier'')\<rparr>"

definition connector_registry :: "string list" where
  "connector_registry =
     [''mock'', ''linkedin'', ''facebook'', ''instagram'', ''google'', ''slack'', ''twitter'']"

definition create_connector ::
  "'z services \<Rightarrow> string \<Rightarrow> string \<times> string \<Rightarrow> string option \<Rightarrow> ('z, 'z connector) iio" where
  "create_connector sv provider_name credentials access_token =
     (let p = py_lower provider_name in
      if \<not> List.member connector_registry p
      then raiseM (ValueError (''No connector registered for provider: '' @ provider_name))
      else if p = ''mock'' then returnM (mock_connector access_token)
      else if p = ''google'' then returnM (google_connector (sv_provider sv p credentials access_token))
      else returnM (sv_provider sv p credentials access_token))"

text \<open>A call through the breaker of the provider, retried.\<close>

definition breaker_call :: "string \<Rightarrow> ('z, 'a) iio \<Rightarrow> ('z, 'a) iio" where
  "breaker_call provider func w =
     (case get_circuit_breaker provider (breakers w) of
        (b, _) \<Rightarrow>
          (case call (\<lambda>e. True) (monotonic w (monotonic_reads w)) (monotonic w (Suc (monotonic_reads w))) func
                  (b, w\<lparr>monotonic_reads := monotonic_reads w + 2\<rparr>) of
             (r, b', w') \<Rightarrow> (r, w'\<lparr>breakers := (breakers w')(provider \<mapsto> b')\<rparr>)))"

definition retrying :: "('s, 'a) action \<Rightarrow> ('s, 'a) action" where
  "retrying func s = (case retry_policy 2 1 2 (\<lambda>e. True) func s of (r, s', delays) \<Rightarrow> (r, s'))"

section \<open>The service\<close>

definition get_by_workspace_and_provider :: "uuid \<Rightarrow> string \<Rightarrow> ('z, IntegrationConnection option) io" where
  "get_by_workspace_and_provider ws provider =
     bindM (select IntegrationConnection_model (\<lambda>c. ic_workspace_id c = ws \<and> ic_provider c = provider))
       (\<lambda>cs. returnM (scalars_first cs))"

definition get_active_connections :: "uuid \<Rightarrow> ('z, IntegrationConnection list) io" where
  "get_active_connections ws =
     select IntegrationConnection_model (\<lambda>c. ic_workspace_id c = ws \<and> ic_status c = ConnectionStatus_CONNECTED)"

definition json_truthy :: "json \<Rightarrow> bool" where
  "json_truthy j =
     (case j of
        JNull \<Rightarrow> False | JBool b \<Rightarrow> b | JInt i \<Rightarrow> i \<noteq> 0 | JStr s \<Rightarrow> s \<noteq> [] | JList xs \<Rightarrow> xs \<noteq> []
      | JObj kvs \<Rightarrow> kvs \<noteq> [] | JUuid u \<Rightarrow> True | JTime t \<Rightarrow> True)"

text \<open>\<open>d.get(k)\<close>; a key that is missing gives \<open>None\<close>.\<close>

definition dict_get :: "json_object \<Rightarrow> string \<Rightarrow> json" where
  "dict_get d k = (case map_of d k of None \<Rightarrow> JNull | Some v \<Rightarrow> v)"

text \<open>\<open>secret_service.encrypt_token(t) if t else None\<close>, on a value of the answer of a provider.\<close>

definition encrypt_optional :: "'z services \<Rightarrow> json \<Rightarrow> ('z, string option) iio" where
  "encrypt_optional sv t =
     (if \<not> json_truthy t then returnM None
      else case t of
        JStr s \<Rightarrow> bindM (encrypt_token sv s) (\<lambda>e. returnM (Some e))
      | _ \<Rightarrow> raiseM (AttributeError ''encode''))"

definition naive_utc :: "json \<Rightarrow> ('z, time option) io" where
  "naive_utc t =
     (case t of JNull \<Rightarrow> returnM None | JTime u \<Rightarrow> returnM (Some u) | _ \<Rightarrow> raiseM (AttributeError ''tzinfo''))"

fun is_integration_error :: "exn \<Rightarrow> bool" where
  "is_integration_error (IntegrationError m) = True"
| "is_integration_error (CircuitBreakerOpenError m) = True"
| "is_integration_error (RateLimitExceededError m) = True"
| "is_integration_error (OAuthTokenError m) = True"
| "is_integration_error (WebhookVerificationError m) = True"
| "is_integration_error (ProviderError c m) = True"
| "is_integration_error _ = False"

definition connected ::
  "string option \<Rightarrow> string option \<Rightarrow> time option \<Rightarrow> json_object \<Rightarrow> IntegrationConnection \<Rightarrow> IntegrationConnection"
where
  "connected enc_access enc_refresh expires_at metadata c =
     c\<lparr>ic_status := ConnectionStatus_CONNECTED, ic_access_token := enc_access, ic_refresh_token := enc_refresh,
       ic_expires_at := expires_at, ic_metadata_info := Some metadata\<rparr>"

definition new_connection :: "uuid \<Rightarrow> string \<Rightarrow> IntegrationConnection" where
  "new_connection ws provider =
     \<lparr>ic_id = 0, ic_stamp = no_stamp, ic_workspace_id = ws, ic_provider = provider,
      ic_status = ConnectionStatus_PENDING, ic_access_token = None, ic_refresh_token = None,
      ic_expires_at = None, ic_metadata_info = None\<rparr>"

definition save_connection ::
  "'z services \<Rightarrow> uuid \<Rightarrow> string \<Rightarrow> json_object \<Rightarrow> ('z, IntegrationConnection) iio" where
  "save_connection sv ws provider answer =
     (let access_token = dict_get answer ''access_token''; refresh_token = dict_get answer ''refresh_token'';
          metadata = filter (\<lambda>(k, v). k \<notin> {''access_token'', ''refresh_token'', ''expires_at''}) answer in
      bindM (naive_utc (dict_get answer ''expires_at'')) (\<lambda>expires_at.
      bindM (encrypt_optional sv access_token) (\<lambda>enc_access.
      bindM (encrypt_optional sv refresh_token) (\<lambda>enc_refresh.
      bindM (get_by_workspace_and_provider ws provider) (\<lambda>existing.
      thenM (raise_if (\<not> serializable_object (Some metadata)) (TypeError ''not JSON serializable''))
        (case existing of
           Some c \<Rightarrow> update IntegrationConnection_model (ic_id c) (connected enc_access enc_refresh expires_at metadata)
         | None \<Rightarrow> create IntegrationConnection_model
                     (connected enc_access enc_refresh expires_at metadata (new_connection ws provider))))))))"

definition connect_provider ::
  "'z services \<Rightarrow> uuid \<Rightarrow> string \<Rightarrow> string \<Rightarrow> string option \<Rightarrow> ('z, IntegrationConnection) iio" where
  "connect_provider sv ws provider_name auth_code code_verifier =
     (let provider = py_lower provider_name; credentials = get_provider_credentials sv provider in
      bindM (create_connector sv provider credentials None) (\<lambda>connector.
      catchM
        (bindM (retrying (breaker_call provider (cn_connect connector auth_code code_verifier))) (\<lambda>answer.
           save_connection sv ws provider answer))
        (\<lambda>e. bindM (readM exn_text) (\<lambda>text.
           if is_integration_error e then raiseM (HTTPException 400 (text e))
           else raiseM (HTTPException 500 ''Failed to connect to provider'')))))"

definition get_connector_instance :: "'z services \<Rightarrow> IntegrationConnection \<Rightarrow> ('z, 'z connector) iio" where
  "get_connector_instance sv c =
     (let provider = py_lower (ic_provider c) in
      create_connector sv provider (get_provider_credentials sv provider) (decrypt_token sv (ic_access_token c)))"

definition disconnect_provider :: "'z services \<Rightarrow> uuid \<Rightarrow> string \<Rightarrow> ('z, bool) iio" where
  "disconnect_provider sv ws provider_name =
     (let provider = py_lower provider_name in
      bindM (get_by_workspace_and_provider ws provider) (\<lambda>found.
      case found of
        None \<Rightarrow> raiseM (HTTPException 404 ''Connection not found'')
      | Some c \<Rightarrow>
          bindM (create_connector sv provider (get_provider_credentials sv provider)
                   (decrypt_token sv (ic_access_token c))) (\<lambda>connector.
          thenM (catchM (bindM (retrying (breaker_call provider (cn_disconnect connector))) (\<lambda>_. returnM ()))
                   (\<lambda>e. returnM ())) (
          thenM (update IntegrationConnection_model (ic_id c)
                   (\<lambda>c. c\<lparr>ic_status := ConnectionStatus_DISCONNECTED, ic_access_token := None,
                          ic_refresh_token := None, ic_expires_at := None\<rparr>))
            (returnM True)))))"

section \<open>The routes\<close>

definition integration_route ::
  "jwt_decoder \<Rightarrow> string \<Rightarrow> uuid \<Rightarrow> string \<Rightarrow> (Workspace \<Rightarrow> ('z, 'a) io) \<Rightarrow> ('z, 'a) io" where
  "integration_route decode tok workspace_id action handler =
     get_db_session
       (bindM (authorize decode tok workspace_id ''integration'' action) (\<lambda>(user, workspace). handler workspace))"

definition list_integrations ::
  "jwt_decoder \<Rightarrow> string \<Rightarrow> uuid \<Rightarrow> ('z, (string \<times> string \<times> ConnectionStatus \<times> time option) list) io" where
  "list_integrations decode tok ws =
     integration_route decode tok ws ''read'' (\<lambda>workspace.
       bindM (get_active_connections (w_id workspace)) (\<lambda>cs.
       returnM (map (\<lambda>c. (str_uuid (ic_id c), ic_provider c, ic_status c, ic_expires_at c)) cs)))"

definition oauth_url :: "'z services \<Rightarrow> string \<Rightarrow> string \<Rightarrow> Workspace \<Rightarrow> ('z, string \<times> string) iio" where
  "oauth_url sv provider redirect_uri workspace =
     bindM (generate_state (str_uuid (w_id workspace)) provider) (\<lambda>state.
     let client_id = fst (get_provider_credentials sv provider) in
     thenM (raise_if (client_id = [])
              (HTTPException 500 (''Client ID not configured for provider '' @ provider))) (
     bindM (get_authorization_url sv provider state redirect_uri client_id) (\<lambda>url.
     returnM (url, state))))"

definition get_oauth_url ::
  "'z services \<Rightarrow> jwt_decoder \<Rightarrow> string \<Rightarrow> uuid \<Rightarrow> string \<Rightarrow> string \<Rightarrow> ('z, string \<times> string) iio" where
  "get_oauth_url sv decode tok ws provider redirect_uri =
     integration_route decode tok ws ''manage'' (oauth_url sv provider redirect_uri)"

text \<open>Giving the provider that was connected.\<close>

definition oauth_callback :: "'z services \<Rightarrow> string \<Rightarrow> string \<Rightarrow> ('z, string) iio" where
  "oauth_callback sv state code =
     get_db_session
       (bindM (validate_state state) (\<lambda>state_data.
        case state_data of
          None \<Rightarrow> raiseM (HTTPException 400 ''Invalid or expired state'')
        | Some d \<Rightarrow>
            (case uuid_of_str (st_workspace_id d) of
               None \<Rightarrow> raiseM (ValueError ''badly formed hexadecimal UUID string'')
             | Some ws \<Rightarrow>
                 thenM (connect_provider sv ws (st_provider d) code (st_code_verifier d)) (
                 thenM commit (returnM (st_provider d))))))"

definition disconnect_integration ::
  "'z services \<Rightarrow> jwt_decoder \<Rightarrow> string \<Rightarrow> uuid \<Rightarrow> string \<Rightarrow> ('z, unit) iio" where
  "disconnect_integration sv decode tok ws provider =
     integration_route decode tok ws ''manage'' (\<lambda>workspace.
       thenM (disconnect_provider sv (w_id workspace) provider) commit)"

section \<open>What a connector cannot touch\<close>

text \<open>A connector speaks to its provider: it has no session, and the issued states are not its own.\<close>

definition remote_rel :: "'z integration_world_scheme \<Rightarrow> 'z integration_world_scheme \<Rightarrow> bool" where
  "remote_rel w w' \<longleftrightarrow> db w' = db w \<and> committed w' = committed w \<and> oauth_states w' = oauth_states w"

interpretation remote: step_preorder remote_rel
  by unfold_locales (auto simp: remote_rel_def)

definition remote_connector :: "'z connector \<Rightarrow> bool" where
  "remote_connector c \<longleftrightarrow>
     (\<forall>code v. obeys remote_rel (cn_connect c code v)) \<and> obeys remote_rel (cn_disconnect c) \<and>
     (\<forall>t. obeys remote_rel (cn_sync c t))"

definition remote_only :: "'z services \<Rightarrow> bool" where
  "remote_only sv \<longleftrightarrow> (\<forall>p cred tok. remote_connector (sv_provider sv p cred tok))"

lemma before_attempt_remote: "obeys remote_rel func \<Longrightarrow> remote_rel s (before_attempt func n s)"
proof (induction n arbitrary: s)
  case 0
  then show ?case by (simp add: remote.step_refl)
next
  case (Suc n)
  then have "remote_rel s (snd (func s))" by (simp add: obeys_def)
  with Suc show ?case by (auto intro: remote.step_trans)
qed

lemma retrying_remote: "obeys remote_rel f \<Longrightarrow> obeys remote_rel (retrying f)"
proof (rule obeysI)
  fix s r t
  assume f: "obeys remote_rel f" and "retrying f s = (r, t)"
  then obtain ds where "retry_loop f (\<lambda>e. True) 2 2 0 1 s = (r, t, ds)"
    by (auto simp: retrying_def retry_policy_def split: prod.splits)
  from retry_loop_attempts [OF this] have "f (before_attempt f (length ds) s) = (r, t)" by simp
  with f have "remote_rel (before_attempt f (length ds) s) t" by (rule obeysD)
  with before_attempt_remote [OF f] show "remote_rel s t" by (rule remote.step_trans)
qed

lemma breaker_call_remote:
  assumes "obeys remote_rel f"
  shows "obeys remote_rel (breaker_call p f)"
proof (rule obeysI)
  fix w r w'
  assume run: "breaker_call p f w = (r, w')"
  let ?w = "w\<lparr>monotonic_reads := monotonic_reads w + 2\<rparr>"
  obtain x w1 where f: "f ?w = (x, w1)" by fastforce
  with assms have "remote_rel ?w w1" by (rule obeysD)
  with run f show "remote_rel w w'"
    by (auto simp: breaker_call_def call_def remote_rel_def split: prod.splits bool.splits sum.splits)
qed

lemma mock_connector_remote: "remote_connector (mock_connector tok)"
  by (simp add: remote_connector_def mock_connector_def obeys_def remote_rel_def)

lemma google_connector_remote: "remote_connector c \<Longrightarrow> remote_connector (google_connector c)"
  by (simp add: remote_connector_def google_connector_def remote.obeys_raise)

lemma create_connector_remote:
  assumes "remote_only sv" and "create_connector sv p cred tok w = (Inr c, w')"
  shows "remote_connector c"
  using assms
  by (cases cred) (auto simp: create_connector_def Let_def remote_only_def split: if_splits
    intro!: mock_connector_remote google_connector_remote)

lemma create_connector_read_only: "read_only (create_connector sv p cred tok)"
  unfolding create_connector_def Let_def read_only_def by (intro ro.obeys_if ro.obeys_raise ro.obeys_return)

interpretation vault: beyond_session "\<lambda>w. (committed w, oauth_states w)"
  by unfold_locales simp_all

lemma vault_encrypt: "obeys vault.same (encrypt_token sv t)"
  unfolding encrypt_token_def
  by (intro vault.obeys_if vault.obeys_return vault.obeys_bind) (simp add: obeys_def vault.same_def next_nonce_def)

lemma vault_optional: "obeys vault.same (encrypt_optional sv t)"
  unfolding encrypt_optional_def
  by (cases t) (auto intro: vault.same_intros vault_encrypt)

lemma vault_save: "obeys vault.same (save_connection sv ws p answer)"
  unfolding save_connection_def Let_def naive_utc_def get_by_workspace_and_provider_def
  by (cases "dict_get answer ''expires_at''") (auto intro!: vault.same_intros vault_optional)

lemma encrypt_token_db: "encrypt_token sv t w = (r, w') \<Longrightarrow> db w' = db w"
  by (auto simp: encrypt_token_def next_nonce_def bindM_def split: if_splits)

lemma encrypt_optional_db: "encrypt_optional sv t w = (r, w') \<Longrightarrow> db w' = db w"
  unfolding encrypt_optional_def
  by (auto simp: bindM_def split: if_splits json.splits prod.splits sum.splits dest: encrypt_token_db)

text \<open>The row that a successful save writes, and the rows it leaves alone.\<close>

definition of_provider :: "uuid \<Rightarrow> string \<Rightarrow> IntegrationConnection \<Rightarrow> bool" where
  "of_provider ws p c \<longleftrightarrow> ic_workspace_id c = ws \<and> ic_provider c = p"

lemma save_connection_row:
  assumes ids: "distinct (map ic_id (integration_connections (db w)))"
    and run: "save_connection sv ws p answer w = (Inr c, w')"
  obtains enc w1 w2 where
    "encrypt_optional sv (dict_get answer ''access_token'') w1 = (Inr enc, w2)" "ic_access_token c = enc"
    "c \<in> set (integration_connections (db w'))" "of_provider ws p c" "ic_status c = ConnectionStatus_CONNECTED"
    "filter (\<lambda>x. \<not> of_provider ws p x) (integration_connections (db w')) =
     filter (\<lambda>x. \<not> of_provider ws p x) (integration_connections (db w))"
proof -
  let ?t = "integration_connections"
  from run obtain exp enc ref w1 w2 w3 x where
    a: "encrypt_optional sv (dict_get answer ''access_token'') w1 = (Inr enc, w2)" and w1: "w1 = w"
    and r: "encrypt_optional sv (dict_get answer ''refresh_token'') w2 = (Inr ref, w3)"
    and e: "x = scalars_first (filter (of_provider ws p) (?t (db w3)))"
    and last: "(case x of
           Some c \<Rightarrow> update IntegrationConnection_model (ic_id c) (connected enc ref exp
             (filter (\<lambda>(k, v). k \<notin> {''access_token'', ''refresh_token'', ''expires_at''}) answer))
         | None \<Rightarrow> create IntegrationConnection_model (connected enc ref exp
             (filter (\<lambda>(k, v). k \<notin> {''access_token'', ''refresh_token'', ''expires_at''}) answer) (new_connection ws p))) w3 = (Inr c, w')"
    unfolding save_connection_def Let_def get_by_workspace_and_provider_def naive_utc_def
    by (elim bindM_InrE thenM_InrE select_InrE returnM_InrE raise_if_InrE)
      (auto simp: of_provider_def [abs_def] split: json.splits)
  have d: "db w3 = db w" using encrypt_optional_db [OF a] encrypt_optional_db [OF r] w1 by simp
  show thesis
  proof (cases x)
    case None
    have none: "\<forall>c \<in> set (?t (db w)). \<not> of_provider ws p c"
      using e None d by (auto simp: scalars_first_def filter_empty_conv split: list.splits)
    note row = connection_repo.create_row [OF last [unfolded None option.case]]
    show thesis
      by (rule that [OF a]) (use row d none in \<open>auto simp: connected_def new_connection_def of_provider_def\<close>)
  next
    case (Some c0)
    let ?f = "connected enc ref exp (filter (\<lambda>(k, v). k \<notin> {''access_token'', ''refresh_token'', ''expires_at''}) answer)"
    have "scalars_first (filter (of_provider ws p) (?t (db w))) = Some c0" using e Some d by simp
    from scalars_first_Some [OF this] have c0: "c0 \<in> set (?t (db w))" "of_provider ws p c0" by simp_all
    have ids3: "distinct (map (pk IntegrationConnection_model) (tbl IntegrationConnection_model (db w3)))"
      and c3: "c0 \<in> set (tbl IntegrationConnection_model (db w3))"
      using ids c0 d by simp_all
    have run3: "update IntegrationConnection_model (pk IntegrationConnection_model c0) ?f w3 = (Inr c, w')"
      using last Some by simp
    have key: "pk IntegrationConnection_model (?f x) = pk IntegrationConnection_model x" for x
      by (simp add: connected_def)
    let ?P = "\<lambda>c. ic_access_token c = enc \<and> of_provider ws p c \<and> ic_status c = ConnectionStatus_CONNECTED"
    have P: "?P (?f c0)" "?P (touch IntegrationConnection_model t (?f c0))" for t
      using c0 by (simp_all add: connected_def of_provider_def)
    have "?P c"
      by (rule connection_repo.update_result(1) [where P = ?P, OF ids3 c3 key run3 P])
    moreover have "c \<in> set (tbl IntegrationConnection_model (db w'))"
      by (rule connection_repo.update_result(2) [where P = ?P, OF ids3 c3 key run3 P])
    moreover have "filter (\<lambda>x. \<not> of_provider ws p x) (tbl IntegrationConnection_model (db w')) =
        filter (\<lambda>x. \<not> of_provider ws p x) (tbl IntegrationConnection_model (db w3))"
      by (rule connection_repo.update_leaves [OF ids3 c3 key run3])
        (use c0 in \<open>simp_all add: connected_def of_provider_def\<close>)
    ultimately show thesis using d by (intro that [OF a]) simp_all
  qed
qed

section \<open>From the authorization URL to the connection\<close>

lemma remote_vault: "remote_rel w w' \<Longrightarrow> vault.same w w'"
  by (simp add: remote_rel_def vault.same_def)

lemma connect_provider_runs:
  assumes "remote_only sv" and "connect_provider sv ws name code verifier w = (r, w')"
  shows "vault.same w w'"
    and "r = Inr c \<Longrightarrow> \<exists>connector answer w1. db w1 = db w \<and>
      create_connector sv (py_lower name) (get_provider_credentials sv (py_lower name)) None w = (Inr connector, w) \<and>
      retrying (breaker_call (py_lower name) (cn_connect connector code verifier)) w = (Inr answer, w1) \<and>
      save_connection sv ws (py_lower name) answer w1 = (Inr c, w')"
proof -
  let ?p = "py_lower name"
  let ?make = "create_connector sv ?p (get_provider_credentials sv ?p) None"
  let ?dial = "\<lambda>k. retrying (breaker_call ?p (cn_connect k code verifier))"
  let ?body = "\<lambda>k. bindM (?dial k) (save_connection sv ws ?p)"
  let ?handler = "\<lambda>e. bindM (readM exn_text) (\<lambda>text.
           if is_integration_error e then raiseM (HTTPException 400 (text e))
           else raiseM (HTTPException 500 ''Failed to connect to provider''))"
  have "vault.same w w' \<and> (r = Inr c \<longrightarrow> (\<exists>connector answer w1. db w1 = db w \<and> ?make w = (Inr connector, w) \<and>
      ?dial connector w = (Inr answer, w1) \<and> save_connection sv ws ?p answer w1 = (Inr c, w')))"
    using assms(2) unfolding connect_provider_def Let_def
  proof (elim bindM_read_onlyE [OF _ create_connector_read_only])
    fix e assume "r = Inl e" "w' = w"
    then show ?thesis by (simp add: vault.step_refl)
  next
    fix k assume k: "?make w = (Inr k, w)"
      and run: "catchM (?body k) ?handler w = (r, w')"
    have "obeys remote_rel (cn_connect k code verifier)"
      using create_connector_remote [OF assms(1) k] by (simp add: remote_connector_def)
    then have dial: "obeys remote_rel (?dial k)" by (intro retrying_remote breaker_call_remote)
    have "obeys vault.same (?body k)"
      by (rule vault.obeys_bind [OF obeys_mono [OF dial remote_vault] vault_save])
    then have "obeys vault.same (catchM (?body k) ?handler)"
      by (rule vault.obeys_catch) (intro vault.obeys_bind vault.obeys_read vault.obeys_if vault.obeys_raise)
    then have "vault.same w w'" using run by (rule obeysD)
    moreover have "\<exists>answer w1. db w1 = db w \<and> ?dial k w = (Inr answer, w1) \<and>
        save_connection sv ws ?p answer w1 = (Inr c, w')" if "r = Inr c"
    proof -
      obtain v u where body: "?body k w = (v, u)" by fastforce
      have "v = Inr c \<and> u = w'" using run that body
        by (cases v) (auto simp: catchM_def split: if_splits)
      with body obtain answer w1 where "?dial k w = (Inr answer, w1)"
        "save_connection sv ws ?p answer w1 = (Inr c, w')"
        by (elim bindM_runE) auto
      moreover from obeysD [OF dial this(1)] have "db w1 = db w" by (simp add: remote_rel_def)
      ultimately show ?thesis by blast
    qed
    ultimately show ?thesis using k by blast
  qed
  then show "vault.same w w'"
    and "r = Inr c \<Longrightarrow> \<exists>connector answer w1. db w1 = db w \<and> ?make w = (Inr connector, w) \<and>
      ?dial connector w = (Inr answer, w1) \<and> save_connection sv ws ?p answer w1 = (Inr c, w')" by blast+
qed

lemma authorization_url_read_only: "read_only (get_authorization_url sv p state uri cid)"
  unfolding get_authorization_url_def Let_def read_only_def
  by (intro ro.obeys_bind ro.obeys_read ro.obeys_if ro.obeys_raise ro.obeys_return)

lemma oauth_url_issues:
  assumes "oauth_url sv p uri workspace w = (Inr (url, state), w')"
  shows "\<exists>v. oauth_states w' state = Some \<lparr>st_workspace_id = str_uuid (w_id workspace), st_provider = p, st_code_verifier = v\<rparr> \<and>
     (v \<noteq> None) = List.member PKCE_PROVIDERS (py_lower p)"
proof -
  obtain w1 where g: "generate_state (str_uuid (w_id workspace)) p w = (Inr state, w1)"
    and u: "get_authorization_url sv p state uri (fst (get_provider_credentials sv p)) w1 = (Inr url, w')"
    using assms unfolding oauth_url_def Let_def by (elim session_elims) auto
  have "w' = w1" using read_onlyD [OF authorization_url_read_only u] .
  with g show ?thesis
    by (auto simp: generate_state_def put_state_def bindM_def split: if_splits)
qed

lemma get_oauth_url_issues:
  assumes "get_oauth_url sv decode tok ws p uri w = (Inr (url, state), w')"
  shows "\<exists>v. oauth_states w' state = Some \<lparr>st_workspace_id = str_uuid ws, st_provider = p, st_code_verifier = v\<rparr> \<and>
     (v \<noteq> None) = List.member PKCE_PROVIDERS (py_lower p)"
proof -
  obtain user workspace x u where a: "authorize decode tok ws ''integration'' ''manage'' w = (Inr (user, workspace), x)"
    and url: "oauth_url sv p uri workspace x = (Inr (url, state), u)" and w': "w' = u\<lparr>db := committed u\<rparr>"
    using assms unfolding get_oauth_url_def integration_route_def get_db_session_def with_session_def
    by (auto simp: bindM_eq_Inr split: prod.splits)
  have "w_id workspace = ws"
    using a unfolding authorize_def by (elim session_elims) (auto dest: get_current_workspace_Inr(3))
  with oauth_url_issues [OF url] w' show ?thesis by simp
qed

text \<open>C23 (roundtrip). The state of an authorization URL is good for one callback, whenever it comes and with whatever
  code, and what that callback connects is the provider and the workspace the URL was issued for: it commits
  a CONNECTED row of theirs, leaves the connections of all others alone, and hands on the PKCE verifier
  exactly for the providers that want one. A callback that fails commits nothing. Either way the state
  is spent, so a second callback is refused.\<close>

theorem oauth_flow:
  assumes "remote_only sv" and "ws < 16 ^ 32" and "distinct (map ic_id (integration_connections (committed v)))"
    and "get_oauth_url sv decode tok ws p uri w = (Inr (url, state), w1)"
    and "oauth_states v state = oauth_states w1 state" and "db v = committed v"
    and "oauth_callback sv state code v = (r, v')"
  shows "(\<exists>verifier. oauth_states v state =
        Some \<lparr>st_workspace_id = str_uuid ws, st_provider = p, st_code_verifier = verifier\<rparr> \<and>
        (verifier \<noteq> None) = (py_lower p \<in> {''x'', ''twitter''})) \<and>
     (case r of
        Inl e \<Rightarrow> committed v' = committed v
      | Inr _ \<Rightarrow> (\<exists>c \<in> set (integration_connections (committed v')).
            of_provider ws (py_lower p) c \<and> ic_status c = ConnectionStatus_CONNECTED) \<and>
          filter (\<lambda>c. \<not> of_provider ws (py_lower p) c) (integration_connections (committed v')) =
          filter (\<lambda>c. \<not> of_provider ws (py_lower p) c) (integration_connections (committed v))) \<and>
     fst (oauth_callback sv state code' v') = Inl (HTTPException 400 ''Invalid or expired state'')"
proof -
  let ?p = "py_lower p" and ?t = "integration_connections"
  obtain verifier where st: "oauth_states v state = Some \<lparr>st_workspace_id = str_uuid ws, st_provider = p, st_code_verifier = verifier\<rparr>"
    and pkce: "(verifier \<noteq> None) = List.member PKCE_PROVIDERS ?p"
    using get_oauth_url_issues [OF assms(4)] assms(5) by auto
  let ?v = "v\<lparr>oauth_states := (oauth_states v)(state := None)\<rparr>"
  obtain x u where c: "connect_provider sv ws p code verifier ?v = (x, u)" by fastforce
  have same: "committed u = committed v \<and> oauth_states u state = None"
    using connect_provider_runs(1) [OF assms(1) c] by (simp add: vault.same_def)
  have v': "oauth_states v' state = None"
    and out: "case x of Inl e \<Rightarrow> r = Inl e \<and> committed v' = committed v | Inr k \<Rightarrow> r = Inr p \<and> committed v' = db u"
    using assms(7) st c same uuid_roundtrip [OF assms(2)]
    by (auto simp: oauth_callback_def validate_state_def get_db_session_def with_session_def bindM_def
      split: sum.splits)
  have "case r of
        Inl e \<Rightarrow> committed v' = committed v
      | Inr _ \<Rightarrow> (\<exists>c \<in> set (?t (committed v')). of_provider ws ?p c \<and> ic_status c = ConnectionStatus_CONNECTED) \<and>
          filter (\<lambda>c. \<not> of_provider ws ?p c) (?t (committed v')) = filter (\<lambda>c. \<not> of_provider ws ?p c) (?t (committed v))"
  proof (cases x)
    case (Inl e)
    with out show ?thesis by simp
  next
    case (Inr k)
    with connect_provider_runs(2) [OF assms(1) c] obtain answer w2 where
      d: "db w2 = db ?v" and s: "save_connection sv ws ?p answer w2 = (Inr k, u)" by blast
    have ids: "distinct (map ic_id (?t (db w2)))" using d assms(3,6) by simp
    show ?thesis
      by (rule save_connection_row [OF ids s]) (use out Inr d assms(6) in auto)
  qed
  moreover have "fst (oauth_callback sv state code' v') = Inl (HTTPException 400 ''Invalid or expired state'')"
    using v' by (simp add: oauth_callback_def validate_state_def get_db_session_def with_session_def bindM_def)
  moreover have "(verifier \<noteq> None) = (?p \<in> {''x'', ''twitter''})"
    using pkce by (simp add: PKCE_PROVIDERS_def)
  ultimately show ?thesis using st by blast
qed

text \<open>What Fernet promises: a ciphertext is not empty, and decrypting it gives the plaintext back.\<close>

definition fernet_laws :: "'z services \<Rightarrow> bool" where
  "fernet_laws sv \<longleftrightarrow> (\<forall>n t. sv_decrypt sv (sv_encrypt sv n t) = Some t \<and> sv_encrypt sv n t \<noteq> [])"

section \<open>A concrete integration world\<close>

text \<open>The mock provider behind every name, a cipher that marks its plaintexts, and an Editor who may manage the
  integrations of workspace 20.\<close>

declare hex8_def [code del]

fun fx_decrypt :: "string \<Rightarrow> string option" where
  "fx_decrypt [] = None"
| "fx_decrypt (c # t) = (if c = CHR ''#'' then Some t else None)"

definition fx_services :: "unit services" where
  "fx_services =
     \<lparr>sv_encrypt = (\<lambda>n t. CHR ''#'' # t), sv_decrypt = fx_decrypt, sv_secret = (\<lambda>k. Some ''id''),
      sv_provider = (\<lambda>p cred tok. mock_connector tok), sv_challenge = (\<lambda>v. v)\<rparr>"

definition fx_integration :: "database \<Rightarrow> integration_world" where
  "fx_integration d =
     \<lparr>db = d, committed = d, clock = (\<lambda>n. seconds (int n)), ticks = 0, uuid_source = (\<lambda>n. 1000 + n),
      uuids_drawn = 0, token_source = (\<lambda>n. replicate n (CHR ''t'')), tokens_drawn = 1,
      exn_text = (\<lambda>_. ''error''), datetime_text = (\<lambda>_. ''time''), sent_emails = [],
      oauth_states = (\<lambda>_. None), breakers = (\<lambda>_. None), monotonic = (\<lambda>_. 0), monotonic_reads = 0,
      nonces = 0, json_text = (\<lambda>_. ''json'')\<rparr>"

definition fx_connection :: "uuid \<Rightarrow> string \<Rightarrow> IntegrationConnection" where
  "fx_connection i p =
     (new_connection 20 p)\<lparr>ic_id := i, ic_status := ConnectionStatus_CONNECTED, ic_access_token := Some ''#token''\<rparr>"

lemma fx_integration_simps [simp]: "db (fx_integration d) = d" "committed (fx_integration d) = d"
  by (simp_all add: fx_integration_def)

lemma fx_remote: "remote_only fx_services"
  by (simp add: remote_only_def fx_services_def mock_connector_remote)

lemma fx_fernet: "fernet_laws fx_services"
  by (simp add: fernet_laws_def fx_services_def)

definition fx_managed :: integration_world where
  "fx_managed = fx_integration (fx_database
     \<lparr>permissions := [\<lparr>p_id = 60, p_stamp = no_stamp, p_name = ''integration.manage'', p_resource = ''integration'',
        p_action = ''manage'', p_description = None, p_is_system = True\<rparr>],
      role_permissions := [\<lparr>rp_id = 61, rp_role_id = 11, rp_permission_id = 60, rp_created_at = 0\<rparr>]\<rparr>)"

theorem oauth_flow_witness:
  "\<exists>(v :: integration_world) state verifier. oauth_states v state =
     Some \<lparr>st_workspace_id = str_uuid 20, st_provider = ''x'', st_code_verifier = verifier\<rparr> \<and> verifier \<noteq> None"
proof -
  have "succeeds (get_oauth_url fx_services fx_decode ''token'' 20 ''x'' ''https://app'') fx_managed" by code_simp
  then obtain us w1 where "get_oauth_url fx_services fx_decode ''token'' 20 ''x'' ''https://app'' fx_managed = (Inr us, w1)"
    by (rule succeedsE)
  then obtain url state where
    run: "get_oauth_url fx_services fx_decode ''token'' 20 ''x'' ''https://app'' fx_managed = (Inr (url, state), w1)"
    by (cases us) simp
  let ?v = "fx_managed\<lparr>oauth_states := oauth_states w1\<rparr>"
  obtain r v' where cb: "oauth_callback fx_services state ''code'' ?v = (r, v')" by fastforce
  have lt: "(20 :: nat) < 16 ^ 32" by simp
  have ids: "distinct (map ic_id (integration_connections (committed ?v)))" and db: "db ?v = committed ?v"
    and st: "oauth_states ?v state = oauth_states w1 state"
    by (simp_all add: fx_managed_def fx_database_def empty_database_def)
  have "py_lower ''x'' = ''x''" by code_simp
  with oauth_flow [OF fx_remote lt ids run st db cb, where code' = "''code''"] show ?thesis by auto
qed

section \<open>Tokens\<close>

text \<open>C24 (roundtrip). The access token that a provider grants when it is connected is stored encrypted, and it is the token
  that every later connector of that connection gets.\<close>

theorem connection_token_roundtrip:
  assumes "fernet_laws sv" and "remote_only sv" and "distinct (map ic_id (integration_connections (db w)))"
    and "connect_provider sv ws name code verifier w = (Inr c, w')"
  shows "c \<in> set (integration_connections (db w')) \<and>
    (\<exists>connector answer w1.
      create_connector sv (py_lower name) (get_provider_credentials sv (py_lower name)) None w = (Inr connector, w) \<and>
      retrying (breaker_call (py_lower name) (cn_connect connector code verifier)) w = (Inr answer, w1) \<and>
      (\<forall>t. dict_get answer ''access_token'' = JStr t \<and> t \<noteq> [] \<longrightarrow>
        (\<exists>n. ic_access_token c = Some (sv_encrypt sv n t)) \<and>
        get_connector_instance sv c u =
          create_connector sv (py_lower name) (get_provider_credentials sv (py_lower name)) (Some t) u))"
proof -
  let ?p = "py_lower name"
  obtain k answer w1 where d: "db w1 = db w"
    and k: "create_connector sv ?p (get_provider_credentials sv ?p) None w = (Inr k, w)"
    and dial: "retrying (breaker_call ?p (cn_connect k code verifier)) w = (Inr answer, w1)"
    and save: "save_connection sv ws ?p answer w1 = (Inr c, w')"
    using connect_provider_runs(2) [OF assms(2,4)] by blast
  have ids: "distinct (map ic_id (integration_connections (db w1)))" using d assms(3) by simp
  show ?thesis
  proof (rule save_connection_row [OF ids save])
    fix enc v1 v2
    assume enc: "encrypt_optional sv (dict_get answer ''access_token'') v1 = (Inr enc, v2)"
      and c: "ic_access_token c = enc" "c \<in> set (integration_connections (db w'))" "of_provider ws ?p c"
    have "(\<exists>n. ic_access_token c = Some (sv_encrypt sv n t)) \<and>
        get_connector_instance sv c u = create_connector sv ?p (get_provider_credentials sv ?p) (Some t) u"
      if t: "dict_get answer ''access_token'' = JStr t" "t \<noteq> []" for t
    proof -
      from enc t obtain n where n: "enc = Some (sv_encrypt sv n t)"
        by (auto simp: encrypt_optional_def encrypt_token_def json_truthy_def next_nonce_def bindM_def)
      with c assms(1) show ?thesis
        by (auto simp: get_connector_instance_def Let_def of_provider_def py_lower_idem decrypt_token_def fernet_laws_def)
    qed
    with c k dial show ?thesis by blast
  qed
qed

theorem connection_token_roundtrip_witness:
  "\<exists>c answer. \<exists>(w' :: integration_world) (w1 :: integration_world). c \<in> set (integration_connections (db w')) \<and>
     (\<exists>connector :: unit connector. retrying (breaker_call ''mock'' (cn_connect connector ''code'' None)) (fx_integration fx_database) =
        (Inr answer, w1))"
proof -
  let ?w = "fx_integration fx_database"
  have lower: "py_lower ''mock'' = ''mock''" by code_simp
  have "succeeds (connect_provider fx_services 20 ''mock'' ''code'' None) ?w" by code_simp
  then obtain c w' where run: "connect_provider fx_services 20 ''mock'' ''code'' None ?w = (Inr c, w')"
    by (rule succeedsE)
  have ids: "distinct (map ic_id (integration_connections (db ?w)))" by (simp add: fx_database_def empty_database_def)
  show ?thesis using connection_token_roundtrip [OF fx_fernet fx_remote ids run, of ?w] unfolding lower by blast
qed

section \<open>Disconnecting\<close>

text \<open>Disconnecting a connected provider always drops the tokens: whatever the provider answers, the request
  returns \<open>True\<close>, the connection is DISCONNECTED without tokens, and all other connections are as they were.\<close>

lemma disconnect_drops_tokens:
  assumes "remote_only sv" and "distinct (map ic_id (integration_connections (db w)))"
    and "get_by_workspace_and_provider ws (py_lower name) w = (Inr (Some c), w)"
    and "List.member connector_registry (py_lower name)"
    and "disconnect_provider sv ws name w = (r, w')"
  shows "r = Inr True \<and>
    (\<exists>c' \<in> set (integration_connections (db w')). ic_id c' = ic_id c \<and> of_provider ws (py_lower name) c' \<and>
      ic_status c' = ConnectionStatus_DISCONNECTED \<and> ic_access_token c' = None \<and>
      ic_refresh_token c' = None \<and> ic_expires_at c' = None) \<and>
    filter (\<lambda>x. ic_id x \<noteq> ic_id c) (integration_connections (db w')) =
    filter (\<lambda>x. ic_id x \<noteq> ic_id c) (integration_connections (db w))"
proof -
  let ?p = "py_lower name" and ?M = "IntegrationConnection_model" and ?t = "integration_connections"
  let ?f = "\<lambda>c. c\<lparr>ic_status := ConnectionStatus_DISCONNECTED, ic_access_token := None,
                  ic_refresh_token := None, ic_expires_at := None\<rparr>"
  let ?make = "create_connector sv ?p (get_provider_credentials sv ?p) (decrypt_token sv (ic_access_token c))"
  have "\<exists>k. ?make w = (Inr k, w)" using assms(4) by (simp add: create_connector_def Let_def py_lower_idem)
  then obtain k where k: "?make w = (Inr k, w)" by blast
  let ?dial = "bindM (retrying (breaker_call ?p (cn_disconnect k))) (\<lambda>_. returnM ())"
  let ?attempt = "catchM ?dial (\<lambda>e. returnM ())"
  have "obeys remote_rel (cn_disconnect k)"
    using create_connector_remote [OF assms(1) k] by (simp add: remote_connector_def)
  then have "obeys remote_rel ?attempt"
    by (intro remote.obeys_catch remote.obeys_bind remote.obeys_return retrying_remote breaker_call_remote)
  moreover obtain x w1 where att: "?attempt w = (x, w1)" by fastforce
  ultimately have d: "db w1 = db w" by (auto dest: obeysD simp: remote_rel_def)
  have x: "x = Inr ()" using att by (auto simp: catchM_def split: prod.splits sum.splits)
  have c: "c \<in> set (tbl ?M (db w1))" "of_provider ws ?p c"
    using assms(3) d by (auto simp: get_by_workspace_and_provider_def of_provider_def dest!: scalars_first_Some)
  have ids: "distinct (map (pk ?M) (tbl ?M (db w1)))" using assms(2) d by simp
  obtain y w2 where upd: "update ?M (pk ?M c) ?f w1 = (y, w2)" by fastforce
  have run: "r = (case y of Inl e \<Rightarrow> Inl e | Inr z \<Rightarrow> Inr True) \<and> w' = w2"
    using assms(5) assms(3) k att x upd
    by (auto simp: disconnect_provider_def Let_def bindM_def split: sum.splits)
  have find: "find_pk ?M (pk ?M c) (db w1) = Some c"
    by (rule connection_repo.find_pk_unique) (use ids c in \<open>simp_all add: pk_unique_def\<close>)
  then obtain z where y: "y = Inr z"
    using upd by (auto simp: update_def flush_dirty_def update_row_def valid_IntegrationConnection_def split: if_splits)
  let ?P = "\<lambda>c'. ic_id c' = ic_id c \<and> of_provider ws ?p c' \<and> ic_status c' = ConnectionStatus_DISCONNECTED \<and>
    ic_access_token c' = None \<and> ic_refresh_token c' = None \<and> ic_expires_at c' = None"
  have P: "?P (?f c)" "?P (touch ?M t (?f c))" for t using c by (simp_all add: of_provider_def)
  have key: "pk ?M (?f x) = pk ?M x" for x by simp
  note res = connection_repo.update_result [where P = ?P, OF ids c(1) key upd [unfolded y] P]
  have "filter (\<lambda>x. ic_id x \<noteq> ic_id c) (tbl ?M (db w2)) = filter (\<lambda>x. ic_id x \<noteq> ic_id c) (tbl ?M (db w1))"
    by (rule connection_repo.update_leaves [OF ids c(1) key upd]) simp_all
  with res run y d show ?thesis by auto
qed

lemma disconnect_drops_tokens_witness:
  "\<exists>w' :: integration_world. \<exists>c \<in> set (integration_connections (db w')). ic_id c = 7 \<and> ic_access_token c = None"
proof -
  let ?w = "fx_integration (fx_database\<lparr>integration_connections := [fx_connection 7 ''mock'']\<rparr>)"
  have ids: "distinct (map ic_id (integration_connections (db ?w)))" by simp
  have lower: "py_lower ''mock'' = ''mock''" and reg: "List.member connector_registry (py_lower ''mock'')"
    by code_simp+
  have found: "get_by_workspace_and_provider 20 (py_lower ''mock'') ?w = (Inr (Some (fx_connection 7 ''mock'')), ?w)"
    by (simp add: lower get_by_workspace_and_provider_def fx_connection_def new_connection_def scalars_first_def)
  obtain r w' where run: "disconnect_provider fx_services 20 ''mock'' ?w = (r, w')" by fastforce
  from disconnect_drops_tokens [OF fx_remote ids found reg run] show ?thesis
    by (auto simp: fx_connection_def)
qed

section \<open>Google\<close>

text \<open>Google can never be connected: whatever the code, the call of the connector ends in a \<open>TypeError\<close>, so the
  service answers with an error (500, or 400 once its breaker is open) and no connection is written.\<close>

lemma google_never_connects:
  assumes "py_lower name = ''google''"
  shows "\<exists>d status w'. connect_provider sv ws name code verifier w = (Inl (HTTPException status d), w') \<and>
    status \<in> {400, 500} \<and> db w' = db w \<and> committed w' = committed w"
proof -
  let ?p = "''google''" and ?te = "TypeError ''GoogleConnector.connect() got an unexpected keyword argument code_verifier''"
  let ?dial = "retrying (breaker_call ?p (raiseM ?te :: ('a, json_object) iio))"
  obtain x w1 where dial: "?dial w = (x, w1)" by fastforce
  have "obeys remote_rel ?dial" by (intro retrying_remote breaker_call_remote remote.obeys_raise)
  from obeysD [OF this dial] have d: "db w1 = db w" "committed w1 = committed w" by (simp_all add: remote_rel_def)
  obtain ds where "retry_loop (breaker_call ?p (raiseM ?te :: ('a, json_object) iio)) (\<lambda>e. True) 2 2 0 1 w = (x, w1, ds)"
    using dial by (auto simp: retrying_def retry_policy_def split: prod.splits)
  from retry_loop_attempts [OF this] obtain v where
    "breaker_call ?p (raiseM ?te :: ('a, json_object) iio) v = (x, w1)" by metis
  then obtain e where x: "x = Inl e"
    by (auto simp: breaker_call_def call_def split: prod.splits bool.splits)
  have make: "create_connector sv ?p cred None w = (Inr (google_connector (sv_provider sv ?p cred None)), w)" for cred
    by (simp add: create_connector_def connector_registry_def py_lower_def lower_char_def)
  show ?thesis
    using assms make dial x d
    by (auto simp: connect_provider_def Let_def bindM_def catchM_def google_connector_def)
qed

theorem google_never_connects_witness:
  "\<exists>d status w'. connect_provider fx_services 20 ''Google'' ''code'' None (fx_integration fx_database) =
     (Inl (HTTPException status d), w')"
proof -
  have "py_lower ''Google'' = ''google''" by code_simp
  from google_never_connects [OF this, of fx_services 20 "''code''" None "fx_integration fx_database"]
  show ?thesis by blast
qed

end
