(* ===== verification/Sync_Engine.thy ===== *)
theory Sync_Engine
  imports Integrations
begin

text \<open>
  The sync engine (\<open>app/integrations/sync/engine.py\<close>) and the Celery task that runs it. A sync asks the connector for
  the accounts behind a connection and bridges them into social accounts: one row per workspace, provider and
  account id, updated when it is there and created when not. What the connector answers is JSON from the
  provider, so every access to it can fail the way Python does.
\<close>

section \<open>Reading the answer of a provider\<close>

definition dict_item :: "json_object \<Rightarrow> string \<Rightarrow> ('z, json) io" where
  "dict_item d k = (case map_of d k of None \<Rightarrow> raiseM (KeyError k) | Some v \<Rightarrow> returnM v)"

definition dict_get_or :: "json_object \<Rightarrow> string \<Rightarrow> json \<Rightarrow> json" where
  "dict_get_or d k v = (case map_of d k of None \<Rightarrow> v | Some u \<Rightarrow> u)"

definition json_or :: "json \<Rightarrow> json \<Rightarrow> json" where
  "json_or a b = (if json_truthy a then a else b)"

definition as_dict :: "json \<Rightarrow> ('z, json_object) io" where
  "as_dict j = (case j of JObj kvs \<Rightarrow> returnM kvs | _ \<Rightarrow> raiseM (AttributeError ''get''))"

text \<open>\<open>for x in j\<close>: a dictionary gives its keys, a string its characters.\<close>

definition as_list :: "json \<Rightarrow> ('z, json list) io" where
  "as_list j =
     (case j of
        JList xs \<Rightarrow> returnM xs
      | JObj kvs \<Rightarrow> returnM (map (\<lambda>kv. JStr (fst kv)) kvs)
      | JStr s \<Rightarrow> returnM (map (\<lambda>c. JStr [c]) s)
      | _ \<Rightarrow> raiseM (TypeError ''object is not iterable''))"

definition text_of :: "json \<Rightarrow> ('z, string) iio" where
  "text_of j = (case j of JStr s \<Rightarrow> returnM s | _ \<Rightarrow> readM (\<lambda>w. json_text w j))"

text \<open>A value bound to a string column: \<open>NULL\<close>, a string, or an error of the driver.\<close>

definition column_text :: "json \<Rightarrow> ('z, string option) io" where
  "column_text j =
     (case j of JNull \<Rightarrow> returnM None | JStr s \<Rightarrow> returnM (Some s) | _ \<Rightarrow> raiseM (PyException ''DataError''))"

section \<open>The bridge to social accounts\<close>

definition find_accounts :: "uuid \<Rightarrow> ApiProvider \<Rightarrow> json \<Rightarrow> ('z, SocialAccount list) io" where
  "find_accounts ws provider account_id =
     bindM (column_text account_id) (\<lambda>account_id.
     case account_id of
       None \<Rightarrow> returnM []
     | Some i \<Rightarrow> get_all SocialAccount_model 0 100
                   [Some (\<lambda>a. sa_workspace_id a = ws), Some (\<lambda>a. sa_provider a = provider),
                    Some (\<lambda>a. sa_account_id a = i)]
                   (Some (\<lambda>a. created_at (sa_stamp a))) True False)"

definition new_account :: "uuid \<Rightarrow> ApiProvider \<Rightarrow> string \<Rightarrow> string \<Rightarrow> SocialAccount" where
  "new_account ws provider account_id name =
     \<lparr>sa_id = 0, sa_stamp = no_stamp, sa_soft = not_deleted, sa_audit = no_audit, sa_workspace_id = ws,
      sa_provider = provider, sa_account_id = account_id, sa_name = name, sa_access_token = [],
      sa_refresh_token = None, sa_expires_at = None, sa_is_active = True\<rparr>"

text \<open>Updating the first account found or creating one; \<open>assigned\<close> is what the block assigns besides the name and
  \<open>is_active\<close>.\<close>

definition save_account ::
  "uuid \<Rightarrow> ApiProvider \<Rightarrow> json \<Rightarrow> json \<Rightarrow> (SocialAccount \<Rightarrow> SocialAccount) \<Rightarrow> SocialAccount list \<Rightarrow> ('z, unit) io"
where
  "save_account ws provider account_id name assigned existing =
     bindM (column_text name) (\<lambda>name.
     bindM (column_text account_id) (\<lambda>account_id.
     case name of
       None \<Rightarrow> raiseM IntegrityError
     | Some n \<Rightarrow>
         (case existing of
            a # _ \<Rightarrow> thenM (update SocialAccount_model (sa_id a) (\<lambda>a. assigned (a\<lparr>sa_name := n, sa_is_active := True\<rparr>)))
                       (returnM ())
          | [] \<Rightarrow>
              (case account_id of
                 None \<Rightarrow> raiseM IntegrityError
               | Some i \<Rightarrow> thenM (create SocialAccount_model (assigned (new_account ws provider i n))) (returnM ())))))"

definition encrypt_json :: "'z services \<Rightarrow> json \<Rightarrow> ('z, string) iio" where
  "encrypt_json sv t = (case t of JStr s \<Rightarrow> encrypt_token sv s | _ \<Rightarrow> raiseM (AttributeError ''encode''))"

text \<open>A page token: found first, then encrypted, then saved.\<close>

definition bridge_token ::
  "'z services \<Rightarrow> uuid \<Rightarrow> ApiProvider \<Rightarrow> json \<Rightarrow> ('z, json) iio \<Rightarrow> json \<Rightarrow> ('z, unit) iio" where
  "bridge_token sv ws provider account_id name token =
     bindM (find_accounts ws provider account_id) (\<lambda>existing.
     bindM (encrypt_json sv token) (\<lambda>encrypted_token.
     bindM name (\<lambda>name.
     save_account ws provider account_id name (\<lambda>a. a\<lparr>sa_access_token := encrypted_token\<rparr>) existing)))"

definition sync_facebook_page :: "'z services \<Rightarrow> uuid \<Rightarrow> json \<Rightarrow> ('z, unit) iio" where
  "sync_facebook_page sv ws fb_page =
     bindM (as_dict fb_page) (\<lambda>page.
     let page_access_token = dict_get page ''access_token'' in
     if \<not> json_truthy page_access_token then returnM ()
     else bindM (dict_item page ''id'') (\<lambda>account_id.
          bridge_token sv ws ApiProvider_META account_id (dict_item page ''name'') page_access_token))"

definition sync_instagram_account :: "'z services \<Rightarrow> uuid \<Rightarrow> json \<Rightarrow> ('z, unit) iio" where
  "sync_instagram_account sv ws profile =
     bindM (as_dict profile) (\<lambda>profile.
     let page_access_token = dict_get profile ''page_access_token'' in
     if \<not> json_truthy page_access_token then returnM ()
     else bindM (dict_item profile ''id'') (\<lambda>account_id.
          bridge_token sv ws ApiProvider_INSTAGRAM account_id
            (returnM (json_or (dict_get profile ''username'') (json_or (dict_get profile ''name'') (JStr ''Unknown''))))
            page_access_token))"

definition sync_linkedin_profile :: "'z services \<Rightarrow> uuid \<Rightarrow> IntegrationConnection \<Rightarrow> json \<Rightarrow> ('z, unit) iio" where
  "sync_linkedin_profile sv ws connection profile =
     bindM (as_dict profile) (\<lambda>profile.
     let sub = dict_get profile ''sub'' in
     if \<not> json_truthy sub then returnM ()
     else bindM (text_of sub) (\<lambda>sub.
     let account_id = JStr (''urn:li:person:'' @ sub) in
     if \<not> truthy_str (ic_access_token connection) then returnM ()
     else bindM (encrypt_token sv (the (decrypt_token sv (ic_access_token connection)))) (\<lambda>encrypted_token.
     bindM (text_of (dict_get_or profile ''localizedFirstName'' (JStr []))) (\<lambda>first.
     bindM (text_of (dict_get_or profile ''localizedLastName'' (JStr []))) (\<lambda>last.
     let name = py_strip (first @ '' '' @ last); account_name = (if name = [] then ''LinkedIn Member'' else name) in
     bindM (find_accounts ws ApiProvider_LINKEDIN account_id) (\<lambda>existing.
     save_account ws ApiProvider_LINKEDIN account_id (JStr account_name)
       (\<lambda>a. a\<lparr>sa_access_token := encrypted_token\<rparr>) existing))))))"

text \<open>The tokens of the connection, encrypted anew.\<close>

definition reencrypt_tokens ::
  "'z services \<Rightarrow> IntegrationConnection \<Rightarrow> ('z, SocialAccount \<Rightarrow> SocialAccount) iio" where
  "reencrypt_tokens sv connection =
     bindM (encrypt_token sv (the (decrypt_token sv (ic_access_token connection)))) (\<lambda>encrypted_token.
     bindM (if truthy_str (ic_refresh_token connection)
            then bindM (encrypt_token sv (the (decrypt_token sv (ic_refresh_token connection)))) (\<lambda>t. returnM (Some t))
            else returnM None) (\<lambda>encrypted_refresh_token.
     returnM (\<lambda>a. a\<lparr>sa_access_token := encrypted_token, sa_refresh_token := encrypted_refresh_token,
                    sa_expires_at := ic_expires_at connection\<rparr>)))"

definition sync_twitter_profile :: "'z services \<Rightarrow> uuid \<Rightarrow> IntegrationConnection \<Rightarrow> json \<Rightarrow> ('z, unit) iio" where
  "sync_twitter_profile sv ws connection profile =
     bindM (as_dict profile) (\<lambda>profile.
     let i = dict_get profile ''id'' in
     if \<not> json_truthy i then returnM ()
     else bindM (text_of i) (\<lambda>account_id.
     if \<not> truthy_str (ic_access_token connection) then returnM ()
     else bindM (reencrypt_tokens sv connection) (\<lambda>assigned.
     let account_name = json_or (dict_get profile ''username'') (json_or (dict_get profile ''name'') (JStr ''X Member'')) in
     bindM (find_accounts ws ApiProvider_TWITTER (JStr account_id)) (\<lambda>existing.
     save_account ws ApiProvider_TWITTER (JStr account_id) account_name assigned existing))))"

definition sync_google_location ::
  "uuid \<Rightarrow> (SocialAccount \<Rightarrow> SocialAccount) \<Rightarrow> json_object \<Rightarrow> json \<Rightarrow> ('z, unit) iio" where
  "sync_google_location ws assigned account_data location =
     bindM (as_dict location) (\<lambda>location.
     let location_id = dict_get location ''location_id'';
         location_name = json_or (dict_get location ''location_name'') (JStr ''GBP Location'') in
     if \<not> json_truthy location_id then returnM ()
     else bindM (dict_item account_data ''account_id'') (\<lambda>account.
     bindM (text_of account) (\<lambda>account.
     bindM (text_of location_id) (\<lambda>location_id.
     let account_id = JStr (''accounts/'' @ account @ ''/locations/'' @ location_id) in
     bindM (find_accounts ws ApiProvider_GOOGLE account_id) (\<lambda>existing.
     save_account ws ApiProvider_GOOGLE account_id location_name assigned existing)))))"

definition sync_google_accounts :: "'z services \<Rightarrow> uuid \<Rightarrow> IntegrationConnection \<Rightarrow> json \<Rightarrow> ('z, unit) iio" where
  "sync_google_accounts sv ws connection business_accounts =
     (if \<not> truthy_str (ic_access_token connection) then returnM ()
      else bindM (reencrypt_tokens sv connection) (\<lambda>assigned.
           bindM (as_list business_accounts) (\<lambda>accounts.
           forM accounts (\<lambda>account_data.
             bindM (as_dict account_data) (\<lambda>account_data.
             bindM (as_list (dict_get_or account_data ''locations'' (JList []))) (\<lambda>locations.
             forM locations (sync_google_location ws assigned account_data)))))))"

definition bridge ::
  "'z services \<Rightarrow> uuid \<Rightarrow> IntegrationConnection \<Rightarrow> string \<Rightarrow> json_object \<Rightarrow> ('z, unit) iio" where
  "bridge sv ws connection provider sync_result =
     (let has = (\<lambda>k. map_of sync_result k \<noteq> None); got = dict_get sync_result in
      if provider = ''facebook'' \<and> has ''pages'' then
        bindM (as_list (got ''pages'')) (\<lambda>pages. forM pages (sync_facebook_page sv ws))
      else if provider = ''instagram'' \<and> has ''instagram_accounts'' then
        bindM (as_list (got ''instagram_accounts'')) (\<lambda>ps. forM ps (sync_instagram_account sv ws))
      else if provider = ''linkedin'' \<and> has ''profile'' then sync_linkedin_profile sv ws connection (got ''profile'')
      else if provider = ''twitter'' \<and> has ''profile'' then sync_twitter_profile sv ws connection (got ''profile'')
      else if provider = ''google'' \<and> has ''business_accounts''
      then sync_google_accounts sv ws connection (got ''business_accounts'')
      else returnM ())"

section \<open>Running a sync\<close>

definition payload_uuid :: "json \<Rightarrow> ('z, uuid) io" where
  "payload_uuid j =
     (case j of
        JStr s \<Rightarrow> (case uuid_of_str s of
                    None \<Rightarrow> raiseM (ValueError ''badly formed hexadecimal UUID string'') | Some u \<Rightarrow> returnM u)
      | _ \<Rightarrow> raiseM (AttributeError ''replace''))"

definition execute_sync_job :: "'z services \<Rightarrow> json_object \<Rightarrow> ('z, json_object) iio" where
  "execute_sync_job sv payload =
     bindM (dict_item payload ''workspace_id'') (\<lambda>ws.
     bindM (payload_uuid ws) (\<lambda>ws.
     bindM (dict_item payload ''provider'') (\<lambda>provider.
     bindM (column_text provider) (\<lambda>provider.
     bindM (case provider of None \<Rightarrow> returnM None | Some p \<Rightarrow> get_by_workspace_and_provider ws p) (\<lambda>found.
     case found of
       None \<Rightarrow> raiseM (PyException ''Connection lost before sync could execute.'')
     | Some connection \<Rightarrow>
         bindM (get_connector_instance sv connection) (\<lambda>connector.
         bindM (catchM (cn_sync connector (dict_get_or payload ''sync_type'' (JStr ''full'')))
                  (\<lambda>e. case e of
                     OAuthTokenError m \<Rightarrow>
                       thenM (update IntegrationConnection_model (ic_id connection)
                                (\<lambda>c. c\<lparr>ic_status := ConnectionStatus_EXPIRED\<rparr>)) (raiseM e)
                   | _ \<Rightarrow> raiseM e)) (\<lambda>sync_result.
         thenM (bridge sv ws connection (the provider) sync_result)
           (returnM sync_result))))))))"

text \<open>The Celery task: the keyword arguments are the payload of the message.\<close>

definition integration_sync_task :: "'z services \<Rightarrow> json_object \<Rightarrow> ('z, json) iio" where
  "integration_sync_task sv payload =
     (case dict_get payload ''job_execution_id'' of
        JNull \<Rightarrow> execute_job [] (bindM (execute_sync_job sv payload) (\<lambda>r. returnM (JObj r)))
      | JStr i \<Rightarrow> execute_job i (bindM (execute_sync_job sv payload) (\<lambda>r. returnM (JObj r)))
      | _ \<Rightarrow> raiseM (AttributeError ''replace''))"

definition trigger_sync ::
  "'z services \<Rightarrow> 'z integration_world_ext broker \<Rightarrow> uuid \<Rightarrow> string \<Rightarrow> string \<Rightarrow> ('z, uuid) iio" where
  "trigger_sync sv broker ws provider_name sync_type =
     (let provider = py_lower provider_name in
      bindM (get_by_workspace_and_provider ws provider) (\<lambda>found.
      case found of
        None \<Rightarrow> raiseM (ValueError (''No active connection for provider '' @ provider))
      | Some connection \<Rightarrow>
          thenM (raise_if (ic_status connection \<noteq> ConnectionStatus_CONNECTED)
                   (ValueError (''No active connection for provider '' @ provider))) (
          bindM (get_connector_instance sv connection) (\<lambda>connector.
          thenM (raise_if (\<not> cn_can_sync connector)
                   (ValueError (''Provider '' @ provider @ '' does not support syncing.'')))
            (enqueue broker ''integration.sync''
               [(''workspace_id'', JStr (str_uuid ws)), (''provider'', JStr provider), (''sync_type'', JStr sync_type)]
               ''default'' JobPriority_HIGH 0 3)))))"

definition route_trigger_sync ::
  "'z services \<Rightarrow> 'z integration_world_ext broker \<Rightarrow> jwt_decoder \<Rightarrow> string \<Rightarrow> uuid \<Rightarrow> string \<Rightarrow> string
   \<Rightarrow> ('z, uuid) iio" where
  "route_trigger_sync sv broker decode tok ws provider sync_type =
     integration_route decode tok ws ''manage''
       (\<lambda>workspace. trigger_sync sv broker (w_id workspace) provider sync_type)"

section \<open>One row per account\<close>

definition live_account :: "SocialAccount \<Rightarrow> bool" where
  "live_account a \<longleftrightarrow> deleted_at (sa_soft a) = None"

definition account_key :: "SocialAccount \<Rightarrow> uuid \<times> ApiProvider \<times> string" where
  "account_key a = (sa_workspace_id a, sa_provider a, sa_account_id a)"

text \<open>Identities are unique, and so are the workspace, provider and account id of a live row.\<close>

definition accounts_unique :: "SocialAccount list \<Rightarrow> bool" where
  "accounts_unique as \<longleftrightarrow>
     distinct (map sa_id as) \<and> distinct (map account_key (filter live_account as))"

text \<open>What a sync for a workspace may do to the table: keep it unique, drop nothing, and leave the rows of other
  workspaces as they are.\<close>

definition sync_rel :: "uuid \<Rightarrow> SocialAccount list \<Rightarrow> SocialAccount list \<Rightarrow> bool" where
  "sync_rel ws p q \<longleftrightarrow>
     (accounts_unique p \<longrightarrow> accounts_unique q \<and> sa_id ` set p \<subseteq> sa_id ` set q \<and>
        filter (\<lambda>a. sa_workspace_id a \<noteq> ws) q = filter (\<lambda>a. sa_workspace_id a \<noteq> ws) p)"

interpretation sync_step: table_step social_accounts "sync_rel ws" for ws
  by unfold_locales (auto simp: sync_rel_def)

text \<open>An edit that keeps identity, key and liveness.\<close>

definition keeps_account :: "(SocialAccount \<Rightarrow> SocialAccount) \<Rightarrow> bool" where
  "keeps_account f \<longleftrightarrow>
     (\<forall>a. sa_id (f a) = sa_id a \<and> account_key (f a) = account_key a \<and> sa_soft (f a) = sa_soft a)"

lemma keeps_accountD:
  assumes "keeps_account f"
  shows "sa_id (f a) = sa_id a" and "account_key (f a) = account_key a" and "sa_soft (f a) = sa_soft a"
    and "sa_workspace_id (f a) = sa_workspace_id a" and "sa_provider (f a) = sa_provider a"
    and "sa_account_id (f a) = sa_account_id a"
proof -
  from assms have "account_key (f a) = account_key a" unfolding keeps_account_def by blast
  then show "sa_workspace_id (f a) = sa_workspace_id a" and "sa_provider (f a) = sa_provider a"
    and "sa_account_id (f a) = sa_account_id a" by (simp_all add: account_key_def)
qed (use assms in \<open>simp_all add: keeps_account_def\<close>)

lemma map_filter_edit_row:
  assumes "\<And>a. k (f a) = k a" and "\<And>a. q (f a) = q a"
  shows "map k (filter q (edit_row key i f xs)) = map k (filter q xs)"
  by (induction xs) (auto simp: edit_row_def assms)

lemma edit_row_sync:
  assumes f: "keeps_account f" and a: "a \<in> set as" "sa_workspace_id a = ws"
  shows "sync_rel ws as (edit_row sa_id (sa_id a) f as)"
  unfolding sync_rel_def
proof (intro impI conjI)
  assume u: "accounts_unique as"
  note [simp] = keeps_accountD [OF f]
  have "map sa_id (edit_row sa_id (sa_id a) f as) = map sa_id as"
    by (rule map_edit_row) simp
  then show "sa_id ` set as \<subseteq> sa_id ` set (edit_row sa_id (sa_id a) f as)"
    by (metis list.set_map order_refl)
  have "map account_key (filter live_account (edit_row sa_id (sa_id a) f as)) = map account_key (filter live_account as)"
    by (rule map_filter_edit_row) (simp_all add: live_account_def)
  with u \<open>map sa_id _ = _\<close> show "accounts_unique (edit_row sa_id (sa_id a) f as)"
    by (simp add: accounts_unique_def)
  show "filter (\<lambda>a. sa_workspace_id a \<noteq> ws) (edit_row sa_id (sa_id a) f as) = filter (\<lambda>a. sa_workspace_id a \<noteq> ws) as"
  proof (rule filter_edit_row)
    fix x assume "x \<in> set as" "sa_id x = sa_id a"
    with u a have "x = a" by (auto simp: accounts_unique_def dest: distinct_map_inj)
    with a show "\<not> sa_workspace_id x \<noteq> ws \<and> \<not> sa_workspace_id (f x) \<noteq> ws" by simp
  qed
qed

text \<open>What a lookup finds decides between the two branches.\<close>

lemma find_accounts_result:
  assumes "find_accounts ws provider account_id w = (Inr existing, w')"
  shows "w' = w" and "\<forall>a \<in> set existing. a \<in> set (social_accounts (db w)) \<and> sa_workspace_id a = ws"
    and "existing = [] \<Longrightarrow> column_text account_id w = (Inr (Some i), w) \<Longrightarrow>
      \<forall>a \<in> set (social_accounts (db w)). live_account a \<longrightarrow> account_key a \<noteq> (ws, provider, i)"
proof -
  let ?hit = "\<lambda>i a. live SocialAccount_model False a \<and> apply_filters
    [Some (\<lambda>a. sa_workspace_id a = ws), Some (\<lambda>a. sa_provider a = provider), Some (\<lambda>a. sa_account_id a = i)] a"
  have hit: "?hit i a \<longleftrightarrow> live_account a \<and> account_key a = (ws, provider, i)" for i a
    by (auto simp: live_def visible_def live_account_def apply_filters_def account_key_def)
  have "w' = w \<and> (\<forall>a \<in> set existing. a \<in> set (social_accounts (db w)) \<and> sa_workspace_id a = ws) \<and>
    (\<forall>i. existing = [] \<longrightarrow> column_text account_id w = (Inr (Some i), w) \<longrightarrow>
      (\<forall>a \<in> set (social_accounts (db w)). live_account a \<longrightarrow> account_key a \<noteq> (ws, provider, i)))"
  proof (cases account_id)
    case (JStr i)
    define xs where "xs = filter (?hit i) (social_accounts (db w))"
    have ex: "existing = page 0 100 (sort_desc (\<lambda>a. created_at (sa_stamp a)) xs) \<and> w' = w"
      using assms JStr
      by (auto simp: find_accounts_def column_text_def get_all_def order_rows_def xs_def bindM_def)
    have "set existing \<subseteq> set xs" using ex by (metis set_page set_sort_desc)
    moreover have "a \<in> set xs \<Longrightarrow> a \<in> set (social_accounts (db w)) \<and> sa_workspace_id a = ws" for a
      using hit by (auto simp: xs_def account_key_def)
    moreover have "xs = []" if "existing = []"
    proof -
      from that ex have "sort_desc (\<lambda>a. created_at (sa_stamp a)) xs = []" by (simp add: page_def)
      then show ?thesis by (metis length_0_conv length_sort_desc)
    qed
    moreover have "live_account a \<longrightarrow> account_key a \<noteq> (ws, provider, i)"
      if "xs = []" "a \<in> set (social_accounts (db w))" for a
      using that hit [of a i] unfolding xs_def filter_empty_conv by blast
    moreover have "column_text account_id w = (Inr (Some j), w) \<Longrightarrow> j = i" for j
      using JStr by (simp add: column_text_def)
    ultimately show ?thesis using ex by blast
  qed (use assms in \<open>auto simp: find_accounts_def column_text_def bindM_def\<close>)
  then show "w' = w" and "\<forall>a \<in> set existing. a \<in> set (social_accounts (db w)) \<and> sa_workspace_id a = ws"
    and "existing = [] \<Longrightarrow> column_text account_id w = (Inr (Some i), w) \<Longrightarrow>
      \<forall>a \<in> set (social_accounts (db w)). live_account a \<longrightarrow> account_key a \<noteq> (ws, provider, i)" by blast+
qed

lemma sync_rel_refl: "sync_rel ws p p"
  by (simp add: sync_rel_def)

lemma sync_relI: "(accounts_unique p \<Longrightarrow> sync_rel ws p q) \<Longrightarrow> sync_rel ws p q"
  by (auto simp: sync_rel_def)

lemma update_sync:
  assumes g: "keeps_account g" and a: "a \<in> set (social_accounts (db w))" "sa_workspace_id a = ws"
    and run: "update SocialAccount_model (sa_id a) g w = (v, w')"
  shows "sync_rel ws (social_accounts (db w)) (social_accounts (db w'))"
proof (rule sync_relI)
  assume u: "accounts_unique (social_accounts (db w))"
  then have ids: "distinct (map (pk SocialAccount_model) (tbl SocialAccount_model (db w)))"
    by (simp add: accounts_unique_def)
  have key: "pk SocialAccount_model (g x) = pk SocialAccount_model x" for x
    using keeps_accountD(1) [OF g] by simp
  show ?thesis
  proof (rule social_account_repo.update_edits [OF ids key run])
    fix e assume "tbl SocialAccount_model (db w') = tbl SocialAccount_model (db w)"
    then show ?thesis by (simp add: sync_rel_refl)
  next
    fix t
    let ?h = "\<lambda>x. if g x = x then x else touch SocialAccount_model t (g x)"
    assume "tbl SocialAccount_model (db w') =
      edit_row (pk SocialAccount_model) (sa_id a) ?h (tbl SocialAccount_model (db w))"
    moreover have "keeps_account ?h"
      using keeps_accountD [OF g] by (auto simp: keeps_account_def account_key_def)
    ultimately show ?thesis using edit_row_sync [OF _ a] by simp
  qed
qed

lemma create_sync:
  assumes g: "keeps_account g" and n: "\<forall>a \<in> set (social_accounts (db w)). live_account a \<longrightarrow> account_key a \<noteq> (ws, provider, i)"
    and run: "create SocialAccount_model (g (new_account ws provider i name)) w = (v, w')"
  shows "sync_rel ws (social_accounts (db w)) (social_accounts (db w'))"
proof (rule social_account_repo.create_appends [OF run])
  fix e assume "tbl SocialAccount_model (db w') = tbl SocialAccount_model (db w)"
  then show ?thesis by (simp add: sync_rel_refl)
next
  fix k t u
  let ?y = "fill SocialAccount_model k t u (g (new_account ws provider i name))"
  have key: "account_key ?y = (ws, provider, i)" and "live_account ?y" "sa_id ?y = k" "sa_workspace_id ?y = ws"
    using keeps_accountD [OF g] by (simp_all add: account_key_def new_account_def live_account_def not_deleted_def)
  moreover assume "tbl SocialAccount_model (db w') = tbl SocialAccount_model (db w) @ [?y]"
    "k \<notin> pk SocialAccount_model ` set (tbl SocialAccount_model (db w))"
  ultimately show ?thesis using n by (auto simp: sync_rel_def accounts_unique_def)
qed

lemma save_account_sync:
  assumes f: "keeps_account assigned"
    and e: "\<forall>a \<in> set existing. a \<in> set (social_accounts (db w)) \<and> sa_workspace_id a = ws"
    and n: "\<And>i. existing = [] \<Longrightarrow> column_text account_id w = (Inr (Some i), w) \<Longrightarrow>
      \<forall>a \<in> set (social_accounts (db w)). live_account a \<longrightarrow> account_key a \<noteq> (ws, provider, i)"
    and run: "save_account ws provider account_id name assigned existing w = (r, w')"
  shows "sync_rel ws (social_accounts (db w)) (social_accounts (db w'))"
proof -
  have ro: "read_only (column_text j)" for j
    unfolding column_text_def read_only_def by (cases j) (simp_all add: ro.obeys_return ro.obeys_raise)
  show ?thesis using run unfolding save_account_def
  proof (elim bindM_read_onlyE [OF _ ro])
    fix nm acc
    assume acc: "column_text account_id w = (Inr acc, w)"
      and step: "(case nm of
       None \<Rightarrow> raiseM IntegrityError
     | Some n \<Rightarrow>
         (case existing of
            a # _ \<Rightarrow> thenM (update SocialAccount_model (sa_id a) (\<lambda>a. assigned (a\<lparr>sa_name := n, sa_is_active := True\<rparr>)))
                       (returnM ())
          | [] \<Rightarrow>
              (case acc of
                 None \<Rightarrow> raiseM IntegrityError
               | Some i \<Rightarrow> thenM (create SocialAccount_model (assigned (new_account ws provider i n))) (returnM ())))) w = (r, w')"
    show ?thesis
    proof (cases nm)
      case None
      with step show ?thesis by (simp add: sync_rel_refl)
    next
      case (Some nm')
      show ?thesis
      proof (cases existing)
        case (Cons a as)
        let ?g = "\<lambda>a. assigned (a\<lparr>sa_name := nm', sa_is_active := True\<rparr>)"
        have "keeps_account ?g" using keeps_accountD [OF f] by (simp add: keeps_account_def account_key_def)
        moreover from step Some Cons obtain v where "update SocialAccount_model (sa_id a) ?g w = (v, w')"
          by (auto elim!: bindM_runE)
        ultimately show ?thesis using e Cons by (intro update_sync) auto
      next
        case Nil
        show ?thesis
        proof (cases acc)
          case None
          with step Some Nil show ?thesis by (simp add: sync_rel_refl)
        next
          case (Some i)
          with step \<open>nm = Some nm'\<close> Nil obtain v where
            "create SocialAccount_model (assigned (new_account ws provider i nm')) w = (v, w')"
            by (auto elim!: bindM_runE)
          with f n [OF Nil] acc Some show ?thesis by (intro create_sync) auto
        qed
      qed
    qed
  qed (simp_all add: sync_rel_refl)
qed

lemma save_after_find:
  assumes "find_accounts ws provider account_id w = (Inr existing, w1)" and "db w2 = db w" and "keeps_account f"
    and "save_account ws provider account_id name f existing w2 = (r, w')"
  shows "sync_rel ws (social_accounts (db w)) (social_accounts (db w'))"
proof -
  note found = find_accounts_result [OF assms(1)]
  have col: "column_text account_id w2 = (Inr x, w2) \<longleftrightarrow> column_text account_id w = (Inr x, w)" for x
    by (cases account_id) (simp_all add: column_text_def)
  have "sync_rel ws (social_accounts (db w2)) (social_accounts (db w'))"
    by (rule save_account_sync [OF assms(3) _ _ assms(4)]) (use found assms(2) col in auto)
  with assms(2) show ?thesis by simp
qed

lemma find_accounts_read_only: "read_only (find_accounts ws provider i)"
  unfolding find_accounts_def read_only_def
  by (intro ro.obeys_bind ro.obeys_case_option ro.obeys_return read_only_get_all [unfolded read_only_def])
    (cases i; simp add: column_text_def ro.obeys_return ro.obeys_raise)

lemma find_save_obeys:
  assumes "keeps_account f"
  shows "obeys (sync_step.rel ws)
    (bindM (find_accounts ws provider i) (\<lambda>existing. save_account ws provider i name f existing))"
proof (rule obeysI)
  fix w r w'
  assume "bindM (find_accounts ws provider i) (\<lambda>existing. save_account ws provider i name f existing) w = (r, w')"
  then show "sync_step.rel ws w w'"
  proof (elim bindM_read_onlyE [OF _ find_accounts_read_only])
    fix existing
    assume "find_accounts ws provider i w = (Inr existing, w)" "save_account ws provider i name f existing w = (r, w')"
    with assms show ?thesis by (intro save_after_find) auto
  qed (simp add: sync_rel_refl)
qed

definition db_same :: "'z world_scheme \<Rightarrow> 'z world_scheme \<Rightarrow> bool" where
  "db_same w w' \<longleftrightarrow> db w' = db w"

interpretation db_same: step_preorder db_same
  by unfold_locales (auto simp: db_same_def)

lemma db_same_encrypt: "obeys db_same (encrypt_token sv t)"
  by (rule obeysI) (simp add: db_same_def encrypt_token_db)

lemma db_same_sync: "obeys db_same m \<Longrightarrow> obeys (sync_step.rel ws) m"
  by (erule obeys_mono) (simp add: db_same_def sync_rel_refl)

lemma read_only_answer:
  "read_only (as_dict j)" "read_only (as_list j)" "read_only (dict_item d k)" "read_only (text_of j)"
  "read_only (column_text j)" "read_only (payload_uuid j)"
  unfolding as_dict_def as_list_def dict_item_def text_of_def column_text_def payload_uuid_def read_only_def
  by (cases j; simp add: ro.obeys_return ro.obeys_raise ro.obeys_read split: option.split;
      intro ro.obeys_case_option ro.obeys_return ro.obeys_raise)+

lemmas sync_answer = read_only_answer [THEN sync_step.read_only_obeys]

lemma bridge_token_obeys:
  assumes "read_only name"
  shows "obeys (sync_step.rel ws) (bridge_token sv ws provider i name t)"
proof (rule obeysI)
  fix w r w'
  assume "bridge_token sv ws provider i name t w = (r, w')"
  then show "sync_step.rel ws w w'"
    unfolding bridge_token_def
  proof (elim bindM_read_onlyE [OF _ find_accounts_read_only])
    fix existing
    assume found: "find_accounts ws provider i w = (Inr existing, w)"
    assume run: "bindM (encrypt_json sv t) (\<lambda>encrypted_token. bindM name (\<lambda>name.
        save_account ws provider i name (\<lambda>a. a\<lparr>sa_access_token := encrypted_token\<rparr>) existing)) w = (r, w')"
    obtain x w1 where enc: "encrypt_json sv t w = (x, w1)" by fastforce
    then have d: "db w1 = db w" by (auto simp: encrypt_json_def split: json.splits dest: encrypt_token_db)
    show ?thesis
    proof (cases x)
      case (Inl e)
      with run enc d show ?thesis by (simp add: bindM_def sync_rel_refl)
    next
      case (Inr tok)
      with run enc have "bindM name (\<lambda>name.
        save_account ws provider i name (\<lambda>a. a\<lparr>sa_access_token := tok\<rparr>) existing) w1 = (r, w')"
        by (simp add: bindM_def)
      then show ?thesis
      proof (elim bindM_read_onlyE [OF _ assms])
        fix n assume "save_account ws provider i n (\<lambda>a. a\<lparr>sa_access_token := tok\<rparr>) existing w1 = (r, w')"
        with found d show ?thesis
          by (intro save_after_find) (auto simp: keeps_account_def account_key_def)
      qed (simp add: d sync_rel_refl)
    qed
  qed (simp add: sync_rel_refl)
qed

lemma reencrypt_obeys: "obeys db_same (reencrypt_tokens sv c)"
  unfolding reencrypt_tokens_def
  by (intro db_same.obeys_bind db_same.obeys_if db_same.obeys_return db_same_encrypt)

lemma reencrypt_keeps: "reencrypt_tokens sv c w = (Inr f, w') \<Longrightarrow> keeps_account f"
  unfolding reencrypt_tokens_def
  by (elim bindM_InrE returnM_InrE) (auto simp: keeps_account_def account_key_def)

context step_preorder
begin

lemma obeys_bind_result:
  assumes "obeys R m" and "\<And>x s t. m s = (Inr x, t) \<Longrightarrow> obeys R (f x)"
  shows "obeys R (bindM m f)"
proof (rule obeysI)
  fix s r t
  assume "bindM m f s = (r, t)"
  then show "R s t"
  proof (elim bindM_runE)
    fix x u assume m: "m s = (Inr x, u)" and f: "f x u = (r, t)"
    show "R s t" by (rule step_trans [OF obeysD [OF assms(1) m] obeysD [OF assms(2) [OF m] f]])
  qed (blast intro: obeysD [OF assms(1)])
qed

end

lemmas bridge_intros =
  sync_step.obeys_bind sync_step.obeys_if sync_step.obeys_return sync_step.obeys_forM sync_step.obeys_let
  sync_answer db_same_encrypt [THEN db_same_sync]

lemma keeps_token: "keeps_account (\<lambda>a. a\<lparr>sa_access_token := t\<rparr>)"
  by (simp add: keeps_account_def account_key_def)

lemma facebook_obeys: "obeys (sync_step.rel ws) (sync_facebook_page sv ws j)"
  unfolding sync_facebook_page_def by (intro bridge_intros bridge_token_obeys read_only_answer)

lemma instagram_obeys: "obeys (sync_step.rel ws) (sync_instagram_account sv ws j)"
  unfolding sync_instagram_account_def
  by (intro bridge_intros bridge_token_obeys) (simp add: read_only_def ro.obeys_return)

lemma linkedin_obeys: "obeys (sync_step.rel ws) (sync_linkedin_profile sv ws c j)"
  unfolding sync_linkedin_profile_def Let_def by (intro bridge_intros find_save_obeys keeps_token)

lemma twitter_obeys: "obeys (sync_step.rel ws) (sync_twitter_profile sv ws c j)"
  unfolding sync_twitter_profile_def Let_def
  by (intro sync_step.obeys_bind [OF sync_answer(1)] sync_step.obeys_bind [OF sync_answer(4)] sync_step.obeys_if
      sync_step.obeys_return sync_step.obeys_bind_result [OF db_same_sync [OF reencrypt_obeys]] find_save_obeys)
    (rule reencrypt_keeps)

lemma google_location_obeys: "keeps_account f \<Longrightarrow> obeys (sync_step.rel ws) (sync_google_location ws f d j)"
  unfolding sync_google_location_def Let_def by (intro bridge_intros find_save_obeys)

lemma google_obeys: "obeys (sync_step.rel ws) (sync_google_accounts sv ws c j)"
  unfolding sync_google_accounts_def
  by (intro sync_step.obeys_if sync_step.obeys_return sync_step.obeys_bind_result [OF db_same_sync [OF reencrypt_obeys]]
      sync_step.obeys_bind sync_step.obeys_forM sync_answer google_location_obeys) (rule reencrypt_keeps)

lemma bridge_obeys: "obeys (sync_step.rel ws) (bridge sv ws c p res)"
  unfolding bridge_def Let_def
  by (intro bridge_intros facebook_obeys instagram_obeys linkedin_obeys twitter_obeys google_obeys)

text \<open>What follows once the workspace is known.\<close>

definition sync_work :: "'z services \<Rightarrow> json_object \<Rightarrow> uuid \<Rightarrow> ('z, json_object) iio" where
  "sync_work sv payload ws =
     bindM (dict_item payload ''provider'') (\<lambda>provider.
     bindM (column_text provider) (\<lambda>provider.
     bindM (case provider of None \<Rightarrow> returnM None | Some p \<Rightarrow> get_by_workspace_and_provider ws p) (\<lambda>found.
     case found of
       None \<Rightarrow> raiseM (PyException ''Connection lost before sync could execute.'')
     | Some connection \<Rightarrow>
         bindM (get_connector_instance sv connection) (\<lambda>connector.
         bindM (catchM (cn_sync connector (dict_get_or payload ''sync_type'' (JStr ''full'')))
                  (\<lambda>e. case e of
                     OAuthTokenError m \<Rightarrow>
                       thenM (update IntegrationConnection_model (ic_id connection)
                                (\<lambda>c. c\<lparr>ic_status := ConnectionStatus_EXPIRED\<rparr>)) (raiseM e)
                   | _ \<Rightarrow> raiseM e)) (\<lambda>sync_result.
         thenM (bridge sv ws connection (the provider) sync_result)
           (returnM sync_result))))))"

lemma execute_sync_job_split:
  "execute_sync_job sv payload =
     bindM (dict_item payload ''workspace_id'') (\<lambda>ws. bindM (payload_uuid ws) (sync_work sv payload))"
  unfolding execute_sync_job_def sync_work_def by (rule refl)

lemma get_connection_read_only: "read_only (get_by_workspace_and_provider ws p)"
  unfolding get_by_workspace_and_provider_def read_only_def
  by (intro ro.obeys_bind ro.obeys_return) (simp add: obeys_def)

lemma get_instance_remote:
  assumes "remote_only sv" and "get_connector_instance sv c w = (Inr k, w')"
  shows "obeys remote_rel (cn_sync k t)"
  using create_connector_remote [OF assms(1)] assms(2)
  by (auto simp: get_connector_instance_def Let_def remote_connector_def)

lemma get_instance_read_only: "read_only (get_connector_instance sv c)"
  unfolding get_connector_instance_def Let_def by (rule create_connector_read_only)

text \<open>The shape of the work, for any relation that its parts are steps of: the calls of the connector, the statement that
  marks a connection expired, and the bridge.\<close>

locale sync_contract = step_preorder R
  for R :: "'z integration_world_scheme \<Rightarrow> 'z integration_world_scheme \<Rightarrow> bool" +
  fixes ws :: uuid
  assumes remote_call: "remote_rel w w' \<Longrightarrow> R w w'"
    and connection_update: "obeys R (update IntegrationConnection_model i f)"
    and bridging: "obeys R (bridge sv ws c p res)"
begin

lemma expired_handler:
  "obeys R (case e of OAuthTokenError m \<Rightarrow> thenM (update IntegrationConnection_model i f) (raiseM e) | _ \<Rightarrow> raiseM e)"
  by (cases e) (simp_all add: obeys_raise obeys_then connection_update)

lemma sync_work_steps:
  assumes "remote_only sv"
  shows "obeys R (sync_work sv payload ws)"
proof -
  have dial: "obeys R (cn_sync k t)" if "get_connector_instance sv c w = (Inr k, w')" for k t c w w'
    by (rule obeys_mono [OF get_instance_remote [OF assms that] remote_call])
  show ?thesis
    unfolding sync_work_def
    by (intro obeys_bind [OF read_only_answer(3) [THEN read_only_obeys]]
        obeys_bind [OF read_only_answer(5) [THEN read_only_obeys]] obeys_bind obeys_case_option obeys_return
        get_connection_read_only [THEN read_only_obeys] obeys_raise
        obeys_bind_result [OF get_instance_read_only [THEN read_only_obeys]] obeys_catch dial expired_handler
        obeys_then bridging)
qed

end

interpretation sync_unique: sync_contract "sync_step.rel ws" ws for ws
proof unfold_locales
  show "sync_step.rel ws w w'" if "remote_rel w w'" for w w' :: "'z integration_world_scheme"
    using that by (simp add: remote_rel_def sync_rel_refl)
qed (auto intro: sync_step.frame_upd bridge_obeys)

text \<open>C25 (invariant). A sync never duplicates an account: whatever the provider answers, and however the sync ends, after it
  every live account is still the only one of its workspace, provider and account id, no account was
  dropped, and the accounts of other workspaces are untouched.\<close>

theorem sync_keeps_accounts_unique:
  assumes "remote_only sv" and "accounts_unique (social_accounts (db w))"
    and "dict_get payload ''workspace_id'' = JStr s" and "uuid_of_str s = Some ws"
    and "execute_sync_job sv payload w = (r, w')"
  shows "accounts_unique (social_accounts (db w')) \<and>
    sa_id ` set (social_accounts (db w)) \<subseteq> sa_id ` set (social_accounts (db w')) \<and>
    filter (\<lambda>a. sa_workspace_id a \<noteq> ws) (social_accounts (db w')) =
    filter (\<lambda>a. sa_workspace_id a \<noteq> ws) (social_accounts (db w))"
proof -
  have "dict_item payload ''workspace_id'' w = (Inr (JStr s), w)"
    using assms(3) by (auto simp: dict_get_def dict_item_def split: option.splits)
  with assms(4,5) have "sync_work sv payload ws w = (r, w')"
    by (simp add: execute_sync_job_split bindM_def payload_uuid_def)
  with obeysD [OF sync_unique.sync_work_steps [OF assms(1)]] assms(2) show ?thesis by (auto simp: sync_rel_def)
qed

text \<open>A Facebook page that is bridged twice.\<close>

definition fx_pages :: "'z connector" where
  "fx_pages = (mock_connector None)\<lparr>cn_sync := \<lambda>t. returnM
     [(''pages'', JList [JObj [(''id'', JStr ''p1''), (''name'', JStr ''Page''), (''access_token'', JStr ''tok'')]])]\<rparr>"

definition fx_facebook :: "unit services" where
  "fx_facebook = fx_services\<lparr>sv_provider := \<lambda>p cred tok. fx_pages\<rparr>"

lemma fx_facebook_remote: "remote_only fx_facebook"
  by (simp add: remote_only_def fx_facebook_def fx_pages_def remote_connector_def mock_connector_def obeys_def
    remote_rel_def)

theorem sync_keeps_accounts_unique_witness:
  "\<exists>w' :: integration_world. map sa_account_id (social_accounts (db w')) = [''p1''] \<and>
     accounts_unique (social_accounts (db w'))"
proof -
  let ?w = "fx_integration (fx_database\<lparr>integration_connections := [fx_connection 7 ''facebook'']\<rparr>)"
  let ?p = "[(''workspace_id'', JStr ''00000000-0000-0000-0000-000000000014''), (''provider'', JStr ''facebook'')]"
  have ids: "map sa_account_id (social_accounts (db (snd (execute_sync_job fx_facebook ?p ?w)))) = [''p1'']"
    by code_simp
  obtain r w' where run: "execute_sync_job fx_facebook ?p ?w = (r, w')" by fastforce
  have u: "accounts_unique (social_accounts (db ?w))"
    by (simp add: accounts_unique_def fx_database_def empty_database_def)
  have p: "dict_get ?p ''workspace_id'' = JStr ''00000000-0000-0000-0000-000000000014''"
    by code_simp
  have i: "uuid_of_str ''00000000-0000-0000-0000-000000000014'' = Some 20" by code_simp
  have "map sa_account_id (social_accounts (db w')) = [''p1'']" using ids unfolding run snd_conv .
  moreover note conjunct1 [OF sync_keeps_accounts_unique [OF fx_facebook_remote u p i run]]
  ultimately show ?thesis by (intro exI [of _ w'] conjI)
qed

section \<open>The task saves nothing\<close>

lemmas vault_answer = read_only_answer [THEN vault.read_only_obeys]
  find_accounts_read_only [THEN vault.read_only_obeys]

lemma save_account_vault: "obeys vault.same (save_account ws provider i name f existing)"
  unfolding save_account_def by (intro vault.same_intros vault_answer)

lemma encrypt_json_vault: "obeys vault.same (encrypt_json sv t)"
  unfolding encrypt_json_def by (cases t) (simp_all add: vault_encrypt vault.obeys_raise)

lemma reencrypt_vault: "obeys vault.same (reencrypt_tokens sv c)"
  unfolding reencrypt_tokens_def by (intro vault.same_intros vault_encrypt)

lemma bridge_token_vault: "read_only name \<Longrightarrow> obeys vault.same (bridge_token sv ws provider i name t)"
  unfolding bridge_token_def
  by (intro vault.obeys_bind vault_answer encrypt_json_vault save_account_vault vault.read_only_obeys)

lemma bridge_vault: "obeys vault.same (bridge sv ws c p res)"
proof -
  have "read_only (returnM x)" for x by (simp add: read_only_def ro.obeys_return)
  note steps = this vault_answer encrypt_json_vault reencrypt_vault bridge_token_vault vault_encrypt save_account_vault
    read_only_answer vault.obeys_bind vault.obeys_if vault.obeys_return vault.obeys_forM
  show ?thesis
    unfolding bridge_def sync_facebook_page_def sync_instagram_account_def sync_linkedin_profile_def
      sync_twitter_profile_def sync_google_accounts_def sync_google_location_def Let_def
    by (intro steps)
qed

interpretation sync_vault: sync_contract vault.same ws for ws
  by unfold_locales (simp_all add: remote_vault vault.same_update bridge_vault)

lemma execute_sync_vault:
  assumes "remote_only sv"
  shows "obeys vault.same (execute_sync_job sv payload)"
  unfolding execute_sync_job_split
  by (intro vault.obeys_bind vault_answer sync_vault.sync_work_steps [OF assms])

interpretation bridged: table_step "\<lambda>d. (social_accounts d, integration_connections d)" "(=)"
  by unfold_locales auto

text \<open>The rows that a sync is about, in the session and as committed.\<close>

definition sync_rows :: "SocialAccount list \<Rightarrow> IntegrationConnection list \<Rightarrow> 'z world_scheme \<Rightarrow> bool" where
  "sync_rows as cs w \<longleftrightarrow>
     social_accounts (db w) = as \<and> integration_connections (db w) = cs \<and>
     social_accounts (committed w) = as \<and> integration_connections (committed w) = cs"

lemma keeps_rows:
  assumes "obeys bridged.rel m" and "obeys uncommitted.same m"
  shows "obeys (keeps (sync_rows as cs)) m"
proof (rule obeysI)
  fix w r w' assume "m w = (r, w')"
  with assms have "bridged.rel w w'" "uncommitted.same w w'" by (auto dest: obeysD)
  then show "keeps (sync_rows as cs) w w'" by (auto simp: keeps_def sync_rows_def uncommitted.same_def)
qed

lemma keeps_rows_commit: "obeys (keeps (sync_rows as cs)) commit"
  by (simp add: obeys_def keeps_def sync_rows_def)

lemma keeps_rows_session:
  assumes "obeys vault.same m \<or> obeys (keeps (sync_rows as cs)) m"
  shows "obeys (keeps (sync_rows as cs)) (with_session m)"
proof (rule obeysI)
  fix w r w' assume run: "with_session m w = (r, w')"
  obtain x w1 where m: "m w = (x, w1)" by fastforce
  with assms have "vault.same w w1 \<or> keeps (sync_rows as cs) w w1" by (auto dest: obeysD)
  with run m show "keeps (sync_rows as cs) w w'"
    by (auto simp: with_session_def keeps_def sync_rows_def vault.same_def)
qed

lemma job_marks_keep_rows:
  "obeys (keeps (sync_rows as cs)) (mark_started i)"
  "obeys (keeps (sync_rows as cs)) (mark_completed i res)"
  "obeys (keeps (sync_rows as cs)) (mark_failed i msg)"
  unfolding mark_started_def repo_mark_started_def mark_completed_def repo_mark_completed_def mark_failed_def
    repo_mark_failed_def Let_def
  by (intro keeps_rows bridged.obeys_bind bridged.obeys_then bridged.obeys_case_option bridged.obeys_return
      bridged.obeys_raise_if bridged.obeys_if bridged.obeys_clock bridged.frame_update_where bridged.frame_get_by_id
      uncommitted.same_intros; simp)+

lemma execute_job_keeps_rows:
  assumes "obeys vault.same task"
  shows "obeys (keeps (sync_rows as cs)) (execute_job i task)"
proof -
  have run: "obeys (keeps (sync_rows as cs)) (with_session task)" using assms by (simp add: keeps_rows_session)
  have body: "obeys (keeps (sync_rows as cs)) (bindM (mark_started k) (\<lambda>job.
      if job = None then with_session task
      else thenM commit (catchM
         (bindM (with_session task) (\<lambda>result.
          thenM (mark_completed k (Some [(''result'', JStr ''success''), (''data'', result)]))
            (thenM commit (returnM result))))
         (\<lambda>e. bindM (readM exn_text) (\<lambda>text. thenM (mark_failed k (text e)) (
            thenM commit (raiseM (JobExecutionError (''Task failed: '' @ text e)))))))))" for k
    by (intro keeping.inv.obeys_bind keeping.inv.obeys_if keeping.inv.obeys_then keeping.inv.obeys_catch
        keeping.inv.obeys_read keeping.inv.obeys_return keeping.inv.obeys_raise job_marks_keep_rows
        keeps_rows_commit run)
  show ?thesis
    unfolding execute_job_def using run body
    by (auto simp: keeps_rows_session split: option.split)
qed

text \<open>The Celery task that runs a sync saves nothing of it: its session is never committed, so the accounts and
  the connections are afterwards what they were, whether the job is recorded as COMPLETED or not, and an
  expired token is not recorded either.\<close>

lemma sync_task_saves_nothing:
  assumes "remote_only sv" and "db w = committed w"
    and "integration_sync_task sv payload w = (r, w')"
  shows "social_accounts (committed w') = social_accounts (committed w) \<and>
    integration_connections (committed w') = integration_connections (committed w)"
proof -
  let ?task = "bindM (execute_sync_job sv payload) (\<lambda>r. returnM (JObj r))"
  have "obeys vault.same ?task"
    by (intro vault.obeys_bind execute_sync_vault [OF assms(1)] vault.obeys_return)
  note job = execute_job_keeps_rows [OF this]
  have "obeys (keeps (sync_rows as cs)) (integration_sync_task sv payload)" for as cs
    unfolding integration_sync_task_def
    by (cases "dict_get payload ''job_execution_id''") (simp_all add: job keeping.inv.obeys_raise)
  from obeysD [OF this assms(3)] assms(2) show ?thesis by (auto simp: keeps_def sync_rows_def)
qed

theorem sync_task_saves_nothing_witness:
  "\<exists>w' :: integration_world. social_accounts (committed w') = [] \<and>
     map ic_id (integration_connections (committed w')) = [7]"
proof -
  let ?w = "fx_integration (fx_database\<lparr>integration_connections := [fx_connection 7 ''mock'']\<rparr>)"
  obtain r w' where run: "integration_sync_task fx_services
      [(''workspace_id'', JStr ''00000000-0000-0000-0000-000000000014''), (''provider'', JStr ''mock'')] ?w = (r, w')"
    by fastforce
  have "db ?w = committed ?w" by simp
  from sync_task_saves_nothing [OF fx_remote this run] show ?thesis
    by (intro exI [of _ w']) (simp add: fx_database_def empty_database_def fx_connection_def)
qed

end
