(* ===== verification/Http.thy ===== *)
theory Http
  imports Sync_Engine
begin

text \<open>
  HTTP as the provider code uses it (\<open>httpx\<close>), the Python readers it applies to the answers, and the pydantic
  fields it validates them with. The network is a parameter of the world: what it answers to a request is a
  function of the requests sent before (\<open>wire\<close>), so nothing is assumed of a provider. The world records every
  request that was sent (\<open>http_log\<close>), which is what the properties on publications speak of. A download gives its
  whole body or fails. Numbers in JSON are integers.
\<close>

section \<open>Requests, responses and the wire\<close>

datatype http_body =
    NoBody
  | FormBody "(string \<times> string) list"
  | JsonBody json
  | RawBody string
  | MultipartBody "(string \<times> string) list" string string

record http_request =
  rq_method :: string
  rq_url :: string
  rq_headers :: "(string \<times> string) list"
  rq_params :: "(string \<times> string) list"
  rq_body :: http_body

text \<open>Header names are lower case, as \<open>httpx\<close> looks them up; \<open>rs_json\<close> is \<open>None\<close> when the body is not JSON.\<close>

record http_response =
  rs_status :: nat
  rs_text :: string
  rs_headers :: "(string \<times> string) list"
  rs_json :: "json option"
  rs_content :: string

type_synonym network = "http_request list \<Rightarrow> http_request \<Rightarrow> exn + http_response"

record net_world = integration_world +
  wire :: network
  http_log :: "http_request list"
  environ :: "string \<Rightarrow> string option"
  patience :: nat

text \<open>A request that polls a provider is cancelled after \<open>patience\<close> rounds. \<open>asyncio.CancelledError\<close> is not an
  \<open>Exception\<close>, so \<open>except Exception\<close> lets it pass.\<close>

definition cancelled :: exn where
  "cancelled = PyException ''CancelledError''"

definition catch_exception :: "('s, 'a) action \<Rightarrow> (exn \<Rightarrow> ('s, 'a) action) \<Rightarrow> ('s, 'a) action" where
  "catch_exception m h = catchM m (\<lambda>e. if e = cancelled then raiseM e else h e)"

type_synonym ('z, 'a) nio = "('z net_world_scheme, 'a) action"

definition send_request :: "http_request \<Rightarrow> ('z, http_response) nio" where
  "send_request rq w = (wire w (http_log w) rq, w\<lparr>http_log := http_log w @ [rq]\<rparr>)"

definition http_get :: "string \<Rightarrow> (string \<times> string) list \<Rightarrow> (string \<times> string) list \<Rightarrow> ('z, http_response) nio" where
  "http_get url headers params =
     send_request \<lparr>rq_method = ''GET'', rq_url = url, rq_headers = headers, rq_params = params, rq_body = NoBody\<rparr>"

definition http_post :: "string \<Rightarrow> (string \<times> string) list \<Rightarrow> http_body \<Rightarrow> ('z, http_response) nio" where
  "http_post url headers body =
     send_request \<lparr>rq_method = ''POST'', rq_url = url, rq_headers = headers, rq_params = [], rq_body = body\<rparr>"

definition http_put :: "string \<Rightarrow> (string \<times> string) list \<Rightarrow> http_body \<Rightarrow> ('z, http_response) nio" where
  "http_put url headers body =
     send_request \<lparr>rq_method = ''PUT'', rq_url = url, rq_headers = headers, rq_params = [], rq_body = body\<rparr>"

text \<open>\<open>os.getenv(name, default)\<close>\<close>

definition getenv :: "string \<Rightarrow> string \<Rightarrow> ('z, string) nio" where
  "getenv name fallback = readM (\<lambda>w. case environ w name of None \<Rightarrow> fallback | Some v \<Rightarrow> v)"

section \<open>Numbers and bytes as text\<close>

fun decimal :: "nat \<Rightarrow> string" where
  "decimal n = (if n < 10 then [char_of (48 + n)] else decimal (n div 10) @ [char_of (48 + n mod 10)])"

declare decimal.simps [simp del]

text \<open>\<open>int(s)\<close>: blanks around, a sign, digits, single underscores between digits.\<close>

fun int_digits :: "bool \<Rightarrow> int \<Rightarrow> string \<Rightarrow> int option" where
  "int_digits after_digit acc [] = (if after_digit then Some acc else None)"
| "int_digits after_digit acc (c # cs) =
     (let n = (of_char c :: nat) in
      if 48 \<le> n \<and> n \<le> 57 then int_digits True (acc * 10 + int (n - 48)) cs
      else if n = 95 \<and> after_digit then int_digits False acc cs
      else None)"

definition py_int :: "string \<Rightarrow> int option" where
  "py_int s =
     (case py_strip s of
        [] \<Rightarrow> None
      | c # cs \<Rightarrow>
          if c = CHR ''-'' then map_option uminus (int_digits False 0 cs)
          else if c = CHR ''+'' then int_digits False 0 cs
          else int_digits False 0 (c # cs))"

text \<open>\<open>s.encode()\<close> and \<open>base64.b64encode\<close>\<close>

definition utf8 :: "string \<Rightarrow> nat list" where
  "utf8 s = concat (map (\<lambda>c. let n = (of_char c :: nat) in
                             if n < 128 then [n] else [192 + n div 64, 128 + n mod 64]) s)"

definition base64_digit :: "nat \<Rightarrow> char" where
  "base64_digit n =
     (if n < 26 then char_of (65 + n) else if n < 52 then char_of (71 + n) else if n < 62 then char_of (n - 4)
      else if n = 62 then CHR ''+'' else CHR ''/'')"

fun base64 :: "nat list \<Rightarrow> string" where
  "base64 [] = []"
| "base64 [a] = [base64_digit (a div 4), base64_digit (a mod 4 * 16), CHR ''='', CHR ''='']"
| "base64 [a, b] = [base64_digit (a div 4), base64_digit (a mod 4 * 16 + b div 16), base64_digit (b mod 16 * 4), CHR ''='']"
| "base64 (a # b # c # rest) =
     base64_digit (a div 4) # base64_digit (a mod 4 * 16 + b div 16) # base64_digit (b mod 16 * 4 + c div 64)
     # base64_digit (c mod 64) # base64 rest"

text \<open>\<open>s.startswith(p)\<close> and \<open>s.split(sep)[-1]\<close>\<close>

definition starts_with :: "string \<Rightarrow> string \<Rightarrow> bool" where
  "starts_with p s \<longleftrightarrow> take (length p) s = p"

definition last_segment :: "char \<Rightarrow> string \<Rightarrow> string" where
  "last_segment sep s = rev (takeWhile (\<lambda>c. c \<noteq> sep) (rev s))"

section \<open>Reading an answer\<close>

definition response_json :: "http_response \<Rightarrow> ('z, json) io" where
  "response_json r = (case rs_json r of None \<Rightarrow> raiseM (ValueError ''Expecting value'') | Some j \<Rightarrow> returnM j)"

definition response_header :: "http_response \<Rightarrow> string \<Rightarrow> string option" where
  "response_header r k = map_of (rs_headers r) k"

text \<open>\<open>response.raise_for_status()\<close>\<close>

definition raise_for_status :: "http_response \<Rightarrow> ('z, unit) io" where
  "raise_for_status r = raise_if (\<not> (200 \<le> rs_status r \<and> rs_status r < 300)) (PyException ''HTTPStatusError'')"

text \<open>\<open>j.get(k, d)\<close>, \<open>j[k]\<close> and \<open>j[k] = v\<close>\<close>

definition get_key :: "json \<Rightarrow> string \<Rightarrow> json \<Rightarrow> ('z, json) io" where
  "get_key j k d = bindM (as_dict j) (\<lambda>kvs. returnM (dict_get_or kvs k d))"

definition json_item :: "json \<Rightarrow> string \<Rightarrow> ('z, json) io" where
  "json_item j k = (case j of JObj kvs \<Rightarrow> dict_item kvs k | _ \<Rightarrow> raiseM (TypeError ''indices must be integers''))"

definition dict_set :: "json_object \<Rightarrow> string \<Rightarrow> json \<Rightarrow> json_object" where
  "dict_set kvs k v = (if map_of kvs k = None then kvs @ [(k, v)] else map (\<lambda>(a, b). if a = k then (a, v) else (a, b)) kvs)"

text \<open>\<open>except ValueError\<close>; the errors of \<open>json\<close> and of pydantic are among them.\<close>

definition catch_value_error :: "('s, 'a) action \<Rightarrow> ('s, 'a) action \<Rightarrow> ('s, 'a) action" where
  "catch_value_error m h = catchM m (\<lambda>e. case e of ValueError t \<Rightarrow> h | _ \<Rightarrow> raiseM e)"

section \<open>Pydantic fields\<close>

definition pyd_str :: "json \<Rightarrow> string option" where
  "pyd_str j = (case j of JStr s \<Rightarrow> Some s | _ \<Rightarrow> None)"

definition pyd_int :: "json \<Rightarrow> int option" where
  "pyd_int j =
     (case j of JInt i \<Rightarrow> Some i | JBool b \<Rightarrow> Some (if b then 1 else 0) | JStr s \<Rightarrow> py_int s | _ \<Rightarrow> None)"

definition pyd_bool :: "json \<Rightarrow> bool option" where
  "pyd_bool j =
     (case j of
        JBool b \<Rightarrow> Some b
      | JInt i \<Rightarrow> if i = 0 then Some False else if i = 1 then Some True else None
      | JStr s \<Rightarrow> (let t = py_lower s in
                 if List.member [''0'', ''off'', ''f'', ''false'', ''n'', ''no''] t then Some False
                 else if List.member [''1'', ''on'', ''t'', ''true'', ''y'', ''yes''] t then Some True else None)
      | _ \<Rightarrow> None)"

definition pyd_dict :: "json \<Rightarrow> json_object option" where
  "pyd_dict j = (case j of JObj kvs \<Rightarrow> Some kvs | _ \<Rightarrow> None)"

definition pyd_list :: "(json \<Rightarrow> 'a option) \<Rightarrow> json \<Rightarrow> 'a list option" where
  "pyd_list p j =
     (case j of JList xs \<Rightarrow> if list_all (\<lambda>x. p x \<noteq> None) xs then Some (map (\<lambda>x. the (p x)) xs) else None | _ \<Rightarrow> None)"

text \<open>A field that is required, one that may be \<open>None\<close> or missing, and one with a default.\<close>

definition validated :: "'a option \<Rightarrow> ('z, 'a) io" where
  "validated x = (case x of None \<Rightarrow> raiseM (ValueError ''validation error'') | Some y \<Rightarrow> returnM y)"

definition field :: "json_object \<Rightarrow> string \<Rightarrow> (json \<Rightarrow> 'a option) \<Rightarrow> ('z, 'a) io" where
  "field kvs k p = validated (case map_of kvs k of None \<Rightarrow> None | Some v \<Rightarrow> p v)"

definition optional_field :: "json_object \<Rightarrow> string \<Rightarrow> (json \<Rightarrow> 'a option) \<Rightarrow> ('z, 'a option) io" where
  "optional_field kvs k p =
     (case dict_get kvs k of JNull \<Rightarrow> returnM None | v \<Rightarrow> bindM (validated (p v)) (\<lambda>x. returnM (Some x)))"

definition default_field :: "json_object \<Rightarrow> string \<Rightarrow> (json \<Rightarrow> 'a option) \<Rightarrow> 'a \<Rightarrow> ('z, 'a) io" where
  "default_field kvs k p d = (case map_of kvs k of None \<Rightarrow> returnM d | Some v \<Rightarrow> validated (p v))"

text \<open>\<open>Schema(**data)\<close> needs a dictionary.\<close>

definition keyword_arguments :: "json \<Rightarrow> ('z, json_object) io" where
  "keyword_arguments j =
     (case j of JObj kvs \<Rightarrow> returnM kvs | _ \<Rightarrow> raiseM (TypeError ''argument after ** must be a mapping''))"

fun json_opt :: "string option \<Rightarrow> json" where
  "json_opt None = JNull"
| "json_opt (Some s) = JStr s"

section \<open>What the provider code cannot touch\<close>

text \<open>Provider code reads the world and appends to the log; the URLs that it asks satisfy \<open>H\<close>.\<close>

definition sends :: "(string \<Rightarrow> bool) \<Rightarrow> 'z net_world_scheme \<Rightarrow> 'z net_world_scheme \<Rightarrow> bool" where
  "sends H w w' \<longleftrightarrow>
     remote_rel w w' \<and> wire w' = wire w \<and> environ w' = environ w \<and>
     (\<exists>sent. http_log w' = http_log w @ sent \<and> (\<forall>q \<in> set sent. H (rq_url q)))"

abbreviation net_rel :: "'z net_world_scheme \<Rightarrow> 'z net_world_scheme \<Rightarrow> bool" where
  "net_rel \<equiv> sends (\<lambda>_. True)"

interpretation net: step_preorder "sends H" for H
proof
  show "sends H w w" for w :: "'a net_world_scheme" by (simp add: sends_def remote_rel_def)
  show "sends H u w" if "sends H u v" "sends H v w" for u v w :: "'a net_world_scheme"
  proof -
    from that(1) obtain s where s: "http_log v = http_log u @ s" "\<forall>q \<in> set s. H (rq_url q)"
      by (auto simp: sends_def)
    from that(2) obtain t where t: "http_log w = http_log v @ t" "\<forall>q \<in> set t. H (rq_url q)"
      by (auto simp: sends_def)
    have "http_log w = http_log u @ (s @ t)" "\<forall>q \<in> set (s @ t). H (rq_url q)" using s t by auto
    then have "\<exists>sent. http_log w = http_log u @ sent \<and> (\<forall>q \<in> set sent. H (rq_url q))" by blast
    with that show ?thesis by (auto simp: sends_def remote_rel_def)
  qed
qed

lemma sends_mono: "obeys (sends H) m \<Longrightarrow> (\<And>u. H u \<Longrightarrow> K u) \<Longrightarrow> obeys (sends K) m"
  by (erule obeys_mono) (auto simp: sends_def)

lemma sends_net: "obeys (sends H) m \<Longrightarrow> obeys net_rel m"
  by (erule sends_mono) simp

lemma net_remote: "obeys (sends H) m \<Longrightarrow> obeys remote_rel m"
  by (erule obeys_mono) (simp add: sends_def)

lemma net_send_request [preserves_intros]: "H (rq_url rq) \<Longrightarrow> obeys (sends H) (send_request rq)"
  by (simp add: obeys_def send_request_def sends_def remote_rel_def)

lemma net_verbs [preserves_intros]:
  "H url \<Longrightarrow> obeys (sends H) (http_get url headers params)"
  "H url \<Longrightarrow> obeys (sends H) (http_post url headers body)"
  "H url \<Longrightarrow> obeys (sends H) (http_put url headers body)"
  by (simp_all add: http_get_def http_post_def http_put_def net_send_request)

lemma net_sources [preserves_intros]:
  "obeys (sends H) get_utc_now"
  "obeys (sends H) uuid4"
  "obeys (sends H) next_nonce"
  by (simp_all add: obeys_def sends_def remote_rel_def next_nonce_def)

lemma net_getenv [preserves_intros]: "obeys (sends H) (getenv name d)"
  unfolding getenv_def by (rule net.obeys_read)

lemma net_catch_value_error [preserves_intros]:
  "obeys (sends H) m \<Longrightarrow> obeys (sends H) h \<Longrightarrow> obeys (sends H) (catch_value_error m h)"
  unfolding catch_value_error_def
  by (rule net.obeys_catch) (auto split: exn.splits intro: net.obeys_raise)

text \<open>The readers of an answer do not touch anything at all.\<close>

lemma read_only_readers:
  "read_only (response_json r)" "read_only (raise_for_status r)" "read_only (as_dict j)" "read_only (as_list j)"
  "read_only (dict_item d k)" "read_only (json_item j k)" "read_only (validated x)" "read_only (keyword_arguments j)"
  "read_only (text_of j)"
  by (auto simp: read_only_def obeys_def response_json_def raise_for_status_def as_dict_def as_list_def dict_item_def
      json_item_def validated_def keyword_arguments_def text_of_def split: option.splits json.splits)

lemma read_only_get_key: "read_only (get_key j k d)"
  unfolding get_key_def read_only_def
  by (intro ro.obeys_bind ro.obeys_return read_only_readers(3) [unfolded read_only_def])

lemma read_only_fields:
  "read_only (field kvs k p)" "read_only (default_field kvs k p d)" "read_only (optional_field kvs k p)"
proof -
  note v = read_only_readers(7) [unfolded read_only_def]
  show "read_only (field kvs k p)" unfolding field_def read_only_def by (rule v)
  show "read_only (default_field kvs k p d)"
    unfolding default_field_def read_only_def by (intro ro.obeys_case_option ro.obeys_return v)
  show "read_only (optional_field kvs k p)"
    unfolding optional_field_def read_only_def
    by (cases "dict_get kvs k") (simp_all add: ro.obeys_return ro.obeys_bind v)
qed

lemmas net_readers [preserves_intros] =
  read_only_readers [THEN net.read_only_obeys] read_only_get_key [THEN net.read_only_obeys]
  read_only_fields [THEN net.read_only_obeys]

primrec mapM :: "('a \<Rightarrow> ('s, 'b) action) \<Rightarrow> 'a list \<Rightarrow> ('s, 'b list) action" where
  "mapM f [] = returnM []"
| "mapM f (x # xs) = bindM (f x) (\<lambda>y. bindM (mapM f xs) (\<lambda>ys. returnM (y # ys)))"

lemma net_mapM [preserves_intros]: "(\<And>x. obeys (sends H) (f x)) \<Longrightarrow> obeys (sends H) (mapM f xs)"
  by (induction xs) (simp_all add: net.obeys_return net.obeys_bind)

lemmas net_intros =
  net.obeys_bind net.obeys_then net.obeys_return net.obeys_raise net.obeys_raise_if net.obeys_read net.obeys_if
  net.obeys_case_option net.obeys_case_list net.obeys_catch net.obeys_let net_send_request net_verbs net_sources net_getenv
  net_catch_value_error net_readers net_mapM

section \<open>What the provider code yields\<close>

text \<open>
  \<open>yields P m\<close>: as long as the network answers with JSON (which has no UUIDs and no datetimes), every value that \<open>m\<close>
  returns satisfies \<open>P\<close>.
\<close>

definition plain_network :: "network \<Rightarrow> bool" where
  "plain_network n \<longleftrightarrow> (\<forall>log rq r j. n log rq = Inr r \<longrightarrow> rs_json r = Some j \<longrightarrow> serializable j)"

definition plain_response :: "http_response \<Rightarrow> bool" where
  "plain_response r \<longleftrightarrow> (\<forall>j. rs_json r = Some j \<longrightarrow> serializable j)"

definition yields :: "('a \<Rightarrow> bool) \<Rightarrow> ('z, 'a) nio \<Rightarrow> bool" where
  "yields P m \<longleftrightarrow>
     (\<forall>w x w'. plain_network (wire w) \<longrightarrow> m w = (Inr x, w') \<longrightarrow> P x \<and> plain_network (wire w'))"

lemma yieldsI:
  assumes "\<And>w x w'. plain_network (wire w) \<Longrightarrow> m w = (Inr x, w') \<Longrightarrow> P x \<and> plain_network (wire w')"
  shows "yields P m"
  using assms unfolding yields_def by blast

lemma yieldsD: "yields P m \<Longrightarrow> plain_network (wire w) \<Longrightarrow> m w = (Inr x, w') \<Longrightarrow> P x \<and> plain_network (wire w')"
  unfolding yields_def by blast

lemma yields_bind: "yields P m \<Longrightarrow> (\<And>x. P x \<Longrightarrow> yields Q (f x)) \<Longrightarrow> yields Q (bindM m f)"
  unfolding yields_def bindM_eq_Inr by metis

lemma yields_then: "yields (\<lambda>_. True) m \<Longrightarrow> yields Q n \<Longrightarrow> yields Q (thenM m n)"
  unfolding thenM_def by (rule yields_bind)

lemma yields_return: "P x \<Longrightarrow> yields P (returnM x)"
  by (simp add: yields_def)

lemma yields_raise: "yields P (raiseM e)"
  by (simp add: yields_def)

lemma yields_raise_if: "yields (\<lambda>_. True) (raise_if b e)"
  by (simp add: yields_def)

lemma yields_if: "(b \<Longrightarrow> yields P m) \<Longrightarrow> (\<not> b \<Longrightarrow> yields P n) \<Longrightarrow> yields P (if b then m else n)"
  by simp

lemma yields_weaken: "yields P m \<Longrightarrow> (\<And>x. P x \<Longrightarrow> Q x) \<Longrightarrow> yields Q m"
  unfolding yields_def by blast

lemma yields_net: "obeys net_rel m \<Longrightarrow> yields (\<lambda>_. True) m"
  unfolding yields_def by (auto simp: sends_def dest!: obeysD)

lemma yields_catch: "yields P m \<Longrightarrow> obeys net_rel m \<Longrightarrow> (\<And>e. yields P (h e)) \<Longrightarrow> yields P (catchM m h)"
proof (rule yieldsI)
  fix w x w'
  assume m: "yields P m" "obeys net_rel m" and h: "\<And>e. yields P (h e)"
    and plain: "plain_network (wire w)" and run: "catchM m h w = (Inr x, w')"
  obtain r u where u: "m w = (r, u)" by fastforce
  show "P x \<and> plain_network (wire w')"
  proof (cases r)
    case (Inl e)
    from obeysD [OF m(2) u] plain have "plain_network (wire u)" by (simp add: sends_def)
    with h run u Inl show ?thesis by (auto simp: catchM_def dest: yieldsD)
  next
    case (Inr y)
    with m(1) plain run u show ?thesis by (auto simp: catchM_def dest: yieldsD)
  qed
qed

lemma yields_verbs:
  "yields plain_response (http_get url headers params)"
  "yields plain_response (http_post url headers body)"
  by (auto simp: yields_def http_get_def http_post_def send_request_def plain_network_def plain_response_def)

lemma yields_response_json: "plain_response r \<Longrightarrow> yields serializable (response_json r)"
  by (auto simp: yields_def response_json_def plain_response_def split: option.splits)

lemma serializable_value:
  "list_all (\<lambda>(k, v). serializable v) kvs \<Longrightarrow> map_of kvs k = Some v \<Longrightarrow> serializable v"
  by (induction kvs) (auto split: if_splits)

lemma serializable_list: "serializable (JList xs) \<Longrightarrow> x \<in> set xs \<Longrightarrow> serializable x"
  by (simp add: list_all_iff)

lemma yields_get_key: "serializable j \<Longrightarrow> serializable d \<Longrightarrow> yields serializable (get_key j k d)"
  by (cases j) (auto simp: yields_def get_key_def as_dict_def dict_get_or_def dest: serializable_value split: option.splits)

lemma yields_keyword_arguments: "serializable j \<Longrightarrow> yields (\<lambda>kvs. serializable (JObj kvs)) (keyword_arguments j)"
  by (cases j) (simp_all add: yields_def keyword_arguments_def)

lemma yields_as_list: "serializable j \<Longrightarrow> yields (\<lambda>xs. \<forall>x \<in> set xs. serializable x) (as_list j)"
  by (cases j) (auto simp: yields_def as_list_def list_all_iff)

lemma yields_mapM: "(\<And>x. x \<in> set xs \<Longrightarrow> yields P (f x)) \<Longrightarrow> yields (\<lambda>ys. \<forall>y \<in> set ys. P y) (mapM f xs)"
proof (induction xs)
  case Nil
  show ?case unfolding mapM.simps by (rule yields_return) simp
next
  case (Cons x xs)
  have first: "yields P (f x)" and rest: "yields (\<lambda>ys. \<forall>y \<in> set ys. P y) (mapM f xs)"
    using Cons by simp_all
  show ?case unfolding mapM.simps
    by (rule yields_bind [OF first]) (rule yields_bind [OF rest], rule yields_return, simp)
qed

lemma bindM_returnM: "bindM (returnM x) f = f x"
  by (rule ext) simp

text \<open>The same, one rule for each statement that provider code is made of.\<close>

lemma yields_skip: "obeys net_rel m \<Longrightarrow> (\<And>x. yields Q (f x)) \<Longrightarrow> yields Q (bindM m f)"
  by (rule yields_bind [OF yields_net])

lemma y_request:
  "(\<And>r. plain_response r \<Longrightarrow> yields Q (f r)) \<Longrightarrow> yields Q (bindM (http_get url headers params) f)"
  "(\<And>r. plain_response r \<Longrightarrow> yields Q (f r)) \<Longrightarrow> yields Q (bindM (http_post url headers body) f)"
  by (rule yields_bind [OF yields_verbs(1)], assumption) (rule yields_bind [OF yields_verbs(2)])

lemma y_json:
  "plain_response r \<Longrightarrow> (\<And>j. serializable j \<Longrightarrow> yields Q (f j)) \<Longrightarrow> yields Q (bindM (response_json r) f)"
  by (rule yields_bind [OF yields_response_json])

lemma y_key:
  "serializable j \<Longrightarrow> serializable d \<Longrightarrow> (\<And>v. serializable v \<Longrightarrow> yields Q (f v)) \<Longrightarrow>
   yields Q (bindM (get_key j k d) f)"
  by (rule yields_bind [OF yields_get_key])

lemma y_list:
  "serializable j \<Longrightarrow> (\<And>xs. \<forall>x \<in> set xs. serializable x \<Longrightarrow> yields Q (f xs)) \<Longrightarrow> yields Q (bindM (as_list j) f)"
  by (rule yields_bind [OF yields_as_list])

lemma y_mapM:
  "(\<And>x. x \<in> set xs \<Longrightarrow> yields P (g x)) \<Longrightarrow> (\<And>ys. \<forall>y \<in> set ys. P y \<Longrightarrow> yields Q (f ys)) \<Longrightarrow>
   yields Q (bindM (mapM g xs) f)"
  by (rule yields_bind [OF yields_mapM])

lemma y_guard: "yields Q n \<Longrightarrow> yields Q (thenM (raise_if b e) n)"
  by (rule yields_then [OF yields_raise_if])

lemma y_skips:
  "(\<And>x. yields Q (f x)) \<Longrightarrow> yields Q (bindM (field kvs k p) f)"
  "(\<And>x. yields Q (g x)) \<Longrightarrow> yields Q (bindM (optional_field kvs k p) g)"
  "(\<And>x. yields Q (f x)) \<Longrightarrow> yields Q (bindM (default_field kvs k p d) f)"
  "(\<And>x. yields Q (h x)) \<Longrightarrow> yields Q (bindM (getenv name v) h)"
  "(\<And>x. yields Q (l x)) \<Longrightarrow> yields Q (bindM get_utc_now l)"
  "(\<And>x. yields Q (h x)) \<Longrightarrow> yields Q (bindM (text_of j) h)"
  "(\<And>x. yields Q (m x)) \<Longrightarrow> yields Q (bindM (keyword_arguments j) m)"
  "(\<And>x. yields Q (m x)) \<Longrightarrow> yields Q (bindM (validated (pyd_dict j)) m)"
  by (rule yields_skip, intro net_intros, assumption)+

lemmas yields_intros =
  y_request y_json y_key y_list y_guard y_skips yields_return yields_raise yields_if

section \<open>What was sent\<close>

text \<open>The requests of a run, all of which satisfy \<open>K\<close>; unlike \<open>sends\<close> it lets the run write the database.\<close>

definition logs :: "(http_request \<Rightarrow> bool) \<Rightarrow> 'z net_world_scheme \<Rightarrow> 'z net_world_scheme \<Rightarrow> bool" where
  "logs K w w' \<longleftrightarrow> (\<exists>sent. http_log w' = http_log w @ sent \<and> list_all K sent)"

interpretation logs: step_preorder "logs K" for K
proof
  show "logs K w w" for w :: "'a net_world_scheme" by (simp add: logs_def)
  show "logs K u w" if "logs K u v" "logs K v w" for u v w :: "'a net_world_scheme"
  proof -
    from that(1) obtain s where s: "http_log v = http_log u @ s" "list_all K s" by (auto simp: logs_def)
    from that(2) obtain t where t: "http_log w = http_log v @ t" "list_all K t" by (auto simp: logs_def)
    from s t have "http_log w = http_log u @ (s @ t)" "list_all K (s @ t)" by auto
    then show ?thesis unfolding logs_def by blast
  qed
qed

lemma sends_logs: "obeys (sends H) m \<Longrightarrow> (\<And>q. H (rq_url q) \<Longrightarrow> K q) \<Longrightarrow> obeys (logs K) m"
  by (erule obeys_mono) (auto simp: sends_def logs_def list_all_iff)

lemma logs_get: "(\<And>q. rq_method q = ''GET'' \<Longrightarrow> K q) \<Longrightarrow> obeys (logs K) (http_get url headers params)"
  by (simp add: obeys_def http_get_def send_request_def logs_def)

text \<open>What does not ask the network logs nothing.\<close>

lemma logs_same: "(\<And>w. http_log (snd (m w)) = http_log w) \<Longrightarrow> obeys (logs K) m"
  by (simp add: obeys_def logs_def)

section \<open>A network for the witnesses\<close>

text \<open>Every URL has one answer; a URL that is not listed is unreachable.\<close>

definition fx_reply :: "nat \<Rightarrow> json option \<Rightarrow> http_response" where
  "fx_reply status j = \<lparr>rs_status = status, rs_text = ''text'', rs_headers = [], rs_json = j, rs_content = ''bytes''\<rparr>"

definition fx_network :: "(string \<times> http_response) list \<Rightarrow> network" where
  "fx_network answers sent rq =
     (case map_of answers (rq_url rq) of None \<Rightarrow> Inl (RequestError ''unreachable'') | Some r \<Rightarrow> Inr r)"

definition fx_net :: "database \<Rightarrow> (string \<times> http_response) list \<Rightarrow> net_world" where
  "fx_net d answers =
     integration_world.extend (fx_integration d)
       \<lparr>wire = fx_network answers, http_log = [], environ = (\<lambda>_. None), patience = 3\<rparr>"

lemma fx_net_simps [simp]:
  "db (fx_net d answers) = d" "committed (fx_net d answers) = d" "wire (fx_net d answers) = fx_network answers"
  "http_log (fx_net d answers) = []"
  by (simp_all add: fx_net_def integration_world.extend_def fx_integration_def)

lemma plain_fx_network: "list_all (\<lambda>(u, r). plain_response r) answers \<Longrightarrow> plain_network (fx_network answers)"
  by (auto simp: plain_network_def plain_response_def fx_network_def list_all_iff split: option.splits dest!: map_of_SomeD)

end
