(* ===== verification/Connectors.thy ===== *)
theory Connectors
  imports Http
begin

text \<open>
  The connectors of the providers (\<open>app/integrations/connectors/*/oauth.py\<close>, \<open>sync.py\<close>, \<open>connector.py\<close>): the OAuth
  handlers that exchange a code for tokens, the sync engines that read accounts, and the connector classes
  over them. They give a concrete instance of the parameter \<open>sv_provider\<close> of the integration service.
\<close>

section \<open>OAuth handlers\<close>

definition default_redirect :: string where
  "default_redirect = ''http://localhost:8000/api/v1/integrations/oauth/callback''"

definition form_headers :: "(string \<times> string) list" where
  "form_headers = [(''Content-Type'', ''application/x-www-form-urlencoded'')]"

definition bearer :: "string \<Rightarrow> (string \<times> string) list" where
  "bearer tok = [(''Authorization'', ''Bearer '' @ tok)]"

text \<open>The dictionary that a handler gives: the tokens and when the access token expires.\<close>

definition granted :: "string \<Rightarrow> string option \<Rightarrow> int \<Rightarrow> ('z, json_object) io" where
  "granted access refresh expires_in =
     bindM get_utc_now (\<lambda>now.
     returnM [(''access_token'', JStr access), (''refresh_token'', json_opt refresh),
              (''expires_at'', JTime (now + seconds expires_in))])"

text \<open>Facebook and Instagram share the endpoint; they differ in the error and in the variable of the redirect.\<close>

definition graph_url :: string where
  "graph_url = ''https://graph.facebook.com/'' @ META_GRAPH_API_VERSION"

definition meta_long_lived_token :: "string \<Rightarrow> string \<times> string \<Rightarrow> string \<Rightarrow> ('z, json_object) nio" where
  "meta_long_lived_token err credentials short_lived_token =
     bindM (http_get (graph_url @ ''/oauth/access_token'') []
              [(''grant_type'', ''fb_exchange_token''), (''client_id'', fst credentials),
               (''client_secret'', snd credentials), (''fb_exchange_token'', short_lived_token)]) (\<lambda>response.
     thenM (raise_if (rs_status response \<noteq> 200)
              (ProviderError err (''Failed to get long-lived token: '' @ rs_text response))) (
     bindM (response_json response) (\<lambda>token_data.
     bindM (keyword_arguments token_data) (\<lambda>kvs.
     bindM (field kvs ''access_token'' pyd_str) (\<lambda>access_token.
     bindM (field kvs ''token_type'' pyd_str) (\<lambda>token_type.
     bindM (optional_field kvs ''expires_in'' pyd_int) (\<lambda>expires_in.
     let lifetime = (case expires_in of None \<Rightarrow> 60 * 24 * 3600 | Some n \<Rightarrow> if n = 0 then 60 * 24 * 3600 else n) in
     granted access_token None lifetime)))))))"

definition meta_exchange_code :: "string \<Rightarrow> string \<Rightarrow> string \<times> string \<Rightarrow> string \<Rightarrow> ('z, json_object) nio" where
  "meta_exchange_code err redirect_variable credentials auth_code =
     bindM (getenv redirect_variable default_redirect) (\<lambda>redirect_uri.
     bindM (http_get (graph_url @ ''/oauth/access_token'') []
              [(''client_id'', fst credentials), (''redirect_uri'', redirect_uri),
               (''client_secret'', snd credentials), (''code'', auth_code)]) (\<lambda>response.
     thenM (raise_if (rs_status response \<noteq> 200)
              (ProviderError err (''Failed to exchange code: '' @ rs_text response))) (
     bindM (response_json response) (\<lambda>token_data.
     bindM (get_key token_data ''access_token'' JNull) (\<lambda>short_lived_token.
     thenM (raise_if (\<not> json_truthy short_lived_token)
              (ProviderError err ''Access token missing from exchange response.'')) (
     bindM (text_of short_lived_token) (\<lambda>short_lived_token.
     meta_long_lived_token err credentials short_lived_token)))))))"

definition facebook_exchange_code :: "string \<times> string \<Rightarrow> string \<Rightarrow> ('z, json_object) nio" where
  "facebook_exchange_code = meta_exchange_code ''FacebookAuthError'' ''FACEBOOK_REDIRECT_URI''"

definition instagram_exchange_code :: "string \<times> string \<Rightarrow> string \<Rightarrow> ('z, json_object) nio" where
  "instagram_exchange_code = meta_exchange_code ''InstagramAuthError'' ''INSTAGRAM_REDIRECT_URI''"

text \<open>The endpoint of LinkedIn; a refresh keeps the old refresh token when no new one comes.\<close>

definition linkedin_token_request ::
  "string \<Rightarrow> (string \<times> string) list \<Rightarrow> string option \<Rightarrow> ('z, json_object) nio" where
  "linkedin_token_request failure form old_refresh =
     bindM (http_post ''https://www.linkedin.com/oauth/v2/accessToken'' [] (FormBody form)) (\<lambda>response.
     thenM (raise_if (rs_status response \<noteq> 200) (ProviderError ''LinkedInAuthError'' (failure @ rs_text response))) (
     bindM (response_json response) (\<lambda>token_data.
     bindM (keyword_arguments token_data) (\<lambda>kvs.
     bindM (field kvs ''access_token'' pyd_str) (\<lambda>access_token.
     bindM (field kvs ''expires_in'' pyd_int) (\<lambda>expires_in.
     bindM (optional_field kvs ''refresh_token'' pyd_str) (\<lambda>refresh_token.
     bindM (optional_field kvs ''refresh_token_expires_in'' pyd_int) (\<lambda>refresh_expires.
     bindM (optional_field kvs ''scope'' pyd_str) (\<lambda>scope.
     granted access_token (if truthy_str refresh_token then refresh_token
                           else case old_refresh of None \<Rightarrow> refresh_token | Some t \<Rightarrow> Some t) expires_in)))))))))"

definition linkedin_exchange_code :: "string \<times> string \<Rightarrow> string \<Rightarrow> ('z, json_object) nio" where
  "linkedin_exchange_code credentials auth_code =
     bindM (getenv ''LINKEDIN_REDIRECT_URI'' default_redirect) (\<lambda>redirect_uri.
     linkedin_token_request ''Failed to exchange code: ''
       [(''grant_type'', ''authorization_code''), (''code'', auth_code), (''client_id'', fst credentials),
        (''client_secret'', snd credentials), (''redirect_uri'', redirect_uri)] None)"

definition linkedin_refresh_token :: "string \<times> string \<Rightarrow> string \<Rightarrow> ('z, json_object) nio" where
  "linkedin_refresh_token credentials refresh =
     linkedin_token_request ''Failed to refresh token: ''
       [(''grant_type'', ''refresh_token''), (''refresh_token'', refresh), (''client_id'', fst credentials),
        (''client_secret'', snd credentials)] (Some refresh)"

text \<open>Twitter: a confidential client authenticates with its secret.\<close>

definition twitter_auth_headers :: "string \<times> string \<Rightarrow> (string \<times> string) list" where
  "twitter_auth_headers credentials =
     form_headers @
     (if snd credentials \<noteq> []
      then [(''Authorization'', ''Basic '' @ base64 (utf8 (fst credentials @ '':'' @ snd credentials)))] else [])"

definition twitter_token_request ::
  "string \<times> string \<Rightarrow> string \<Rightarrow> (string \<times> string) list \<Rightarrow> ('z, json_object) nio" where
  "twitter_token_request credentials failure form =
     bindM (http_post ''https://api.twitter.com/2/oauth2/token'' (twitter_auth_headers credentials) (FormBody form)) (\<lambda>response.
     thenM (raise_if (rs_status response \<noteq> 200) (ProviderError ''TwitterAuthError'' (failure @ rs_text response))) (
     bindM (response_json response) (\<lambda>token_data.
     bindM (keyword_arguments token_data) (\<lambda>kvs.
     bindM (field kvs ''token_type'' pyd_str) (\<lambda>token_type.
     bindM (field kvs ''expires_in'' pyd_int) (\<lambda>expires_in.
     bindM (field kvs ''access_token'' pyd_str) (\<lambda>access_token.
     bindM (field kvs ''scope'' pyd_str) (\<lambda>scope.
     bindM (optional_field kvs ''refresh_token'' pyd_str) (\<lambda>refresh_token.
     granted access_token refresh_token expires_in)))))))))"

definition twitter_exchange_code :: "string \<times> string \<Rightarrow> string \<Rightarrow> string option \<Rightarrow> ('z, json_object) nio" where
  "twitter_exchange_code credentials auth_code code_verifier =
     thenM (raise_if (\<not> truthy_str code_verifier)
              (ProviderError ''TwitterAuthError''
                 ''code_verifier is strictly required for X/Twitter OAuth 2.0 PKCE token exchange.'')) (
     bindM (getenv ''TWITTER_REDIRECT_URI'' default_redirect) (\<lambda>redirect_uri.
     twitter_token_request credentials ''Failed to exchange code: ''
       [(''grant_type'', ''authorization_code''), (''code'', auth_code), (''redirect_uri'', redirect_uri),
        (''client_id'', fst credentials), (''code_verifier'', the code_verifier)]))"

definition twitter_refresh_token :: "string \<times> string \<Rightarrow> string \<Rightarrow> ('z, json_object) nio" where
  "twitter_refresh_token credentials refresh =
     twitter_token_request credentials ''Failed to refresh token: ''
       [(''grant_type'', ''refresh_token''), (''refresh_token'', refresh), (''client_id'', fst credentials)]"

definition twitter_revoke_token :: "string \<times> string \<Rightarrow> string \<Rightarrow> ('z, bool) nio" where
  "twitter_revoke_token credentials access_token =
     bindM (http_post ''https://api.twitter.com/2/oauth2/revoke'' (twitter_auth_headers credentials)
              (FormBody [(''token'', access_token), (''token_type_hint'', ''access_token''),
                         (''client_id'', fst credentials)])) (\<lambda>response.
     returnM (rs_status response = 200))"

text \<open>Google. What a refresh answers is not validated.\<close>

definition google_token_url :: string where
  "google_token_url = ''https://oauth2.googleapis.com/token''"

definition google_exchange_code :: "string \<times> string \<Rightarrow> string \<Rightarrow> ('z, json_object) nio" where
  "google_exchange_code credentials auth_code =
     bindM (getenv ''GOOGLE_REDIRECT_URI'' default_redirect) (\<lambda>redirect_uri.
     bindM (http_post google_token_url []
              (FormBody [(''client_id'', fst credentials), (''client_secret'', snd credentials), (''code'', auth_code),
                         (''grant_type'', ''authorization_code''), (''redirect_uri'', redirect_uri)])) (\<lambda>response.
     thenM (raise_if (rs_status response \<noteq> 200)
              (ProviderError ''GoogleAuthError'' (''Failed to exchange code: '' @ rs_text response))) (
     bindM (response_json response) (\<lambda>token_data.
     bindM (keyword_arguments token_data) (\<lambda>kvs.
     bindM (field kvs ''access_token'' pyd_str) (\<lambda>access_token.
     bindM (field kvs ''token_type'' pyd_str) (\<lambda>token_type.
     bindM (field kvs ''expires_in'' pyd_int) (\<lambda>expires_in.
     bindM (optional_field kvs ''refresh_token'' pyd_str) (\<lambda>refresh_token.
     bindM (field kvs ''scope'' pyd_str) (\<lambda>scope.
     granted access_token refresh_token expires_in))))))))))"

definition google_refresh_token :: "string \<times> string \<Rightarrow> string \<Rightarrow> ('z, json_object) nio" where
  "google_refresh_token credentials refresh =
     bindM (http_post google_token_url []
              (FormBody [(''client_id'', fst credentials), (''client_secret'', snd credentials),
                         (''refresh_token'', refresh), (''grant_type'', ''refresh_token'')])) (\<lambda>response.
     thenM (raise_if (rs_status response \<noteq> 200)
              (ProviderError ''GoogleAuthError'' (''Failed to refresh token: '' @ rs_text response))) (
     bindM (response_json response) (\<lambda>token_data.
     bindM (get_key token_data ''access_token'' JNull) (\<lambda>access_token.
     bindM get_utc_now (\<lambda>now.
     bindM (get_key token_data ''expires_in'' (JInt 3599)) (\<lambda>expires_in.
     case expires_in of
       JInt n \<Rightarrow> returnM [(''access_token'', access_token), (''expires_at'', JTime (now + seconds n))]
     | JBool b \<Rightarrow> returnM [(''access_token'', access_token), (''expires_at'', JTime (now + seconds (if b then 1 else 0)))]
     | _ \<Rightarrow> raiseM (TypeError ''unsupported type for timedelta seconds component'')))))))"

text \<open>Slack\<close>

definition slack_exchange_code :: "string \<times> string \<Rightarrow> string \<Rightarrow> ('z, json_object) nio" where
  "slack_exchange_code credentials auth_code =
     bindM (getenv ''SLACK_REDIRECT_URI'' default_redirect) (\<lambda>redirect_uri.
     bindM (http_post ''https://slack.com/api/oauth.v2.access'' []
              (FormBody [(''client_id'', fst credentials), (''client_secret'', snd credentials), (''code'', auth_code),
                         (''redirect_uri'', redirect_uri)])) (\<lambda>response.
     thenM (raise_if (rs_status response \<noteq> 200)
              (ProviderError ''SlackAuthError'' (''HTTP error during code exchange: '' @ decimal (rs_status response)))) (
     bindM (response_json response) (\<lambda>token_data.
     bindM (get_key token_data ''ok'' JNull) (\<lambda>ok.
     bindM (get_key token_data ''error'' (JStr ''Unknown Slack OAuth Error'')) (\<lambda>error.
     bindM (text_of error) (\<lambda>error_msg.
     thenM (raise_if (\<not> json_truthy ok) (ProviderError ''SlackAuthError'' (''Slack OAuth failed: '' @ error_msg))) (
     bindM (keyword_arguments token_data) (\<lambda>kvs.
     bindM (field kvs ''ok'' pyd_bool) (\<lambda>ok.
     bindM (field kvs ''app_id'' pyd_str) (\<lambda>app_id.
     bindM (field kvs ''authed_user'' pyd_dict) (\<lambda>authed_user.
     bindM (field kvs ''scope'' pyd_str) (\<lambda>scope.
     bindM (field kvs ''token_type'' pyd_str) (\<lambda>token_type.
     bindM (field kvs ''access_token'' pyd_str) (\<lambda>access_token.
     bindM (field kvs ''bot_user_id'' pyd_str) (\<lambda>bot_user_id.
     bindM (field kvs ''team'' pyd_dict) (\<lambda>team.
     bindM (field team ''id'' pyd_str) (\<lambda>team_id.
     bindM (field team ''name'' pyd_str) (\<lambda>team_name.
     bindM (optional_field kvs ''enterprise'' pyd_dict) (\<lambda>enterprise.
     bindM (field kvs ''is_enterprise_install'' pyd_bool) (\<lambda>is_enterprise_install.
     returnM [(''access_token'', JStr access_token), (''team_id'', JStr team_id), (''team_name'', JStr team_name),
              (''bot_user_id'', JStr bot_user_id), (''app_id'', JStr app_id)])))))))))))))))))))))"

section \<open>Sync engines\<close>

definition unsupported_sync :: json_object where
  "unsupported_sync = [(''status'', JStr ''skipped''), (''reason'', JStr ''unsupported sync type'')]"

definition full_sync :: "json \<Rightarrow> ('z, json_object) nio \<Rightarrow> ('z, json_object) nio" where
  "full_sync sync_type m = (if sync_type = JStr ''full'' then m else returnM unsupported_sync)"

text \<open>A read of the Graph API: an \<open>OAuthException\<close> with 400 or 401 means that the token is no longer valid. Only errors
  of the JSON decoder are ignored on the way.\<close>

definition graph_error :: "string \<Rightarrow> http_response \<Rightarrow> ('z, unit) nio" where
  "graph_error token_error response =
     catch_value_error
       (bindM (response_json response) (\<lambda>err_data.
        bindM (get_key err_data ''error'' (JObj [])) (\<lambda>error.
        bindM (get_key error ''type'' JNull) (\<lambda>err_type.
        raise_if (rs_status response \<in> {400, 401} \<and> err_type = JStr ''OAuthException'') (OAuthTokenError token_error)))))
       (returnM ())"

definition graph_read ::
  "string \<Rightarrow> string \<Rightarrow> string \<Rightarrow> string \<Rightarrow> string \<Rightarrow> string \<Rightarrow> ('z, json) nio" where
  "graph_read api_error token_error failure path access_token wanted =
     bindM (http_get (graph_url @ path) [] [(''access_token'', access_token), (''fields'', wanted)]) (\<lambda>response.
     if rs_status response \<noteq> 200
     then thenM (graph_error token_error response)
            (raiseM (ProviderError api_error (failure @ '' (Status: '' @ decimal (rs_status response) @ '')'')))
     else response_json response)"

definition facebook_read :: "string \<Rightarrow> string \<Rightarrow> string \<Rightarrow> string \<Rightarrow> ('z, json) nio" where
  "facebook_read = graph_read ''FacebookApiError'' ''Facebook access token is invalid or expired.''"

definition instagram_read :: "string \<Rightarrow> string \<Rightarrow> string \<Rightarrow> string \<Rightarrow> ('z, json) nio" where
  "instagram_read = graph_read ''InstagramApiError'' ''Instagram/Facebook access token is invalid or expired.''"

definition facebook_fetch_profile :: "string \<Rightarrow> ('z, json) nio" where
  "facebook_fetch_profile tok = facebook_read ''Failed to fetch profile'' ''/me'' tok ''id,name''"

text \<open>The pages of an answer, validated, and as \<open>model_dump\<close> gives them.\<close>

definition facebook_page_info :: "json \<Rightarrow> ('z, json) io" where
  "facebook_page_info j =
     bindM (validated (pyd_dict j)) (\<lambda>kvs.
     bindM (field kvs ''id'' pyd_str) (\<lambda>i.
     bindM (field kvs ''name'' pyd_str) (\<lambda>name.
     bindM (field kvs ''access_token'' pyd_str) (\<lambda>access_token.
     bindM (optional_field kvs ''category'' pyd_str) (\<lambda>category.
     bindM (default_field kvs ''tasks'' (pyd_list pyd_str) []) (\<lambda>tasks.
     returnM (JObj [(''id'', JStr i), (''name'', JStr name), (''access_token'', JStr access_token),
                    (''category'', json_opt category), (''tasks'', JList (map JStr tasks))])))))))"

definition pages_response :: "(json \<Rightarrow> ('z, 'a) io) \<Rightarrow> json \<Rightarrow> ('z, 'a list) io" where
  "pages_response page_info data =
     bindM (keyword_arguments data) (\<lambda>kvs.
     bindM (default_field kvs ''data'' (pyd_list Some) []) (\<lambda>pages. mapM page_info pages))"

definition facebook_fetch_pages :: "string \<Rightarrow> ('z, json list) nio" where
  "facebook_fetch_pages tok =
     bindM (facebook_read ''Failed to fetch pages'' ''/me/accounts'' tok ''id,name,access_token,category,tasks'')
       (pages_response facebook_page_info)"

definition facebook_perform_sync :: "string \<Rightarrow> json \<Rightarrow> ('z, json_object) nio" where
  "facebook_perform_sync tok sync_type =
     full_sync sync_type
       (bindM (facebook_fetch_profile tok) (\<lambda>profile.
        bindM (facebook_fetch_pages tok) (\<lambda>pages.
        returnM [(''profile'', profile), (''pages'', JList pages),
                 (''records_synced'', JInt (1 + int (length pages)))])))"

text \<open>Instagram: the pages that have an account linked; each gives the id of the account, of the page, and the token
  of the page.\<close>

definition pyd_str_dict :: "json \<Rightarrow> json_object option" where
  "pyd_str_dict j =
     (case j of JObj kvs \<Rightarrow> if list_all (\<lambda>(k, v). pyd_str v \<noteq> None) kvs then Some kvs else None | _ \<Rightarrow> None)"

record linked_page =
  lp_id :: string
  lp_access_token :: string
  lp_account :: "json_object option"

definition instagram_page_info :: "json \<Rightarrow> ('z, linked_page) io" where
  "instagram_page_info j =
     bindM (validated (pyd_dict j)) (\<lambda>kvs.
     bindM (field kvs ''id'' pyd_str) (\<lambda>i.
     bindM (field kvs ''name'' pyd_str) (\<lambda>name.
     bindM (field kvs ''access_token'' pyd_str) (\<lambda>access_token.
     bindM (optional_field kvs ''instagram_business_account'' pyd_str_dict) (\<lambda>account.
     returnM \<lparr>lp_id = i, lp_access_token = access_token, lp_account = account\<rparr>)))))"

definition fetch_pages_with_instagram :: "string \<Rightarrow> ('z, linked_page list) nio" where
  "fetch_pages_with_instagram tok =
     bindM (instagram_read ''Failed to fetch pages'' ''/me/accounts'' tok
              ''id,name,access_token,instagram_business_account'') (\<lambda>data.
     bindM (pages_response instagram_page_info data) (\<lambda>pages.
     returnM (filter (\<lambda>p. lp_account p \<noteq> None) pages)))"

definition instagram_fetch_profile :: "string \<Rightarrow> string \<Rightarrow> ('z, json) nio" where
  "instagram_fetch_profile tok ig_account_id =
     instagram_read ''Failed to fetch IG profile'' (CHR ''/'' # ig_account_id) tok ''id,username,name,profile_picture_url''"

definition instagram_linked_profile :: "string \<Rightarrow> linked_page \<Rightarrow> ('z, json) nio" where
  "instagram_linked_profile tok p =
     bindM (dict_item (the (lp_account p)) ''id'') (\<lambda>ig_id.
     bindM (text_of ig_id) (\<lambda>ig_id.
     bindM (instagram_fetch_profile tok ig_id) (\<lambda>profile.
     case profile of
       JObj kvs \<Rightarrow> returnM (JObj (dict_set (dict_set kvs ''linked_page_id'' (JStr (lp_id p)))
                                    ''page_access_token'' (JStr (lp_access_token p))))
     | _ \<Rightarrow> raiseM (TypeError ''object does not support item assignment''))))"

definition instagram_perform_sync :: "string \<Rightarrow> json \<Rightarrow> ('z, json_object) nio" where
  "instagram_perform_sync tok sync_type =
     full_sync sync_type
       (bindM (fetch_pages_with_instagram tok) (\<lambda>linked_pages.
        bindM (mapM (instagram_linked_profile tok) linked_pages) (\<lambda>profiles.
        returnM [(''instagram_accounts'', JList profiles), (''records_synced'', JInt (int (length profiles)))])))"

text \<open>LinkedIn: an organisation list that is refused counts as empty.\<close>

definition linkedin_headers :: "string \<Rightarrow> (string \<times> string) list" where
  "linkedin_headers tok = bearer tok @ [(''X-Restli-Protocol-Version'', ''2.0.0'')]"

definition linkedin_fetch_profile :: "string \<Rightarrow> ('z, json) nio" where
  "linkedin_fetch_profile tok =
     bindM (http_get ''https://api.linkedin.com/v2/userinfo'' (linkedin_headers tok) []) (\<lambda>response.
     thenM (raise_if (rs_status response \<noteq> 200)
              (ProviderError ''LinkedInApiError'' (''Failed to fetch profile: '' @ rs_text response)))
       (response_json response))"

definition linkedin_fetch_organizations :: "string \<Rightarrow> ('z, json) nio" where
  "linkedin_fetch_organizations tok =
     bindM (http_get ''https://api.linkedin.com/v2/organizationalEntityAcls?q=roleAssignee'' (linkedin_headers tok) []) (\<lambda>response.
     if rs_status response \<noteq> 200 then returnM (JList [])
     else bindM (response_json response) (\<lambda>data. get_key data ''elements'' (JList [])))"

text \<open>\<open>len(j)\<close>\<close>

definition json_length :: "json \<Rightarrow> ('z, int) io" where
  "json_length j =
     (case j of
        JList xs \<Rightarrow> returnM (int (length xs)) | JObj kvs \<Rightarrow> returnM (int (length kvs)) | JStr s \<Rightarrow> returnM (int (length s))
      | _ \<Rightarrow> raiseM (TypeError ''object has no len()''))"

definition linkedin_perform_sync :: "string \<Rightarrow> json \<Rightarrow> ('z, json_object) nio" where
  "linkedin_perform_sync tok sync_type =
     full_sync sync_type
       (bindM (linkedin_fetch_profile tok) (\<lambda>profile.
        bindM (linkedin_fetch_organizations tok) (\<lambda>orgs.
        bindM (json_length orgs) (\<lambda>n.
        returnM [(''profile'', profile), (''organizations'', orgs), (''records_synced'', JInt (1 + n))]))))"

text \<open>Google: every location of every business account.\<close>

definition google_fetch_profile :: "string \<Rightarrow> ('z, json) nio" where
  "google_fetch_profile tok =
     bindM (http_get ''https://www.googleapis.com/oauth2/v2/userinfo'' (bearer tok) []) (\<lambda>response.
     thenM (raise_if (rs_status response \<noteq> 200)
              (ProviderError ''GoogleApiError'' (''Failed to fetch profile: '' @ rs_text response))) (
     bindM (response_json response) (\<lambda>data.
     bindM (keyword_arguments data) (\<lambda>kvs.
     bindM (field kvs ''verified_email'' pyd_bool) (\<lambda>verified_email.
     bindM (mapM (\<lambda>k. bindM (field kvs k pyd_str) (\<lambda>s. returnM (k, JStr s)))
              [''id'', ''email'', ''name'', ''given_name'', ''family_name'', ''picture'', ''locale'']) (\<lambda>texts.
     returnM (JObj (take 2 texts @ (''verified_email'', JBool verified_email) # drop 2 texts))))))))"

definition google_business_read :: "string \<Rightarrow> string \<Rightarrow> string \<Rightarrow> string \<Rightarrow> ('z, json) nio" where
  "google_business_read tok url what key =
     bindM (http_get url (bearer tok) []) (\<lambda>response.
     thenM (raise_if (rs_status response \<in> {401, 403})
              (ProviderError ''GoogleAuthError'' (''Permission denied fetching GMB '' @ what @ '': '' @ rs_text response))) (
     thenM (raise_if (rs_status response \<noteq> 200)
              (ProviderError ''GoogleApiError'' (''Failed to fetch GMB '' @ what @ '': '' @ rs_text response))) (
     bindM (response_json response) (\<lambda>data. get_key data key (JList [])))))"

definition google_fetch_accounts :: "string \<Rightarrow> ('z, json) nio" where
  "google_fetch_accounts tok =
     google_business_read tok ''https://mybusinessaccountmanagement.googleapis.com/v1/accounts'' ''accounts'' ''accounts''"

definition google_fetch_locations :: "string \<Rightarrow> string \<Rightarrow> ('z, json) nio" where
  "google_fetch_locations tok account_name =
     google_business_read tok
       (''https://mybusinessbusinessinformation.googleapis.com/v1/'' @ account_name @ ''/locations?readMask=name,title'')
       ''locations'' ''locations''"

text \<open>\<open>continue\<close> is \<open>None\<close>; the name of a resource that is not a string has no \<open>split\<close>.\<close>

definition resource_name :: "json \<Rightarrow> ('z, string option) io" where
  "resource_name j =
     bindM (get_key j ''name'' (JStr [])) (\<lambda>name.
     if \<not> json_truthy name then returnM None
     else case name of JStr s \<Rightarrow> returnM (Some s) | _ \<Rightarrow> raiseM (AttributeError ''split''))"

definition google_location :: "json \<Rightarrow> ('z, json list) io" where
  "google_location loc =
     bindM (resource_name loc) (\<lambda>name.
     case name of
       None \<Rightarrow> returnM []
     | Some s \<Rightarrow> bindM (get_key loc ''title'' (JStr [])) (\<lambda>title.
                returnM [JObj [(''location_id'', JStr (last_segment (CHR ''/'') s)), (''location_name'', title)]]))"

definition google_account :: "string \<Rightarrow> json \<Rightarrow> ('z, json list) nio" where
  "google_account tok account =
     bindM (resource_name account) (\<lambda>name.
     case name of
       None \<Rightarrow> returnM []
     | Some s \<Rightarrow>
         bindM (google_fetch_locations tok s) (\<lambda>locations.
         bindM (as_list locations) (\<lambda>locations.
         bindM (mapM google_location locations) (\<lambda>parsed_locations.
         bindM (get_key account ''accountName'' (JStr [])) (\<lambda>account_name.
         returnM [JObj [(''account_id'', JStr (last_segment (CHR ''/'') s)), (''account_name'', account_name),
                        (''locations'', JList (concat parsed_locations))]])))))"

definition google_perform_sync :: "string \<Rightarrow> json \<Rightarrow> ('z, json_object) nio" where
  "google_perform_sync tok sync_type =
     full_sync sync_type
       (bindM (google_fetch_profile tok) (\<lambda>profile.
        bindM (google_fetch_accounts tok) (\<lambda>accounts.
        bindM (as_list accounts) (\<lambda>accounts.
        bindM (mapM (google_account tok) accounts) (\<lambda>business_accounts.
        returnM [(''profile'', profile), (''business_accounts'', JList (concat business_accounts)),
                 (''records_synced'', JInt (1 + int (length (concat business_accounts))))])))))"

text \<open>Slack: the first thousand channels, with no further page.\<close>

definition slack_headers :: "string \<Rightarrow> (string \<times> string) list" where
  "slack_headers tok = bearer tok @ form_headers"

definition slack_checked :: "string \<Rightarrow> http_response \<Rightarrow> ('z, json_object) nio" where
  "slack_checked what response =
     thenM (raise_if (rs_status response \<noteq> 200)
              (ProviderError ''SlackApiError'' (''HTTP error on '' @ what @ '': '' @ decimal (rs_status response)))) (
     bindM (response_json response) (\<lambda>data.
     bindM (get_key data ''ok'' JNull) (\<lambda>ok.
     thenM (raise_if (\<not> json_truthy ok) (ProviderError ''SlackApiError'' ''Slack API error''))
       (keyword_arguments data))))"

definition slack_verify_auth :: "string \<Rightarrow> ('z, json) nio" where
  "slack_verify_auth tok =
     bindM (http_post ''https://slack.com/api/auth.test'' (slack_headers tok) NoBody) (\<lambda>response.
     bindM (slack_checked ''auth.test'' response) (\<lambda>kvs.
     bindM (field kvs ''ok'' pyd_bool) (\<lambda>ok.
     bindM (mapM (\<lambda>k. bindM (field kvs k pyd_str) (\<lambda>s. returnM (k, JStr s)))
              [''url'', ''team'', ''user'', ''team_id'', ''user_id'']) (\<lambda>texts.
     bindM (optional_field kvs ''bot_id'' pyd_str) (\<lambda>bot_id.
     bindM (field kvs ''is_enterprise_install'' pyd_bool) (\<lambda>is_enterprise_install.
     returnM (JObj ((''ok'', JBool ok) # texts
                    @ [(''bot_id'', json_opt bot_id), (''is_enterprise_install'', JBool is_enterprise_install)]))))))))"

definition slack_channel :: "json \<Rightarrow> ('z, json) io" where
  "slack_channel j =
     bindM (validated (pyd_dict j)) (\<lambda>kvs.
     bindM (field kvs ''id'' pyd_str) (\<lambda>i.
     bindM (field kvs ''name'' pyd_str) (\<lambda>name.
     bindM (field kvs ''is_group'' pyd_bool) (\<lambda>is_group.
     bindM (field kvs ''is_im'' pyd_bool) (\<lambda>is_im.
     bindM (mapM (\<lambda>k. field kvs k pyd_bool)
              [''is_channel'', ''is_archived'', ''is_general'', ''is_shared'', ''is_org_shared'', ''is_pending_ext_shared'',
               ''is_ext_shared'']) (\<lambda>flags.
     bindM (mapM (\<lambda>k. field kvs k pyd_int) [''created'', ''unlinked'', ''updated'']) (\<lambda>numbers.
     bindM (mapM (\<lambda>k. field kvs k pyd_str) [''name_normalized'', ''context_team_id'', ''creator'']) (\<lambda>texts.
     bindM (optional_field kvs ''parent_conversation'' pyd_str) (\<lambda>parent.
     bindM (mapM (\<lambda>k. default_field kvs k (pyd_list pyd_str) [])
              [''shared_team_ids'', ''pending_connected_team_ids'']) (\<lambda>teams.
     returnM (JObj [(''id'', JStr i), (''name'', JStr name), (''is_private'', JBool (is_group \<or> is_im))])))))))))))"

definition slack_list_channels :: "string \<Rightarrow> ('z, json list) nio" where
  "slack_list_channels tok =
     bindM (http_get ''https://slack.com/api/conversations.list'' (slack_headers tok)
              [(''exclude_archived'', ''true''), (''types'', ''public_channel,private_channel''), (''limit'', ''1000'')]) (\<lambda>response.
     bindM (slack_checked ''conversations.list'' response) (\<lambda>kvs.
     bindM (field kvs ''ok'' pyd_bool) (\<lambda>ok.
     bindM (default_field kvs ''channels'' (pyd_list Some) []) (\<lambda>channels.
     bindM (mapM slack_channel channels) (\<lambda>channels.
     bindM (optional_field kvs ''response_metadata'' pyd_dict) (\<lambda>response_metadata.
     returnM channels))))))"

definition slack_perform_sync :: "string \<Rightarrow> json \<Rightarrow> ('z, json_object) nio" where
  "slack_perform_sync tok sync_type =
     full_sync sync_type
       (bindM (slack_verify_auth tok) (\<lambda>auth_info.
        bindM (slack_list_channels tok) (\<lambda>channels.
        returnM [(''identity'', auth_info), (''channels'', JList channels),
                 (''records_synced'', JInt (int (length channels) + 1))])))"

section \<open>The connectors\<close>

text \<open>What \<open>connect\<close> gives: the tokens of the handler with the identity of the account.\<close>

definition with_profile :: "json_object \<Rightarrow> string \<Rightarrow> json \<Rightarrow> json \<Rightarrow> json_object" where
  "with_profile token_data id_key i name =
     [(''access_token'', dict_get token_data ''access_token''), (''refresh_token'', dict_get token_data ''refresh_token''),
      (''expires_at'', dict_get token_data ''expires_at''), (id_key, i), (''profile_name'', name)]"

text \<open>The token of a dictionary that a handler made.\<close>

definition token_in :: "json_object \<Rightarrow> string" where
  "token_in token_data = (case dict_get token_data ''access_token'' of JStr s \<Rightarrow> s | _ \<Rightarrow> [])"

definition syncing :: "string option \<Rightarrow> (string \<Rightarrow> json \<Rightarrow> ('z, json_object) nio) \<Rightarrow> json \<Rightarrow> ('z, json_object) nio" where
  "syncing access_token engine sync_type =
     thenM (raise_if (\<not> truthy_str access_token) (ValueError ''Access token required for sync.''))
       (engine (the access_token) sync_type)"

definition facebook_connector :: "string \<times> string \<Rightarrow> string option \<Rightarrow> 'z net_world_ext connector" where
  "facebook_connector credentials access_token =
     \<lparr>cn_connect = (\<lambda>auth_code code_verifier.
        bindM (facebook_exchange_code credentials auth_code) (\<lambda>token_data.
        bindM (facebook_fetch_profile (token_in token_data)) (\<lambda>profile_data.
        bindM (get_key profile_data ''id'' JNull) (\<lambda>i.
        bindM (get_key profile_data ''name'' (JStr [])) (\<lambda>name.
        returnM (with_profile token_data ''author_id'' i name)))))),
      cn_disconnect = returnM True,
      cn_sync = syncing access_token facebook_perform_sync,
      cn_can_sync = True\<rparr>"

definition instagram_connector :: "string \<times> string \<Rightarrow> string option \<Rightarrow> 'z net_world_ext connector" where
  "instagram_connector credentials access_token =
     \<lparr>cn_connect = (\<lambda>auth_code code_verifier.
        bindM (instagram_exchange_code credentials auth_code) (\<lambda>token_data.
        bindM (instagram_perform_sync (token_in token_data) (JStr ''full'')) (\<lambda>sync_data.
        case dict_get sync_data ''instagram_accounts'' of
          JList (primary_account # _) \<Rightarrow>
            bindM (get_key primary_account ''id'' JNull) (\<lambda>i.
            bindM (get_key primary_account ''username'' JNull) (\<lambda>username.
            bindM (get_key primary_account ''name'' JNull) (\<lambda>name.
            returnM (with_profile token_data ''author_id'' i (json_or username (json_or name (JStr [])))))))
        | _ \<Rightarrow> returnM (with_profile token_data ''author_id'' JNull (JStr []))))),
      cn_disconnect = returnM True,
      cn_sync = syncing access_token instagram_perform_sync,
      cn_can_sync = True\<rparr>"

definition linkedin_name :: "json \<Rightarrow> ('z, string) nio" where
  "linkedin_name profile_data =
     bindM (get_key profile_data ''localizedFirstName'' (JStr [])) (\<lambda>first.
     bindM (text_of first) (\<lambda>first.
     bindM (get_key profile_data ''localizedLastName'' (JStr [])) (\<lambda>last.
     bindM (text_of last) (\<lambda>last.
     returnM (py_strip (first @ '' '' @ last))))))"

definition linkedin_urn :: "json \<Rightarrow> ('z, string) nio" where
  "linkedin_urn profile_data =
     bindM (get_key profile_data ''sub'' JNull) (\<lambda>sub.
     thenM (raise_if (\<not> json_truthy sub)
              (ProviderError ''LinkedInAuthError'' ''LinkedIn profile response is missing the required sub identifier.'')) (
     bindM (text_of sub) (\<lambda>sub. returnM (''urn:li:person:'' @ sub))))"

definition linkedin_connector :: "string \<times> string \<Rightarrow> string option \<Rightarrow> 'z net_world_ext connector" where
  "linkedin_connector credentials access_token =
     \<lparr>cn_connect = (\<lambda>auth_code code_verifier.
        bindM (linkedin_exchange_code credentials auth_code) (\<lambda>token_data.
        bindM (linkedin_fetch_profile (token_in token_data)) (\<lambda>profile_data.
        bindM (linkedin_urn profile_data) (\<lambda>urn.
        bindM (linkedin_name profile_data) (\<lambda>name.
        returnM (with_profile token_data ''author_urn'' (JStr urn) (JStr name))))))),
      cn_disconnect = returnM True,
      cn_sync = syncing access_token linkedin_perform_sync,
      cn_can_sync = True\<rparr>"

definition twitter_fetch_profile :: "string option \<Rightarrow> ('z, json) nio" where
  "twitter_fetch_profile access_token =
     thenM (raise_if (\<not> truthy_str access_token)
              (ProviderError ''TwitterAuthError'' ''Missing access token for profile fetch.'')) (
     bindM (http_get ''https://api.twitter.com/2/users/me'' (bearer (the access_token)) []) (\<lambda>response.
     thenM (raise_if (rs_status response \<noteq> 200)
              (ProviderError ''TwitterApiError'' (''Failed to fetch user profile: '' @ rs_text response))) (
     bindM (response_json response) (\<lambda>data. get_key data ''data'' (JObj [])))))"

definition twitter_connector :: "string \<times> string \<Rightarrow> string option \<Rightarrow> 'z net_world_ext connector" where
  "twitter_connector credentials access_token =
     \<lparr>cn_connect = (\<lambda>auth_code code_verifier.
        bindM (twitter_exchange_code credentials auth_code code_verifier) (\<lambda>token_data.
        catchM
          (bindM (twitter_fetch_profile (Some (token_in token_data))) (\<lambda>profile_data.
           returnM (token_data @ [(''metadata'', profile_data)])))
          (\<lambda>e. bindM (readM exn_text) (\<lambda>text.
             raiseM (ProviderError ''TwitterAuthError'' (''Token exchange succeeded but profile fetch failed: '' @ text e)))))),
      cn_disconnect =
        (if \<not> truthy_str access_token then returnM True
         else catchM (twitter_revoke_token credentials (the access_token)) (\<lambda>e. returnM True)),
      cn_sync = (\<lambda>sync_type.
        bindM (twitter_fetch_profile access_token) (\<lambda>profile_data.
        returnM [(''profile'', profile_data), (''records_synced'', JInt 1)])),
      cn_can_sync = True\<rparr>"

text \<open>\<open>GoogleConnector.connect\<close> without the argument that its callers pass.\<close>

definition google_live_connector :: "string \<times> string \<Rightarrow> string option \<Rightarrow> 'z net_world_ext connector" where
  "google_live_connector credentials access_token =
     \<lparr>cn_connect = (\<lambda>auth_code code_verifier.
        bindM (google_exchange_code credentials auth_code) (\<lambda>token_data.
        bindM (google_fetch_profile (token_in token_data)) (\<lambda>profile_data.
        bindM (get_key profile_data ''id'' JNull) (\<lambda>i.
        bindM (get_key profile_data ''email'' (JStr [])) (\<lambda>email.
        returnM (with_profile token_data ''author_id'' i email)))))),
      cn_disconnect = returnM True,
      cn_sync = syncing access_token google_perform_sync,
      cn_can_sync = True\<rparr>"

definition slack_connector :: "string \<times> string \<Rightarrow> string option \<Rightarrow> 'z net_world_ext connector" where
  "slack_connector credentials access_token =
     \<lparr>cn_connect = (\<lambda>auth_code code_verifier.
        bindM (slack_exchange_code credentials auth_code) (\<lambda>token_data.
        returnM [(''access_token'', dict_get token_data ''access_token''), (''refresh_token'', JNull), (''expires_at'', JNull),
                 (''author_id'', dict_get token_data ''bot_user_id''),
                 (''profile_name'', dict_get token_data ''team_name'')])),
      cn_disconnect = returnM True,
      cn_sync = syncing access_token slack_perform_sync,
      cn_can_sync = True\<rparr>"

text \<open>\<open>validate\<close>: whether the token still reads something.\<close>

definition reads_ok :: "('z, 'a) nio \<Rightarrow> ('z, bool) nio" where
  "reads_ok m = catch_exception (bindM m (\<lambda>_. returnM True)) (\<lambda>e. returnM False)"

definition validating :: "string option \<Rightarrow> (string \<Rightarrow> ('z, 'a) nio) \<Rightarrow> ('z, bool) nio" where
  "validating access_token read =
     (if \<not> truthy_str access_token then returnM False else reads_ok (read (the access_token)))"

definition facebook_validate :: "string option \<Rightarrow> ('z, bool) nio" where
  "facebook_validate access_token = validating access_token facebook_fetch_profile"

definition instagram_validate :: "string option \<Rightarrow> ('z, bool) nio" where
  "instagram_validate access_token = validating access_token fetch_pages_with_instagram"

definition linkedin_validate :: "string option \<Rightarrow> ('z, bool) nio" where
  "linkedin_validate access_token = validating access_token linkedin_fetch_profile"

definition google_validate :: "string option \<Rightarrow> ('z, bool) nio" where
  "google_validate access_token = validating access_token google_fetch_profile"

definition slack_validate :: "string option \<Rightarrow> ('z, bool) nio" where
  "slack_validate access_token = validating access_token slack_verify_auth"

definition twitter_validate :: "string option \<Rightarrow> ('z, bool) nio" where
  "twitter_validate access_token = reads_ok (twitter_fetch_profile access_token)"

text \<open>The registered classes: the parameter of the integration service, instantiated.\<close>

definition provider_connector :: "string \<Rightarrow> string \<times> string \<Rightarrow> string option \<Rightarrow> 'z net_world_ext connector" where
  "provider_connector p =
     (if p = ''facebook'' then facebook_connector
      else if p = ''instagram'' then instagram_connector
      else if p = ''linkedin'' then linkedin_connector
      else if p = ''twitter'' then twitter_connector
      else if p = ''google'' then google_live_connector
      else slack_connector)"

definition live :: "'z net_world_ext services \<Rightarrow> 'z net_world_ext services" where
  "live sv = sv\<lparr>sv_provider := provider_connector\<rparr>"

section \<open>A connector only speaks to its provider\<close>

definition provider_hosts :: "string \<Rightarrow> string list" where
  "provider_hosts p =
     (if p = ''facebook'' \<or> p = ''instagram'' then [''https://graph.facebook.com/'']
      else if p = ''linkedin'' then [''https://www.linkedin.com/'', ''https://api.linkedin.com/'']
      else if p = ''twitter'' then [''https://api.twitter.com/'']
      else if p = ''google'' then
        [''https://oauth2.googleapis.com/'', ''https://www.googleapis.com/'',
         ''https://mybusinessaccountmanagement.googleapis.com/'', ''https://mybusinessbusinessinformation.googleapis.com/'']
      else [''https://slack.com/''])"

definition hosted_by :: "string \<Rightarrow> string \<Rightarrow> bool" where
  "hosted_by p url \<longleftrightarrow> list_ex (\<lambda>h. starts_with h url) (provider_hosts p)"

lemma starts_with_append: "starts_with p (p @ s)"
  by (simp add: starts_with_def)

lemma graph_hosted: "hosted_by ''facebook'' (graph_url @ path)" "hosted_by ''instagram'' (graph_url @ path)"
  by (simp_all add: hosted_by_def provider_hosts_def graph_url_def starts_with_def)

lemma fixed_hosted:
  "hosted_by ''linkedin'' ''https://www.linkedin.com/oauth/v2/accessToken''"
  "hosted_by ''linkedin'' ''https://api.linkedin.com/v2/userinfo''"
  "hosted_by ''linkedin'' ''https://api.linkedin.com/v2/organizationalEntityAcls?q=roleAssignee''"
  "hosted_by ''twitter'' ''https://api.twitter.com/2/oauth2/token''"
  "hosted_by ''twitter'' ''https://api.twitter.com/2/oauth2/revoke''"
  "hosted_by ''twitter'' ''https://api.twitter.com/2/users/me''"
  "hosted_by ''google'' google_token_url"
  "hosted_by ''google'' ''https://www.googleapis.com/oauth2/v2/userinfo''"
  "hosted_by ''google'' ''https://mybusinessaccountmanagement.googleapis.com/v1/accounts''"
  "hosted_by ''slack'' ''https://slack.com/api/oauth.v2.access''"
  "hosted_by ''slack'' ''https://slack.com/api/auth.test''"
  "hosted_by ''slack'' ''https://slack.com/api/conversations.list''"
  by code_simp+

lemma locations_hosted:
  "hosted_by ''google'' (''https://mybusinessbusinessinformation.googleapis.com/v1/'' @ s)"
  by (simp add: hosted_by_def provider_hosts_def starts_with_def)

lemmas hosts = graph_hosted fixed_hosted locations_hosted

lemma net_granted: "obeys (sends H) (granted a r n)"
  unfolding granted_def by (intro net_intros hosts)

lemma net_oauth:
  "obeys (sends (hosted_by ''facebook'')) (facebook_exchange_code cred code)"
  "obeys (sends (hosted_by ''instagram'')) (instagram_exchange_code cred code)"
  "obeys (sends (hosted_by ''linkedin'')) (linkedin_exchange_code cred code)"
  "obeys (sends (hosted_by ''twitter'')) (twitter_exchange_code cred code verifier)"
  "obeys (sends (hosted_by ''google'')) (google_exchange_code cred code)"
  "obeys (sends (hosted_by ''slack'')) (slack_exchange_code cred code)"
  "obeys (sends (hosted_by ''twitter'')) (twitter_revoke_token cred tok)"
  unfolding facebook_exchange_code_def instagram_exchange_code_def meta_exchange_code_def meta_long_lived_token_def
    linkedin_exchange_code_def linkedin_token_request_def twitter_exchange_code_def twitter_token_request_def
    google_exchange_code_def slack_exchange_code_def twitter_revoke_token_def Let_def
  by (intro net_intros hosts net_granted)+

lemma net_facebook_sync: "obeys (sends (hosted_by ''facebook'')) (facebook_fetch_profile tok)" "obeys (sends (hosted_by ''facebook'')) (facebook_perform_sync tok t)"
  unfolding facebook_fetch_profile_def facebook_perform_sync_def facebook_read_def graph_read_def graph_error_def
    full_sync_def facebook_fetch_pages_def pages_response_def facebook_page_info_def
  by (intro net_intros hosts)+

lemma net_instagram_sync: "obeys (sends (hosted_by ''instagram'')) (instagram_perform_sync tok t)"
proof -
  have "obeys (sends (hosted_by ''instagram'')) (instagram_linked_profile tok p)" for p
    unfolding instagram_linked_profile_def instagram_fetch_profile_def instagram_read_def graph_read_def graph_error_def
    by (intro net_intros hosts) (auto split: json.splits intro: net_intros hosts)
  then show ?thesis
    unfolding instagram_perform_sync_def full_sync_def fetch_pages_with_instagram_def instagram_read_def graph_read_def
      graph_error_def pages_response_def instagram_page_info_def
    by (intro net_intros hosts)
qed

lemma net_json_length: "obeys (sends H) (json_length j)"
  by (auto simp: json_length_def split: json.splits intro: net_intros)

lemma net_resource_name: "obeys (sends H) (resource_name j)"
  unfolding resource_name_def by (intro net_intros) (auto split: json.splits intro: net_intros)

lemma net_linkedin_sync:
  "obeys (sends (hosted_by ''linkedin'')) (linkedin_fetch_profile tok)"
  "obeys (sends (hosted_by ''linkedin'')) (linkedin_perform_sync tok t)"
  unfolding linkedin_perform_sync_def full_sync_def linkedin_fetch_profile_def linkedin_fetch_organizations_def
  by (intro net_intros hosts net_json_length)+

lemma net_google_sync:
  "obeys (sends (hosted_by ''google'')) (google_fetch_profile tok)"
  "obeys (sends (hosted_by ''google'')) (google_perform_sync tok t)"
  unfolding google_perform_sync_def full_sync_def google_fetch_profile_def google_fetch_accounts_def google_business_read_def
    google_account_def google_fetch_locations_def google_location_def
  by (intro net_intros hosts net_resource_name)+

lemma net_slack_sync: "obeys (sends (hosted_by ''slack'')) (slack_perform_sync tok t)"
  unfolding slack_perform_sync_def full_sync_def slack_verify_auth_def slack_list_channels_def slack_checked_def
    slack_channel_def
  by (intro net_intros hosts)

lemma net_twitter_profile: "obeys (sends (hosted_by ''twitter'')) (twitter_fetch_profile tok)"
  unfolding twitter_fetch_profile_def by (intro net_intros hosts)

lemma net_linkedin_identity: "obeys (sends H) (linkedin_urn j)" "obeys (sends H) (linkedin_name j)"
  unfolding linkedin_urn_def linkedin_name_def by (intro net_intros hosts)+

definition net_connector :: "(string \<Rightarrow> bool) \<Rightarrow> 'z net_world_ext connector \<Rightarrow> bool" where
  "net_connector H c \<longleftrightarrow>
     (\<forall>code v. obeys (sends H) (cn_connect c code v)) \<and> obeys (sends H) (cn_disconnect c) \<and> (\<forall>t. obeys (sends H) (cn_sync c t))"

lemma net_pick:
  "(\<And>a. obeys (sends H) (f a)) \<Longrightarrow> obeys (sends H) g \<Longrightarrow>
   obeys (sends H) (case j of JList (a # _) \<Rightarrow> f a | _ \<Rightarrow> g)"
  by (auto split: json.splits list.splits)

lemma net_connectors:
  "net_connector (hosted_by ''facebook'') (facebook_connector cred tok)"
  "net_connector (hosted_by ''instagram'') (instagram_connector cred tok)"
  "net_connector (hosted_by ''linkedin'') (linkedin_connector cred tok)"
  "net_connector (hosted_by ''twitter'') (twitter_connector cred tok)"
  "net_connector (hosted_by ''google'') (google_live_connector cred tok)"
  "net_connector (hosted_by ''slack'') (slack_connector cred tok)"
  unfolding net_connector_def facebook_connector_def instagram_connector_def linkedin_connector_def
    twitter_connector_def google_live_connector_def slack_connector_def connector.simps syncing_def
  by (intro conjI allI net_intros hosts net_oauth net_facebook_sync net_instagram_sync net_linkedin_sync net_linkedin_identity
      net_twitter_profile net_google_sync net_slack_sync net_pick)+

lemma hosted_default:
  "p \<noteq> ''facebook'' \<Longrightarrow> p \<noteq> ''instagram'' \<Longrightarrow> p \<noteq> ''linkedin'' \<Longrightarrow> p \<noteq> ''twitter'' \<Longrightarrow> p \<noteq> ''google'' \<Longrightarrow>
   hosted_by p = hosted_by ''slack''"
  by (rule ext) (simp add: hosted_by_def provider_hosts_def)

lemma provider_connector_net: "net_connector (hosted_by p) (provider_connector p cred tok)"
  using hosted_default [of p] by (simp add: provider_connector_def net_connectors)

text \<open>So what was proved of a service whose connectors are remote holds of the live one.\<close>

lemma live_remote_only: "remote_only (live sv)"
proof -
  have "net_connector (hosted_by p) (sv_provider (live sv) p cred tok)" for p cred tok
    by (simp add: live_def provider_connector_net)
  then show ?thesis
    unfolding remote_only_def remote_connector_def net_connector_def by (blast intro: net_remote)
qed

section \<open>What a connector answers is well typed\<close>

text \<open>An answer to \<open>connect\<close> that the service can store: a string for the token, a string or nothing for the refresh
  token, an instant or nothing for the expiry, and JSON for the rest.\<close>

definition storable_answer :: "json_object \<Rightarrow> bool" where
  "storable_answer a \<longleftrightarrow>
     (\<exists>s. dict_get a ''access_token'' = JStr s) \<and>
     (dict_get a ''refresh_token'' = JNull \<or> (\<exists>s. dict_get a ''refresh_token'' = JStr s)) \<and>
     (dict_get a ''expires_at'' = JNull \<or> (\<exists>t. dict_get a ''expires_at'' = JTime t)) \<and>
     (\<forall>(k, v) \<in> set a. k \<in> {''access_token'', ''refresh_token'', ''expires_at''} \<or> serializable v)"

definition token_dict :: "json_object \<Rightarrow> bool" where
  "token_dict d \<longleftrightarrow>
     (\<exists>a r t. d = [(''access_token'', JStr a), (''refresh_token'', json_opt r), (''expires_at'', JTime t)])"

lemma json_opt_cases: "json_opt x = JNull \<or> (\<exists>s. json_opt x = JStr s)"
  by (cases x) simp_all

lemma token_dict_storable:
  assumes "token_dict d"
  shows "serializable i \<Longrightarrow> serializable n \<Longrightarrow> k \<notin> {''access_token'', ''refresh_token'', ''expires_at''} \<Longrightarrow>
      storable_answer (with_profile d k i n)"
    and "serializable j \<Longrightarrow> storable_answer (d @ [(''metadata'', j)])"
  using assms
  by (auto simp: token_dict_def storable_answer_def with_profile_def dict_get_def) (metis json_opt_cases)+

lemma yields_granted: "yields token_dict (granted a r n)"
  unfolding granted_def by (intro yields_intros) (auto simp: token_dict_def)

lemma yields_oauth:
  "yields token_dict (facebook_exchange_code cred code)"
  "yields token_dict (instagram_exchange_code cred code)"
  "yields token_dict (linkedin_exchange_code cred code)"
  "yields token_dict (twitter_exchange_code cred code verifier)"
  "yields token_dict (google_exchange_code cred code)"
  unfolding facebook_exchange_code_def instagram_exchange_code_def meta_exchange_code_def meta_long_lived_token_def
    linkedin_exchange_code_def linkedin_token_request_def twitter_exchange_code_def twitter_token_request_def
    google_exchange_code_def Let_def
  by ((intro yields_intros yields_granted | simp)+)

text \<open>What a sync gives is JSON.\<close>

abbreviation json_dict :: "json_object \<Rightarrow> bool" where
  "json_dict d \<equiv> serializable_object (Some d)"

lemma yields_full_sync: "yields json_dict m \<Longrightarrow> yields json_dict (full_sync t m)"
  unfolding full_sync_def by (intro yields_intros) (simp_all add: unsupported_sync_def)

lemma yields_graph_read: "yields serializable (graph_read api tok failure path a wanted)"
  unfolding graph_read_def by (intro yields_intros yields_response_json yields_then [OF yields_net])
    (simp_all add: graph_error_def net_intros)

lemma serializable_json_opt [simp]: "serializable (json_opt x)"
  by (cases x) simp_all

lemma yields_page_info:
  "yields serializable (facebook_page_info j)" "yields serializable (slack_channel j)"
proof -
  show "yields serializable (facebook_page_info j)"
    unfolding facebook_page_info_def by (intro yields_intros) (simp add: list_all_iff)
  show "yields serializable (slack_channel j)"
    unfolding slack_channel_def
    by (intro yields_intros yields_skip [OF net_mapM] net_intros) simp
qed

lemma yields_pages: "(\<And>j. yields P (page_info j)) \<Longrightarrow> yields (\<lambda>ys. \<forall>y \<in> set ys. P y) (pages_response page_info j)"
  unfolding pages_response_def by (intro yields_intros yields_mapM)

lemma yields_facebook_sync: "yields json_dict (facebook_perform_sync tok t)"
  unfolding facebook_perform_sync_def facebook_fetch_profile_def facebook_fetch_pages_def facebook_read_def bindM_assoc
  by (intro yields_full_sync yields_bind [OF yields_graph_read] yields_bind [OF yields_pages [OF yields_page_info(1)]] yields_return)
    (simp add: list_all_iff)

lemma dict_set_serializable:
  "serializable (JObj kvs) \<Longrightarrow> serializable v \<Longrightarrow> serializable (JObj (dict_set kvs k v))"
  by (auto simp: dict_set_def list_all_iff split: if_splits)

lemma yields_linked_profile: "yields serializable (instagram_linked_profile tok p)"
proof -
  have tail: "yields serializable
      (case profile of
         JObj kvs \<Rightarrow> returnM (JObj (dict_set (dict_set kvs ''linked_page_id'' (JStr a)) ''page_access_token'' (JStr b)))
       | _ \<Rightarrow> raiseM e)" if "serializable profile" for profile a b e
  proof (cases profile)
    case (JObj kvs)
    from that [unfolded JObj] have "serializable (JObj (dict_set kvs ''linked_page_id'' (JStr a)))"
      by (rule dict_set_serializable) simp
    then have "serializable (JObj (dict_set (dict_set kvs ''linked_page_id'' (JStr a)) ''page_access_token'' (JStr b)))"
      by (rule dict_set_serializable) simp
    then show ?thesis unfolding JObj json.case by (rule yields_return)
  qed (simp_all only: json.case yields_raise)
  show ?thesis
    unfolding instagram_linked_profile_def instagram_fetch_profile_def instagram_read_def
    by (intro yields_skip [OF net_readers(5)] yields_intros yields_bind [OF yields_graph_read] tail)
qed

lemma yields_instagram_sync: "yields json_dict (instagram_perform_sync tok t)"
  unfolding instagram_perform_sync_def fetch_pages_with_instagram_def instagram_read_def bindM_assoc bindM_returnM
  by (intro yields_full_sync yields_bind [OF yields_graph_read]
      yields_bind [OF yields_pages [of "\<lambda>_. True", OF yields_net]] y_mapM yields_linked_profile yields_return)
    (simp_all add: list_all_iff instagram_page_info_def net_intros yields_linked_profile)

lemma yields_linkedin_profile: "yields serializable (linkedin_fetch_profile tok)"
  unfolding linkedin_fetch_profile_def by (intro yields_intros yields_response_json)

lemma yields_linkedin_sync: "yields json_dict (linkedin_perform_sync tok t)"
proof -
  have "yields serializable (linkedin_fetch_organizations tok)"
    unfolding linkedin_fetch_organizations_def by (intro yields_intros yields_get_key) simp_all
  note orgs = yields_bind [OF this]
  note len = yields_skip [OF net_json_length]
  show ?thesis unfolding linkedin_perform_sync_def
    by (intro yields_full_sync yields_bind [OF yields_linkedin_profile] orgs len yields_return) simp
qed

lemma yields_google_profile: "yields serializable (google_fetch_profile tok)"
proof -
  have entry: "yields (\<lambda>(k, v). serializable v) (bindM (field kvs k pyd_str) (\<lambda>s. returnM (k, JStr s)))" for kvs k
    by (intro yields_intros) simp
  have list: "list_all (\<lambda>(k, v). serializable v) (take n kvs @ (k, JBool b) # drop n kvs)"
    if "\<forall>y \<in> set kvs. case y of (k, v) \<Rightarrow> serializable v" for n kvs k b
    using that by (auto simp: list_all_iff dest: in_set_takeD in_set_dropD)
  show ?thesis
    unfolding google_fetch_profile_def
    by (intro yields_intros yields_bind [OF yields_mapM, OF entry]) (simp_all only: serializable.simps list)
qed

lemma yields_google_read: "yields serializable (google_business_read tok url what key)"
  unfolding google_business_read_def by (intro yields_intros yields_get_key) simp_all

abbreviation json_values :: "json list \<Rightarrow> bool" where
  "json_values xs \<equiv> \<forall>x \<in> set xs. serializable x"

lemma yields_google_location: "serializable loc \<Longrightarrow> yields json_values (google_location loc)"
proof -
  assume loc: "serializable loc"
  have "yields json_values
      (case name of None \<Rightarrow> returnM []
       | Some s \<Rightarrow> bindM (get_key loc ''title'' (JStr [])) (\<lambda>title.
           returnM [JObj [(''location_id'', JStr (last_segment (CHR ''/'') s)), (''location_name'', title)]]))" for name
    using loc by (cases name) (simp_all only: option.case, (intro yields_intros | simp)+)
  then show ?thesis unfolding google_location_def by (rule yields_skip [OF net_resource_name])
qed

lemma google_locations:
  "json_values xs \<Longrightarrow> (\<And>ys. \<forall>y \<in> set ys. json_values y \<Longrightarrow> yields Q (f ys)) \<Longrightarrow>
   yields Q (bindM (mapM google_location xs) f)"
  by (rule y_mapM) (auto intro: yields_google_location)

lemma yields_google_account: "serializable account \<Longrightarrow> yields json_values (google_account tok account)"
proof -
  assume acc: "serializable account"
  have loc: "yields serializable (google_fetch_locations tok s)" for s
    unfolding google_fetch_locations_def by (rule yields_google_read)
  have "yields json_values
      (case name of None \<Rightarrow> returnM []
       | Some s \<Rightarrow>
           bindM (google_fetch_locations tok s) (\<lambda>locations.
           bindM (as_list locations) (\<lambda>locations.
           bindM (mapM google_location locations) (\<lambda>parsed_locations.
           bindM (get_key account ''accountName'' (JStr [])) (\<lambda>account_name.
           returnM [JObj [(''account_id'', JStr (last_segment (CHR ''/'') s)), (''account_name'', account_name),
                          (''locations'', JList (concat parsed_locations))]])))))" for name
  proof (cases name)
    case None
    show ?thesis unfolding None option.case by (rule yields_return) simp
  next
    case (Some s)
    show ?thesis unfolding Some option.case
      by (intro yields_bind [OF loc] y_list google_locations y_key acc yields_return)
        (auto simp: list_all_iff)
  qed
  then show ?thesis unfolding google_account_def by (rule yields_skip [OF net_resource_name])
qed

lemma google_accounts:
  "json_values xs \<Longrightarrow> (\<And>ys. \<forall>y \<in> set ys. json_values y \<Longrightarrow> yields Q (f ys)) \<Longrightarrow>
   yields Q (bindM (mapM (google_account tok) xs) f)"
  by (rule y_mapM) (auto intro: yields_google_account)

lemma yields_google_sync: "yields json_dict (google_perform_sync tok t)"
  unfolding google_perform_sync_def google_fetch_accounts_def
  by (intro yields_full_sync yields_bind [OF yields_google_profile] yields_bind [OF yields_google_read] y_list
      google_accounts yields_return) (auto simp: list_all_iff)

lemma yields_slack_sync: "yields json_dict (slack_perform_sync tok t)"
proof -
  have entry: "yields (\<lambda>(k, v). serializable v) (bindM (field kvs k pyd_str) (\<lambda>s. returnM (k, JStr s)))" for kvs k
    by (intro yields_intros) simp
  have check: "obeys net_rel (slack_checked what r)" for what r
    unfolding slack_checked_def by (intro net_intros)
  have auth: "yields serializable (slack_verify_auth tok)"
    unfolding slack_verify_auth_def
    by (intro yields_intros yields_skip [OF check] yields_bind [OF yields_mapM, OF entry]) (auto simp: list_all_iff)
  have channels: "yields json_values (slack_list_channels tok)"
    unfolding slack_list_channels_def
    by (intro yields_intros yields_skip [OF check] y_mapM [where P = serializable] yields_page_info(2)) simp_all
  show ?thesis unfolding slack_perform_sync_def
    by (intro yields_full_sync yields_bind [OF auth] yields_bind [OF channels] yields_return) (simp add: list_all_iff)
qed

lemma yields_connect:
  "yields storable_answer (cn_connect (facebook_connector cred tok) code v)"
  "yields storable_answer (cn_connect (linkedin_connector cred tok) code v)"
  "yields storable_answer (cn_connect (google_live_connector cred tok) code v)"
proof -
  have fb: "yields serializable (facebook_fetch_profile t)" for t
    unfolding facebook_fetch_profile_def facebook_read_def by (rule yields_graph_read)
  show "yields storable_answer (cn_connect (facebook_connector cred tok) code v)"
    unfolding facebook_connector_def connector.simps
    by (intro yields_bind [OF yields_oauth(1)] yields_bind [OF fb] y_key yields_return token_dict_storable(1)) simp_all
  show "yields storable_answer (cn_connect (linkedin_connector cred tok) code v)"
    unfolding linkedin_connector_def connector.simps
    by (intro yields_bind [OF yields_oauth(3)] yields_bind [OF yields_linkedin_profile] yields_skip [OF net_linkedin_identity(1)]
        yields_skip [OF net_linkedin_identity(2)] yields_return token_dict_storable(1)) simp_all
  show "yields storable_answer (cn_connect (google_live_connector cred tok) code v)"
    unfolding google_live_connector_def connector.simps
    by (intro yields_bind [OF yields_oauth(5)] yields_bind [OF yields_google_profile] y_key yields_return
        token_dict_storable(1)) simp_all
qed

lemma yields_connect_instagram: "yields storable_answer (cn_connect (instagram_connector cred tok) code v)"
proof -
  have first: "yields storable_answer
      (case dict_get sync_data ''instagram_accounts'' of
         JList (a # _) \<Rightarrow>
           bindM (get_key a ''id'' JNull) (\<lambda>i.
           bindM (get_key a ''username'' JNull) (\<lambda>username.
           bindM (get_key a ''name'' JNull) (\<lambda>name.
           returnM (with_profile token_data ''author_id'' i (json_or username (json_or name (JStr [])))))))
       | _ \<Rightarrow> returnM (with_profile token_data ''author_id'' JNull (JStr [])))"
    if t: "token_dict token_data" and s: "json_dict sync_data" for sync_data token_data
  proof -
    have none: "yields storable_answer (returnM (with_profile token_data ''author_id'' JNull (JStr [])))"
      by (intro yields_return token_dict_storable(1) t) simp_all
    have some: "yields storable_answer
        (bindM (get_key a ''id'' JNull) (\<lambda>i.
         bindM (get_key a ''username'' JNull) (\<lambda>username.
         bindM (get_key a ''name'' JNull) (\<lambda>name.
         returnM (with_profile token_data ''author_id'' i (json_or username (json_or name (JStr []))))))))"
      if "serializable a" for a
      using that by (intro y_key yields_return token_dict_storable(1) t) (simp_all add: json_or_def)
    have "serializable a" if "dict_get sync_data ''instagram_accounts'' = JList (a # xs)" for a xs
    proof -
      from that have "map_of sync_data ''instagram_accounts'' = Some (JList (a # xs))"
        by (auto simp: dict_get_def split: option.splits)
      with s have "serializable (JList (a # xs))"
        unfolding serializable_object_def option.case by (rule serializable_value)
      then show ?thesis by simp
    qed
    with none some show ?thesis by (auto split: json.splits list.splits)
  qed
  show ?thesis unfolding instagram_connector_def connector.simps
    by (intro yields_bind [OF yields_oauth(2)] yields_bind [OF yields_instagram_sync] first)
qed

lemma yields_twitter_profile: "yields serializable (twitter_fetch_profile tok)"
  unfolding twitter_fetch_profile_def by (intro yields_intros yields_get_key) simp_all

lemma yields_connect_twitter: "yields storable_answer (cn_connect (twitter_connector cred tok) code v)"
  unfolding twitter_connector_def connector.simps
  by (intro yields_bind [OF yields_oauth(4)] yields_catch yields_bind [OF yields_twitter_profile] yields_return
      yields_raise token_dict_storable(2) net_intros sends_net [OF net_twitter_profile] yields_skip [OF net.obeys_read])

lemma yields_connect_slack: "yields storable_answer (cn_connect (slack_connector cred tok) code v)"
proof -
  have "yields (\<lambda>d. \<exists>a b c e f. d = [(''access_token'', JStr a), (''team_id'', JStr b), (''team_name'', JStr c),
      (''bot_user_id'', JStr e), (''app_id'', JStr f)]) (slack_exchange_code cred code)"
    unfolding slack_exchange_code_def by ((intro yields_intros | simp)+)
  then show ?thesis unfolding slack_connector_def connector.simps
    by (rule yields_bind) (rule yields_return, auto simp: storable_answer_def dict_get_def)
qed

lemma yields_syncing: "(\<And>t s. yields json_dict (engine t s)) \<Longrightarrow> yields json_dict (syncing tok engine t)"
  unfolding syncing_def by (intro yields_intros)

lemma yields_sync_twitter: "yields json_dict (cn_sync (twitter_connector cred tok) t)"
  unfolding twitter_connector_def connector.simps
  by (intro yields_bind [OF yields_twitter_profile] yields_return) simp

lemma yields_live:
  "yields storable_answer (cn_connect (provider_connector p cred tok) code v)"
  by (simp add: provider_connector_def yields_connect yields_connect_instagram yields_connect_twitter yields_connect_slack)

lemma yields_live_sync: "yields json_dict (cn_sync (provider_connector p cred tok) t)"
  unfolding provider_connector_def
  by (simp add: yields_sync_twitter)
    (simp add: facebook_connector_def instagram_connector_def linkedin_connector_def
      google_live_connector_def slack_connector_def yields_syncing yields_facebook_sync yields_instagram_sync
      yields_linkedin_sync yields_google_sync yields_slack_sync)

section \<open>Storing an answer\<close>

text \<open>The type errors that storing an answer could end in.\<close>

lemma encrypt_optional_typed:
  "(j = JNull \<or> (\<exists>s. j = JStr s)) \<Longrightarrow> \<exists>x w'. encrypt_optional sv j w = (Inr x, w')"
  by (auto simp: encrypt_optional_def encrypt_token_def json_truthy_def next_nonce_def bindM_def)

lemma flush_errors:
  "create M r w = (Inl e, w') \<Longrightarrow> e = IntegrityError"
  "update M i f w = (Inl e, w') \<Longrightarrow> e \<in> {IntegrityError, StaleDataError}"
  by (auto simp: create_def update_def flush_new_def flush_dirty_def insert_row_def update_row_def split: option.splits if_splits)

lemma save_connection_typed:
  assumes a: "storable_answer answer" and run: "save_connection sv ws p answer w = (Inl e, w')"
  shows "e \<in> {IntegrityError, StaleDataError}"
proof -
  let ?d = "dict_get answer"
  let ?meta = "filter (\<lambda>(k, v). k \<notin> {''access_token'', ''refresh_token'', ''expires_at''}) answer"
  obtain s where s: "?d ''access_token'' = JStr s"
    and r: "?d ''refresh_token'' = JNull \<or> (\<exists>s. ?d ''refresh_token'' = JStr s)"
    and x: "?d ''expires_at'' = JNull \<or> (\<exists>t. ?d ''expires_at'' = JTime t)"
    and meta: "serializable_object (Some ?meta)"
    using a by (auto simp: storable_answer_def serializable_object_def list_all_iff)
  obtain x1 where x1: "naive_utc (?d ''expires_at'') w = (Inr x1, w)" using x by (auto simp: naive_utc_def)
  obtain x2 w2 where x2: "encrypt_optional sv (?d ''access_token'') w = (Inr x2, w2)"
    using encrypt_optional_typed s by metis
  obtain x3 w3 where x3: "encrypt_optional sv (?d ''refresh_token'') w2 = (Inr x3, w3)"
    using encrypt_optional_typed r by metis
  obtain x4 where x4: "get_by_workspace_and_provider ws p w3 = (Inr x4, w3)"
    by (simp add: get_by_workspace_and_provider_def)
  note steps =
    bindM_Inr [where m = "naive_utc (?d ''expires_at'')", OF x1]
    bindM_Inr [where m = "encrypt_optional sv (?d ''access_token'')", OF x2]
    bindM_Inr [where m = "encrypt_optional sv (?d ''refresh_token'')", OF x3]
    bindM_Inr [where m = "get_by_workspace_and_provider ws p", OF x4]
  from run meta show ?thesis
    unfolding save_connection_def Let_def steps by (cases x4) (auto dest: flush_errors)
qed

section \<open>The live service\<close>

text \<open>C27 (safety). A connector speaks to its own provider only: whatever the answers are, a connect, a disconnect or a sync
  sends requests to the hosts of that provider and to no other URL, so the client secret, the tokens and the codes
  that the requests carry reach nobody else; and it writes neither the database nor the issued OAuth states.\<close>

theorem connectors_ask_their_provider:
  fixes w :: "'z net_world_scheme"
  assumes "w' \<in> {snd (cn_connect (provider_connector p cred tok) code verifier w),
                  snd (cn_disconnect (provider_connector p cred tok) w),
                  snd (cn_sync (provider_connector p cred tok) t w)}"
  shows "(\<exists>sent. http_log w' = http_log w @ sent \<and> (\<forall>q \<in> set sent. hosted_by p (rq_url q))) \<and>
    db w' = db w \<and> committed w' = committed w \<and> oauth_states w' = oauth_states w"
proof -
  from assms have "sends (hosted_by p) w w'"
    using provider_connector_net [of p cred tok] by (auto simp: net_connector_def obeys_def)
  then show ?thesis by (auto simp: sends_def remote_rel_def)
qed


definition fx_twitter_answers :: "(string \<times> http_response) list" where
  "fx_twitter_answers =
     [(''https://api.twitter.com/2/oauth2/token'',
       fx_reply 200 (Some (JObj [(''token_type'', JStr ''bearer''), (''expires_in'', JInt 7200), (''access_token'', JStr ''acc''),
                                 (''scope'', JStr ''tweet.write''), (''refresh_token'', JStr ''ref'')]))),
      (''https://api.twitter.com/2/users/me'',
       fx_reply 200 (Some (JObj [(''data'', JObj [(''id'', JStr ''42''), (''username'', JStr ''ada'')])])))]"

definition fx_twitter :: net_world where
  "fx_twitter = fx_net fx_database fx_twitter_answers"

lemma fx_twitter_plain: "plain_network (wire fx_twitter)"
  by (auto simp: fx_twitter_def fx_twitter_answers_def fx_reply_def plain_response_def intro!: plain_fx_network)

theorem connectors_ask_their_provider_witness:
  "\<exists>(w' :: net_world). http_log w' \<noteq> [] \<and> (\<forall>q \<in> set (http_log w'). hosted_by ''twitter'' (rq_url q))"
proof -
  let ?c = "provider_connector ''twitter'' (''id'', ''secret'') (Some ''acc'')"
  let ?w = "snd (cn_sync ?c (JStr ''full'') fx_twitter)"
  have "http_log ?w \<noteq> []" by code_simp
  moreover have "http_log fx_twitter = []" by (simp add: fx_twitter_def)
  ultimately show ?thesis
    using connectors_ask_their_provider [of ?w "''twitter''" "(''id'', ''secret'')" "Some ''acc''" "''c''" None fx_twitter
        "JStr ''full''"] by auto
qed


end
