(* ===== verification/Social_Publishers.thy ===== *)
theory Social_Publishers
  imports Connectors
begin

text \<open>
  The publishers (\<open>publisher.py\<close> of the connectors, \<open>business_profile.py\<close>, \<open>youtube.py\<close>): the requests that put a post on
  a network. Twitter uploads media in parts and polls until they are processed; YouTube resumes an upload that
  breaks. Both loops run as long as the provider keeps answering, so they go at most \<open>patience\<close> rounds, after
  which the request is cancelled; the theorems say which answers make them end by themselves.
\<close>

section \<open>Facebook and Instagram\<close>

definition meta_post :: "string \<Rightarrow> string \<Rightarrow> string \<Rightarrow> (string \<times> string) list \<Rightarrow> ('z, json) nio" where
  "meta_post err failure path form =
     bindM (http_post (graph_url @ path) [] (FormBody form)) (\<lambda>response.
     thenM (raise_if (rs_status response \<noteq> 200) (ProviderError err (failure @ rs_text response)))
       (response_json response))"

definition facebook_publish_text_post :: "string \<Rightarrow> string \<Rightarrow> string \<Rightarrow> ('z, json) nio" where
  "facebook_publish_text_post tok page_id message =
     meta_post ''FacebookPublishError'' ''Failed to publish text post: '' (CHR ''/'' # page_id @ ''/feed'')
       [(''message'', message), (''access_token'', tok)]"

definition facebook_publish_image_post :: "string \<Rightarrow> string \<Rightarrow> string \<Rightarrow> string \<Rightarrow> ('z, json) nio" where
  "facebook_publish_image_post tok page_id message image_url =
     meta_post ''FacebookPublishError'' ''Failed to publish image post: '' (CHR ''/'' # page_id @ ''/photos'')
       [(''caption'', message), (''url'', image_url), (''access_token'', tok)]"

definition facebook_publish_video_post :: "string \<Rightarrow> string \<Rightarrow> string \<Rightarrow> string \<Rightarrow> string \<Rightarrow> ('z, json) nio" where
  "facebook_publish_video_post tok page_id title description file_url =
     meta_post ''FacebookPublishError'' ''Failed to publish video post: '' (CHR ''/'' # page_id @ ''/videos'')
       [(''title'', title), (''description'', description), (''file_url'', file_url), (''access_token'', tok)]"

text \<open>A container first, then its publication.\<close>

definition instagram_publish_image_post :: "string \<Rightarrow> string \<Rightarrow> string \<Rightarrow> string \<Rightarrow> ('z, json) nio" where
  "instagram_publish_image_post tok ig_user_id image_url caption =
     bindM (meta_post ''InstagramPublishError'' ''Failed to create media container: '' (CHR ''/'' # ig_user_id @ ''/media'')
              [(''image_url'', image_url), (''caption'', caption), (''access_token'', tok)]) (\<lambda>container_data.
     bindM (get_key container_data ''id'' JNull) (\<lambda>creation_id.
     thenM (raise_if (\<not> json_truthy creation_id)
              (ProviderError ''InstagramPublishError'' ''Media container creation did not return an ID.'')) (
     bindM (text_of creation_id) (\<lambda>creation_id.
     meta_post ''InstagramPublishError'' ''Failed to publish media container: '' (CHR ''/'' # ig_user_id @ ''/media_publish'')
       [(''creation_id'', creation_id), (''access_token'', tok)]))))"

section \<open>LinkedIn\<close>

text \<open>\<open>^\d{6}$\<close>, where the dollar also matches before a last newline.\<close>

definition is_digit :: "char \<Rightarrow> bool" where
  "is_digit c = (let n = (of_char c :: nat) in 48 \<le> n \<and> n \<le> 57)"

definition api_version_format :: "string \<Rightarrow> bool" where
  "api_version_format v \<longleftrightarrow>
     list_all is_digit (take 6 v) \<and> length (take 6 v) = 6 \<and> (drop 6 v = [] \<or> drop 6 v = [char_of (10 :: nat)])"

definition linkedin_publisher :: "string \<Rightarrow> ('z, (string \<times> string) list) nio" where
  "linkedin_publisher tok =
     bindM (readM (\<lambda>w. environ w ''LINKEDIN_API_VERSION'')) (\<lambda>api_version.
     thenM (raise_if (\<not> truthy_str api_version)
              (IntegrationError ''LINKEDIN_API_VERSION is not configured in the environment.'')) (
     thenM (raise_if (\<not> api_version_format (the api_version))
              (IntegrationError (''LINKEDIN_API_VERSION '' @ the api_version @ '' must be in YYYYMM format.'')))
       (returnM (linkedin_headers tok @
          [(''Content-Type'', ''application/json''), (''LinkedIn-Version'', the api_version)]))))"

definition linkedin_create_post ::
  "string \<Rightarrow> (string \<times> string) list \<Rightarrow> string \<Rightarrow> string \<Rightarrow> json_object \<Rightarrow> ('z, string) nio" where
  "linkedin_create_post what headers author_urn body content =
     bindM (http_post ''https://api.linkedin.com/rest/posts'' headers
              (JsonBody (JObj ([(''author'', JStr author_urn), (''lifecycleState'', JStr ''PUBLISHED''),
                                (''commentary'', JStr body), (''visibility'', JStr ''PUBLIC'')] @ content)))) (\<lambda>response.
     thenM (raise_if (rs_status response \<noteq> 201)
              (ProviderError ''LinkedInPublishError'' (''Failed to publish '' @ what @ '' post: '' @ rs_text response)))
       (case response_header response ''x-restli-id'' of
          Some post_id \<Rightarrow>
            if post_id \<noteq> [] then returnM post_id
            else raiseM (ProviderError ''LinkedInPublishError'' ''x-restli-id was missing from headers.'')
        | None \<Rightarrow> raiseM (ProviderError ''LinkedInPublishError'' ''x-restli-id was missing from headers.'')))"

definition linkedin_publish_text_post :: "(string \<times> string) list \<Rightarrow> string \<Rightarrow> string \<Rightarrow> ('z, string) nio" where
  "linkedin_publish_text_post headers author_urn body = linkedin_create_post ''text'' headers author_urn body []"

text \<open>Only a key that is missing is reported as such.\<close>

definition linkedin_initialize_upload :: "(string \<times> string) list \<Rightarrow> string \<Rightarrow> ('z, json \<times> json) nio" where
  "linkedin_initialize_upload headers author_urn =
     bindM (http_post ''https://api.linkedin.com/rest/images?action=initializeUpload'' headers
              (JsonBody (JObj [(''initializeUploadRequest'', JObj [(''owner'', JStr author_urn)])]))) (\<lambda>response.
     thenM (raise_if (rs_status response \<noteq> 200)
              (ProviderError ''LinkedInPublishError'' (''Failed to initialize image upload: '' @ rs_text response))) (
     bindM (response_json response) (\<lambda>data.
     catchM
       (bindM (json_item data ''value'') (\<lambda>value.
        bindM (json_item value ''uploadUrl'') (\<lambda>upload_url.
        bindM (json_item value ''image'') (\<lambda>image_urn. returnM (upload_url, image_urn)))))
       (\<lambda>e. case e of
          KeyError k \<Rightarrow>
            raiseM (ProviderError ''LinkedInPublishError'' (''Invalid response from initializeUpload: '' @ rs_text response))
        | _ \<Rightarrow> raiseM e))))"

definition linkedin_upload_binary :: "string \<Rightarrow> string \<Rightarrow> string \<Rightarrow> ('z, unit) nio" where
  "linkedin_upload_binary upload_url image_binary mime_type =
     bindM (http_put upload_url [(''Content-Type'', mime_type)] (RawBody image_binary)) (\<lambda>response.
     raise_if (rs_status response \<notin> {200, 201})
       (ProviderError ''LinkedInPublishError'' (''Failed to upload image binary: '' @ rs_text response)))"

definition linkedin_publish_image_post ::
  "(string \<times> string) list \<Rightarrow> string \<Rightarrow> string \<Rightarrow> string \<Rightarrow> string \<Rightarrow> ('z, string) nio" where
  "linkedin_publish_image_post headers author_urn body image_binary mime_type =
     bindM (linkedin_initialize_upload headers author_urn) (\<lambda>(upload_url, image_urn).
     bindM (case upload_url of JStr u \<Rightarrow> returnM u | _ \<Rightarrow> raiseM (TypeError ''Invalid type for url'')) (\<lambda>upload_url.
     thenM (linkedin_upload_binary upload_url image_binary mime_type)
       (linkedin_create_post ''image'' headers author_urn body
          [(''content'', JObj [(''media'', JObj [(''id'', image_urn)])])])))"

section \<open>Slack and Google Business Profile\<close>

definition slack_publish_message ::
  "string \<Rightarrow> string \<Rightarrow> string \<Rightarrow> json list option \<Rightarrow> string option \<Rightarrow> ('z, json) nio" where
  "slack_publish_message tok channel_id body blocks thread_ts =
     bindM (http_post ''https://slack.com/api/chat.postMessage''
              (bearer tok @ [(''Content-Type'', ''application/json; charset=utf-8'')])
              (JsonBody (JObj ([(''channel'', JStr channel_id), (''text'', JStr body)]
                 @ (case blocks of Some (b # bs) \<Rightarrow> [(''blocks'', JList (b # bs))] | _ \<Rightarrow> [])
                 @ (if truthy_str thread_ts then [(''thread_ts'', JStr (the thread_ts))] else []))))) (\<lambda>response.
     thenM (raise_if (rs_status response \<noteq> 200)
              (ProviderError ''SlackPublishError'' (''HTTP error on chat.postMessage: '' @ decimal (rs_status response)))) (
     bindM (response_json response) (\<lambda>data.
     bindM (get_key data ''ok'' JNull) (\<lambda>ok.
     bindM (get_key data ''error'' (JStr ''Unknown Slack API error'')) (\<lambda>error.
     bindM (text_of error) (\<lambda>error_msg.
     thenM (raise_if (\<not> json_truthy ok) (ProviderError ''SlackPublishError'' (''Slack API error: '' @ error_msg))) (
     bindM (keyword_arguments data) (\<lambda>kvs.
     bindM (field kvs ''ok'' pyd_bool) (\<lambda>ok.
     bindM (field kvs ''channel'' pyd_str) (\<lambda>channel.
     bindM (field kvs ''ts'' pyd_str) (\<lambda>ts.
     bindM (field kvs ''message'' pyd_dict) (\<lambda>message.
     returnM (JObj [(''ok'', JBool ok), (''channel'', JStr channel), (''ts'', JStr ts), (''message'', JObj message)])))))))))))))"

text \<open>\<open>_handle_errors\<close> and the same checks of the Business Profile\<close>

definition google_status :: "http_response \<Rightarrow> ('z, unit) nio" where
  "google_status response =
     (let s = rs_status response in
      if s = 401 then raiseM (ProviderError ''GoogleAuthError'' ''Google access token is invalid or expired.'')
      else if s = 403 then raiseM (ProviderError ''GoogleAuthError'' ''Forbidden.'')
      else if s = 429 then raiseM (ProviderError ''GoogleQuotaError'' ''rate limit exceeded.'')
      else if 400 \<le> s then raiseM (ProviderError ''GoogleApiError'' (''API returned error '' @ decimal s @ '': '' @ rs_text response))
      else returnM ())"

definition business_publish_post :: "string \<Rightarrow> string \<Rightarrow> string \<Rightarrow> string option \<Rightarrow> ('z, string) nio" where
  "business_publish_post tok account_id body image_url =
     bindM (http_post (''https://mybusiness.googleapis.com/v4/'' @ account_id @ ''/localPosts'')
              (bearer tok @ [(''Content-Type'', ''application/json'')])
              (JsonBody (JObj ([(''languageCode'', JStr ''en-US''), (''summary'', JStr body), (''topicType'', JStr ''STANDARD'')]
                 @ (if truthy_str image_url
                    then [(''media'', JList [JObj [(''mediaFormat'', JStr ''PHOTO''), (''sourceUrl'', JStr (the image_url))]])]
                    else []))))) (\<lambda>response.
     thenM (google_status response) (
     bindM (response_json response) (\<lambda>data.
     bindM (get_key data ''name'' JNull) (\<lambda>post_name.
     thenM (raise_if (\<not> json_truthy post_name)
              (ProviderError ''GoogleApiError'' ''Google Business Profile response missing name identifier.''))
       (text_of post_name)))))"

section \<open>Twitter\<close>

definition integer :: "int \<Rightarrow> string" where
  "integer i = (if i < 0 then CHR ''-'' # decimal (nat (- i)) else decimal (nat i))"

definition media_url :: string where
  "media_url = ''https://api.twitter.com/2/media/upload''"

definition upload_failed :: "string \<Rightarrow> http_response \<Rightarrow> exn" where
  "upload_failed step response =
     ProviderError ''TwitterPublishError''
       (step @ '' media upload failed ('' @ decimal (rs_status response) @ ''): '' @ rs_text response)"

text \<open>\<open>d.get("data", {}).get(k, v)\<close>\<close>

definition data_item :: "json \<Rightarrow> string \<Rightarrow> json \<Rightarrow> ('z, json) io" where
  "data_item j k v = bindM (get_key j ''data'' (JObj [])) (\<lambda>d. get_key d k v)"

definition upload_init :: "string \<Rightarrow> string \<Rightarrow> int \<Rightarrow> string \<Rightarrow> ('z, string) nio" where
  "upload_init tok mime_type total_bytes media_category =
     bindM (http_post (media_url @ ''/initialize'') (bearer tok)
              (FormBody [(''command'', ''INIT''), (''total_bytes'', integer total_bytes), (''media_type'', mime_type),
                         (''media_category'', media_category)])) (\<lambda>response.
     thenM (raise_if (rs_status response = 401)
              (ProviderError ''TwitterAuthError'' ''Twitter access token is missing or expired for media upload.'')) (
     thenM (raise_if (rs_status response \<notin> {200, 202}) (upload_failed ''INIT'' response)) (
     bindM (response_json response) (\<lambda>init_data.
     bindM (data_item init_data ''id'' JNull) (\<lambda>media_id.
     thenM (raise_if (\<not> json_truthy media_id)
              (ProviderError ''TwitterPublishError'' ''Failed to parse media_id from INIT response''))
       (text_of media_id))))))"

text \<open>The bytes of an image in one part, the chunks of a video in numbered parts.\<close>

datatype media_source = Whole string | Streamed "string list"

definition upload_append :: "string \<Rightarrow> string \<Rightarrow> (string \<times> string) list \<Rightarrow> string \<Rightarrow> string \<Rightarrow> ('z, unit) nio" where
  "upload_append tok media_id form chunk mime_type =
     bindM (http_post (media_url @ ''/'' @ media_id @ ''/append'') (bearer tok) (MultipartBody form chunk mime_type)) (\<lambda>response.
     raise_if (rs_status response \<notin> {200, 204}) (upload_failed ''APPEND'' response))"

fun upload_segments :: "string \<Rightarrow> string \<Rightarrow> string \<Rightarrow> nat \<Rightarrow> string list \<Rightarrow> ('z, unit) nio" where
  "upload_segments tok media_id mime_type segment_index [] = returnM ()"
| "upload_segments tok media_id mime_type segment_index (chunk # chunks) =
     thenM (upload_append tok media_id
              [(''command'', ''APPEND''), (''media_id'', media_id), (''segment_index'', decimal segment_index)] chunk mime_type)
       (upload_segments tok media_id mime_type (Suc segment_index) chunks)"

text \<open>\<open>asyncio.sleep(x)\<close> takes a number.\<close>

definition sleep_json :: "json \<Rightarrow> ('z, unit) io" where
  "sleep_json j = (case j of JInt i \<Rightarrow> returnM () | JBool b \<Rightarrow> returnM () | _ \<Rightarrow> raiseM (TypeError ''sleep''))"

definition polls :: "json \<Rightarrow> bool" where
  "polls state \<longleftrightarrow> state = JStr ''pending'' \<or> state = JStr ''in_progress''"

text \<open>One round of the status loop gives the next processing info.\<close>

definition poll_status :: "string \<Rightarrow> string \<Rightarrow> json \<Rightarrow> ('z, json) nio" where
  "poll_status tok media_id processing_info =
     bindM (get_key processing_info ''check_after_secs'' (JInt 5)) (\<lambda>check_after_secs.
     thenM (sleep_json check_after_secs) (
     bindM (http_get (media_url @ ''/'' @ media_id @ ''/status'') (bearer tok) []) (\<lambda>response.
     thenM (raise_if (rs_status response \<noteq> 200) (upload_failed ''STATUS'' response)) (
     bindM (response_json response) (\<lambda>status_data.
     bindM (data_item status_data ''processing_info'' (JObj [])) (\<lambda>processing_info.
     bindM (get_key processing_info ''state'' JNull) (\<lambda>state.
     if state = JStr ''failed'' then
       bindM (get_key processing_info ''error'' (JObj [])) (\<lambda>error.
       bindM (get_key error ''message'' (JStr ''Unknown error'')) (\<lambda>message.
       bindM (text_of message) (\<lambda>message.
       raiseM (ProviderError ''TwitterPublishError'' (''Media processing failed: '' @ message)))))
     else returnM processing_info)))))))"

fun await_processing :: "nat \<Rightarrow> string \<Rightarrow> string \<Rightarrow> json \<Rightarrow> ('z, unit) nio" where
  "await_processing n tok media_id processing_info =
     bindM (get_key processing_info ''state'' JNull) (\<lambda>state.
     if \<not> polls state then returnM ()
     else case n of
       0 \<Rightarrow> raiseM cancelled
     | Suc m \<Rightarrow> bindM (poll_status tok media_id processing_info) (await_processing m tok media_id))"

definition upload_media :: "string \<Rightarrow> media_source \<Rightarrow> string \<Rightarrow> int \<Rightarrow> string \<Rightarrow> ('z, string) nio" where
  "upload_media tok source mime_type total_bytes media_category =
     bindM (upload_init tok mime_type total_bytes media_category) (\<lambda>media_id.
     thenM (case source of
              Whole bytes \<Rightarrow> upload_append tok media_id [] bytes mime_type
            | Streamed chunks \<Rightarrow> upload_segments tok media_id mime_type 0 chunks) (
     bindM (http_post (media_url @ ''/'' @ media_id @ ''/finalize'') (bearer tok) (FormBody [(''command'', ''FINALIZE'')])) (\<lambda>response.
     thenM (raise_if (rs_status response \<notin> {200, 201}) (upload_failed ''FINALIZE'' response)) (
     bindM (response_json response) (\<lambda>finalize_data.
     bindM (data_item finalize_data ''processing_info'' JNull) (\<lambda>processing_info.
     thenM (if json_truthy processing_info
            then bindM (readM patience) (\<lambda>n. await_processing n tok media_id processing_info) else returnM ())
       (returnM media_id)))))))"

definition tweets_url :: string where
  "tweets_url = ''https://api.twitter.com/2/tweets''"

definition twitter_publish_post :: "string \<Rightarrow> string \<Rightarrow> string list \<Rightarrow> ('z, string) nio" where
  "twitter_publish_post tok body media_ids =
     thenM (raise_if (py_strip body = [] \<and> media_ids = [])
              (ProviderError ''TwitterPublishError'' ''Tweet must contain either text or media.'')) (
     bindM (http_post tweets_url (bearer tok @ [(''Content-Type'', ''application/json'')])
              (JsonBody (JObj ((if body \<noteq> [] then [(''text'', JStr body)] else [])
                 @ (if media_ids \<noteq> [] then [(''media'', JObj [(''media_ids'', JList (map JStr media_ids))])] else []))))) (\<lambda>response.
     thenM (raise_if (rs_status response = 401)
              (ProviderError ''TwitterAuthError'' ''Twitter access token is missing or expired.'')) (
     thenM (raise_if (rs_status response \<notin> {200, 201})
              (ProviderError ''TwitterPublishError''
                 (''Twitter API error ('' @ decimal (rs_status response) @ ''): '' @ rs_text response))) (
     bindM (catchM (response_json response)
              (\<lambda>e. raiseM (ProviderError ''TwitterPublishError''
                             (''Malformed JSON response from Twitter API: '' @ rs_text response)))) (\<lambda>data.
     bindM (data_item data ''id'' JNull) (\<lambda>tweet_id.
     thenM (raise_if (\<not> json_truthy tweet_id)
              (ProviderError ''TwitterPublishError'' ''Twitter API response missing tweet ID''))
       (text_of tweet_id)))))))"

section \<open>YouTube\<close>

text \<open>\<open>int(range_header.split("-")[1]) + 1\<close>\<close>

definition second_segment :: "string \<Rightarrow> string option" where
  "second_segment s =
     (case dropWhile (\<lambda>c. c \<noteq> CHR ''-'') s of [] \<Rightarrow> None | _ # r \<Rightarrow> Some (takeWhile (\<lambda>c. c \<noteq> CHR ''-'') r))"

definition bytes_acknowledged :: "string \<Rightarrow> ('z, int) io" where
  "bytes_acknowledged range_header =
     (case second_segment range_header of
        None \<Rightarrow> raiseM (PyException ''IndexError'')
      | Some s \<Rightarrow> (case py_int s of None \<Rightarrow> raiseM (ValueError ''invalid literal for int()'') | Some n \<Rightarrow> returnM (n + 1)))"

text \<open>A round either ends the upload with an id or gives the number of bytes to resume from.\<close>

definition upload_part :: "string \<Rightarrow> string \<Rightarrow> int \<Rightarrow> int \<Rightarrow> ('z, json + int) nio" where
  "upload_part asset_url location_url file_size uploaded_bytes =
     bindM (http_get asset_url (if uploaded_bytes > 0 then [(''Range'', ''bytes='' @ integer uploaded_bytes @ ''-'')] else []) []) (\<lambda>stream.
     thenM (raise_if (rs_status stream \<notin> {200, 206})
              (ProviderError ''GoogleApiError'' (''Failed to fetch asset from URL: '' @ decimal (rs_status stream)))) (
     bindM (http_put location_url
              [(''Content-Length'', integer (file_size - uploaded_bytes)),
               (''Content-Range'', ''bytes '' @ integer uploaded_bytes @ ''-'' @ integer (file_size - 1) @ ''/'' @ integer file_size)]
              (RawBody (rs_content stream))) (\<lambda>response.
     if rs_status response \<in> {200, 201} then
       bindM (response_json response) (\<lambda>data.
       bindM (get_key data ''id'' JNull) (\<lambda>video_id.
       if json_truthy video_id then returnM (Inl video_id)
       else raiseM (ProviderError ''GoogleApiError'' ''YouTube response missing video id.'')))
     else if rs_status response = 308 then
       (case response_header response ''range'' of
          Some range_header \<Rightarrow>
            if range_header \<noteq> [] then bindM (bytes_acknowledged range_header) (\<lambda>n. returnM (Inr n))
            else raiseM (ProviderError ''GoogleApiError'' ''308 response missing Range header.'')
        | None \<Rightarrow> raiseM (ProviderError ''GoogleApiError'' ''308 response missing Range header.''))
     else thenM (google_status response) (returnM (Inr uploaded_bytes)))))"

text \<open>After an error: asking the server how far it got.\<close>

definition recover_upload :: "string \<Rightarrow> int \<Rightarrow> int \<Rightarrow> ('z, json + int) nio" where
  "recover_upload location_url file_size uploaded_bytes =
     bindM (http_put location_url [(''Content-Range'', ''bytes */'' @ integer file_size)] NoBody) (\<lambda>response.
     if rs_status response = 308 then
       (case response_header response ''range'' of
          Some range_header \<Rightarrow>
            if range_header \<noteq> [] then bindM (bytes_acknowledged range_header) (\<lambda>n. returnM (Inr n)) else returnM (Inr 0)
        | None \<Rightarrow> returnM (Inr 0))
     else if rs_status response \<in> {200, 201} then
       bindM (response_json response) (\<lambda>data. bindM (get_key data ''id'' JNull) (\<lambda>i. returnM (Inl i)))
     else thenM (google_status response) (returnM (Inr uploaded_bytes)))"

fun is_upload_error :: "exn \<Rightarrow> bool" where
  "is_upload_error (RequestError m) = True"
| "is_upload_error (ProviderError c m) = (c = ''GoogleApiError'' \<or> c = ''GoogleQuotaError'')"
| "is_upload_error _ = False"

text \<open>The whole body of the loop, which gives the retries that are left too.\<close>

definition upload_round :: "string \<Rightarrow> string \<Rightarrow> int \<Rightarrow> int \<times> nat \<Rightarrow> ('z, json + int \<times> nat) nio" where
  "upload_round asset_url location_url file_size = (\<lambda>(uploaded_bytes, retries).
     catchM
       (bindM (upload_part asset_url location_url file_size uploaded_bytes) (\<lambda>r.
        case r of Inl video_id \<Rightarrow> returnM (Inl video_id) | Inr n \<Rightarrow> returnM (Inr (n, retries))))
       (\<lambda>e. if \<not> is_upload_error e then raiseM e
            else if retries = 1 then
              bindM (readM exn_text) (\<lambda>text.
              raiseM (ProviderError ''GoogleApiError'' (''YouTube video upload failed after retries: '' @ text e)))
            else bindM (recover_upload location_url file_size uploaded_bytes) (\<lambda>r.
              case r of Inl video_id \<Rightarrow> returnM (Inl video_id) | Inr n \<Rightarrow> returnM (Inr (n, retries - 1)))))"

fun upload_loop :: "nat \<Rightarrow> string \<Rightarrow> string \<Rightarrow> int \<Rightarrow> int \<times> nat \<Rightarrow> ('z, json) nio" where
  "upload_loop n asset_url location_url file_size st =
     (if \<not> (fst st < file_size \<and> snd st > 0)
      then raiseM (ProviderError ''GoogleApiError'' ''YouTube upload did not complete.'')
      else case n of
        0 \<Rightarrow> raiseM cancelled
      | Suc m \<Rightarrow> bindM (upload_round asset_url location_url file_size st) (\<lambda>r.
          case r of Inl video_id \<Rightarrow> returnM video_id | Inr st' \<Rightarrow> upload_loop m asset_url location_url file_size st'))"

definition youtube_upload_video :: "string \<Rightarrow> string \<Rightarrow> string \<Rightarrow> string \<Rightarrow> int \<Rightarrow> string \<Rightarrow> ('z, json) nio" where
  "youtube_upload_video tok asset_url title description file_size mime_type =
     bindM (http_post ''https://www.googleapis.com/upload/youtube/v3/videos?uploadType=resumable&part=snippet,status''
              (bearer tok @ [(''Content-Type'', ''application/json''), (''X-Upload-Content-Length'', integer file_size),
                             (''X-Upload-Content-Type'', mime_type)])
              (JsonBody (JObj
                 [(''snippet'', JObj [(''title'', JStr (if title \<noteq> [] then take 100 title else ''Untitled Video'')),
                                    (''description'', JStr (take 5000 description))]),
                  (''status'', JObj [(''privacyStatus'', JStr ''private'')])]))) (\<lambda>response.
     thenM (google_status response)
       (case response_header response ''location'' of
          None \<Rightarrow> raiseM (ProviderError ''GoogleApiError'' ''YouTube upload initialization failed: missing Location header.'')
        | Some location_url \<Rightarrow>
            if location_url = []
            then raiseM (ProviderError ''GoogleApiError'' ''YouTube upload initialization failed: missing Location header.'')
            else bindM (readM patience) (\<lambda>n. upload_loop n asset_url location_url file_size (0, 3))))"

section \<open>A resumed upload ends\<close>

lemma int_digits_nonneg: "int_digits d acc s = Some n \<Longrightarrow> 0 \<le> acc \<Longrightarrow> 0 \<le> n"
  by (induction d acc s rule: int_digits.induct) (auto simp: Let_def split: if_splits)

lemma py_int_nonneg:
  assumes "py_int s = Some n" and "CHR ''-'' \<notin> set s"
  shows "0 \<le> n"
proof -
  have "CHR ''-'' \<notin> set (py_strip s)" using assms(2) set_strip_by by (auto simp: py_strip_def)
  with assms(1) show ?thesis by (auto simp: py_int_def simp del: int_digits.simps split: list.splits if_splits dest: int_digits_nonneg)
qed

lemma bytes_acknowledged_nonneg:
  assumes "bytes_acknowledged h w = (Inr n, w')"
  shows "0 \<le> n"
proof -
  from assms obtain s i where s: "second_segment h = Some s" and i: "py_int s = Some i" "n = i + 1"
    by (auto simp: bytes_acknowledged_def split: option.splits)
  from s have "CHR ''-'' \<notin> set s" by (auto simp: second_segment_def split: list.splits dest: set_takeWhileD)
  from py_int_nonneg [OF i(1) this] i(2) show ?thesis by simp
qed

lemma net_google_status: "obeys (sends H) (google_status r)"
  unfolding google_status_def Let_def by (intro net_intros)

lemma net_bytes_acknowledged: "obeys (sends H) (bytes_acknowledged h)"
  unfolding bytes_acknowledged_def by (intro net_intros)

lemma upload_part_net: "obeys net_rel (upload_part asset_url location_url sz u)"
  unfolding upload_part_def
  by (intro net_intros net_google_status net_bytes_acknowledged) (auto split: option.splits intro: net_intros net_bytes_acknowledged)

lemma recover_upload_net: "obeys net_rel (recover_upload location_url sz u)"
  unfolding recover_upload_def
  by (intro net_intros net_google_status net_bytes_acknowledged) (auto split: option.splits intro: net_intros net_bytes_acknowledged)

lemma recover_upload_nonneg:
  assumes "recover_upload location_url sz u w = (Inr (Inr n), w')" and "0 \<le> u"
  shows "0 \<le> n"
  using assms unfolding recover_upload_def
  by (auto simp: bindM_eq_Inr split: if_splits option.splits dest: bytes_acknowledged_nonneg)

text \<open>No answer to a part leaves the number of acknowledged bytes where it was.\<close>

definition progressing :: "network \<Rightarrow> string \<Rightarrow> string \<Rightarrow> int \<Rightarrow> bool" where
  "progressing net asset_url location_url sz \<longleftrightarrow>
     (\<forall>(v :: net_world) u n v'. wire v = net \<longrightarrow> 0 \<le> u \<longrightarrow> u < sz \<longrightarrow>
        upload_part asset_url location_url sz u v = (Inr (Inr n), v') \<longrightarrow> u < n)"

definition upload_measure :: "int \<Rightarrow> int \<times> nat \<Rightarrow> nat" where
  "upload_measure sz st = snd st * nat (sz + 1) + nat (sz - fst st)"

lemma upload_round_decreases:
  fixes v :: net_world
  assumes p: "progressing (wire v) asset_url location_url sz" and u: "0 \<le> u" "u < sz" "0 < r"
    and run: "upload_round asset_url location_url sz (u, r) v = (Inr (Inr st), v')"
  shows "0 \<le> fst st \<and> wire v' = wire v \<and> upload_measure sz st < upload_measure sz (u, r)"
proof -
  obtain x v1 where x: "upload_part asset_url location_url sz u v = (x, v1)" by fastforce
  have w1: "wire v1 = wire v" using obeysD [OF upload_part_net x] by (simp add: sends_def)
  show ?thesis
  proof (cases x)
    case (Inr y)
    with run x obtain n where "y = Inr n" "st = (n, r)" "v' = v1"
      by (auto simp: upload_round_def catchM_def bindM_def split: sum.splits prod.splits)
    moreover from p x Inr \<open>y = Inr n\<close> u have "u < n" by (auto simp: progressing_def)
    ultimately show ?thesis using u w1 by (simp add: upload_measure_def)
  next
    case (Inl e)
    with run x have e: "is_upload_error e" "r \<noteq> 1"
      and rec: "bindM (recover_upload location_url sz u) (\<lambda>y.
              case y of Inl video_id \<Rightarrow> returnM (Inl video_id) | Inr n \<Rightarrow> returnM (Inr (n, r - Suc 0))) v1 = (Inr (Inr st), v')"
      by (auto simp: upload_round_def catchM_def
          bindM_Inl [where m = "upload_part asset_url location_url sz u", OF x [unfolded Inl]] split: if_splits)
    from rec obtain y v2 where y: "recover_upload location_url sz u v1 = (Inr y, v2)"
      and z: "(case y of Inl video_id \<Rightarrow> returnM (Inl video_id) | Inr n \<Rightarrow> returnM (Inr (n, r - Suc 0))) v2 = (Inr (Inr st), v')"
      by (rule bindM_InrE)
    from z obtain n where n: "y = Inr n" "st = (n, r - 1)" "v' = v2" by (cases y) auto
    have n0: "0 \<le> n" using recover_upload_nonneg [of location_url sz u v1 n v2] y n(1) u(1) by simp
    have w2: "wire v2 = wire v" using obeysD [OF recover_upload_net y] w1 by (simp add: sends_def)
    obtain k where k: "r = Suc k" using u(3) by (cases r) auto
    have "nat (sz - n) < nat (sz + 1)" using n0 u by auto
    then show ?thesis using n n0 w2 k by (simp add: upload_measure_def)
  qed
qed

lemma upload_loop_measure:
  fixes v :: net_world
  assumes "progressing (wire v) asset_url location_url sz" and "0 \<le> fst st"
    and "upload_measure sz st \<le> n" and "upload_measure sz st \<le> m"
  shows "upload_loop n asset_url location_url sz st v = upload_loop m asset_url location_url sz st v"
  using assms
proof (induction n arbitrary: m st v)
  case 0
  then have "\<not> (fst st < sz \<and> snd st > 0)" by (auto simp: upload_measure_def)
  then show ?case by (subst (1 2) upload_loop.simps) (simp only: if_True not_False_eq_True simp_thms)
next
  case (Suc n)
  show ?case
  proof (cases "fst st < sz \<and> snd st > 0")
    case False
    then show ?thesis by (subst (1 2) upload_loop.simps) (simp only: if_True not_False_eq_True simp_thms)
  next
    case True
    obtain u r where st: "st = (u, r)" by fastforce
    from True Suc.prems have "0 < upload_measure sz st" by (auto simp: upload_measure_def)
    with Suc.prems obtain k where m: "m = Suc k" by (cases m) auto
    obtain x v1 where x: "upload_round asset_url location_url sz st v = (x, v1)" by fastforce
    have rest: "upload_loop n asset_url location_url sz st' v1 = upload_loop k asset_url location_url sz st' v1"
      if "x = Inr (Inr st')" for st'
    proof -
      from upload_round_decreases [of v asset_url location_url sz u r st' v1] Suc.prems True x that st
      have d: "0 \<le> fst st'" "wire v1 = wire v" "upload_measure sz st' < upload_measure sz st" by auto
      show ?thesis by (rule Suc.IH) (use Suc.prems d m in auto)
    qed
    show ?thesis
      by (subst (1 2) upload_loop.simps) (use True m x rest in \<open>auto simp: bindM_def split: sum.splits\<close>)
  qed
qed

text \<open>C28 (termination). A resumed upload ends by itself: when no answer to a part leaves the acknowledged bytes where they were, the
  loop makes at most \<open>4 * size + 3\<close> rounds, whatever the errors and the answers to the recovery are, so any
  patience beyond that gives the same run. Three errors are the most it survives, and each may set it back to the
  first byte.\<close>

theorem resumed_upload_ends:
  fixes w :: net_world
  assumes "progressing (wire w) asset_url location_url sz" and "0 \<le> sz" and "nat (4 * sz + 3) \<le> n"
  shows "upload_loop n asset_url location_url sz (0, 3) w =
    upload_loop (nat (4 * sz + 3)) asset_url location_url sz (0, 3) w"
proof (rule upload_loop_measure)
  have "upload_measure sz (0, 3) = nat (4 * sz + 3)" using assms(2) by (simp add: upload_measure_def nat_add_distrib)
  with assms(3) show "upload_measure sz (0, 3) \<le> n" "upload_measure sz (0, 3) \<le> nat (4 * sz + 3)" by simp_all
qed (use assms in simp_all)

text \<open>A server that takes five bytes, then the rest.\<close>

definition fx_resuming :: network where
  "fx_resuming sent rq =
     Inr (if List.member (rq_headers rq) (''Content-Range'', ''bytes 0-9/10'')
          then (fx_reply 308 None)\<lparr>rs_headers := [(''range'', ''bytes=0-4'')]\<rparr>
          else if rq_method rq = ''GET'' then fx_reply 200 None
          else fx_reply 200 (Some (JObj [(''id'', JStr ''video'')])))"

lemma integer_values:
  "integer 0 = ''0''"
  "integer 1 = ''1''"
  "integer 2 = ''2''"
  "integer 3 = ''3''"
  "integer 4 = ''4''"
  "integer 5 = ''5''"
  "integer 6 = ''6''"
  "integer 7 = ''7''"
  "integer 8 = ''8''"
  "integer 9 = ''9''"
  "integer 10 = ''10''"
  by code_simp+

lemma acknowledged_four: "bytes_acknowledged ''bytes=0-4'' w = (Inr 5, w)"
proof -
  have "second_segment ''bytes=0-4'' = Some ''4''" "py_int ''4'' = Some 4" by code_simp+
  then show ?thesis by (simp add: bytes_acknowledged_def)
qed

theorem resumed_upload_ends_witness:
  "fst (upload_loop 50 ''asset'' ''location'' 10 (0, 3) ((fx_net fx_database [])\<lparr>wire := fx_resuming\<rparr>)) = Inr (JStr ''video'')"
proof -
  let ?w = "(fx_net fx_database [])\<lparr>wire := fx_resuming\<rparr>"
  have "u < n" if v: "wire v = fx_resuming" and u: "0 \<le> u" "u < 10"
      and run: "upload_part ''asset'' ''location'' 10 u v = (Inr (Inr n), v')" for v :: net_world and u n v'
  proof -
    have "u = 0 \<or> u = 1 \<or> u = 2 \<or> u = 3 \<or> u = 4 \<or> u = 5 \<or> u = 6 \<or> u = 7 \<or> u = 8 \<or> u = 9"
      using u by presburger
    then show ?thesis using v run
      by (elim disjE) (simp_all add: upload_part_def http_get_def http_put_def send_request_def fx_resuming_def fx_reply_def bindM_def
          integer_values response_header_def response_json_def get_key_def as_dict_def dict_get_or_def json_truthy_def
          acknowledged_four)
  qed
  then have "progressing (wire ?w) ''asset'' ''location'' 10" by (simp add: progressing_def)
  from resumed_upload_ends [OF this, of 50]
  have "upload_loop 50 ''asset'' ''location'' 10 (0, 3) ?w = upload_loop 43 ''asset'' ''location'' 10 (0, 3) ?w" by simp
  moreover have "fst (upload_loop 43 ''asset'' ''location'' 10 (0, 3) ?w) = Inr (JStr ''video'')" by code_simp
  ultimately show ?thesis by simp
qed

end
