(* ===== verification/Content_Service.thy ===== *)
theory Content_Service
  imports Campaign_Service Row_Edits
begin

text \<open>
  Campaign content and its versions: the repository (\<open>app/repositories/campaign_content.py\<close>), the request
  bodies (\<open>app/schemas/campaign_content.py\<close>), the service (\<open>app/services/ai_content.py\<close>) with the mock
  provider behind the factory (\<open>app/services/ai\<close>), and the routes
  (\<open>app/api/v1/endpoints/campaign_content.py\<close>).
\<close>

section \<open>The repository\<close>

definition content_get_by_campaign_id :: "uuid \<Rightarrow> nat \<Rightarrow> nat \<Rightarrow> ('z, CampaignContent list) io" where
  "content_get_by_campaign_id campaign_id skip limit =
     bindM (select CampaignContent_model
       (\<lambda>c. cc_campaign_id c = campaign_id \<and> deleted_at (cc_soft c) = None))
       (\<lambda>cs. returnM (page skip limit (sort_desc (\<lambda>c. created_at (cc_stamp c)) cs)))"

definition current_version :: "uuid \<Rightarrow> ContentType \<Rightarrow> string \<Rightarrow> CampaignContent \<Rightarrow> bool" where
  "current_version campaign_id content_type language c \<longleftrightarrow>
     cc_campaign_id c = campaign_id \<and> cc_content_type c = content_type \<and>
     cc_language c = Some language \<and> cc_is_current c \<and> deleted_at (cc_soft c) = None"

definition get_latest_version ::
  "uuid \<Rightarrow> ContentType \<Rightarrow> string \<Rightarrow> ('z, CampaignContent option) io" where
  "get_latest_version campaign_id content_type language =
     bindM (select CampaignContent_model (current_version campaign_id content_type language))
       (\<lambda>cs. scalar_one_or_none (take 1 (sort_desc cc_version cs)))"

section \<open>Request bodies\<close>

record CampaignContentCreate =
  ct_campaign_id :: uuid
  ct_title :: string
  ct_content_type :: ContentType
  ct_language :: "string option"
  ct_body :: "string option"
  ct_summary :: "string option"
  ct_hashtags :: "string option"
  ct_cta :: "string option"
  ct_seo_title :: "string option"
  ct_seo_description :: "string option"
  ct_scheduled_placeholder :: "string option"
  ct_metadata :: "json option"

record CampaignContentUpdate =
  cx_title :: "string option option"
  cx_content_type :: "ContentType option option"
  cx_status :: "ContentStatus option option"
  cx_language :: "string option option"
  cx_body :: "string option option"
  cx_summary :: "string option option"
  cx_hashtags :: "string option option"
  cx_cta :: "string option option"
  cx_seo_title :: "string option option"
  cx_seo_description :: "string option option"
  cx_scheduled_placeholder :: "string option option"
  cx_metadata :: "json option option"

record AIContentGenerateRequest =
  gr_prompt :: string
  gr_content_type :: ContentType
  gr_language :: string
  gr_brand_kit_id :: "uuid option"
  gr_tone_of_voice :: "string option"
  gr_target_audience :: "string option"
  gr_provider :: ApiProvider

record AIContentGenerateResponse =
  gs_content_type :: ContentType
  gs_body :: string
  gs_summary :: "string option"
  gs_hashtags :: "string option"
  gs_cta :: "string option"
  gs_metadata :: "json option"
  gs_provider_used :: string

section \<open>The provider\<close>

text \<open>\<open>AIProviderFactory\<close>: one provider is implemented, and every other type falls back to it.\<close>

datatype ai_provider = MockAIProvider

definition get_provider :: "ApiProvider \<Rightarrow> ai_provider" where
  "get_provider provider_type = (if provider_type = ApiProvider_MOCK then MockAIProvider else MockAIProvider)"

definition mock_generate_content :: "AIContentGenerateRequest \<Rightarrow> AIContentGenerateResponse" where
  "mock_generate_content request =
     \<lparr>gs_content_type = gr_content_type request,
      gs_body = ''This is mock generated content for topic: '' @ gr_prompt request @ ''. Audience: '' @
        str_or (gr_target_audience request) ''General'' @ ''.'',
      gs_summary = Some (''Mock summary for '' @ gr_prompt request),
      gs_hashtags = Some ''#mock #ai #marketing'',
      gs_cta = Some ''Click here to see more mock content!'',
      gs_metadata = Some (JObj [(''mocked'', JBool True), (''language'', JStr (gr_language request))]),
      gs_provider_used = ''MOCK''\<rparr>"

definition generate_content :: "uuid \<Rightarrow> AIContentGenerateRequest \<Rightarrow> ('z, AIContentGenerateResponse) io" where
  "generate_content workspace_id request =
     (case get_provider (gr_provider request) of MockAIProvider \<Rightarrow> returnM (mock_generate_content request))"

section \<open>The service\<close>

definition check_campaign :: "uuid \<Rightarrow> uuid \<Rightarrow> ('z, unit) io" where
  "check_campaign workspace_id campaign_id =
     bindM (get_by_id Campaign_model campaign_id) (\<lambda>campaign.
     raise_if (case campaign of None \<Rightarrow> True | Some c \<Rightarrow> c_workspace_id c \<noteq> workspace_id)
       (HTTPException 404 ''Campaign not found''))"

definition new_content ::
  "uuid \<Rightarrow> CampaignContentCreate \<Rightarrow> int \<Rightarrow> uuid option \<Rightarrow> CampaignContent" where
  "new_content workspace_id data v parent =
     \<lparr>cc_id = 0, cc_stamp = no_stamp, cc_soft = not_deleted, cc_audit = no_audit,
      cc_workspace_id = workspace_id, cc_campaign_id = ct_campaign_id data, cc_title = ct_title data,
      cc_content_type = ct_content_type data, cc_status = ContentStatus_DRAFT,
      cc_language = ct_language data, cc_body = ct_body data, cc_summary = ct_summary data,
      cc_hashtags = ct_hashtags data, cc_cta = ct_cta data, cc_seo_title = ct_seo_title data,
      cc_seo_description = ct_seo_description data, cc_version = v, cc_parent_version_id = parent,
      cc_is_current = True, cc_scheduled_placeholder = ct_scheduled_placeholder data,
      cc_metadata = ct_metadata data\<rparr>"

definition create_campaign_content :: "uuid \<Rightarrow> CampaignContentCreate \<Rightarrow> ('z, CampaignContent) io" where
  "create_campaign_content workspace_id content_in =
     thenM (check_campaign workspace_id (ct_campaign_id content_in)) (
     bindM (get_latest_version (ct_campaign_id content_in) (ct_content_type content_in)
              (str_or (ct_language content_in) ''en'')) (\<lambda>latest.
     case latest of
       Some l \<Rightarrow>
         thenM (update CampaignContent_model (cc_id l) (\<lambda>c. c\<lparr>cc_is_current := False\<rparr>))
           (create CampaignContent_model
              (new_content workspace_id content_in (cc_version l + 1) (Some (cc_id l))))
     | None \<Rightarrow>
         create CampaignContent_model (new_content workspace_id content_in 1 None)))"

definition get_campaign_contents ::
  "uuid \<Rightarrow> uuid \<Rightarrow> nat \<Rightarrow> nat \<Rightarrow> ('z, CampaignContent list) io" where
  "get_campaign_contents workspace_id campaign_id skip limit =
     thenM (check_campaign workspace_id campaign_id)
       (content_get_by_campaign_id campaign_id skip limit)"

definition get_content :: "uuid \<Rightarrow> uuid \<Rightarrow> uuid \<Rightarrow> ('z, CampaignContent) io" where
  "get_content workspace_id campaign_id content_id =
     bindM (get_by_id CampaignContent_model content_id) (\<lambda>content.
     case content of
       None \<Rightarrow> raiseM (HTTPException 404 ''Content not found'')
     | Some c \<Rightarrow>
         if cc_workspace_id c \<noteq> workspace_id \<or> cc_campaign_id c \<noteq> campaign_id
         then raiseM (HTTPException 404 ''Content not found'')
         else returnM c)"

definition content_assign :: "CampaignContentUpdate \<Rightarrow> CampaignContent \<Rightarrow> CampaignContent" where
  "content_assign u c =
     c\<lparr>cc_title := set_or (cx_title u) (cc_title c),
       cc_content_type := set_or (cx_content_type u) (cc_content_type c),
       cc_status := set_or (cx_status u) (cc_status c),
       cc_language := set_nullable (cx_language u) (cc_language c),
       cc_body := set_nullable (cx_body u) (cc_body c),
       cc_summary := set_nullable (cx_summary u) (cc_summary c),
       cc_hashtags := set_nullable (cx_hashtags u) (cc_hashtags c),
       cc_cta := set_nullable (cx_cta u) (cc_cta c),
       cc_seo_title := set_nullable (cx_seo_title u) (cc_seo_title c),
       cc_seo_description := set_nullable (cx_seo_description u) (cc_seo_description c),
       cc_scheduled_placeholder := set_nullable (cx_scheduled_placeholder u) (cc_scheduled_placeholder c),
       cc_metadata := set_nullable (cx_metadata u) (cc_metadata c)\<rparr>"

definition update_content ::
  "uuid \<Rightarrow> uuid \<Rightarrow> uuid \<Rightarrow> CampaignContentUpdate \<Rightarrow> ('z, CampaignContent) io" where
  "update_content workspace_id campaign_id content_id content_in =
     bindM (get_content workspace_id campaign_id content_id) (\<lambda>content.
     thenM (raise_if (cx_title content_in = Some None \<or> cx_content_type content_in = Some None \<or>
              cx_status content_in = Some None) IntegrityError)
       (update CampaignContent_model (cc_id content) (content_assign content_in)))"

definition delete_content :: "uuid \<Rightarrow> uuid \<Rightarrow> uuid \<Rightarrow> ('z, CampaignContent) io" where
  "delete_content workspace_id campaign_id content_id =
     bindM (get_content workspace_id campaign_id content_id) (\<lambda>content.
     bindM (delete CampaignContent_model (cc_id content) True) (\<lambda>deleted.
     thenM (raise_if (\<not> deleted) (HTTPException 404 ''Content not found''))
       (returnM content)))"

section \<open>The routes\<close>

definition content_route ::
  "jwt_decoder \<Rightarrow> string \<Rightarrow> uuid \<Rightarrow> string \<Rightarrow> string \<Rightarrow> ('z, 'a) io \<Rightarrow> ('z, 'a) io" where
  "content_route decode tok workspace_id resource action handler =
     get_db_session
       (bindM (get_current_user decode tok) (\<lambda>user.
        thenM (require_permission resource action workspace_id user) (
        thenM (get_current_workspace workspace_id user)
          handler)))"

text \<open>\<open>try: ...; await db.commit() except Exception: await db.rollback(); raise\<close>\<close>

definition commit_or_rollback :: "('z, 'a) io \<Rightarrow> ('z, 'a) io" where
  "commit_or_rollback m = catchM (then_commit m) (\<lambda>e. thenM rollback (raiseM e))"

definition route_generate_ai_content ::
  "jwt_decoder \<Rightarrow> string \<Rightarrow> uuid \<Rightarrow> AIContentGenerateRequest \<Rightarrow> ('z, AIContentGenerateResponse) io" where
  "route_generate_ai_content decode tok ws request =
     content_route decode tok ws ''ai'' ''create'' (generate_content ws request)"

definition route_create_campaign_content ::
  "jwt_decoder \<Rightarrow> string \<Rightarrow> uuid \<Rightarrow> uuid \<Rightarrow> CampaignContentCreate \<Rightarrow> ('z, CampaignContent) io" where
  "route_create_campaign_content decode tok ws campaign_id content_in =
     content_route decode tok ws ''content'' ''create''
       (commit_or_rollback (create_campaign_content ws (content_in\<lparr>ct_campaign_id := campaign_id\<rparr>)))"

definition route_list_campaign_contents ::
  "jwt_decoder \<Rightarrow> string \<Rightarrow> uuid \<Rightarrow> uuid \<Rightarrow> nat \<Rightarrow> nat \<Rightarrow> ('z, CampaignContent list) io" where
  "route_list_campaign_contents decode tok ws campaign_id skip limit =
     content_route decode tok ws ''content'' ''read'' (get_campaign_contents ws campaign_id skip limit)"

definition route_get_campaign_content ::
  "jwt_decoder \<Rightarrow> string \<Rightarrow> uuid \<Rightarrow> uuid \<Rightarrow> uuid \<Rightarrow> ('z, CampaignContent) io" where
  "route_get_campaign_content decode tok ws campaign_id content_id =
     content_route decode tok ws ''content'' ''read'' (get_content ws campaign_id content_id)"

definition route_update_campaign_content ::
  "jwt_decoder \<Rightarrow> string \<Rightarrow> uuid \<Rightarrow> uuid \<Rightarrow> uuid \<Rightarrow> CampaignContentUpdate \<Rightarrow> ('z, CampaignContent) io" where
  "route_update_campaign_content decode tok ws campaign_id content_id content_in =
     content_route decode tok ws ''content'' ''update''
       (commit_or_rollback (update_content ws campaign_id content_id content_in))"

definition route_delete_campaign_content ::
  "jwt_decoder \<Rightarrow> string \<Rightarrow> uuid \<Rightarrow> uuid \<Rightarrow> uuid \<Rightarrow> ('z, CampaignContent) io" where
  "route_delete_campaign_content decode tok ws campaign_id content_id =
     content_route decode tok ws ''content'' ''delete''
       (commit_or_rollback (delete_content ws campaign_id content_id))"

section \<open>Queries\<close>

lemma read_only_check_campaign: "read_only (check_campaign ws c)"
  unfolding check_campaign_def using read_only_get_by_id unfolding read_only_def
  by (intro ro.obeys_bind ro.obeys_raise_if)

lemma read_only_latest: "read_only (get_latest_version c t l)"
  unfolding get_latest_version_def read_only_def by (intro ro_intros)

lemma read_only_get_content: "read_only (get_content ws c i)"
  unfolding get_content_def using read_only_get_by_id unfolding read_only_def
  by (intro ro.obeys_bind ro.obeys_case_option ro.obeys_raise ro.obeys_if ro.obeys_return)

lemma get_latest_version_run:
  "get_latest_version c t l w =
     (Inr (scalars_first (sort_desc cc_version (filter (current_version c t l) (campaign_contents (db w))))), w)"
  by (cases "sort_desc cc_version (filter (current_version c t l) (campaign_contents (db w)))")
    (simp_all add: get_latest_version_def bindM_def scalars_first_def)

lemma latest_None:
  "get_latest_version c t l w = (Inr None, w') \<longleftrightarrow>
     w' = w \<and> (\<forall>x \<in> set (campaign_contents (db w)). \<not> current_version c t l x)"
proof -
  let ?xs = "sort_desc cc_version (filter (current_version c t l) (campaign_contents (db w)))"
  have "scalars_first ?xs = None \<longleftrightarrow> set ?xs = {}"
    by (cases ?xs) (simp_all add: scalars_first_def)
  also have "\<dots> \<longleftrightarrow> (\<forall>x \<in> set (campaign_contents (db w)). \<not> current_version c t l x)"
    by (auto simp: set_sort_desc filter_empty_conv)
  finally show ?thesis by (auto simp: get_latest_version_run)
qed

lemma latest_Some:
  assumes "get_latest_version c t l w = (Inr (Some x), w')"
  shows "x \<in> set (campaign_contents (db w))" and "current_version c t l x"
    and "\<forall>y \<in> set (campaign_contents (db w)). current_version c t l y \<longrightarrow> cc_version y \<le> cc_version x"
proof -
  let ?cs = "filter (current_version c t l) (campaign_contents (db w))"
  from assms obtain ys where ys: "sort_desc cc_version ?cs = x # ys"
    by (auto simp: get_latest_version_run scalars_first_def split: list.splits)
  then have "x \<in> set ?cs" by (metis list.set_intros(1) set_sort_desc)
  then show "x \<in> set (campaign_contents (db w))" and "current_version c t l x" by simp_all
  have "sorted (map (\<lambda>r. - cc_version r) (x # ys))"
    unfolding ys [symmetric] by (simp add: sort_desc_def)
  moreover have "set (x # ys) = set ?cs" unfolding ys [symmetric] by simp
  ultimately have "\<forall>y \<in> set ?cs. cc_version y \<le> cc_version x" by (metis (no_types, lifting) list.set_map
        imageI list.simps(9) neg_le_iff_le set_ConsD sorted_simps(2) verit_comp_simplify1(2))
  then show "\<forall>y \<in> set (campaign_contents (db w)). current_version c t l y \<longrightarrow> cc_version y \<le> cc_version x"
    by simp
qed

lemma get_content_Inr:
  assumes "get_content ws c i w = (Inr x, w')"
  shows "x \<in> set (campaign_contents (db w))" and "cc_id x = i" and "cc_workspace_id x = ws"
    and "cc_campaign_id x = c" and "deleted_at (cc_soft x) = None"
proof -
  have "get_by_id CampaignContent_model i w = (Inr (Some x), w') \<and> cc_workspace_id x = ws \<and> cc_campaign_id x = c"
    using assms by (auto simp: get_content_def bindM_eq_Inr split: option.splits if_splits)
  then show "x \<in> set (campaign_contents (db w))" and "cc_id x = i" and "cc_workspace_id x = ws"
    and "cc_campaign_id x = c" and "deleted_at (cc_soft x) = None"
    using get_by_id_Some [of CampaignContent_model i w x w'] by (auto simp: visible_def)
qed

section \<open>At most one current version\<close>

definition current_row :: "CampaignContent \<Rightarrow> bool" where
  "current_row c \<longleftrightarrow> cc_is_current c \<and> deleted_at (cc_soft c) = None"

definition chain_key :: "CampaignContent \<Rightarrow> uuid \<times> ContentType \<times> string option" where
  "chain_key c = (cc_campaign_id c, cc_content_type c, cc_language c)"

definition one_current :: "CampaignContent list \<Rightarrow> bool" where
  "one_current cs \<longleftrightarrow>
     distinct (map cc_id cs) \<and>
     (\<forall>x \<in> set cs. \<forall>y \<in> set cs.
        current_row x \<and> current_row y \<and> truthy_str (cc_language x) \<and> chain_key x = chain_key y \<longrightarrow>
        cc_id x = cc_id y)"

lemma current_version_iff:
  "current_version c t l x \<longleftrightarrow> current_row x \<and> chain_key x = (c, t, Some l)"
  by (auto simp: current_version_def current_row_def chain_key_def)

lemma one_current_edit:
  assumes "one_current cs"
    and f: "\<And>x. cc_id (f x) = cc_id x \<and> (current_row (f x) \<longrightarrow> current_row x \<and> chain_key (f x) = chain_key x)"
  shows "one_current (edit_row cc_id i f cs)"
proof -
  define g where "g = (\<lambda>x. if cc_id x = i then f x else x)"
  have set: "set (edit_row cc_id i f cs) = g ` set cs" unfolding g_def by (rule set_edit_row)
  have g: "cc_id (g x) = cc_id x \<and> (current_row (g x) \<longrightarrow> current_row x \<and> chain_key (g x) = chain_key x)" for x
    using f by (simp add: g_def)
  have lang: "cc_language x = snd (snd (chain_key x))" for x by (simp add: chain_key_def)
  have "map cc_id (edit_row cc_id i f cs) = map cc_id cs" using f by (simp add: map_edit_row)
  with assms(1) show ?thesis
    unfolding one_current_def set lang using g by (metis (no_types, lifting) imageE)
qed

lemma one_current_append:
  assumes "one_current cs" and "cc_id x \<notin> cc_id ` set cs"
    and "\<And>y. y \<in> set cs \<Longrightarrow> current_row y \<Longrightarrow> truthy_str (cc_language x) \<Longrightarrow> chain_key y \<noteq> chain_key x"
  shows "one_current (cs @ [x])"
  unfolding one_current_def
proof (intro conjI ballI impI; (elim conjE)?)
  show "distinct (map cc_id (cs @ [x]))" using assms(1,2) by (auto simp: one_current_def)
next
  fix a b
  assume a: "a \<in> set (cs @ [x])" "current_row a" and b: "b \<in> set (cs @ [x])" "current_row b"
    and t: "truthy_str (cc_language a)" and k: "chain_key a = chain_key b"
  have "truthy_str (cc_language b)" using t k by (simp add: chain_key_def)
  then show "cc_id a = cc_id b"
    using a b t k assms(3) [of a] assms(3) [of b] assms(1) unfolding one_current_def by fastforce
qed

text \<open>Appending a new version where no current one is left.\<close>

lemma append_content_one_current:
  assumes run: "create CampaignContent_model (new_content ws data v p) w = (x, w')"
    and inv: "one_current (campaign_contents (db w))"
    and none: "\<forall>y \<in> set (campaign_contents (db w)).
      \<not> current_version (ct_campaign_id data) (ct_content_type data) (str_or (ct_language data) ''en'') y"
  shows "one_current (campaign_contents (db w'))"
  using run
proof (rule content_repo.create_appends)
  fix e assume "tbl CampaignContent_model (db w') = tbl CampaignContent_model (db w)"
  with inv show ?thesis by simp
next
  fix i t u
  let ?x = "fill CampaignContent_model i t u (new_content ws data v p)"
  assume x: "tbl CampaignContent_model (db w') = tbl CampaignContent_model (db w) @ [?x]"
    "i \<notin> pk CampaignContent_model ` set (tbl CampaignContent_model (db w))"
  have "one_current (campaign_contents (db w) @ [?x])"
  proof (rule one_current_append [OF inv])
    fix y assume y: "y \<in> set (campaign_contents (db w))" "current_row y" "truthy_str (cc_language ?x)"
    then obtain l where "ct_language data = Some l" "str_or (ct_language data) ''en'' = l"
      by (auto simp: new_content_def truthy_str_def str_or_def split: option.splits)
    with y(1,2) none show "chain_key y \<noteq> chain_key ?x"
      by (auto simp: current_version_iff chain_key_def new_content_def)
  qed (use x(2) in simp)
  with x(1) show ?thesis by simp
qed

text \<open>Taking the latest version out of its place leaves no current one.\<close>

lemma unseat_latest:
  assumes run: "update CampaignContent_model (cc_id x) (\<lambda>c. c\<lparr>cc_is_current := False\<rparr>) w = (v, w')"
    and inv: "one_current (campaign_contents (db w))"
  shows "one_current (campaign_contents (db w'))"
    and "v = Inr y \<Longrightarrow> x \<in> set (campaign_contents (db w)) \<Longrightarrow> current_version c t l x \<Longrightarrow> l \<noteq> [] \<Longrightarrow>
      \<forall>z \<in> set (campaign_contents (db w')). \<not> current_version c t l z"
proof -
  let ?f = "\<lambda>c. c\<lparr>cc_is_current := False\<rparr>" and ?cs = "campaign_contents (db w)"
  have u: "distinct (map (pk CampaignContent_model) (tbl CampaignContent_model (db w)))"
    using inv by (simp add: one_current_def)
  have "one_current (campaign_contents (db w')) \<and>
    (v = Inr y \<longrightarrow> x \<in> set ?cs \<longrightarrow> current_version c t l x \<longrightarrow> l \<noteq> [] \<longrightarrow>
      (\<forall>z \<in> set (campaign_contents (db w')). \<not> current_version c t l z))"
  proof (rule content_repo.update_edits [OF u _ run])
    fix e assume "v = Inl e" "tbl CampaignContent_model (db w') = tbl CampaignContent_model (db w)"
    with inv show ?thesis by simp
  next
    fix r n
    let ?g = "\<lambda>x. if ?f x = x then x else touch CampaignContent_model n (?f x)"
    have off: "\<not> cc_is_current (?g y)" for y
    proof (cases "?f y = y")
      case True
      then have "cc_is_current (?f y) = cc_is_current y" by (rule arg_cong)
      then show ?thesis unfolding if_P [OF True] by simp
    qed simp
    assume tab: "tbl CampaignContent_model (db w') =
      edit_row (pk CampaignContent_model) (cc_id x) ?g (tbl CampaignContent_model (db w))"
    have "one_current (edit_row cc_id (cc_id x) ?g ?cs)"
      by (rule one_current_edit [OF inv]) (simp add: current_row_def chain_key_def)
    moreover have "\<not> current_version c t l z"
      if "z \<in> set (edit_row cc_id (cc_id x) ?g ?cs)" "x \<in> set ?cs" "current_version c t l x" "l \<noteq> []" for z
    proof
      assume z: "current_version c t l z"
      from that(1) obtain y where y: "y \<in> set ?cs" "z = (if cc_id y = cc_id x then ?g y else y)"
        by (auto simp: set_edit_row)
      show False
      proof (cases "cc_id y = cc_id x")
        case True
        have zg: "z = ?g y" using y(2) unfolding if_P [OF True] .
        have "\<not> cc_is_current z" unfolding zg by (rule off)
        with z show False by (simp add: current_version_def)
      next
        case False
        then have "z = y" using y(2) by (simp only: if_False)
        with z have "current_row y" "chain_key y = (c, t, Some l)" by (simp_all add: current_version_iff)
        moreover have "current_row x" "chain_key x = (c, t, Some l)"
          using that(3) by (simp_all add: current_version_iff)
        moreover from this have "truthy_str (cc_language x)"
          using that(4) by (simp add: chain_key_def truthy_str_def)
        ultimately have "cc_id x = cc_id y"
          using inv that(2) y(1) unfolding one_current_def by metis
        with False show False by simp
      qed
    qed
    ultimately show ?thesis using tab by simp
  qed simp
  then show "one_current (campaign_contents (db w'))"
    and "v = Inr y \<Longrightarrow> x \<in> set (campaign_contents (db w)) \<Longrightarrow> current_version c t l x \<Longrightarrow> l \<noteq> [] \<Longrightarrow>
      \<forall>z \<in> set (campaign_contents (db w')). \<not> current_version c t l z" by blast+
qed

lemma str_or_en: "str_or x ''en'' \<noteq> []"
  by (simp add: str_or_def split: option.splits)

lemma create_content_one_current:
  assumes inv: "one_current (campaign_contents (db w))"
    and run: "create_campaign_content ws data w = (r, w')"
  shows "one_current (campaign_contents (db w'))"
  using run unfolding create_campaign_content_def
proof (elim thenM_read_onlyE [OF _ read_only_check_campaign] bindM_read_onlyE [OF _ read_only_latest])
  fix latest
  assume l: "get_latest_version (ct_campaign_id data) (ct_content_type data)
      (str_or (ct_language data) ''en'') w = (Inr latest, w)"
    and rest: "(case latest of None \<Rightarrow> create CampaignContent_model (new_content ws data 1 None)
      | Some l \<Rightarrow> thenM (update CampaignContent_model (cc_id l) (\<lambda>c. c\<lparr>cc_is_current := False\<rparr>))
          (create CampaignContent_model (new_content ws data (cc_version l + 1) (Some (cc_id l))))) w = (r, w')"
  show "one_current (campaign_contents (db w'))"
  proof (cases latest)
    case None
    from rest have "create CampaignContent_model (new_content ws data 1 None) w = (r, w')"
      by (simp add: None)
    then show ?thesis
      by (rule append_content_one_current) (use inv l None in \<open>simp_all add: latest_None\<close>)
  next
    case (Some x)
    note x = latest_Some [OF l [unfolded Some]]
    from rest Some have "thenM (update CampaignContent_model (cc_id x) (\<lambda>c. c\<lparr>cc_is_current := False\<rparr>))
        (create CampaignContent_model (new_content ws data (cc_version x + 1) (Some (cc_id x)))) w = (r, w')"
      by simp
    then show ?thesis
    proof (rule thenM_runE)
      fix e assume "update CampaignContent_model (cc_id x) (\<lambda>c. c\<lparr>cc_is_current := False\<rparr>) w = (Inl e, w')"
      then show ?thesis by (rule unseat_latest(1) [OF _ inv])
    next
      fix y w1
      assume upd: "update CampaignContent_model (cc_id x) (\<lambda>c. c\<lparr>cc_is_current := False\<rparr>) w = (Inr y, w1)"
        and new: "create CampaignContent_model (new_content ws data (cc_version x + 1) (Some (cc_id x))) w1 = (r, w')"
      show ?thesis
        by (rule append_content_one_current [OF new unseat_latest(1) [OF upd inv]
              unseat_latest(2) [OF upd inv refl x(1,2) str_or_en]])
    qed
  qed
qed (simp_all add: inv)

lemma content_assign_simps [simp]:
  "cc_id (content_assign u c) = cc_id c"
  "cc_is_current (content_assign u c) = cc_is_current c"
  "cc_soft (content_assign u c) = cc_soft c"
  "cc_campaign_id (content_assign u c) = cc_campaign_id c"
  "cc_content_type (content_assign u c) = set_or (cx_content_type u) (cc_content_type c)"
  "cc_language (content_assign u c) = set_nullable (cx_language u) (cc_language c)"
  by (simp_all add: content_assign_def)

lemma update_content_one_current:
  assumes inv: "one_current (campaign_contents (db w))"
    and key: "cx_content_type data = None" "cx_language data = None"
    and run: "update_content ws c i data w = (r, w')"
  shows "one_current (campaign_contents (db w'))"
  using run unfolding update_content_def
proof (elim bindM_read_onlyE [OF _ read_only_get_content] guardE)
  fix x
  assume upd: "update CampaignContent_model (cc_id x) (content_assign data) w = (r, w')"
  have u: "distinct (map (pk CampaignContent_model) (tbl CampaignContent_model (db w)))"
    using inv by (simp add: one_current_def)
  show ?thesis
  proof (rule content_repo.update_edits [OF u _ upd])
    fix y t
    assume tab: "tbl CampaignContent_model (db w') = edit_row (pk CampaignContent_model) (cc_id x)
      (\<lambda>x. if content_assign data x = x then x else touch CampaignContent_model t (content_assign data x))
      (tbl CampaignContent_model (db w))"
    have "one_current (edit_row cc_id (cc_id x)
      (\<lambda>x. if content_assign data x = x then x else touch CampaignContent_model t (content_assign data x))
      (campaign_contents (db w)))"
      by (rule one_current_edit [OF inv])
        (simp add: current_row_def chain_key_def key set_or_def set_nullable_def)
    with tab show ?thesis by simp
  qed (use inv in simp_all)
qed (simp_all add: inv)

lemma delete_content_one_current:
  assumes inv: "one_current (campaign_contents (db w))" and run: "delete_content ws c i w = (r, w')"
  shows "one_current (campaign_contents (db w'))"
  using run unfolding delete_content_def
proof (elim bindM_read_onlyE [OF _ read_only_get_content] bindM_runE guardE)
  have del: "one_current (campaign_contents (db w2))"
    if "delete CampaignContent_model j True w = (v, w2)" for j v w2
  proof -
    have u: "distinct (map (pk CampaignContent_model) (tbl CampaignContent_model (db w)))"
      using inv by (simp add: one_current_def)
    show ?thesis
    proof (rule content_repo.soft_delete_edits [OF u _ that])
      fix t t'
      let ?g = "\<lambda>x. if mark_deleted CampaignContent_model t x = x then x
        else touch CampaignContent_model t' (mark_deleted CampaignContent_model t x)"
      assume tab: "tbl CampaignContent_model (db w2) =
        edit_row (pk CampaignContent_model) j ?g (tbl CampaignContent_model (db w))"
      have "one_current (edit_row cc_id j ?g (campaign_contents (db w)))"
        by (rule one_current_edit [OF inv]) (simp add: current_row_def delete_mark_def)
      with tab show ?thesis by simp
    qed (use inv in simp_all)
  qed
  { fix e x assume "delete CampaignContent_model (cc_id x) True w = (Inl e, w')"
    then show ?thesis by (rule del) }
  { fix x y w1 assume "delete CampaignContent_model (cc_id x) True w = (Inr y, w1)" "w' = w1"
    then show ?thesis using del by blast }
  { fix x y w1 assume "delete CampaignContent_model (cc_id x) True w = (Inr y, w1)" "returnM x w1 = (r, w')"
    then show ?thesis using del by auto }
qed (simp_all add: inv)

section \<open>Any sequence of content requests\<close>

datatype content_request =
    CreateContent uuid CampaignContentCreate
  | EditContent uuid uuid uuid CampaignContentUpdate
  | RemoveContent uuid uuid uuid

fun serve_content :: "content_request \<Rightarrow> ('z, CampaignContent) io" where
  "serve_content (CreateContent ws data) = create_campaign_content ws data"
| "serve_content (EditContent ws c i data) = update_content ws c i data"
| "serve_content (RemoveContent ws c i) = delete_content ws c i"

text \<open>An edit that leaves the content in its chain of versions.\<close>

fun same_chain :: "content_request \<Rightarrow> bool" where
  "same_chain (EditContent ws c i data) \<longleftrightarrow> cx_content_type data = None \<and> cx_language data = None"
| "same_chain _ \<longleftrightarrow> True"

inductive content_step :: "'z world_scheme \<Rightarrow> 'z world_scheme \<Rightarrow> bool" where
  served: "same_chain req \<Longrightarrow> serve_content req w = (r, w') \<Longrightarrow> content_step w w'"


section \<open>What a creation does\<close>

lemma new_content_created:
  assumes "create CampaignContent_model (new_content ws data v p) w = (Inr x, w')"
  shows "campaign_contents (db w') = campaign_contents (db w) @ [x]" and "cc_version x = v"
    and "cc_parent_version_id x = p" and "cc_language x = ct_language data"
    and "cc_campaign_id x = ct_campaign_id data" and "cc_content_type x = ct_content_type data"
    and "current_row x" and "cc_workspace_id x = ws" and "cc_status x = ContentStatus_DRAFT"
  using content_repo.create_row [OF assms]
  by (simp_all add: new_content_def current_row_def not_deleted_def)

lemma created_content:
  fixes data :: CampaignContentCreate
  defines "L \<equiv> str_or (ct_language data) ''en''"
  assumes run: "create_campaign_content ws data w = (Inr x, w')"
    and inv: "one_current (campaign_contents (db w))"
  shows "\<exists>c. get_by_id Campaign_model (ct_campaign_id data) w = (Inr (Some c), w) \<and> c_workspace_id c = ws"
    and "\<exists>w1 v p. create CampaignContent_model (new_content ws data v p) w1 = (Inr x, w') \<and>
      (\<forall>y \<in> set (campaign_contents (db w1)). \<not> current_version (ct_campaign_id data) (ct_content_type data) L y) \<and>
      (if \<exists>y \<in> set (campaign_contents (db w)). current_version (ct_campaign_id data) (ct_content_type data) L y
       then \<exists>y \<in> set (campaign_contents (db w)). current_version (ct_campaign_id data) (ct_content_type data) L y \<and>
         v = cc_version y + 1 \<and> p = Some (cc_id y)
       else v = 1 \<and> p = None)"
proof -
  obtain latest where c: "check_campaign ws (ct_campaign_id data) w = (Inr (), w)"
    and l: "get_latest_version (ct_campaign_id data) (ct_content_type data) L w = (Inr latest, w)"
    and rest: "(case latest of None \<Rightarrow> create CampaignContent_model (new_content ws data 1 None)
      | Some l \<Rightarrow> thenM (update CampaignContent_model (cc_id l) (\<lambda>c. c\<lparr>cc_is_current := False\<rparr>))
          (create CampaignContent_model (new_content ws data (cc_version l + 1) (Some (cc_id l))))) w = (Inr x, w')"
    using run unfolding create_campaign_content_def L_def
    by (elim thenM_read_onlyE [OF _ read_only_check_campaign] bindM_read_onlyE [OF _ read_only_latest]) simp_all
  from c show "\<exists>c. get_by_id Campaign_model (ct_campaign_id data) w = (Inr (Some c), w) \<and> c_workspace_id c = ws"
    by (auto simp: check_campaign_def bindM_eq_Inr dest: read_onlyD [OF read_only_get_by_id] split: option.splits if_splits)
  show "\<exists>w1 v p. create CampaignContent_model (new_content ws data v p) w1 = (Inr x, w') \<and>
      (\<forall>y \<in> set (campaign_contents (db w1)). \<not> current_version (ct_campaign_id data) (ct_content_type data) L y) \<and>
      (if \<exists>y \<in> set (campaign_contents (db w)). current_version (ct_campaign_id data) (ct_content_type data) L y
       then \<exists>y \<in> set (campaign_contents (db w)). current_version (ct_campaign_id data) (ct_content_type data) L y \<and>
         v = cc_version y + 1 \<and> p = Some (cc_id y)
       else v = 1 \<and> p = None)"
  proof (cases latest)
    case None
    with l rest show ?thesis by (auto simp: latest_None)
  next
    case (Some y)
    note y = latest_Some [OF l [unfolded Some]]
    from rest Some obtain z w1 where
      upd: "update CampaignContent_model (cc_id y) (\<lambda>c. c\<lparr>cc_is_current := False\<rparr>) w = (Inr z, w1)"
      and new: "create CampaignContent_model (new_content ws data (cc_version y + 1) (Some (cc_id y))) w1 = (Inr x, w')"
      by (auto elim: bindM_runE)
    have "\<forall>z \<in> set (campaign_contents (db w1)). \<not> current_version (ct_campaign_id data) (ct_content_type data) L z"
      by (rule unseat_latest(2) [OF upd inv refl y(1,2)]) (simp add: L_def str_or_en)
    with new y show ?thesis by auto
  qed
qed

text \<open>C17 (functional). A creation that succeeds is for a campaign of the workspace. It appends one draft
  that is current; where there is a current version of the type and language its number is the next one and it
  points to that version as its parent, otherwise it is version 1 without a parent; and afterwards no
  other version of the type and language is current.\<close>

theorem create_content_effect:
  fixes data :: CampaignContentCreate
  defines "K \<equiv> current_version (ct_campaign_id data) (ct_content_type data) (str_or (ct_language data) ''en'')"
  assumes "create_campaign_content ws data w = (Inr x, w')" and "one_current (campaign_contents (db w))"
  shows "(\<exists>c. get_by_id Campaign_model (ct_campaign_id data) w = (Inr (Some c), w) \<and> c_workspace_id c = ws) \<and>
     x \<in> set (campaign_contents (db w')) \<and> current_row x \<and> cc_status x = ContentStatus_DRAFT \<and>
     cc_workspace_id x = ws \<and> cc_language x = ct_language data \<and>
     (if \<exists>y \<in> set (campaign_contents (db w)). K y
      then \<exists>y \<in> set (campaign_contents (db w)). K y \<and> cc_version x = cc_version y + 1 \<and>
        cc_parent_version_id x = Some (cc_id y)
      else cc_version x = 1 \<and> cc_parent_version_id x = None) \<and>
     (\<forall>y \<in> set (campaign_contents (db w')). K y \<longrightarrow> y = x)"
proof -
  from created_content(2) [OF assms(2,3)] obtain w1 v p where
    new: "create CampaignContent_model (new_content ws data v p) w1 = (Inr x, w')"
    and none: "\<forall>y \<in> set (campaign_contents (db w1)). \<not> K y"
    and vp: "if \<exists>y \<in> set (campaign_contents (db w)). K y
       then \<exists>y \<in> set (campaign_contents (db w)). K y \<and> v = cc_version y + 1 \<and> p = Some (cc_id y)
       else v = 1 \<and> p = None"
    unfolding K_def by blast
  note x = new_content_created [OF new]
  have "\<forall>y \<in> set (campaign_contents (db w')). K y \<longrightarrow> y = x" using none by (auto simp: x(1))
  moreover have "x \<in> set (campaign_contents (db w'))" by (simp add: x(1))
  moreover have "if \<exists>y \<in> set (campaign_contents (db w)). K y
      then \<exists>y \<in> set (campaign_contents (db w)). K y \<and> cc_version x = cc_version y + 1 \<and>
        cc_parent_version_id x = Some (cc_id y)
      else cc_version x = 1 \<and> cc_parent_version_id x = None"
    unfolding x(2,3) by (rule vp)
  ultimately show ?thesis
    using created_content(1) [OF assms(2,3)] x(4,7,8,9) by (intro conjI)
qed

text \<open>Content created without a language takes the current English version out of its place but
  does not become one, so the English chain starts again: the next English creation is version 1,
  without a parent.\<close>

lemma unset_language_restarts_english:
  assumes "create_campaign_content ws data w = (Inr x, w1)" and "one_current (campaign_contents (db w))"
    and "ct_language data = None \<or> ct_language data = Some []"
    and "create_campaign_content ws (data\<lparr>ct_language := Some ''en''\<rparr>) w1 = (Inr y, w2)"
  shows "cc_version y = 1 \<and> cc_parent_version_id y = None"
proof -
  let ?K = "current_version (ct_campaign_id data) (ct_content_type data) ''en''"
  have en: "str_or (ct_language data) ''en'' = ''en''" using assms(3) by (auto simp: str_or_def)
  from created_content(2) [OF assms(1,2)] en obtain w0 v p where
    new: "create CampaignContent_model (new_content ws data v p) w0 = (Inr x, w1)"
    and none: "\<forall>z \<in> set (campaign_contents (db w0)). \<not> ?K z"
    by auto
  have "\<not> ?K x" using new_content_created(4) [OF new] assms(3) by (auto simp: current_version_def)
  with none have none1: "\<not> (\<exists>z \<in> set (campaign_contents (db w1)). ?K z)"
    by (auto simp: new_content_created(1) [OF new])
  have inv1: "one_current (campaign_contents (db w1))"
    by (rule create_content_one_current [OF assms(2,1)])
  from created_content(2) [OF assms(4) inv1] none1 obtain w3 where
    "create CampaignContent_model (new_content ws (data\<lparr>ct_language := Some ''en''\<rparr>) 1 None) w3 = (Inr y, w2)"
    by (auto simp: str_or_def)
  from new_content_created(2,3) [OF this] show ?thesis by simp
qed

section \<open>Concrete requests\<close>

definition fx_content :: "string option \<Rightarrow> CampaignContentCreate" where
  "fx_content l =
     \<lparr>ct_campaign_id = 40, ct_title = ''Post'', ct_content_type = ContentType_BLOG, ct_language = l,
      ct_body = None, ct_summary = None, ct_hashtags = None, ct_cta = None, ct_seo_title = None,
      ct_seo_description = None, ct_scheduled_placeholder = None, ct_metadata = None\<rparr>"

definition fx_contents :: world where
  "fx_contents = world_of (fx_database
     \<lparr>campaigns := [fx_campaign 40 CampaignStatus_ACTIVE],
       campaign_contents := [(new_content 20 (fx_content (Some ''en'')) 3 None)\<lparr>cc_id := 70\<rparr>]\<rparr>)"

lemma fx_contents_one: "one_current (campaign_contents (db fx_contents))"
  by (simp add: fx_contents_def one_current_def)

lemma create_content_effect_witness:
  "\<exists>x. \<exists>w' :: world. create_campaign_content 20 (fx_content (Some ''en'')) fx_contents = (Inr x, w') \<and>
     cc_version x = 4 \<and> cc_parent_version_id x = Some 70"
proof -
  have "succeeds (create_campaign_content 20 (fx_content (Some ''en''))) fx_contents" by code_simp
  then obtain x w' where run: "create_campaign_content 20 (fx_content (Some ''en'')) fx_contents = (Inr x, w')"
    by (rule succeedsE)
  from create_content_effect [OF run fx_contents_one] run show ?thesis
    by (auto simp: fx_contents_def fx_content_def str_or_def current_version_def new_content_def not_deleted_def
        split: if_splits)
qed


lemma unset_language_restarts_english_witness:
  "\<exists>y. \<exists>w2 :: world. cc_version y = 1 \<and>
     create_campaign_content 20 (fx_content (Some ''en'')) (snd (create_campaign_content 20 (fx_content None) fx_contents)) =
       (Inr y, w2)"
proof -
  let ?w1 = "snd (create_campaign_content 20 (fx_content None) fx_contents)"
  have "succeeds (create_campaign_content 20 (fx_content None)) fx_contents" by code_simp
  then obtain x w1 where run: "create_campaign_content 20 (fx_content None) fx_contents = (Inr x, w1)"
    by (rule succeedsE)
  have "succeeds (create_campaign_content 20 (fx_content (Some ''en''))) ?w1" by code_simp
  then obtain y w2 where run2: "create_campaign_content 20 (fx_content (Some ''en'')) ?w1 = (Inr y, w2)"
    by (rule succeedsE)
  have "fx_content (Some ''en'') = fx_content None\<lparr>ct_language := Some ''en''\<rparr>" "ct_language (fx_content None) = None"
    by (simp_all add: fx_content_def)
  with unset_language_restarts_english [OF run fx_contents_one] run run2 show ?thesis by auto
qed

end
