(* ===== verification/Social_Providers.thy ===== *)
theory Social_Providers
  imports Social_Publishers Content_Service
begin

text \<open>
  The providers that publish a content to a social account (\<open>app/services/social\<close>): the checks each network asks for,
  the refresh of a token that is about to expire, and the choice of the post. The assets of a content come from a
  table that no code of the backend writes, so they are an argument.
\<close>

section \<open>Assets\<close>

datatype AssetType =
    AssetType_IMAGE | AssetType_VIDEO | AssetType_DOCUMENT | AssetType_AUDIO | AssetType_LOGO | AssetType_ICON
  | AssetType_OTHER

text \<open>The columns of an asset that a provider reads.\<close>

record Asset =
  a_id :: uuid
  a_file_name :: string
  a_asset_type :: AssetType
  a_mime_type :: string
  a_file_size :: int
  a_public_url :: "string option"

definition blank :: "string option \<Rightarrow> bool" where
  "blank body \<longleftrightarrow> \<not> truthy_str body \<or> py_strip (the body) = []"

definition is_video :: "Asset \<Rightarrow> bool" where
  "is_video a \<longleftrightarrow> starts_with ''video/'' (a_mime_type a)"

definition web_url :: "string option \<Rightarrow> bool" where
  "web_url u \<longleftrightarrow> truthy_str u \<and> (starts_with ''http://'' (the u) \<or> starts_with ''https://'' (the u))"

definition first_image :: "Asset list \<Rightarrow> Asset option" where
  "first_image assets = find (\<lambda>a. a_asset_type a = AssetType_IMAGE) assets"

definition integration_error :: "string \<Rightarrow> exn" where
  "integration_error m = IntegrationError m"

section \<open>Refreshing a token\<close>

definition expiring :: "time \<Rightarrow> SocialAccount \<Rightarrow> bool" where
  "expiring now account \<longleftrightarrow> (case sa_expires_at account of None \<Rightarrow> False | Some t \<Rightarrow> t < now + seconds 300)"

text \<open>
  A session of its own. The transaction of the request has not written the two tables, so after the inner commit
  it sees them as committed.
\<close>

definition token_session :: "('z, 'a) io \<Rightarrow> ('z, 'a) io" where
  "token_session body w =
     (case with_session body (w\<lparr>db := committed w\<rparr>) of
        (r, w') \<Rightarrow>
          (r, w'\<lparr>db := (db w)\<lparr>integration_connections := integration_connections (committed w'),
                             social_accounts := social_accounts (committed w')\<rparr>\<rparr>))"

text \<open>The account of a token that is missing cannot be stored, because its column is not nullable.\<close>

definition persist_tokens ::
  "string \<Rightarrow> string \<Rightarrow> SocialAccount \<Rightarrow> string option \<Rightarrow> string option \<Rightarrow> time \<Rightarrow> ('z, unit) nio" where
  "persist_tokens auth_error provider_value account enc_access enc_refresh new_expires_at =
     token_session (catch_exception
       (bindM (get_by_workspace_and_provider (sa_workspace_id account) provider_value) (\<lambda>conn.
        bindM (get_by_id SocialAccount_model (sa_id account)) (\<lambda>soc_account.
        case (conn, soc_account) of
          (Some c, Some a) \<Rightarrow>
            (case enc_access of
               None \<Rightarrow> raiseM IntegrityError
             | Some t \<Rightarrow>
                 thenM (update IntegrationConnection_model (ic_id c)
                          (\<lambda>c. c\<lparr>ic_access_token := Some t, ic_refresh_token := enc_refresh, ic_expires_at := Some new_expires_at\<rparr>)) (
                 thenM (update SocialAccount_model (sa_id a)
                          (\<lambda>a. a\<lparr>sa_access_token := t, sa_refresh_token := enc_refresh, sa_expires_at := Some new_expires_at\<rparr>))
                   commit))
        | _ \<Rightarrow> raiseM (ProviderError auth_error ''Missing database records for token persistence.''))))
       (\<lambda>e. bindM (readM exn_text) (\<lambda>text.
          thenM rollback (raiseM (ProviderError auth_error (''Failed to persist refreshed tokens: '' @ text e))))))"

definition encrypt_answer :: "'z services \<Rightarrow> json \<Rightarrow> ('z, string option) iio" where
  "encrypt_answer sv j =
     (if \<not> json_truthy j then (case j of JStr s \<Rightarrow> returnM (Some s) | _ \<Rightarrow> returnM None)
      else bindM (encrypt_json sv j) (\<lambda>t. returnM (Some t)))"

definition expiry_in :: "json_object \<Rightarrow> ('z, time) io" where
  "expiry_in new_tokens =
     bindM (dict_item new_tokens ''expires_at'') (\<lambda>j.
     case j of JTime t \<Rightarrow> returnM t | _ \<Rightarrow> raiseM (AttributeError ''replace''))"

text \<open>Giving the account as it is in memory afterwards.\<close>

definition refresh_tokens ::
  "'z net_world_ext services \<Rightarrow> string \<Rightarrow> string \<Rightarrow> string \<Rightarrow> (string \<times> string \<Rightarrow> string \<Rightarrow> ('z, json_object) nio)
   \<Rightarrow> SocialAccount \<Rightarrow> ('z, SocialAccount) nio" where
  "refresh_tokens sv auth_error label provider_value refresh account =
     thenM (raise_if (\<not> truthy_str (sa_refresh_token account))
              (ProviderError auth_error (label @ '' token expired and no refresh token available.''))) (
     bindM (refresh (get_provider_credentials sv provider_value) (the (decrypt_token sv (sa_refresh_token account)))) (\<lambda>new_tokens.
     bindM (dict_item new_tokens ''access_token'') (\<lambda>access.
     bindM (encrypt_answer sv access) (\<lambda>enc_access.
     bindM (if json_truthy (dict_get new_tokens ''refresh_token'')
            then bindM (encrypt_json sv (dict_get new_tokens ''refresh_token'')) (\<lambda>t. returnM (Some t))
            else returnM (sa_refresh_token account)) (\<lambda>enc_refresh.
     bindM (expiry_in new_tokens) (\<lambda>new_expires_at.
     thenM (persist_tokens auth_error provider_value account enc_access enc_refresh new_expires_at)
       (returnM (account\<lparr>sa_access_token := the enc_access, sa_refresh_token := enc_refresh,
                         sa_expires_at := Some new_expires_at\<rparr>))))))))"

definition refresh_if_expiring ::
  "'z net_world_ext services \<Rightarrow> string \<Rightarrow> string \<Rightarrow> string \<Rightarrow> (string \<times> string \<Rightarrow> string \<Rightarrow> ('z, json_object) nio)
   \<Rightarrow> SocialAccount \<Rightarrow> ('z, SocialAccount) nio" where
  "refresh_if_expiring sv auth_error label provider_value refresh account =
     bindM get_utc_now (\<lambda>now.
     if \<not> expiring now account then returnM account
     else refresh_tokens sv auth_error label provider_value refresh account)"

definition access_token_of :: "'z services \<Rightarrow> SocialAccount \<Rightarrow> string" where
  "access_token_of sv account = the (decrypt_token sv (Some (sa_access_token account)))"

section \<open>Facebook and Instagram\<close>

definition post_id_of :: "string \<Rightarrow> json \<Rightarrow> ('z, string) nio" where
  "post_id_of err response =
     bindM (get_key response ''id'' JNull) (\<lambda>post_id.
     thenM (raise_if (\<not> json_truthy post_id) (ProviderError err ''Meta API did not return a valid post ID.''))
       (text_of post_id))"

definition facebook_publish :: "'z net_world_ext services \<Rightarrow> SocialAccount \<Rightarrow> CampaignContent \<Rightarrow> Asset list \<Rightarrow> ('z, string) nio" where
  "facebook_publish sv account content assets =
     thenM (raise_if (sa_access_token account = []) (integration_error ''No access token available for social account'')) (
     let tok = access_token_of sv account; page_id = sa_account_id account in
     bindM
       (case assets of
          [] \<Rightarrow>
            if blank (cc_body content)
            then raiseM (integration_error ''Campaign content body is empty, and no assets provided.'')
            else facebook_publish_text_post tok page_id (the (cc_body content))
        | [asset] \<Rightarrow>
            if \<not> truthy_str (a_public_url asset) then raiseM (integration_error ''Asset missing public_url'')
            else if a_asset_type asset = AssetType_IMAGE
            then facebook_publish_image_post tok page_id (str_or (cc_body content) []) (the (a_public_url asset))
            else if a_asset_type asset = AssetType_VIDEO
            then facebook_publish_video_post tok page_id (cc_title content) (str_or (cc_body content) []) (the (a_public_url asset))
            else raiseM (integration_error ''Unsupported asset type for Facebook'')
        | _ \<Rightarrow> raiseM (integration_error ''Facebook currently only supports up to 1 asset for MVP''))
       (post_id_of ''FacebookPublishError''))"

definition instagram_publish :: "'z net_world_ext services \<Rightarrow> SocialAccount \<Rightarrow> CampaignContent \<Rightarrow> Asset list \<Rightarrow> ('z, string) nio" where
  "instagram_publish sv account content assets =
     thenM (raise_if (sa_access_token account = []) (integration_error ''No access token available for social account''))
       (case first_image assets of
          None \<Rightarrow> raiseM (integration_error ''Campaign content missing IMAGE asset required for Instagram.'')
        | Some asset \<Rightarrow>
            if \<not> truthy_str (a_public_url asset)
            then raiseM (integration_error ''Campaign content image asset missing public_url.'')
            else bindM (instagram_publish_image_post (access_token_of sv account) (sa_account_id account)
                          (the (a_public_url asset)) (str_or (cc_body content) []))
                   (post_id_of ''InstagramPublishError''))"

section \<open>LinkedIn\<close>

definition linkedin_image_limit :: int where
  "linkedin_image_limit = 5 * 1024 * 1024"

text \<open>Only a request that fails is reported as a failed download.\<close>

definition linkedin_download :: "string \<Rightarrow> ('z, string) nio" where
  "linkedin_download url =
     catchM
       (bindM (http_get url [] []) (\<lambda>response.
        thenM (raise_for_status response) (
        thenM (case response_header response ''content-length'' of
                 None \<Rightarrow> returnM ()
               | Some s \<Rightarrow>
                   if s = [] then returnM ()
                   else (case py_int s of
                           None \<Rightarrow> raiseM (ValueError ''invalid literal for int()'')
                         | Some n \<Rightarrow> raise_if (n > linkedin_image_limit)
                                      (integration_error ''Image size exceeds the maximum allowed limit'')))
          (thenM (raise_if (int (length (rs_content response)) > linkedin_image_limit)
                    (integration_error ''Downloaded image size exceeds the maximum allowed limit''))
             (returnM (rs_content response))))))
       (\<lambda>e. case e of
          RequestError m \<Rightarrow>
            bindM (readM exn_text) (\<lambda>text.
            raiseM (integration_error (''Failed to download image from '' @ url @ '': '' @ text e)))
        | _ \<Rightarrow> raiseM e)"

definition linkedin_publish :: "'z net_world_ext services \<Rightarrow> SocialAccount \<Rightarrow> CampaignContent \<Rightarrow> Asset list \<Rightarrow> ('z, string) nio" where
  "linkedin_publish sv account content assets =
     thenM (raise_if (sa_access_token account = []) (integration_error ''LinkedIn SocialAccount missing access token.'')) (
     thenM (raise_if (blank (cc_body content)) (integration_error ''LinkedIn text publishing requires non-empty body content.'')) (
     thenM (raise_if (\<not> starts_with ''urn:li:person:'' (sa_account_id account))
              (integration_error (''Invalid LinkedIn author URN: '' @ sa_account_id account))) (
     bindM (refresh_if_expiring sv ''LinkedInAuthError'' ''LinkedIn'' ''LINKEDIN'' linkedin_refresh_token account) (\<lambda>account.
     bindM (linkedin_publisher (access_token_of sv account)) (\<lambda>headers.
     let body = the (cc_body content) in
     case first_image assets of
       None \<Rightarrow> linkedin_publish_text_post headers (sa_account_id account) body
     | Some asset \<Rightarrow>
         thenM (raise_if (\<not> truthy_str (a_public_url asset)) (integration_error ''Image asset is missing a public URL.'')) (
         thenM (raise_if (a_mime_type asset \<notin> {''image/jpeg'', ''image/png'', ''image/gif''})
                  (integration_error (''Unsupported LinkedIn image MIME type: '' @ a_mime_type asset))) (
         bindM (linkedin_download (the (a_public_url asset))) (\<lambda>image_binary.
         linkedin_publish_image_post headers (sa_account_id account) body image_binary (a_mime_type asset)))))))))"

section \<open>Twitter\<close>

text \<open>\<open>aiter_bytes(chunk_size)\<close>\<close>

function chunk_bytes :: "nat \<Rightarrow> string \<Rightarrow> string list" where
  "chunk_bytes n s = (if n = 0 \<or> s = [] then [] else take n s # chunk_bytes n (drop n s))"
  by auto
termination by (relation "measure (\<lambda>(n, s). length s)") auto

declare chunk_bytes.simps [simp del]

definition twitter_error :: "string \<Rightarrow> exn" where
  "twitter_error m = ProviderError ''TwitterError'' m"

definition upload_asset :: "string \<Rightarrow> Asset \<Rightarrow> ('z, string) nio" where
  "upload_asset tok asset =
     thenM (raise_if (\<not> web_url (a_public_url asset)) (twitter_error ''Asset public_url must be a valid HTTP/HTTPS URL.''))
       (if is_video asset then
          thenM (raise_if (a_file_size asset > 512 * 1024 * 1024) (twitter_error ''Video exceeds 512MB limit.'')) (
          thenM (raise_if (a_mime_type asset \<notin> {''video/mp4'', ''video/quicktime''})
                   (twitter_error ''Video format is not supported for Twitter MVP.''))
            (catch_exception
               (bindM (http_get (the (a_public_url asset)) [] []) (\<lambda>response.
                thenM (raise_for_status response)
                  (upload_media tok (Streamed (chunk_bytes (4 * 1024 * 1024) (rs_content response))) (a_mime_type asset)
                     (a_file_size asset) ''tweet_video'')))
               (\<lambda>e. bindM (readM exn_text) (\<lambda>text.
                  raiseM (twitter_error (''Failed to stream and upload video '' @ a_file_name asset @ '': '' @ text e))))))
        else
          thenM (raise_if (a_file_size asset > 5 * 1024 * 1024) (twitter_error ''Image exceeds 5MB limit.'')) (
          thenM (raise_if (a_mime_type asset \<notin> {''image/jpeg'', ''image/png'', ''image/webp''})
                   (twitter_error ''Image format is not supported for Twitter MVP.''))
            (catch_exception
               (bindM (http_get (the (a_public_url asset)) [] []) (\<lambda>response.
                thenM (raise_for_status response)
                  (upload_media tok (Whole (rs_content response)) (a_mime_type asset)
                     (int (length (rs_content response))) ''tweet_image'')))
               (\<lambda>e. bindM (readM exn_text) (\<lambda>text.
                  raiseM (twitter_error (''Failed to download and upload image '' @ a_file_name asset @ '': '' @ text e)))))))"

definition twitter_media :: "Asset list \<Rightarrow> ('z, Asset list) io" where
  "twitter_media assets =
     (if assets = [] then returnM []
      else if list_ex is_video assets \<and> length assets > 1
      then raiseM (twitter_error ''Twitter does not support attaching multiple videos or mixing images with video in a single post.'')
      else returnM (if list_ex is_video assets then [hd assets] else take 4 assets))"

definition twitter_publish :: "'z net_world_ext services \<Rightarrow> SocialAccount \<Rightarrow> CampaignContent \<Rightarrow> Asset list \<Rightarrow> ('z, string) nio" where
  "twitter_publish sv account content assets =
     thenM (raise_if (sa_access_token account = []) (twitter_error ''Twitter SocialAccount missing access token.'')) (
     thenM (raise_if (blank (cc_body content)) (twitter_error ''Twitter text publishing requires non-empty body content.'')) (
     bindM (refresh_if_expiring sv ''TwitterAuthError'' ''Twitter'' ''TWITTER'' twitter_refresh_token account) (\<lambda>account.
     let tok = access_token_of sv account in
     thenM (raise_if (tok = []) (ProviderError ''TwitterAuthError'' ''Missing access token for Twitter publisher.'')) (
     bindM (twitter_media assets) (\<lambda>assets_to_upload.
     bindM (mapM (upload_asset tok) assets_to_upload) (\<lambda>media_ids.
     bindM (twitter_publish_post tok (the (cc_body content)) media_ids) (\<lambda>post_id.
     thenM (raise_if (post_id = []) (twitter_error ''Failed to retrieve valid post ID from Twitter.''))
       (returnM post_id))))))))"

section \<open>Google\<close>

text \<open>The image to attach, or that the post is a video.\<close>

definition google_media :: "Asset list \<Rightarrow> ('z, Asset option) io" where
  "google_media assets =
     (case assets of
        [] \<Rightarrow> returnM None
      | [asset] \<Rightarrow>
          thenM (raise_if (\<not> web_url (a_public_url asset))
                   (ProviderError ''GoogleError'' ''Asset public_url must be a valid HTTP/HTTPS URL.'')) (
          thenM (raise_if (\<not> is_video asset \<and> \<not> starts_with ''image/'' (a_mime_type asset))
                   (ProviderError ''GoogleError'' (''Unsupported MIME type '' @ a_mime_type asset))) (
          thenM (raise_if (starts_with ''image/'' (a_mime_type asset)
                             \<and> a_mime_type asset \<notin> {''image/jpeg'', ''image/png'', ''image/webp''})
                   (ProviderError ''GoogleError'' ''Image format is not supported by Google Business Profile.''))
            (returnM (Some asset))))
      | _ \<Rightarrow> raiseM (ProviderError ''GoogleError'' ''Google Provider only supports a single image or video for publishing.''))"

text \<open>The method as it is declared, with the session as its first argument, which the caller leaves out.\<close>

definition google_publish :: "'z net_world_ext services \<Rightarrow> SocialAccount \<Rightarrow> CampaignContent \<Rightarrow> Asset list \<Rightarrow> ('z, string) nio" where
  "google_publish sv account content assets =
     thenM (raise_if (sa_access_token account = [])
              (ProviderError ''GoogleAuthError'' ''Google SocialAccount missing access token.'')) (
     thenM (raise_if (blank (cc_body content))
              (ProviderError ''GoogleError'' ''Google text publishing requires non-empty body content.'')) (
     bindM (google_media assets) (\<lambda>media.
     bindM (refresh_if_expiring sv ''GoogleAuthError'' ''Google'' ''GOOGLE'' google_refresh_token account) (\<lambda>account.
     let tok = access_token_of sv account; body = the (cc_body content) in
     case media of
       Some asset \<Rightarrow>
         if is_video asset
         then bindM (youtube_upload_video tok (the (a_public_url asset)) body body (a_file_size asset) (a_mime_type asset)) text_of
         else business_publish_post tok (sa_account_id account) body (a_public_url asset)
     | None \<Rightarrow> business_publish_post tok (sa_account_id account) body None))))"

section \<open>A post is tweeted once\<close>

text \<open>A request that creates a tweet.\<close>

definition is_tweet :: "http_request \<Rightarrow> bool" where
  "is_tweet q \<longleftrightarrow> rq_method q = ''POST'' \<and> rq_url q = tweets_url"

abbreviation no_tweet :: "'z net_world_scheme \<Rightarrow> 'z net_world_scheme \<Rightarrow> bool" where
  "no_tweet \<equiv> logs (\<lambda>q. \<not> is_tweet q)"

lemma media_not_tweet: "media_url @ s \<noteq> tweets_url"
  by (auto simp: media_url_def tweets_url_def)

lemma poll_status_quiet: "obeys (sends (\<lambda>u. u \<noteq> tweets_url)) (poll_status tok i info)"
proof -
  have "obeys (sends H) (sleep_json j)" for H j
    by (auto simp: sleep_json_def split: json.splits intro: net_intros)
  then show ?thesis unfolding poll_status_def data_item_def
    by (intro net_intros media_not_tweet)
qed

lemma await_processing_quiet: "obeys (sends (\<lambda>u. u \<noteq> tweets_url)) (await_processing n tok i info)"
proof (induction n arbitrary: info)
  case 0
  then show ?case by (subst await_processing.simps) (intro net_intros, simp add: net.obeys_raise)
next
  case (Suc n)
  show ?case by (subst await_processing.simps, simp only: nat.case) (intro net_intros poll_status_quiet Suc)
qed

lemma upload_media_quiet: "obeys (sends (\<lambda>u. u \<noteq> tweets_url)) (upload_media tok source mime n cat)"
proof -
  have app: "obeys (sends (\<lambda>u. u \<noteq> tweets_url)) (upload_append tok i form chunk m)" for i form chunk m
    unfolding upload_append_def by (intro net_intros media_not_tweet)
  have segs: "obeys (sends (\<lambda>u. u \<noteq> tweets_url)) (upload_segments tok i m k chunks)" for i m k chunks
    by (induction chunks arbitrary: k) (simp_all add: net_intros app)
  show ?thesis unfolding upload_media_def upload_init_def data_item_def
    by (cases source) (simp_all only: media_source.case, (intro net_intros media_not_tweet app segs await_processing_quiet)+)
qed

lemma upload_asset_quiet: "obeys no_tweet (upload_asset tok a)"
proof -
  have get: "obeys no_tweet (http_get url h p)" for url h p
    by (rule logs_get) (simp add: is_tweet_def)
  have up: "obeys no_tweet (upload_media tok source mime n cat)" for source mime n cat
    by (rule sends_logs [OF upload_media_quiet]) (simp add: is_tweet_def)
  have st: "obeys no_tweet (raise_for_status r)" for r
    by (rule logs.read_only_obeys [OF read_only_readers(2)])
  show ?thesis unfolding upload_asset_def catch_exception_def
    by (intro logs.obeys_then logs.obeys_bind logs.obeys_raise_if logs.obeys_if logs.obeys_catch logs.obeys_raise
        logs.obeys_read get up st)
qed

lemma token_session_logs:
  assumes "obeys (logs K) body"
  shows "obeys (logs K) (token_session body)"
proof (rule obeysI)
  fix s r t
  assume run: "token_session body s = (r, t)"
  obtain x u where u: "body (s\<lparr>db := committed s\<rparr>) = (x, u)" by fastforce
  from obeysD [OF assms u] have "logs K (s\<lparr>db := committed s\<rparr>) u" .
  moreover from run u have "http_log t = http_log u" by (auto simp: token_session_def with_session_def)
  ultimately show "logs K s t" by (simp add: logs_def)
qed

text \<open>What a refresh does apart from asking the provider and storing the answer, for any preorder that the clock and the
  nonces of the cipher obey.\<close>

locale quiet_steps = step_preorder R for R :: "'z net_world_scheme \<Rightarrow> 'z net_world_scheme \<Rightarrow> bool" +
  assumes quiet_clock: "obeys R get_utc_now"
    and quiet_nonce: "obeys R next_nonce"
begin

lemma quiet_item: "obeys R (dict_item d k)"
  by (rule read_only_obeys [OF read_only_readers(5)])

lemma quiet_expiry: "obeys R (expiry_in d)"
  unfolding expiry_in_def by (rule obeys_bind [OF quiet_item]) (auto split: json.splits intro: obeys_return obeys_raise)

lemma quiet_encrypt: "obeys R (encrypt_json sv j)"
  unfolding encrypt_json_def encrypt_token_def
  by (auto split: json.splits intro: obeys_return obeys_raise obeys_bind quiet_nonce)

lemma quiet_encrypt_answer: "obeys R (encrypt_answer sv j)"
  unfolding encrypt_answer_def by (auto split: json.splits intro: obeys_return obeys_bind quiet_encrypt)

lemmas quiet_intros =
  obeys_bind obeys_then obeys_if obeys_return obeys_raise_if quiet_clock quiet_nonce quiet_item quiet_expiry quiet_encrypt
  quiet_encrypt_answer

lemma quiet_refresh:
  assumes "\<And>c t. obeys R (refresh c t)" and "\<And>a r t. obeys R (persist_tokens err p account a r t)"
  shows "obeys R (refresh_if_expiring sv err label p refresh account)"
  unfolding refresh_if_expiring_def refresh_tokens_def by (intro quiet_intros assms)

end

interpretation logs: quiet_steps "logs K" for K
  by unfold_locales (simp_all add: obeys_def logs_def next_nonce_def)

lemma silent:
  "obeys (logs K) commit" "obeys (logs K) rollback"
  "obeys (logs K) (update M i f)" "obeys (logs K) (get_by_id M i)" "obeys (logs K) (get_by_workspace_and_provider ws p)"
  by (auto simp: obeys_def logs_def update_def flush_dirty_def update_row_def get_by_id_def get_by_id_with_def
      scalar_one_or_none_def get_by_workspace_and_provider_def split: option.splits list.splits)

lemma persist_tokens_logs: "obeys (logs K) (persist_tokens err p account a r t)"
  unfolding persist_tokens_def catch_exception_def
  by (rule token_session_logs)
    (auto split: option.splits intro!: logs.obeys_catch logs.obeys_bind logs.obeys_then logs.obeys_raise logs.obeys_read silent)

lemma refresh_logs:
  assumes "\<And>c t. obeys (logs K) (refresh c t)"
  shows "obeys (logs K) (refresh_if_expiring sv err label p refresh account)"
  by (rule logs.quiet_refresh [OF assms persist_tokens_logs])

lemma twitter_refresh_quiet: "obeys no_tweet (twitter_refresh_token cred t)"
proof -
  have "obeys (sends (\<lambda>u. u \<noteq> tweets_url)) (twitter_refresh_token cred t)"
    unfolding twitter_refresh_token_def twitter_token_request_def
    by (intro net_intros net_granted) (simp add: tweets_url_def)
  then show ?thesis by (rule sends_logs) (simp add: is_tweet_def)
qed

text \<open>The one request that creates a tweet.\<close>

definition tweet_request :: "string \<Rightarrow> string \<Rightarrow> string list \<Rightarrow> http_request" where
  "tweet_request tok body media_ids =
     \<lparr>rq_method = ''POST'', rq_url = tweets_url, rq_headers = bearer tok @ [(''Content-Type'', ''application/json'')],
      rq_params = [],
      rq_body = JsonBody (JObj ((if body \<noteq> [] then [(''text'', JStr body)] else [])
        @ (if media_ids \<noteq> [] then [(''media'', JObj [(''media_ids'', JList (map JStr media_ids))])] else [])))\<rparr>"

lemma send_then_read:
  assumes "\<And>x. read_only (k x)" and "bindM (send_request q) k w = (r, w')"
  shows "http_log w' = http_log w @ [q]"
proof (cases "wire w (http_log w) q")
  case (Inl e)
  with assms(2) show ?thesis by (auto simp: bindM_def send_request_def)
next
  case (Inr x)
  with assms(2) have "k x (w\<lparr>http_log := http_log w @ [q]\<rparr>) = (r, w')" by (simp add: bindM_def send_request_def)
  from read_onlyD [OF assms(1) this] show ?thesis by simp
qed

lemma read_only_data_item: "read_only (data_item j k v)"
  unfolding data_item_def read_only_def by (intro ro.obeys_bind read_only_get_key [unfolded read_only_def])

lemma twitter_publish_post_log:
  assumes "py_strip body \<noteq> []" and run: "twitter_publish_post tok body ids w = (r, w')"
  shows "http_log w' = http_log w @ [tweet_request tok body ids]"
proof -
  from assms(1) have guard: "\<not> (py_strip body = [] \<and> ids = [])" by simp
  note reads = read_only_readers [unfolded read_only_def] read_only_data_item [unfolded read_only_def]
  show ?thesis
  proof (rule send_then_read)
    show "bindM (send_request (tweet_request tok body ids)) (\<lambda>response.
     thenM (raise_if (rs_status response = 401)
              (ProviderError ''TwitterAuthError'' ''Twitter access token is missing or expired.'')) (
     thenM (raise_if (rs_status response \<notin> {200, 201})
              (ProviderError ''TwitterPublishError''
                 (''Twitter API error ('' @ decimal (rs_status response) @ ''): '' @ rs_text response))) (
     bindM (catchM (response_json response)
              (\<lambda>e. raiseM (ProviderError ''TwitterPublishError''
                             (''Malformed JSON response from Twitter API: '' @ rs_text response)))) (\<lambda>data.
     bindM (data_item data ''id'' JNull) (\<lambda>tweet_id.
     thenM (raise_if (\<not> json_truthy tweet_id)
              (ProviderError ''TwitterPublishError'' ''Twitter API response missing tweet ID''))
       (text_of tweet_id)))))) w = (r, w')"
      using run guard by (simp add: twitter_publish_post_def http_post_def tweet_request_def)
  qed (unfold read_only_def, intro ro.obeys_bind ro.obeys_then ro.obeys_raise_if ro.obeys_catch ro.obeys_raise reads)
qed

lemma twitter_media_bound:
  assumes "twitter_media assets w = (Inr chosen, w')"
  shows "length chosen \<le> 4" and "w' = w" and "length chosen \<le> length assets"
  using assms by (auto simp: twitter_media_def list_ex_iff split: if_splits) (metis Suc_lessI length_greater_0_conv)

lemma mapM_logs: "(\<And>x. obeys (logs K) (f x)) \<Longrightarrow> obeys (logs K) (mapM f xs)"
  by (induction xs) (simp_all add: logs.obeys_return logs.obeys_bind)

lemma mapM_length: "mapM f xs w = (Inr ys, w') \<Longrightarrow> length ys = length xs"
  by (induction xs arbitrary: ys w) (auto simp: bindM_eq_Inr)


section \<open>A token that is about to expire\<close>

definition stays :: "(http_request \<Rightarrow> bool) \<Rightarrow> 'z net_world_scheme \<Rightarrow> 'z net_world_scheme \<Rightarrow> bool" where
  "stays K w w' \<longleftrightarrow> committed w' = committed w \<and> logs K w w'"

interpretation stays: step_preorder "stays K" for K
  by unfold_locales (auto simp: stays_def intro: logs.step_refl logs.step_trans)

lemma sends_stays: "obeys (sends H) m \<Longrightarrow> (\<And>q. H (rq_url q) \<Longrightarrow> K q) \<Longrightarrow> obeys (stays K) m"
  by (erule obeys_mono) (auto simp: sends_def stays_def logs_def list_all_iff remote_rel_def)

lemma stays_triple: "obeys (stays K) m \<Longrightarrow> triple (stays K w) m (\<lambda>_. stays K w) (stays K w)"
  by (rule tripleI) (auto dest: obeysD intro: stays.step_trans)

text \<open>The connections are stored under lower-case names, which the names of the enumeration never are.\<close>

definition lower_case_connections :: "database \<Rightarrow> bool" where
  "lower_case_connections d \<longleftrightarrow> (\<forall>c \<in> set (integration_connections d). py_lower (ic_provider c) = ic_provider c)"

lemma lower_case_update:
  assumes "\<And>c. ic_provider (f c) = ic_provider c"
  shows "obeys (keeps (\<lambda>w. lower_case_connections (db w))) (update IntegrationConnection_model i f)"
  by (auto simp: obeys_def keeps_def lower_case_connections_def update_def flush_dirty_def update_row_def upd_where_def assms
      split: option.splits dest!: find_pk_Some)

lemma lower_case_create:
  assumes "py_lower (ic_provider c) = ic_provider c"
  shows "obeys (keeps (\<lambda>w. lower_case_connections (db w))) (create IntegrationConnection_model c)"
  using assms
  by (auto simp: obeys_def keeps_def lower_case_connections_def create_def flush_new_def insert_row_def)

text \<open>Connecting keeps the names in lower case.\<close>

lemma connect_keeps_lower_case:
  assumes "remote_only sv"
  shows "obeys (keeps (\<lambda>w. lower_case_connections (db w))) (connect_provider sv ws name code verifier)"
proof -
  let ?K = "keeps (\<lambda>w. lower_case_connections (db w))"
  have enc: "obeys ?K (encrypt_optional sv t)" "obeys ?K (naive_utc t)" "obeys ?K (get_by_workspace_and_provider ws p)" for t p
    by (auto simp: obeys_def keeps_def encrypt_optional_def encrypt_token_def next_nonce_def naive_utc_def bindM_def
        get_by_workspace_and_provider_def split: json.splits)
  have save: "obeys ?K (save_connection sv ws (py_lower p) answer)" for p answer
    unfolding save_connection_def Let_def
    by (intro keeping.inv.obeys_bind keeping.inv.obeys_then keeping.inv.obeys_raise_if keeping.inv.obeys_case_option
        lower_case_update lower_case_create enc) (simp_all add: connected_def new_connection_def py_lower_idem)
  have remote: "obeys remote_rel m \<Longrightarrow> obeys ?K m" for m :: "('a, json_object) iio"
    by (erule obeys_mono) (simp add: remote_rel_def keeps_def)
  have conn: "triple (\<lambda>w. lower_case_connections (db w)) (create_connector sv p cred tok)
      (\<lambda>c w. lower_case_connections (db w) \<and> obeys remote_rel (cn_connect c code verifier)) (\<lambda>w. lower_case_connections (db w))"
    for p cred tok
    by (rule triple_read_only [OF create_connector_read_only])
      (auto dest: create_connector_remote [OF assms] simp: remote_connector_def)
  have guarded: "triple (\<lambda>w. lower_case_connections (db w) \<and> obeys remote_rel (cn_connect c code verifier))
      (catchM
        (bindM (retrying (breaker_call p (cn_connect c code verifier))) (\<lambda>answer. save_connection sv ws (py_lower name) answer))
        (\<lambda>e. bindM (readM exn_text) (\<lambda>text.
           if is_integration_error e then raiseM (HTTPException 400 (text e))
           else raiseM (HTTPException 500 ''Failed to connect to provider''))))
      (\<lambda>_ w. lower_case_connections (db w)) (\<lambda>w. lower_case_connections (db w))" for c p
  proof (cases "obeys remote_rel (cn_connect c code verifier)")
    case True
    then have "obeys ?K (retrying (breaker_call p (cn_connect c code verifier)))"
      by (intro remote retrying_remote breaker_call_remote)
    then show ?thesis
      by (intro triple_pre [OF triple_keeps] keeping.inv.obeys_catch keeping.inv.obeys_bind keeping.inv.obeys_read
          keeping.inv.obeys_if keeping.inv.obeys_raise save) auto
  qed (simp add: triple_def)
  show ?thesis
    unfolding connect_provider_def Let_def
    by (rule keeps_triple) (rule triple_bind [OF conn guarded])
qed

lemma persist_tokens_fails:
  assumes "lower_case_connections (committed w0)" and "py_lower p \<noteq> p"
  shows "triple (stays K w0) (persist_tokens err p account a r t) (\<lambda>_ _. False) (stays K w0)"
proof -
  have "\<exists>e w'. persist_tokens err p account a r t w = (Inl e, w') \<and> committed w' = committed w \<and> http_log w' = http_log w"
    if "committed w = committed w0" for w
  proof -
    let ?w = "w\<lparr>db := committed w\<rparr>"
    have "filter (\<lambda>c. ic_workspace_id c = sa_workspace_id account \<and> ic_provider c = p)
        (integration_connections (committed w)) = []"
      using assms that by (auto simp: lower_case_connections_def filter_empty_conv)
    then have none: "get_by_workspace_and_provider (sa_workspace_id account) p ?w = (Inr None, ?w)"
      by (simp add: get_by_workspace_and_provider_def scalars_first_def)
    obtain g where g: "get_by_id SocialAccount_model (sa_id account) ?w = (g, ?w)"
      by (metis read_only_run read_only_get_by_id)
    show ?thesis
      by (cases g) (simp_all add: persist_tokens_def token_session_def with_session_def catch_exception_def catchM_def
          bindM_def none g cancelled_def)
  qed
  then show ?thesis unfolding triple_def stays_def logs_def by (fastforce)
qed

interpretation stays: quiet_steps "stays K" for K
  by unfold_locales (simp_all add: obeys_def stays_def logs_def next_nonce_def)

lemma triple_after: "triple P m (\<lambda>_ _. False) E \<Longrightarrow> triple P (bindM m f) (\<lambda>_ _. False) E"
  by (erule triple_bind) (simp add: triple_def)

text \<open>From the moment a refresh has begun, it can only raise.\<close>

lemma refresh_tokens_fails:
  assumes "lower_case_connections (committed w)" and "py_lower p \<noteq> p" and "\<And>c t. obeys (stays K) (refresh c t)"
  shows "triple (stays K w) (refresh_tokens sv err label p refresh account) (\<lambda>_ _. False) (stays K w)"
  unfolding refresh_tokens_def thenM_def
  by (intro triple_bind [OF stays_triple] triple_after persist_tokens_fails assms stays.quiet_intros)

lemma refresh_fails:
  assumes "lower_case_connections (committed w)" and "py_lower p \<noteq> p" and "\<And>c t. obeys (stays K) (refresh c t)"
    and "expiring (clock w (ticks w)) account"
    and "refresh_if_expiring sv err label p refresh account w = (r, w')"
  shows "(\<exists>e. r = Inl e) \<and> stays K w w'"
proof -
  let ?w = "w\<lparr>ticks := Suc (ticks w)\<rparr>"
  have t: "triple (stays K ?w) (refresh_tokens sv err label p refresh account) (\<lambda>_ _. False) (stays K ?w)"
    by (rule refresh_tokens_fails) (use assms(1-3) in simp_all)
  have run: "refresh_tokens sv err label p refresh account ?w = (r, w')"
    using assms(4,5) by (simp add: refresh_if_expiring_def)
  have "stays K w ?w" by (simp add: stays_def logs_def)
  with t run triple_Inr [OF t stays.step_refl] triple_Inl [OF t stays.step_refl] show ?thesis
    by (cases r) (auto intro: stays.step_trans)
qed

lemma bindM_doomed:
  assumes "bindM m f w = (r, w')" and "\<And>y u. m w = (y, u) \<Longrightarrow> (\<exists>e. y = Inl e) \<and> S w u"
  shows "(\<exists>e. r = Inl e) \<and> S w w'"
proof -
  obtain y u where y: "m w = (y, u)" by fastforce
  from assms(2) [OF y] assms(1) y show ?thesis by (auto simp: bindM_def)
qed

lemma google_media_read_only: "\<exists>y. google_media assets w = (y, w)"
  by (auto simp: google_media_def split: list.split)

text \<open>The requests that ask for a new token.\<close>

definition token_endpoints :: "string list" where
  "token_endpoints =
     [''https://api.twitter.com/2/oauth2/token'', ''https://www.linkedin.com/oauth/v2/accessToken'', google_token_url]"

abbreviation only_tokens :: "'z net_world_scheme \<Rightarrow> 'z net_world_scheme \<Rightarrow> bool" where
  "only_tokens \<equiv> stays (\<lambda>q. rq_url q \<in> set token_endpoints)"

lemma refresh_only_tokens:
  "obeys only_tokens (twitter_refresh_token cred t)"
  "obeys only_tokens (linkedin_refresh_token cred t)"
  "obeys only_tokens (google_refresh_token cred t)"
proof -
  have "obeys (sends (\<lambda>u. u \<in> set token_endpoints)) (twitter_refresh_token cred t)"
    unfolding twitter_refresh_token_def twitter_token_request_def
    by (intro net_intros net_granted) (simp add: token_endpoints_def)
  then show "obeys only_tokens (twitter_refresh_token cred t)" by (rule sends_stays)
  have "obeys (sends (\<lambda>u. u \<in> set token_endpoints)) (linkedin_refresh_token cred t)"
    unfolding linkedin_refresh_token_def linkedin_token_request_def
    by (intro net_intros net_granted) (simp add: token_endpoints_def)
  then show "obeys only_tokens (linkedin_refresh_token cred t)" by (rule sends_stays)
  have "obeys (sends (\<lambda>u. u \<in> set token_endpoints)) (google_refresh_token cred t)"
    unfolding google_refresh_token_def
    by (intro net_intros) (auto simp: token_endpoints_def split: json.splits intro: net_intros)
  then show "obeys only_tokens (google_refresh_token cred t)" by (rule sends_stays)
qed

text \<open>C31 (error). A token that is about to expire is never renewed. The providers look the connection up under the name of the
  enumeration, in capitals, while connecting stores it in lower case; so a publication on Twitter, LinkedIn or
  Google with an account whose token expires within five minutes always raises. It asks for new tokens at most
  and posts nothing, and neither the connection nor the account is written.\<close>

theorem expiring_token_never_renewed:
  assumes lower: "lower_case_connections (committed w)"
    and expiring: "expiring (clock w (ticks w)) account"
    and run: "(r, w') \<in> {twitter_publish sv account content assets w, linkedin_publish sv account content assets w,
                        google_publish sv account content assets w}"
  shows "(\<exists>e. r = Inl e) \<and> committed w' = committed w \<and>
    (\<exists>sent. http_log w' = http_log w @ sent \<and> (\<forall>q \<in> set sent. rq_url q \<in> set token_endpoints))"
proof -
  have upper: "py_lower ''TWITTER'' \<noteq> ''TWITTER''" "py_lower ''LINKEDIN'' \<noteq> ''LINKEDIN''" "py_lower ''GOOGLE'' \<noteq> ''GOOGLE''"
    by code_simp+
  have here: "(\<exists>e. r = Inl e) \<and> only_tokens w w" if "r = Inl e" for e
    using that by (simp add: stays.step_refl)
  note fails = refresh_fails [OF lower upper(1) refresh_only_tokens(1) expiring]
    refresh_fails [OF lower upper(2) refresh_only_tokens(2) expiring]
    refresh_fails [OF lower upper(3) refresh_only_tokens(3) expiring]
  from run consider "twitter_publish sv account content assets w = (r, w')"
    | "linkedin_publish sv account content assets w = (r, w')" | "google_publish sv account content assets w = (r, w')"
    by auto
  then have "(\<exists>e. r = Inl e) \<and> only_tokens w w'"
  proof cases
    case 1
    then show ?thesis unfolding twitter_publish_def
      by (auto simp: stays.step_refl split: if_splits elim!: bindM_doomed dest!: fails)
  next
    case 2
    then show ?thesis unfolding linkedin_publish_def
      by (auto simp: stays.step_refl split: if_splits elim!: bindM_doomed dest!: fails)
  next
    case 3
    obtain y where y: "google_media assets w = (y, w)" by (metis google_media_read_only)
    from 3 y show ?thesis unfolding google_publish_def
      by (cases y) (auto simp: stays.step_refl bindM_Inr bindM_Inl split: if_splits elim!: bindM_doomed
          dest!: fails)
  qed
  then show ?thesis by (auto simp: stays_def logs_def list_all_iff)
qed


section \<open>Witnesses\<close>

definition fx_account :: "ApiProvider \<Rightarrow> time option \<Rightarrow> SocialAccount" where
  "fx_account p expires =
     (new_account 20 p ''urn:li:person:7'' ''Ada'')
       \<lparr>sa_id := 80, sa_access_token := ''#token'', sa_refresh_token := Some ''#refresh'', sa_expires_at := expires\<rparr>"

definition fx_post :: CampaignContent where
  "fx_post = (new_content 20 (fx_content (Some ''en'')) 3 None)\<lparr>cc_id := 70, cc_body := Some ''Hello''\<rparr>"

definition fx_image :: Asset where
  "fx_image = \<lparr>a_id = 90, a_file_name = ''a.png'', a_asset_type = AssetType_IMAGE, a_mime_type = ''image/png'', a_file_size = 5,
     a_public_url = Some ''https://cdn.x.org/a.png''\<rparr>"

definition fx_media_answers :: "(string \<times> http_response) list" where
  "fx_media_answers =
     [(''https://cdn.x.org/a.png'', fx_reply 200 None),
      (media_url @ ''/initialize'', fx_reply 200 (Some (JObj [(''data'', JObj [(''id'', JStr ''m1'')])]))),
      (media_url @ ''/m1/append'', fx_reply 204 None),
      (media_url @ ''/m1/finalize'', fx_reply 200 (Some (JObj []))),
      (tweets_url, fx_reply 201 (Some (JObj [(''data'', JObj [(''id'', JStr ''t1'')])])))]"

definition fx_services_live :: "unit net_world_ext services" where
  "fx_services_live =
     \<lparr>sv_encrypt = (\<lambda>n t. CHR ''#'' # t), sv_decrypt = fx_decrypt, sv_secret = (\<lambda>k. Some ''id''),
      sv_provider = provider_connector, sv_challenge = (\<lambda>v. v)\<rparr>"


theorem expiring_token_never_renewed_witness:
  "\<exists>(w' :: net_world) e. committed w' = fx_database \<and> http_log w' \<noteq> [] \<and>
     (\<forall>q \<in> set (http_log w'). rq_url q \<in> set token_endpoints)"
proof -
  let ?w = "fx_net fx_database fx_twitter_answers"
  let ?m = "twitter_publish fx_services_live (fx_account ApiProvider_TWITTER (Some 0)) fx_post []"
  obtain r w' where run: "?m ?w = (r, w')" by fastforce
  have lower: "lower_case_connections (committed ?w)"
    by (simp add: lower_case_connections_def fx_database_def empty_database_def)
  have exp: "expiring (clock ?w (ticks ?w)) (fx_account ApiProvider_TWITTER (Some 0))" by code_simp
  have "http_log (snd (?m ?w)) \<noteq> []" by code_simp
  with expiring_token_never_renewed [OF lower exp, of r w' fx_services_live fx_post "[]"] run show ?thesis
    by (intro exI [of _ w']) auto
qed

end
