(* ===== verification/Publishing.thy ===== *)
theory Publishing
  imports Social_Providers
begin

text \<open>
  Publishing content to a social account, the publish history, and the social accounts of a workspace
  (\<open>app/services/publishing.py\<close>, \<open>app/services/social_account.py\<close>, \<open>app/services/social/factory.py\<close>, the mock
  provider, and the routes of both).
\<close>

section \<open>Choosing a provider\<close>

definition mock_publish :: "('z, string) io" where
  "mock_publish = bindM uuid4 (\<lambda>u. returnM (''mock_post_'' @ hex8 u))"

text \<open>The assets of a content, by its id.\<close>

type_synonym asset_table = "uuid \<Rightarrow> Asset list"

text \<open>\<open>SocialProviderFactory.get_provider(p).publish_content(account, content)\<close>. The method of the Google provider
  takes the session first, so the call lacks an argument.\<close>

definition provider_publish ::
  "'z net_world_ext services \<Rightarrow> asset_table \<Rightarrow> ApiProvider \<Rightarrow> SocialAccount \<Rightarrow> CampaignContent \<Rightarrow> ('z, string) nio" where
  "provider_publish sv assets provider account content =
     (case provider of
        ApiProvider_META \<Rightarrow> facebook_publish sv account content (assets (cc_id content))
      | ApiProvider_INSTAGRAM \<Rightarrow> instagram_publish sv account content (assets (cc_id content))
      | ApiProvider_LINKEDIN \<Rightarrow> linkedin_publish sv account content (assets (cc_id content))
      | ApiProvider_TWITTER \<Rightarrow> twitter_publish sv account content (assets (cc_id content))
      | ApiProvider_GOOGLE \<Rightarrow>
          raiseM (TypeError ''GoogleProvider.publish_content() missing 1 required positional argument: content'')
      | _ \<Rightarrow> mock_publish)"

definition linkedin_account_info :: "'z net_world_ext services \<Rightarrow> string \<Rightarrow> ('z, json_object) nio" where
  "linkedin_account_info sv access_token =
     bindM (linkedin_fetch_profile (the (decrypt_token sv (Some access_token)))) (\<lambda>profile_data.
     bindM (linkedin_urn profile_data) (\<lambda>urn.
     bindM (linkedin_name profile_data) (\<lambda>name.
     returnM [(''account_id'', JStr urn), (''name'', JStr name), (''username'', JStr name), (''profile_url'', JNull)])))"

text \<open>\<open>get_provider(p).get_account_info(token)\<close>\<close>

definition provider_account_info :: "'z net_world_ext services \<Rightarrow> ApiProvider \<Rightarrow> string \<Rightarrow> ('z, json_object) nio" where
  "provider_account_info sv provider tok =
     (case provider of
        ApiProvider_META \<Rightarrow> raiseM (PyException ''Facebook OAuth not yet implemented'')
      | ApiProvider_INSTAGRAM \<Rightarrow> raiseM (PyException ''Instagram OAuth not yet implemented'')
      | ApiProvider_TWITTER \<Rightarrow> raiseM (PyException ''Twitter OAuth not yet implemented'')
      | ApiProvider_LINKEDIN \<Rightarrow> linkedin_account_info sv tok
      | ApiProvider_GOOGLE \<Rightarrow>
          raiseM (TypeError ''GoogleProvider.get_account_info() missing 1 required positional argument: account'')
      | _ \<Rightarrow> bindM uuid4 (\<lambda>u. returnM [(''account_id'', JStr (''mock_acc_'' @ hex8 u)), (''name'', JStr ''Mock Social Page'')]))"

section \<open>Publish history\<close>

fun PublishStatus_value :: "PublishStatus \<Rightarrow> string" where
  "PublishStatus_value PublishStatus_PENDING = ''PENDING''"
| "PublishStatus_value PublishStatus_PUBLISHED = ''PUBLISHED''"
| "PublishStatus_value PublishStatus_FAILED = ''FAILED''"

definition history_get_by_workspace_id ::
  "uuid \<Rightarrow> nat \<Rightarrow> nat \<Rightarrow> uuid option \<Rightarrow> uuid option \<Rightarrow> string option \<Rightarrow> uuid option
   \<Rightarrow> ('z, PublishHistory list) io" where
  "history_get_by_workspace_id ws skip limit campaign_id content_id st social_account_id =
     bindM (select PublishHistory_model (\<lambda>h. h_workspace_id h = ws \<and>
        (case campaign_id of None \<Rightarrow> True | Some c \<Rightarrow> h_campaign_id h = Some c) \<and>
        (case content_id of None \<Rightarrow> True | Some c \<Rightarrow> h_content_id h = c) \<and>
        (truthy_str st \<longrightarrow> PublishStatus_value (h_status h) = the st) \<and>
        (case social_account_id of None \<Rightarrow> True | Some a \<Rightarrow> h_social_account_id h = a)))
       (\<lambda>hs. returnM (page skip limit (sort_desc (\<lambda>h. created_at (h_stamp h)) hs)))"

definition new_history :: "uuid \<Rightarrow> CampaignContent \<Rightarrow> SocialAccount \<Rightarrow> PublishHistory" where
  "new_history ws content account =
     \<lparr>h_id = 0, h_stamp = no_stamp, h_soft = not_deleted, h_audit = no_audit, h_workspace_id = ws,
      h_campaign_id = Some (cc_campaign_id content), h_content_id = cc_id content, h_social_account_id = sa_id account,
      h_status = PublishStatus_PENDING, h_external_post_id = None, h_error_message = None, h_published_at = None\<rparr>"

section \<open>The services\<close>

record PublishRequest =
  pr_content_id :: uuid
  pr_social_account_id :: uuid

definition found_in :: "uuid \<Rightarrow> ('r \<Rightarrow> uuid) \<Rightarrow> string \<Rightarrow> 'r option \<Rightarrow> ('z, 'r) io" where
  "found_in ws workspace_of detail found =
     (case found of
        None \<Rightarrow> raiseM (HTTPException 404 detail)
      | Some r \<Rightarrow> thenM (raise_if (workspace_of r \<noteq> ws) (HTTPException 404 detail)) (returnM r))"

text \<open>The assignments that the outcome of the provider gives.\<close>

definition publish_outcome ::
  "'z net_world_ext services \<Rightarrow> asset_table \<Rightarrow> SocialAccount \<Rightarrow> CampaignContent
   \<Rightarrow> ('z, PublishHistory \<Rightarrow> PublishHistory) nio" where
  "publish_outcome sv assets account content =
     catch_exception
       (bindM (provider_publish sv assets (sa_provider account) account content) (\<lambda>external_id.
        bindM get_utc_now (\<lambda>now.
        returnM (\<lambda>h. h\<lparr>h_status := PublishStatus_PUBLISHED, h_external_post_id := Some external_id,
                       h_published_at := Some now\<rparr>))))
       (\<lambda>e. bindM (readM exn_text) (\<lambda>text.
        returnM (\<lambda>h. h\<lparr>h_status := PublishStatus_FAILED, h_error_message := Some (text e)\<rparr>)))"

definition publish_content ::
  "'z net_world_ext services \<Rightarrow> asset_table \<Rightarrow> uuid \<Rightarrow> PublishRequest \<Rightarrow> ('z, PublishHistory) nio" where
  "publish_content sv assets ws request =
     bindM (get_by_id CampaignContent_model (pr_content_id request)) (\<lambda>content.
     bindM (found_in ws cc_workspace_id ''Content not found'' content) (\<lambda>content.
     bindM (get_by_id SocialAccount_model (pr_social_account_id request)) (\<lambda>account.
     bindM (found_in ws sa_workspace_id ''Social account not found'' account) (\<lambda>account.
     bindM (create PublishHistory_model (new_history ws content account)) (\<lambda>history_record.
     bindM (publish_outcome sv assets account content) (\<lambda>update_data.
     update PublishHistory_model (h_id history_record) update_data))))))"

definition connect_account ::
  "'z net_world_ext services \<Rightarrow> uuid \<Rightarrow> ApiProvider \<Rightarrow> ('z, SocialAccount) nio" where
  "connect_account sv ws provider =
     bindM (provider_account_info sv provider ''mock_token'') (\<lambda>account_info.
     bindM uuid4 (\<lambda>u.
     let column = (\<lambda>k d. case map_of account_info k of None \<Rightarrow> JStr d | Some v \<Rightarrow> v) in
     case (column ''account_id'' (''mock_acc_'' @ hex8 u), column ''name'' ''Mock Account'') of
       (JStr i, JStr n) \<Rightarrow>
         create SocialAccount_model
           \<lparr>sa_id = 0, sa_stamp = no_stamp, sa_soft = not_deleted, sa_audit = no_audit, sa_workspace_id = ws,
            sa_provider = provider, sa_account_id = i, sa_name = n, sa_access_token = ''mock_access_token_value'',
            sa_refresh_token = Some ''mock_refresh_token_value'', sa_expires_at = None, sa_is_active = True\<rparr>
     | _ \<Rightarrow> raiseM (PyException ''DataError'')))"

definition get_accounts :: "uuid \<Rightarrow> nat \<Rightarrow> nat \<Rightarrow> ('z, SocialAccount list) io" where
  "get_accounts ws skip limit =
     bindM (select SocialAccount_model (\<lambda>a. sa_workspace_id a = ws))
       (\<lambda>as. returnM (page skip limit (sort_desc (\<lambda>a. created_at (sa_stamp a)) as)))"

section \<open>The routes\<close>

text \<open>The permission is in \<open>dependencies\<close>, so it comes before the workspace.\<close>

definition social_route ::
  "jwt_decoder \<Rightarrow> string \<Rightarrow> uuid \<Rightarrow> string \<Rightarrow> string \<Rightarrow> ('z, 'a) io \<Rightarrow> ('z, 'a) io" where
  "social_route decode tok ws resource action handler =
     get_db_session
       (bindM (get_current_user decode tok) (\<lambda>user.
        thenM (require_permission resource action ws user) (
        thenM (get_current_workspace ws user) handler)))"

definition route_publish_content ::
  "'z net_world_ext services \<Rightarrow> asset_table \<Rightarrow> jwt_decoder \<Rightarrow> string \<Rightarrow> uuid \<Rightarrow> PublishRequest \<Rightarrow> ('z, PublishHistory) nio" where
  "route_publish_content sv assets decode tok ws request =
     social_route decode tok ws ''content'' ''publish'' (publish_content sv assets ws request)"

definition route_list_publish_history ::
  "jwt_decoder \<Rightarrow> string \<Rightarrow> uuid \<Rightarrow> nat \<Rightarrow> nat \<Rightarrow> uuid option \<Rightarrow> uuid option \<Rightarrow> string option \<Rightarrow> uuid option
   \<Rightarrow> ('z, PublishHistory list) io" where
  "route_list_publish_history decode tok ws skip limit campaign_id content_id st account_id =
     social_route decode tok ws ''content'' ''read''
       (history_get_by_workspace_id ws skip limit campaign_id content_id st account_id)"

definition route_connect_social_account ::
  "'z net_world_ext services \<Rightarrow> jwt_decoder \<Rightarrow> string \<Rightarrow> uuid \<Rightarrow> ApiProvider \<Rightarrow> ('z, SocialAccount) nio" where
  "route_connect_social_account sv decode tok ws provider =
     social_route decode tok ws ''social_accounts'' ''manage''
       (bindM (connect_account sv ws provider) (\<lambda>account. thenM commit (returnM account)))"

definition route_list_social_accounts ::
  "jwt_decoder \<Rightarrow> string \<Rightarrow> uuid \<Rightarrow> nat \<Rightarrow> nat \<Rightarrow> ('z, SocialAccount list) io" where
  "route_list_social_accounts decode tok ws skip limit =
     social_route decode tok ws ''social_accounts'' ''read'' (get_accounts ws skip limit)"

section \<open>What a publication leaves behind\<close>

text \<open>A provider does not write the history, although it may store new tokens in a session of its own.\<close>

interpretation hist: table_step publish_history "(=)"
  by unfold_locales simp_all

lemma hist_sends: "obeys (sends H) m \<Longrightarrow> obeys hist.rel m"
  by (erule obeys_mono) (simp add: sends_def remote_rel_def)

lemma hist_token_session: "obeys hist.rel (token_session body)"
  by (auto simp: obeys_def token_session_def split: prod.split)

interpretation hist: quiet_steps hist.rel
  by unfold_locales (simp_all add: obeys_def next_nonce_def)

lemma hist_refresh:
  assumes "\<And>c t. obeys net_rel (refresh c t)"
  shows "obeys hist.rel (refresh_if_expiring sv err label p refresh account)"
proof (rule hist.quiet_refresh)
  show "obeys hist.rel (persist_tokens err p account a r t)" for a r t
    unfolding persist_tokens_def by (rule hist_token_session)
qed (rule hist_sends [OF assms])

lemma net_refreshes: "obeys net_rel (twitter_refresh_token c t)" "obeys net_rel (linkedin_refresh_token c t)"
  unfolding twitter_refresh_token_def twitter_token_request_def linkedin_refresh_token_def linkedin_token_request_def
  by (intro net_intros net_granted TrueI)+

lemma net_publishers:
  "obeys net_rel (facebook_publish sv account content assets)"
  "obeys net_rel (instagram_publish sv account content assets)"
  unfolding facebook_publish_def instagram_publish_def Let_def facebook_publish_text_post_def facebook_publish_image_post_def
    facebook_publish_video_post_def instagram_publish_image_post_def meta_post_def post_id_of_def
  by (intro net_intros TrueI)+

lemma net_linkedin_posts:
  "obeys net_rel (linkedin_publisher tok)"
  "obeys net_rel (linkedin_publish_text_post headers urn body)"
  "obeys net_rel (linkedin_publish_image_post headers urn body bytes mime)"
  "obeys net_rel (linkedin_download url)"
proof -
  have post: "obeys net_rel (linkedin_create_post what headers urn body c)" for what c
    unfolding linkedin_create_post_def by (intro net_intros TrueI)
  show "obeys net_rel (linkedin_publisher tok)" unfolding linkedin_publisher_def by (intro net_intros)
  show "obeys net_rel (linkedin_publish_text_post headers urn body)" unfolding linkedin_publish_text_post_def by (rule post)
  have key: "obeys net_rel (case e of KeyError k \<Rightarrow> raiseM (f k) | _ \<Rightarrow> raiseM e)" for e f
    by (cases e) (simp_all add: net.obeys_raise)
  have url: "obeys net_rel (case j of JStr u \<Rightarrow> returnM u | _ \<Rightarrow> raiseM e)" for j e
    by (cases j) (simp_all add: net.obeys_raise net.obeys_return)
  have "obeys net_rel (linkedin_initialize_upload headers urn)"
    unfolding linkedin_initialize_upload_def by (intro net_intros TrueI key)
  then show "obeys net_rel (linkedin_publish_image_post headers urn body bytes mime)"
    unfolding linkedin_publish_image_post_def linkedin_upload_binary_def case_prod_beta
    by (intro net_intros TrueI post url)
  have req: "obeys net_rel (case e of RequestError m \<Rightarrow> f m | _ \<Rightarrow> raiseM e)" if "\<And>m. obeys net_rel (f m)" for e f
    using that by (cases e) (simp_all add: net.obeys_raise)
  show "obeys net_rel (linkedin_download url)"
    unfolding linkedin_download_def by (intro net_intros TrueI req)
qed

lemma net_twitter_posts:
  "obeys net_rel (upload_asset tok a)"
  "obeys net_rel (twitter_publish_post tok body ids)"
  "obeys net_rel (twitter_media assets)"
proof -
  show "obeys net_rel (upload_asset tok a)"
    unfolding upload_asset_def catch_exception_def by (intro net_intros TrueI sends_net [OF upload_media_quiet])
  show "obeys net_rel (twitter_publish_post tok body ids)"
    unfolding twitter_publish_post_def data_item_def by (intro net_intros TrueI)
  show "obeys net_rel (twitter_media assets)" unfolding twitter_media_def by (intro net_intros)
qed

lemma hist_provider: "obeys hist.rel (provider_publish sv assets p account content)"
proof -
  note steps = hist.obeys_bind hist.obeys_then hist.obeys_raise_if hist.obeys_return hist.obeys_raise hist.obeys_case_option
    hist_refresh [OF net_refreshes(1)] hist_refresh [OF net_refreshes(2)]
    net_linkedin_posts [THEN hist_sends] net_twitter_posts(2,3) [THEN hist_sends]
    net_mapM [OF net_twitter_posts(1), THEN hist_sends]
  have "obeys hist.rel (linkedin_publish sv account content as)" for as
    unfolding linkedin_publish_def Let_def by (intro steps)
  moreover have "obeys hist.rel (twitter_publish sv account content as)" for as
    unfolding twitter_publish_def Let_def by (intro steps)
  moreover have "obeys hist.rel mock_publish" unfolding mock_publish_def by (intro hist.obeys_bind hist.obeys_uuid4 hist.obeys_return)
  ultimately show ?thesis
    by (cases p) (simp_all add: provider_publish_def net_publishers [THEN hist_sends] hist.obeys_raise)
qed

lemma publish_outcome_run:
  assumes run: "publish_outcome sv assets a c v = (Inr f, v')"
  shows "publish_history (db v') = publish_history (db v)"
    and "(\<exists>x t. sa_provider a \<noteq> ApiProvider_GOOGLE \<and>
           f = (\<lambda>h. h\<lparr>h_status := PublishStatus_PUBLISHED, h_external_post_id := Some x, h_published_at := Some t\<rparr>)) \<or>
         (\<exists>m. f = (\<lambda>h. h\<lparr>h_status := PublishStatus_FAILED, h_error_message := Some m\<rparr>))"
proof -
  obtain x u where p: "provider_publish sv assets (sa_provider a) a c v = (x, u)" by fastforce
  note h = obeysD [OF hist_provider p]
  show "publish_history (db v') = publish_history (db v)"
    using run p h by (auto simp: publish_outcome_def catch_exception_def catchM_def bindM_def split: sum.splits if_splits)
  show "(\<exists>x t. sa_provider a \<noteq> ApiProvider_GOOGLE \<and>
           f = (\<lambda>h. h\<lparr>h_status := PublishStatus_PUBLISHED, h_external_post_id := Some x, h_published_at := Some t\<rparr>)) \<or>
         (\<exists>m. f = (\<lambda>h. h\<lparr>h_status := PublishStatus_FAILED, h_error_message := Some m\<rparr>))"
  proof (cases x)
    case (Inl e)
    with run p show ?thesis by (auto simp: publish_outcome_def catch_exception_def catchM_def bindM_def split: if_splits)
  next
    case (Inr i)
    with p have "sa_provider a \<noteq> ApiProvider_GOOGLE" by (auto simp: provider_publish_def)
    with Inr run p show ?thesis by (auto simp: publish_outcome_def catch_exception_def catchM_def bindM_def)
  qed
qed

lemma found_in_run: "found_in ws f d x w = (Inr r, w') \<longleftrightarrow> x = Some r \<and> f r = ws \<and> w' = w"
  by (auto simp: found_in_def split: option.splits)

lemma edit_row_last: "key y \<notin> key ` set xs \<Longrightarrow> edit_row key (key y) g (xs @ [y]) = xs @ [g y]"
  by (induction xs) (auto simp: edit_row_def)

text \<open>C29 (functional). A publication settles: a request that returns has
  added exactly one row to it, for content and an account that are both of the workspace, and that row is
  PUBLISHED with the id of the post or FAILED with the text of the error, never PENDING. On Google it is
  always FAILED. A request that does not return has left no row with an outcome.\<close>

theorem publication_settles:
  assumes ids: "distinct (map h_id (publish_history (db w)))"
    and run: "publish_content sv assets ws request w = (Inr h, w')"
  shows "publish_history (db w') = publish_history (db w) @ [h] \<and> h_workspace_id h = ws \<and>
    h_content_id h = pr_content_id request \<and> h_social_account_id h = pr_social_account_id request \<and>
    (\<exists>c \<in> set (campaign_contents (db w)). cc_id c = pr_content_id request \<and> cc_workspace_id c = ws) \<and>
    (\<exists>a \<in> set (social_accounts (db w)). sa_id a = pr_social_account_id request \<and> sa_workspace_id a = ws \<and>
       (if h_status h = PublishStatus_PUBLISHED
        then sa_provider a \<noteq> ApiProvider_GOOGLE \<and> h_external_post_id h \<noteq> None
        else h_status h = PublishStatus_FAILED \<and> h_error_message h \<noteq> None))"
proof -
  let ?M = "PublishHistory_model"
  obtain c a y u v w2 f w3 where c: "get_by_id CampaignContent_model (pr_content_id request) w = (Inr (Some c), u)"
    and cw: "cc_workspace_id c = ws"
    and a: "get_by_id SocialAccount_model (pr_social_account_id request) u = (Inr (Some a), v)"
    and aw: "sa_workspace_id a = ws"
    and create: "create ?M (new_history ws c a) v = (Inr y, w2)"
    and outcome: "publish_outcome sv assets a c w2 = (Inr f, w3)"
    and upd: "update ?M (h_id y) f w3 = (Inr h, w')"
    using run unfolding publish_content_def
    by (elim bindM_InrE) (auto simp: found_in_run)
  note c' = get_by_id_Some [OF c] and a' = get_by_id_Some [OF a]
  have v: "v = w" using c' a' by simp
  note y = history_repo.create_row [OF create [unfolded v]]
  have fresh: "h_id y \<notin> h_id ` set (publish_history (db w))"
    using y(4) by (auto simp: find_pk_None)
  note out = publish_outcome_run [OF outcome]
  have t3: "publish_history (db w3) = publish_history (db w) @ [y]" using y(2) out(1) by simp
  have ids3: "distinct (map (pk ?M) (tbl ?M (db w3)))" using t3 ids fresh by simp
  have mem: "y \<in> set (tbl ?M (db w3))" using t3 by simp
  have key: "pk ?M (f x) = pk ?M x" for x using out(2) by auto
  have upd': "update ?M (pk ?M y) f w3 = (Inr h, w')" using upd by simp
  have y0: "h_status y = PublishStatus_PENDING" "h_workspace_id y = ws" "h_content_id y = cc_id c"
    "h_social_account_id y = sa_id a"
    using y(1) by (simp_all add: new_history_def)
  obtain t where h: "h = (if f y = y then y else touch ?M t (f y))"
    and t': "tbl ?M (db w') = edit_row (pk ?M) (pk ?M y) (\<lambda>x. if f x = x then x else touch ?M t (f x)) (tbl ?M (db w3))"
    by (rule history_repo.update_found [OF ids3 mem key upd'])
  have "publish_history (db w') = publish_history (db w) @ [h]"
    using t' t3 edit_row_last [of h_id y, OF fresh] h by simp
  moreover have "f y \<noteq> y"
  proof
    assume "f y = y"
    then have "h_status (f y) = PublishStatus_PENDING" using y0 by simp
    with out(2) show False by auto
  qed
  then have "h = touch ?M t (f y)" using h by simp
  ultimately show ?thesis using out(2) y0 c' a' cw aw by auto
qed

section \<open>What a publication does not leave behind\<close>

text \<open>Nothing on the way commits the history: only the session of a token refresh commits, and it starts from what was
  committed and writes two other tables.\<close>

interpretation trace: beyond_session "\<lambda>w. publish_history (committed w)"
  by unfold_locales simp_all

lemma trace_sends: "obeys (sends H) m \<Longrightarrow> obeys trace.same m"
  by (erule obeys_mono) (simp add: sends_def remote_rel_def trace.same_def)

definition history_is :: "PublishHistory list \<Rightarrow> 'z world_scheme \<Rightarrow> bool" where
  "history_is hs w \<longleftrightarrow> publish_history (db w) = hs \<and> publish_history (committed w) = hs"

lemma history_is_steps:
  "obeys (keeps (history_is hs)) commit" "obeys (keeps (history_is hs)) rollback"
  "obeys (keeps (history_is hs)) (update IntegrationConnection_model i f)"
  "obeys (keeps (history_is hs)) (update SocialAccount_model i g)"
  "obeys (keeps (history_is hs)) (get_by_id SocialAccount_model i)"
  "obeys (keeps (history_is hs)) (get_by_workspace_and_provider ws p)"
proof -
  show "obeys (keeps (history_is hs)) (get_by_id SocialAccount_model i)"
    by (rule keeping.inv.read_only_obeys) (rule read_only_get_by_id)
qed (auto simp: obeys_def keeps_def history_is_def update_def flush_dirty_def update_row_def get_by_workspace_and_provider_def
    split: option.split)

lemma trace_persist: "obeys trace.same (persist_tokens err p account a r t :: ('z, unit) nio)"
proof (rule obeysI)
  fix w w' :: "'z net_world_scheme" and r'
  let ?body = "catch_exception
       (bindM (get_by_workspace_and_provider (sa_workspace_id account) p) (\<lambda>conn.
        bindM (get_by_id SocialAccount_model (sa_id account)) (\<lambda>soc_account.
        case (conn, soc_account) of
          (Some c, Some s) \<Rightarrow>
            (case a of
               None \<Rightarrow> raiseM IntegrityError
             | Some u \<Rightarrow>
                 thenM (update IntegrationConnection_model (ic_id c)
                          (\<lambda>c. c\<lparr>ic_access_token := Some u, ic_refresh_token := r, ic_expires_at := Some t\<rparr>)) (
                 thenM (update SocialAccount_model (sa_id s)
                          (\<lambda>s. s\<lparr>sa_access_token := u, sa_refresh_token := r, sa_expires_at := Some t\<rparr>))
                   commit))
        | _ \<Rightarrow> raiseM (ProviderError err ''Missing database records for token persistence.''))))
       (\<lambda>e. bindM (readM exn_text) (\<lambda>text.
          thenM rollback (raiseM (ProviderError err (''Failed to persist refreshed tokens: '' @ text e)))))"
  let ?w = "w\<lparr>db := committed w\<rparr>" and ?h = "publish_history (committed w)"
  assume run: "persist_tokens err p account a r t w = (r', w')"
  have "obeys (keeps (history_is ?h)) ?body" unfolding catch_exception_def
    by (auto split: option.split intro!: keeping.inv.obeys_catch keeping.inv.obeys_bind keeping.inv.obeys_then
        keeping.inv.obeys_raise keeping.inv.obeys_read history_is_steps)
  moreover obtain y u where u: "?body ?w = (y, u)" by fastforce
  ultimately have "history_is ?h u" by (auto dest: obeysD simp: keeps_def history_is_def)
  moreover from run u have "committed w' = committed u"
    by (auto simp: persist_tokens_def token_session_def with_session_def)
  ultimately show "trace.same w w'" by (simp add: trace.same_def history_is_def)
qed

interpretation trace: quiet_steps trace.same
  by unfold_locales (simp_all add: obeys_def next_nonce_def trace.same_def)

lemma trace_refresh:
  "(\<And>c t. obeys net_rel (refresh c t)) \<Longrightarrow> obeys trace.same (refresh_if_expiring sv err label q refresh a)"
  by (rule trace.quiet_refresh [OF trace_sends trace_persist])

lemma trace_provider: "obeys trace.same (provider_publish sv assets p account content)"
proof -
  note steps = trace.obeys_bind trace.obeys_then trace.obeys_raise_if trace.obeys_return trace.obeys_raise trace.obeys_case_option
    trace_refresh [OF net_refreshes(1)] trace_refresh [OF net_refreshes(2)]
    net_linkedin_posts [THEN trace_sends] net_twitter_posts(2,3) [THEN trace_sends]
    net_mapM [OF net_twitter_posts(1), THEN trace_sends]
  have "obeys trace.same (linkedin_publish sv account content as)" for as
    unfolding linkedin_publish_def Let_def by (intro steps)
  moreover have "obeys trace.same (twitter_publish sv account content as)" for as
    unfolding twitter_publish_def Let_def by (intro steps)
  moreover have "obeys trace.same mock_publish"
    unfolding mock_publish_def by (intro trace.obeys_bind trace.same_uuid4 trace.obeys_return)
  ultimately show ?thesis
    by (cases p) (simp_all add: provider_publish_def net_publishers [THEN trace_sends] trace.obeys_raise)
qed

lemma trace_publish_content: "obeys trace.same (publish_content sv assets ws request)"
proof -
  have found: "obeys trace.same (found_in ws f d x)" for f d x
    unfolding found_in_def by (intro trace.same_intros)
  have "obeys trace.same (publish_outcome sv assets a c)" for a c
    unfolding publish_outcome_def catch_exception_def by (intro trace.same_intros trace_provider)
  then show ?thesis unfolding publish_content_def by (intro trace.same_intros found)
qed

lemma trace_uncommitted: "obeys uncommitted.same m \<Longrightarrow> obeys trace.same m"
  by (erule obeys_mono) (simp add: uncommitted.same_def trace.same_def)

text \<open>What was published leaves no trace: the route that publishes never commits, so the history that it answers with,
  PUBLISHED or FAILED, is rolled back, although the post may be out on the network.\<close>

lemma publications_leave_no_trace:
  assumes "route_publish_content sv assets decode tok ws request w = (r, w')"
  shows "publish_history (committed w') = publish_history (committed w) \<and>
    publish_history (db w') = publish_history (committed w)"
proof -
  have auth: "obeys trace.same (get_current_user decode tok)" "obeys trace.same (require_permission p a i user)"
    "obeys trace.same (get_current_workspace i user)" for p a i user
    by (rule trace_uncommitted [OF same_user])
      (rule trace.read_only_obeys, rule read_only_permission, rule trace.read_only_obeys, rule read_only_workspace)
  have "obeys trace.same (bindM (get_current_user decode tok) (\<lambda>user.
        thenM (require_permission ''content'' ''publish'' ws user) (
        thenM (get_current_workspace ws user) (publish_content sv assets ws request))))"
    by (intro trace.same_intros auth trace_publish_content)
  with assms show ?thesis
    unfolding route_publish_content_def social_route_def get_db_session_def with_session_def
    by (auto simp: trace.same_def dest!: obeysD split: prod.splits)
qed

section \<open>Witnesses\<close>

definition fx_publishable :: "ApiProvider \<Rightarrow> net_world" where
  "fx_publishable p = fx_net (fx_database
     \<lparr>campaigns := [fx_campaign 40 CampaignStatus_ACTIVE], campaign_contents := [fx_post], social_accounts := [fx_account p None]\<rparr>)
     fx_media_answers"

theorem publication_settles_witness:
  "\<exists>(w' :: net_world) h. publish_history (db w') = [h] \<and> h_status h = PublishStatus_PUBLISHED \<and> h_external_post_id h = Some ''t1''"
proof -
  let ?w = "fx_publishable ApiProvider_TWITTER"
  let ?m = "publish_content fx_services_live (\<lambda>_. [fx_image]) 20 \<lparr>pr_content_id = 70, pr_social_account_id = 80\<rparr>"
  have "succeeds ?m ?w" by code_simp
  then obtain h w' where run: "?m ?w = (Inr h, w')" by (rule succeedsE)
  have "case fst (?m ?w) of Inl e \<Rightarrow> False | Inr h \<Rightarrow> h_status h = PublishStatus_PUBLISHED \<and> h_external_post_id h = Some ''t1''"
    by code_simp
  with run have h: "h_status h = PublishStatus_PUBLISHED" "h_external_post_id h = Some ''t1''" by simp_all
  have ids: "distinct (map h_id (publish_history (db ?w)))" and none: "publish_history (db ?w) = []"
    by (simp_all add: fx_publishable_def fx_database_def empty_database_def)
  from publication_settles [OF ids run] none h show ?thesis by auto
qed

theorem publications_leave_no_trace_witness:
  "\<exists>(w' :: net_world) r. publish_history (committed w') = [] \<and> publish_history (db w') = []"
proof -
  let ?m = "route_publish_content fx_services_live (\<lambda>_. []) fx_decode ''token'' 20 \<lparr>pr_content_id = 70, pr_social_account_id = 80\<rparr>"
  obtain r w' where run: "?m (fx_publishable ApiProvider_MOCK) = (r, w')" by fastforce
  have "publish_history (committed (fx_publishable ApiProvider_MOCK)) = []"
    by (simp add: fx_publishable_def fx_database_def empty_database_def)
  with publications_leave_no_trace [OF run] show ?thesis by auto
qed

end
