(* ===== verification/Unique_Indexes.thy ===== *)
theory Unique_Indexes
  imports Row_Edits
begin

text \<open>
  Unique indexes and row checks of a table. The database refuses a row that violates one, so what every
  statement of a session keeps is that no two rows share the key and that every row passes the check. The
  locale proves it once for every statement; it is interpreted for the unique columns of the tables that the
  remaining components write.
\<close>

lemma map_edit_const: "key q = i \<Longrightarrow> map key (edit_row key i (\<lambda>_. q) xs) = map key xs"
  by (induction xs) (auto simp: edit_row_def)

locale unique_index = repository M for M :: "'r model" +
  fixes key :: "'r \<Rightarrow> 'k" and check :: "'r \<Rightarrow> bool"
  assumes valid_unique: "valid_row M d r \<Longrightarrow> unique_on (pk M) key (tbl M d) r"
    and valid_check: "valid_row M d r \<Longrightarrow> check r"
begin

definition indexed :: "'r list \<Rightarrow> bool" where
  "indexed xs \<longleftrightarrow> distinct (map (pk M) xs) \<and> distinct (map key xs) \<and> (\<forall>r \<in> set xs. check r)"

sublocale table_step "tbl M" "\<lambda>xs ys. indexed xs \<longrightarrow> indexed ys"
  by unfold_locales auto

lemma indexed_append:
  assumes "indexed xs" and "\<forall>x \<in> set xs. pk M x \<noteq> pk M r" and "unique_on (pk M) key xs r" and "check r"
  shows "indexed (xs @ [r])"
  using assms by (auto simp: indexed_def unique_on_iff)

lemma indexed_replace:
  assumes xs: "indexed xs" and u: "unique_on (pk M) key xs r" and c: "check r"
  shows "indexed (upd_where (\<lambda>x. pk M x = pk M r) (\<lambda>_. r) xs)"
proof -
  let ?ys = "upd_where (\<lambda>x. pk M x = pk M r) (\<lambda>_. r) xs"
  have pks: "distinct (map (pk M) ?ys)" using xs by (simp add: map_upd_key indexed_def)
  have split: "y = r \<or> (y \<in> set xs \<and> pk M y \<noteq> pk M r)" if "y \<in> set ?ys" for y
    using that by (auto simp: set_upd_where split: if_splits)
  have "inj_on key (set ?ys)"
  proof (rule inj_onI)
    fix x y assume x: "x \<in> set ?ys" and y: "y \<in> set ?ys" and k: "key x = key y"
    show "x = y"
      using split [OF x] split [OF y] k u xs
      by (auto simp: unique_on_iff indexed_def intro: distinct_map_inj)
  qed
  moreover have "distinct ?ys" using pks by (simp add: distinct_map)
  moreover have "\<forall>y \<in> set ?ys. check y" using split c xs by (auto simp: indexed_def)
  ultimately show ?thesis using pks by (simp add: indexed_def distinct_map)
qed

lemma index_create: "obeys rel (create M r)"
proof (rule obeysI)
  fix w x w'
  assume "create M r w = (x, w')"
  then show "rel w w'"
    by (auto simp: create_def flush_new_def insert_row_def find_pk_None split: if_splits
        intro!: indexed_append dest: valid_unique valid_check)
qed

lemma index_update_row: "obeys rel (update_row M r)"
proof (rule obeysI)
  fix w x w'
  assume "update_row M r w = (x, w')"
  then show "rel w w'"
    by (auto simp: update_row_def split: if_splits intro!: indexed_replace dest: valid_unique valid_check)
qed

lemma index_update: "obeys rel (update M i f)"
  unfolding update_def flush_dirty_def
  by (intro obeys_bind obeys_read obeys_case_option obeys_raise obeys_if obeys_return obeys_clock
      index_update_row)

lemma index_delete_where: "obeys rel (delete_where M p)"
proof (rule obeysI)
  fix w x w'
  assume "delete_where M p w = (x, w')"
  then show "rel w w'"
    by (auto simp: delete_where_def indexed_def distinct_map_filter)
qed

text \<open>A look-up by the key finds the row that has it.\<close>

lemma indexed_lookup:
  assumes "indexed xs" and "r \<in> set xs"
  shows "filter (\<lambda>x. key x = key r) xs = [r]"
  using assms by (intro filter_unique_key) (simp_all add: indexed_def)

lemma indexed_at_most_one:
  assumes "indexed xs"
  shows "filter (\<lambda>x. key x = k) xs = [] \<or> (\<exists>r \<in> set xs. key r = k \<and> filter (\<lambda>x. key x = k) xs = [r])"
  using indexed_lookup [OF assms] by (cases "filter (\<lambda>x. key x = k) xs") (auto simp: filter_eq_Cons_iff)

end

end
