(* ===== verification/Committed_Steps.thy ===== *)
theory Committed_Steps
  imports Tenancy_Endpoints
begin

text \<open>
  What a request does to the committed database. A statement is a step of the open transaction only, a commit
  makes the transaction's state the committed one, and closing the session goes back to what is committed. A
  relation that the statements obey therefore holds between what was committed before a request and what is
  committed after it, wherever the handler commits and wherever it fails.
\<close>

lemma get_db_session_InrE:
  assumes "get_db_session m w = (Inr x, w')"
  obtains w1 where "m w = (Inr x, w1)" and "committed w' = committed w1" and "db w' = committed w1"
  using assms by (auto simp: get_db_session_def with_session_def split: prod.splits)

lemma then_commit_InrE:
  assumes "then_commit m w = (Inr x, w')"
  obtains w1 where "m w = (Inr x, w1)" and "committed w' = db w1" and "db w' = db w1"
  using assms by (auto simp: then_commit_def bindM_eq_Inr)

lemmas request_elims = get_db_session_InrE then_commit_InrE run_elims

context table_step
begin

definition since :: "'p \<Rightarrow> 'z world_scheme \<Rightarrow> bool" where
  "since p w \<longleftrightarrow> Q p (proj (committed w)) \<and> Q p (proj (db w))"

lemma since_statement:
  assumes "obeys rel m" and "obeys uncommitted.same m"
  shows "obeys (keeps (since p)) m"
proof (rule obeysI)
  fix w r w'
  assume "m w = (r, w')"
  with obeysD [OF assms(1) this] obeysD [OF assms(2) this]
  show "keeps (since p) w w'"
    by (auto simp: keeps_def since_def uncommitted.same_def intro: Q_trans)
qed

lemma since_commit: "obeys (keeps (since p)) commit"
  by (simp add: obeys_def keeps_def since_def)

lemma since_rollback: "obeys (keeps (since p)) rollback"
  by (simp add: obeys_def keeps_def since_def)

lemma since_session: "obeys (keeps (since p)) m \<Longrightarrow> obeys (keeps (since p)) (with_session m)"
  unfolding obeys_def keeps_def since_def with_session_def by (auto split: prod.splits)

lemma since_request: "obeys (keeps (since p)) m \<Longrightarrow> obeys (keeps (since p)) (get_db_session m)"
  unfolding get_db_session_def by (rule since_session)

lemmas since_intros = keeping.inv.obeys_bind keeping.inv.obeys_then keeping.inv.obeys_return
  keeping.inv.obeys_raise keeping.inv.obeys_raise_if keeping.inv.obeys_read keeping.inv.obeys_if
  keeping.inv.obeys_case_option keeping.inv.obeys_let since_commit since_rollback since_request

lemma since_start: "db w = committed w \<Longrightarrow> since (proj (committed w)) w"
  by (simp add: since_def Q_refl)

lemma since_run:
  assumes "\<And>p. obeys (keeps (since p)) m" and "m w = (r, w')" and "db w = committed w"
  shows "Q (proj (committed w)) (proj (committed w'))"
  using obeysD [OF assms(1) [of "proj (committed w)"] assms(2)] since_start [OF assms(3)]
  by (simp add: keeps_def since_def)

text \<open>Any number of requests.\<close>

lemma since_reach:
  assumes "S\<^sup>*\<^sup>* w w'" and "\<And>a b p. S a b \<Longrightarrow> keeps (since p) a b" and "db w = committed w"
  shows "since (proj (committed w)) w'"
  using assms(1)
  by (induction rule: rtranclp_induct) (use assms(2,3) in \<open>auto simp: keeps_def intro: since_start\<close>)

lemma since_closure:
  assumes "S\<^sup>*\<^sup>* w w'" and "\<And>a b p. S a b \<Longrightarrow> keeps (since p) a b" and "db w = committed w"
  shows "Q (proj (committed w)) (proj (committed w'))"
  using since_reach [OF assms] by (simp add: since_def)

text \<open>The dependencies of a route, for a relation that does not look at the users.\<close>

lemma frame_current_user:
  assumes "\<And>f d. proj (d\<lparr>users := f (users d)\<rparr>) = proj d"
  shows "obeys rel (get_current_user decode tok)"
  unfolding get_current_user_def verify_jwt_def get_or_create_user_def
  by (intro handler_intros frame_create)
    (use assms in \<open>auto split: sum.splits jwt_error.splits intro!: handler_intros frame_create\<close>)

lemma since_user:
  assumes "\<And>f d. proj (d\<lparr>users := f (users d)\<rparr>) = proj d"
  shows "obeys (keeps (since p)) (get_current_user decode tok)"
  by (intro since_statement frame_current_user same_user assms)

lemma since_then_commit: "obeys (keeps (since p)) m \<Longrightarrow> obeys (keeps (since p)) (then_commit m)"
  unfolding then_commit_def
  by (intro keeping.inv.obeys_bind keeping.inv.obeys_then keeping.inv.obeys_return since_commit)

end

end
