(* ===== verification/Plans.thy ===== *)
theory Plans
  imports Unique_Indexes Committed_Steps
begin

text \<open>
  Subscription plans: the schemas (\<open>app/schemas/plan.py\<close>), the repository, the service
  (\<open>app/services/plan.py\<close>) and the routes (\<open>app/api/v1/endpoints/plans.py\<close>). The routes that write ask for a
  user, but for no permission. A price is in hundredths, as the column keeps it; the widths of the columns
  are those of PostgreSQL's \<open>Numeric(10, 2)\<close> and \<open>Integer\<close>.
\<close>

section \<open>Schemas\<close>

record PlanCreate =
  pc_name :: string
  pc_slug :: string
  pc_description :: "string option"
  pc_monthly_price :: int
  pc_yearly_price :: int
  pc_max_users :: int
  pc_max_workspaces :: int
  pc_max_ai_credits :: int
  pc_features :: "json option"
  pc_is_active :: bool

text \<open>In an update the outer \<open>None\<close> is a field that the request does not set.\<close>

record PlanUpdate =
  pu_name :: "string option option"
  pu_slug :: "string option option"
  pu_description :: "string option option"
  pu_monthly_price :: "int option option"
  pu_yearly_price :: "int option option"
  pu_max_users :: "int option option"
  pu_max_workspaces :: "int option option"
  pu_max_ai_credits :: "int option option"
  pu_features :: "json option option"
  pu_is_active :: "bool option option"

text \<open>\<open>features: dict | list | None\<close>, read from a JSON body.\<close>

definition json_container :: "json option \<Rightarrow> bool" where
  "json_container f =
     (case f of None \<Rightarrow> True
      | Some (JList xs) \<Rightarrow> serializable (JList xs)
      | Some (JObj kvs) \<Rightarrow> serializable (JObj kvs)
      | _ \<Rightarrow> False)"

definition valid_PlanCreate :: "PlanCreate \<Rightarrow> bool" where
  "valid_PlanCreate p \<longleftrightarrow>
     length (pc_name p) \<le> 100 \<and> length (pc_slug p) \<le> 100 \<and> 0 \<le> pc_monthly_price p \<and>
     0 \<le> pc_yearly_price p \<and> 0 \<le> pc_max_users p \<and> 0 \<le> pc_max_workspaces p \<and>
     0 \<le> pc_max_ai_credits p \<and> json_container (pc_features p)"

definition set_value :: "('a \<Rightarrow> bool) \<Rightarrow> 'a option option \<Rightarrow> bool" where
  "set_value ok x = (case x of Some (Some v) \<Rightarrow> ok v | _ \<Rightarrow> True)"

definition valid_PlanUpdate :: "PlanUpdate \<Rightarrow> bool" where
  "valid_PlanUpdate p \<longleftrightarrow>
     set_value (\<lambda>s. length s \<le> 100) (pu_name p) \<and> set_value (\<lambda>s. length s \<le> 100) (pu_slug p) \<and>
     set_value (\<lambda>x. 0 \<le> x) (pu_monthly_price p) \<and> set_value (\<lambda>x. 0 \<le> x) (pu_yearly_price p) \<and>
     set_value (\<lambda>x. 0 \<le> x) (pu_max_users p) \<and> set_value (\<lambda>x. 0 \<le> x) (pu_max_workspaces p) \<and>
     set_value (\<lambda>x. 0 \<le> x) (pu_max_ai_credits p) \<and> set_value (\<lambda>x. json_container (Some x)) (pu_features p)"

definition nothing_set :: "PlanUpdate \<Rightarrow> bool" where
  "nothing_set p \<longleftrightarrow>
     pu_name p = None \<and> pu_slug p = None \<and> pu_description p = None \<and> pu_monthly_price p = None \<and>
     pu_yearly_price p = None \<and> pu_max_users p = None \<and> pu_max_workspaces p = None \<and>
     pu_max_ai_credits p = None \<and> pu_features p = None \<and> pu_is_active p = None"

definition nulls_required :: "PlanUpdate \<Rightarrow> bool" where
  "nulls_required p \<longleftrightarrow>
     pu_name p = Some None \<or> pu_slug p = Some None \<or> pu_monthly_price p = Some None \<or>
     pu_yearly_price p = Some None \<or> pu_max_users p = Some None \<or> pu_max_workspaces p = Some None \<or>
     pu_max_ai_credits p = Some None \<or> pu_is_active p = Some None"

section \<open>The row of a request\<close>

definition new_plan :: "PlanCreate \<Rightarrow> Plan" where
  "new_plan data =
     \<lparr>pl_id = 0, pl_stamp = no_stamp, pl_name = pc_name data, pl_slug = pc_slug data,
      pl_description = pc_description data, pl_monthly_price = pc_monthly_price data,
      pl_yearly_price = pc_yearly_price data, pl_max_users = pc_max_users data,
      pl_max_workspaces = pc_max_workspaces data, pl_max_ai_credits = pc_max_ai_credits data,
      pl_features = pc_features data, pl_is_active = pc_is_active data\<rparr>"

definition apply_plan :: "PlanUpdate \<Rightarrow> Plan \<Rightarrow> Plan" where
  "apply_plan data p =
     p\<lparr>pl_name := set_or (pu_name data) (pl_name p), pl_slug := set_or (pu_slug data) (pl_slug p),
       pl_description := set_nullable (pu_description data) (pl_description p),
       pl_monthly_price := set_or (pu_monthly_price data) (pl_monthly_price p),
       pl_yearly_price := set_or (pu_yearly_price data) (pl_yearly_price p),
       pl_max_users := set_or (pu_max_users data) (pl_max_users p),
       pl_max_workspaces := set_or (pu_max_workspaces data) (pl_max_workspaces p),
       pl_max_ai_credits := set_or (pu_max_ai_credits data) (pl_max_ai_credits p),
       pl_features := set_nullable (pu_features data) (pl_features p),
       pl_is_active := set_or (pu_is_active data) (pl_is_active p)\<rparr>"

text \<open>A value that its column cannot hold is refused by the driver or the server.\<close>

definition fits_columns :: "Plan \<Rightarrow> bool" where
  "fits_columns p \<longleftrightarrow>
     pl_monthly_price p < 10 ^ 10 \<and> pl_yearly_price p < 10 ^ 10 \<and>
     pl_max_users p < 2 ^ 31 \<and> pl_max_workspaces p < 2 ^ 31 \<and> pl_max_ai_credits p < 2 ^ 31"

definition out_of_range :: exn where
  "out_of_range = PyException ''DBAPIError''"

section \<open>Repository and service\<close>

definition plan_get_by_slug :: "string \<Rightarrow> ('z, Plan option) io" where
  "plan_get_by_slug slug = bindM (select Plan_model (\<lambda>p. pl_slug p = slug)) scalar_one_or_none"

text \<open>\<open>plan_repo.get_all(db, filters={"name": name}, limit=1)\<close>\<close>

definition plans_named :: "string \<Rightarrow> ('z, Plan list) io" where
  "plans_named name =
     get_all Plan_model 0 1 [Some (\<lambda>p. pl_name p = name)] (Some (\<lambda>p. created_at (pl_stamp p))) True False"

definition get_plans :: "nat \<Rightarrow> nat \<Rightarrow> bool \<Rightarrow> ('z, Plan list) io" where
  "get_plans skip limit active_only =
     get_all Plan_model skip limit (if active_only then [Some pl_is_active] else [])
       (Some pl_monthly_price) False False"

definition get_plan :: "uuid \<Rightarrow> ('z, Plan) io" where
  "get_plan plan_id =
     bindM (get_by_id Plan_model plan_id) (\<lambda>plan.
     case plan of
       None \<Rightarrow> raiseM (HTTPException 404 ''Plan not found'')
     | Some plan \<Rightarrow> returnM plan)"

definition create_plan :: "PlanCreate \<Rightarrow> ('z, Plan) io" where
  "create_plan data =
     bindM (plan_get_by_slug (pc_slug data)) (\<lambda>existing_name.
     thenM (raise_if (existing_name \<noteq> None) (HTTPException 400 ''Plan slug already exists.'')) (
     bindM (plans_named (pc_name data)) (\<lambda>existing_plans.
     thenM (raise_if (existing_plans \<noteq> []) (HTTPException 400 ''Plan name already exists.'')) (
     thenM (raise_if (\<not> fits_columns (new_plan data)) out_of_range)
       (create Plan_model (new_plan data))))))"

definition update_plan :: "Plan \<Rightarrow> PlanUpdate \<Rightarrow> ('z, Plan) io" where
  "update_plan plan data =
     (if nothing_set data then returnM plan
      else
      thenM
        (case pu_slug data of
           None \<Rightarrow> returnM ()
         | Some slug \<Rightarrow>
             if slug = Some (pl_slug plan) then returnM ()
             else bindM (case slug of None \<Rightarrow> returnM None | Some s \<Rightarrow> plan_get_by_slug s) (\<lambda>existing.
                    raise_if (existing \<noteq> None) (HTTPException 400 ''Plan slug already exists.''))) (
      thenM
        (case pu_name data of
           None \<Rightarrow> returnM ()
         | Some name \<Rightarrow>
             if name = Some (pl_name plan) then returnM ()
             else bindM (case name of None \<Rightarrow> returnM [] | Some n \<Rightarrow> plans_named n) (\<lambda>existing_plans.
                    raise_if (existing_plans \<noteq> []) (HTTPException 400 ''Plan name already exists.''))) (
      thenM (raise_if (\<not> fits_columns (apply_plan data plan)) out_of_range) (
      thenM (raise_if (nulls_required data) IntegrityError)
        (update Plan_model (pl_id plan) (apply_plan data))))))"

definition delete_plan :: "Plan \<Rightarrow> ('z, unit) io" where
  "delete_plan plan =
     (if \<not> pl_is_active plan then returnM ()
      else thenM (update Plan_model (pl_id plan) (\<lambda>p. p\<lparr>pl_is_active := False\<rparr>)) (returnM ()))"

section \<open>Routes\<close>

definition unprocessable :: exn where
  "unprocessable = HTTPException 422 ''Unprocessable Entity''"

definition route_get_plans :: "bool \<Rightarrow> int \<Rightarrow> int \<Rightarrow> ('z, Plan list) io" where
  "route_get_plans active_only skip limit =
     get_db_session
       (thenM (raise_if (\<not> (0 \<le> skip \<and> 1 \<le> limit \<and> limit \<le> 100)) unprocessable)
          (get_plans (nat skip) (nat limit) active_only))"

definition route_get_plan :: "uuid \<Rightarrow> ('z, Plan) io" where
  "route_get_plan plan_id = get_db_session (get_plan plan_id)"

definition route_create_plan :: "jwt_decoder \<Rightarrow> string \<Rightarrow> PlanCreate \<Rightarrow> ('z, Plan) io" where
  "route_create_plan decode tok data =
     get_db_session
       (bindM (get_current_user decode tok) (\<lambda>user.
        thenM (raise_if (\<not> valid_PlanCreate data) unprocessable)
          (then_commit (create_plan data))))"

definition route_update_plan :: "jwt_decoder \<Rightarrow> string \<Rightarrow> uuid \<Rightarrow> PlanUpdate \<Rightarrow> ('z, Plan) io" where
  "route_update_plan decode tok plan_id data =
     get_db_session
       (bindM (get_current_user decode tok) (\<lambda>user.
        thenM (raise_if (\<not> valid_PlanUpdate data) unprocessable)
          (then_commit (bindM (get_plan plan_id) (\<lambda>plan. update_plan plan data)))))"

definition route_delete_plan :: "jwt_decoder \<Rightarrow> string \<Rightarrow> uuid \<Rightarrow> ('z, unit) io" where
  "route_delete_plan decode tok plan_id =
     get_db_session
       (bindM (get_current_user decode tok) (\<lambda>user.
          then_commit (bindM (get_plan plan_id) delete_plan)))"

section \<open>The catalogue over any requests\<close>

inductive plan_request :: "world \<Rightarrow> world \<Rightarrow> bool" where
  listed: "route_get_plans active_only skip limit w = (r, w') \<Longrightarrow> plan_request w w'"
| shown: "route_get_plan i w = (r, w') \<Longrightarrow> plan_request w w'"
| created: "route_create_plan decode tok data w = (r, w') \<Longrightarrow> plan_request w w'"
| updated: "route_update_plan decode tok i changes w = (r, w') \<Longrightarrow> plan_request w w'"
| deactivated: "route_delete_plan decode tok i w = (r', w') \<Longrightarrow> plan_request w w'"

definition plan_limits :: "Plan \<Rightarrow> bool" where
  "plan_limits p \<longleftrightarrow>
     0 \<le> pl_monthly_price p \<and> 0 \<le> pl_yearly_price p \<and> 0 \<le> pl_max_users p \<and> 0 \<le> pl_max_workspaces p \<and>
     0 \<le> pl_max_ai_credits p"

definition plans_consistent :: "Plan list \<Rightarrow> bool" where
  "plans_consistent ps \<longleftrightarrow>
     distinct (map pl_id ps) \<and> distinct (map pl_name ps) \<and> distinct (map pl_slug ps) \<and> list_all plan_limits ps"

definition plan_moves :: "Plan \<Rightarrow> Plan \<Rightarrow> bool" where
  "plan_moves p q \<longleftrightarrow> pl_id q = pl_id p \<and> created_at (pl_stamp q) = created_at (pl_stamp p)"

interpretation plan_slugs: unique_index Plan_model pl_slug plan_limits
  by unfold_locales (auto simp: valid_Plan_def plan_limits_def)

interpretation plan_names: unique_index Plan_model pl_name plan_limits
  by unfold_locales (auto simp: valid_Plan_def plan_limits_def)

interpretation plan_life: row_life Plan_model plan_moves
  by unfold_locales (auto simp: plan_moves_def touch_stamp_def)

text \<open>The three contracts side by side: what a table of plans may become.\<close>

definition plans_become :: "Plan list \<Rightarrow> Plan list \<Rightarrow> bool" where
  "plans_become ps qs \<longleftrightarrow>
     (plan_slugs.indexed ps \<longrightarrow> plan_slugs.indexed qs) \<and> (plan_names.indexed ps \<longrightarrow> plan_names.indexed qs) \<and>
     plan_life.evolve ps qs"

interpretation catalogue: table_step plans plans_become
  unfolding plans_become_def
  by unfold_locales (blast intro: plan_life.evolve_refl, blast intro: plan_life.evolve_trans)

lemma obeys_catalogue:
  "obeys plan_slugs.rel m \<Longrightarrow> obeys plan_names.rel m \<Longrightarrow> obeys plan_life.rel m \<Longrightarrow> obeys catalogue.rel m"
  by (simp add: obeys_def plans_become_def)

lemma catalogue_create: "obeys catalogue.rel (create Plan_model p)"
  by (intro obeys_catalogue plan_slugs.index_create plan_names.index_create plan_life.life_create)

lemma catalogue_update:
  assumes "\<And>p. plan_moves p (f p)"
  shows "obeys catalogue.rel (update Plan_model i f)"
  by (intro obeys_catalogue plan_slugs.index_update plan_names.index_update obeysI)
    (unfold update_def, erule plan_life.life_dirty, rule assms)

lemma read_only_plan_queries:
  "read_only (plan_get_by_slug s)" "read_only (plans_named n)" "read_only (get_plans skip limit b)"
  "read_only (get_plan i)"
  by (auto simp: plan_get_by_slug_def plans_named_def get_plans_def get_plan_def
      intro!: read_only_get_all) (auto simp: read_only_def intro!: ro_intros ro.obeys_case_option ro.obeys_raise
      read_only_get_by_id [unfolded read_only_def])

lemmas catalogue_intros = catalogue.obeys_bind catalogue.obeys_then catalogue.obeys_return
  catalogue.obeys_raise_if catalogue.obeys_case_option catalogue.obeys_if catalogue_create catalogue_update
  read_only_plan_queries [THEN catalogue.read_only_obeys]

lemma plan_moves_edits: "plan_moves p (apply_plan data p)" "plan_moves p (p\<lparr>pl_is_active := b\<rparr>)"
  by (simp_all add: plan_moves_def apply_plan_def)

lemma catalogue_services:
  "obeys catalogue.rel (create_plan data)" "obeys catalogue.rel (update_plan p changes)"
  "obeys catalogue.rel (delete_plan p)"
  unfolding create_plan_def update_plan_def delete_plan_def
  by (intro catalogue_intros plan_moves_edits)+

lemma same_plan_services:
  "obeys uncommitted.same (create_plan data)" "obeys uncommitted.same (update_plan p changes)"
  "obeys uncommitted.same (delete_plan p)"
  unfolding create_plan_def update_plan_def delete_plan_def
  by (intro uncommitted.same_intros read_only_plan_queries [THEN uncommitted.read_only_obeys])+

lemma since_plan_routes:
  "obeys (keeps (catalogue.since ps)) (route_get_plans b skip limit)"
  "obeys (keeps (catalogue.since ps)) (route_get_plan i)"
  "obeys (keeps (catalogue.since ps)) (route_create_plan decode tok data)"
  "obeys (keeps (catalogue.since ps)) (route_update_plan decode tok i changes)"
  "obeys (keeps (catalogue.since ps)) (route_delete_plan decode tok i)"
  unfolding route_get_plans_def route_get_plan_def route_create_plan_def route_update_plan_def route_delete_plan_def
  by (intro catalogue.since_intros catalogue.since_user catalogue.since_then_commit catalogue_services
      same_plan_services read_only_plan_queries [THEN keeping.inv.read_only_obeys] refl
      catalogue.since_statement; simp)+

lemma plans_stay_consistent_closure:
  assumes "plan_request\<^sup>*\<^sup>* w w'" and "db w = committed w" and "plans_consistent (plans (committed w))"
  shows "plans_consistent (plans (committed w')) \<and>
    (\<forall>p \<in> set (plans (committed w)). \<exists>q \<in> set (plans (committed w')). plan_moves p q)"
proof -
  have "plans_become (plans (committed w)) (plans (committed w'))"
    by (rule catalogue.since_closure [OF assms(1) _ assms(2)])
      (erule plan_request.cases; blast intro: obeysD since_plan_routes)
  moreover have "plan_slugs.indexed ps \<and> plan_names.indexed ps \<longleftrightarrow> plans_consistent ps" for ps
    by (auto simp: plan_slugs.indexed_def plan_names.indexed_def plans_consistent_def list_all_iff)
  ultimately show ?thesis
    using assms(3) rows_evolve_row [of pl_id plan_moves]
    by (fastforce simp: plans_become_def plans_consistent_def)
qed


section \<open>What an update and a deactivation do\<close>

interpretation plan_rows: table_step plans "(=)"
  by unfold_locales simp_all

lemma get_plan_Inr:
  assumes "get_plan i w = (Inr p, w')"
  shows "w' = w" "p \<in> set (plans (db w))" "pl_id p = i"
  using assms get_by_id_Some [of Plan_model i w p]
  by (auto simp: get_plan_def elim!: run_elims dest: read_onlyD [OF read_only_get_by_id])

lemma update_plan_Inr:
  assumes run: "update_plan p data w = (Inr q, w')" and p: "p \<in> set (plans (db w))"
    and u: "distinct (map pl_id (plans (db w)))"
  shows "\<exists>s. q = (apply_plan data p)\<lparr>pl_stamp := s\<rparr>" "apply_plan data p = p \<Longrightarrow> q = p"
    "plans (db w') = edit_row pl_id (pl_id p) (\<lambda>_. q) (plans (db w))" "\<not> nulls_required data"
proof -
  have the: "x = p" if "x \<in> set (plans (db w))" "pl_id x = pl_id p" for x
    using that p u by (blast intro: distinct_map_inj)
  have same: "apply_plan data p = p" if "nothing_set data"
    using that by (simp add: nothing_set_def apply_plan_def set_or_def set_nullable_def)
  have "(\<exists>s. q = (apply_plan data p)\<lparr>pl_stamp := s\<rparr>) \<and> (apply_plan data p = p \<longrightarrow> q = p) \<and>
    plans (db w') = edit_row pl_id (pl_id p) (\<lambda>_. q) (plans (db w)) \<and> \<not> nulls_required data"
  proof (cases "nothing_set data")
    case True
    then have "q = p" "w' = w" using run by (simp_all add: update_plan_def)
    moreover have "edit_row pl_id (pl_id p) (\<lambda>_. p) (plans (db w)) = plans (db w)"
      unfolding edit_row_def by (rule map_idI) (use the in auto)
    moreover have "\<exists>s. p = p\<lparr>pl_stamp := s\<rparr>" by (rule exI [of _ "pl_stamp p"]) simp
    ultimately show ?thesis using same True by (simp add: nulls_required_def nothing_set_def)
  next
    case False
    have "\<exists>w1. db w1 = db w \<and> \<not> nulls_required data \<and> update Plan_model (pl_id p) (apply_plan data) w1 = (Inr q, w')"
      using run False unfolding update_plan_def
      by (auto elim!: thenM_InrE bindM_InrE raise_if_InrE dest!: read_onlyD [OF read_only_plan_queries(1)]
          read_onlyD [OF read_only_plan_queries(2)] split: option.splits if_splits)
    then obtain w1 where w1: "db w1 = db w" "\<not> nulls_required data"
      "update Plan_model (pl_id p) (apply_plan data) w1 = (Inr q, w')" by blast
    then have up: "update Plan_model (pk Plan_model p) (apply_plan data) w1 = (Inr q, w')" by simp
    obtain t where t: "q = (if apply_plan data p = p then p else touch Plan_model t (apply_plan data p))"
      "plans (db w') = edit_row pl_id (pl_id p)
         (\<lambda>x. if apply_plan data x = x then x else touch Plan_model t (apply_plan data x)) (plans (db w))"
      by (rule plan_repo.update_found [OF _ _ _ up]) (use u p w1(1) in \<open>auto simp: apply_plan_def\<close>)
    have "plans (db w') = edit_row pl_id (pl_id p) (\<lambda>_. q) (plans (db w))"
      unfolding t(2) edit_row_def by (rule map_cong [OF refl]) (use the t(1) in auto)
    moreover have "\<exists>s. q = (apply_plan data p)\<lparr>pl_stamp := s\<rparr>"
      by (rule exI [of _ "pl_stamp q"], cases "apply_plan data p = p") (simp_all add: t(1))
    ultimately show ?thesis using t(1) w1(2) by simp
  qed
  then show "\<exists>s. q = (apply_plan data p)\<lparr>pl_stamp := s\<rparr>" "apply_plan data p = p \<Longrightarrow> q = p"
    "plans (db w') = edit_row pl_id (pl_id p) (\<lambda>_. q) (plans (db w))" "\<not> nulls_required data" by simp_all
qed

lemma plans_after_user:
  "get_current_user decode tok w = (r, w') \<Longrightarrow> plans (db w') = plans (db w)"
  using obeysD [OF plan_rows.frame_current_user] by force

text \<open>An update that is answered has changed the plan it names, if the request sets anything else than
  what is stored, to exactly the values that the request sets, no required one to null; every other plan is as
  it was, and the catalogue is still consistent.\<close>

lemma update_plan_effect:
  fixes w :: world
  assumes run: "route_update_plan decode tok i changes w = (Inr q, w')"
    and start: "db w = committed w" and ok: "plans_consistent (plans (committed w))"
  shows "\<exists>p \<in> set (plans (committed w)). pl_id p = i \<and> (\<exists>s. q = (apply_plan changes p)\<lparr>pl_stamp := s\<rparr>) \<and>
    (apply_plan changes p = p \<longrightarrow> q = p) \<and> \<not> nulls_required changes \<and> valid_PlanUpdate changes \<and>
    plans (committed w') = edit_row pl_id i (\<lambda>_. q) (plans (committed w)) \<and> plans_consistent (plans (committed w'))"
proof -
  obtain user w1 w2 w3 p where u: "get_current_user decode tok w = (Inr user, w1)" "valid_PlanUpdate changes"
    and p: "get_plan i w1 = (Inr p, w3)" and e3: "update_plan p changes w3 = (Inr q, w2)"
    and w': "committed w' = db w2"
    using run unfolding route_update_plan_def by (elim request_elims) (rule that, auto)
  have e: "update_plan p changes w1 = (Inr q, w2)" using e3 get_plan_Inr(1) [OF p] by simp
  note same = plans_after_user [OF u(1)]
  note p' = get_plan_Inr [OF p]
  have d: "distinct (map pl_id (plans (db w1)))" using ok start same by (simp add: plans_consistent_def)
  note e' = update_plan_Inr [OF e p'(2) d]
  have "plan_request\<^sup>*\<^sup>* w w'" using run by (blast intro: plan_request.updated)
  from plans_stay_consistent_closure [OF this start ok] have "plans_consistent (plans (committed w'))" by simp
  with e' p' u(2) w' same start show ?thesis by (intro bexI [of _ p]) simp_all
qed

lemma delete_plan_Inr:
  assumes run: "delete_plan p w = (Inr (), w')" and p: "p \<in> set (plans (db w))"
    and u: "distinct (map pl_id (plans (db w)))"
  shows "\<exists>s q. q = p\<lparr>pl_is_active := False, pl_stamp := s\<rparr> \<and>
    plans (db w') = edit_row pl_id (pl_id p) (\<lambda>_. q) (plans (db w))" "\<not> pl_is_active p \<Longrightarrow> w' = w"
proof -
  have the: "x = p" if "x \<in> set (plans (db w))" "pl_id x = pl_id p" for x
    using that p u by (blast intro: distinct_map_inj)
  show "\<exists>s q. q = p\<lparr>pl_is_active := False, pl_stamp := s\<rparr> \<and>
    plans (db w') = edit_row pl_id (pl_id p) (\<lambda>_. q) (plans (db w))"
  proof (cases "pl_is_active p")
    case False
    moreover have "edit_row pl_id (pl_id p) (\<lambda>_. p) (plans (db w)) = plans (db w)"
      unfolding edit_row_def by (rule map_idI) (use the in auto)
    ultimately show ?thesis using run
      by (intro exI [of _ "pl_stamp p"] exI [of _ p]) (simp add: delete_plan_def)
  next
    case True
    let ?f = "\<lambda>x. x\<lparr>pl_is_active := False\<rparr>"
    obtain q where up: "update Plan_model (pk Plan_model p) ?f w = (Inr q, w')"
      using run True by (auto simp: delete_plan_def elim!: run_elims)
    obtain t where t: "q = (if ?f p = p then p else touch Plan_model t (?f p))"
      "plans (db w') = edit_row pl_id (pl_id p) (\<lambda>x. if ?f x = x then x else touch Plan_model t (?f x)) (plans (db w))"
      by (rule plan_repo.update_found [OF _ _ _ up]) (use u p in auto)
    have "plans (db w') = edit_row pl_id (pl_id p) (\<lambda>_. q) (plans (db w))"
      unfolding t(2) edit_row_def by (rule map_cong [OF refl]) (use the t(1) in auto)
    moreover have "q = p\<lparr>pl_is_active := False, pl_stamp := pl_stamp q\<rparr>"
      using t(1) by (cases "?f p = p") simp_all
    ultimately show ?thesis by blast
  qed
  show "w' = w" if "\<not> pl_is_active p" using run that by (simp add: delete_plan_def)
qed

text \<open>A deactivated plan is no longer offered, but it is still there with everything else it had, so that
  it can be shown and its workspaces keep it; deactivating it again writes nothing, not even a new stamp.\<close>

lemma deactivated_plan_stays:
  fixes w :: world
  assumes run: "route_delete_plan decode tok i w = (Inr (), w')"
    and start: "db w = committed w" and ok: "plans_consistent (plans (committed w))"
  shows "\<exists>p s. p \<in> set (plans (committed w)) \<and> pl_id p = i \<and>
    route_get_plan i w' = (Inr (p\<lparr>pl_is_active := False, pl_stamp := s\<rparr>), w') \<and>
    (\<forall>skip limit r v. route_get_plans True skip limit w' = (Inr r, v) \<longrightarrow> i \<notin> pl_id ` set r) \<and>
    (\<forall>decode' tok' v. route_delete_plan decode' tok' i w' = (Inr (), v) \<longrightarrow> plans (committed v) = plans (committed w'))"
proof -
  obtain user w1 w2 w3 p where u: "get_current_user decode tok w = (Inr user, w1)"
    and p: "get_plan i w1 = (Inr p, w3)" and e3: "delete_plan p w3 = (Inr (), w2)"
    and w': "committed w' = db w2" "db w' = db w2"
    using run unfolding route_delete_plan_def by (elim request_elims) (rule that, auto)
  have e: "delete_plan p w1 = (Inr (), w2)" using e3 get_plan_Inr(1) [OF p] by simp
  note same = plans_after_user [OF u]
  note p' = get_plan_Inr [OF p]
  have d: "distinct (map pl_id (plans (db w1)))" using ok start same by (simp add: plans_consistent_def)
  obtain s q where q: "q = p\<lparr>pl_is_active := False, pl_stamp := s\<rparr>"
    "plans (db w2) = edit_row pl_id i (\<lambda>_. q) (plans (db w1))"
    using delete_plan_Inr(1) [OF e p'(2) d] p'(3) by blast
  have u': "pk_unique Plan_model (db w')"
    using d q w'(2) p'(3) by (simp add: pk_unique_def map_edit_const)
  have mem: "q \<in> set (plans (db w'))"
    using p' q w' by (auto simp: set_edit_row intro!: image_eqI [of _ _ p])
  have g: "get_by_id Plan_model i v = (Inr (Some q), v)" if "db v = db w'" for v :: world
    using plan_repo.get_by_id_iff [of v q] u' mem that q(1) p'(3) by (simp add: visible_def)
  have "route_get_plan i w' = (Inr q, w')"
    using g [of w'] w' by (simp add: route_get_plan_def get_plan_def get_db_session_def with_session_def bindM_def)
  moreover have "i \<notin> pl_id ` set r" if "route_get_plans True skip limit w' = (Inr r, v)" for skip limit r v
  proof -
    have sub: "set r \<subseteq> {x \<in> set (plans (db w')). pl_is_active x}"
      using that set_page by (fastforce simp: route_get_plans_def get_db_session_def with_session_def
          get_plans_def get_all_def apply_filters_def order_rows_def split: if_splits)
    show ?thesis
    proof
      assume "i \<in> pl_id ` set r"
      with sub obtain x where x: "x \<in> set (plans (db w'))" "pl_id x = i" "pl_is_active x" by auto
      then have "x = q" using mem u' q(1) p'(3) unfolding pk_unique_def by (auto intro: distinct_map_inj)
      with x(3) q(1) show False by simp
    qed
  qed
  moreover have "plans (committed v) = plans (committed w')"
    if again: "route_delete_plan decode' tok' i w' = (Inr (), v)" for decode' tok' v
  proof -
    obtain user' v1 v2 v3 p2 where v: "get_current_user decode' tok' w' = (Inr user', v1)"
      "get_plan i v1 = (Inr p2, v3)" "delete_plan p2 v3 = (Inr (), v2)" "committed v = db v2"
      using again unfolding route_delete_plan_def by (elim request_elims) (rule that, auto)
    note keep = plans_after_user [OF v(1)]
    have "p2 = q"
      using get_plan_Inr [OF v(2)] mem u' keep q(1) p'(3)
      unfolding pk_unique_def by (auto intro: distinct_map_inj)
    then have "v2 = v1" using v(3) get_plan_Inr(1) [OF v(2)] q(1) by (simp add: delete_plan_def)
    with v(4) keep w' show ?thesis by simp
  qed
  ultimately show ?thesis
    using p' same start q(1) by (intro exI [of _ p] exI [of _ s]) auto
qed

section \<open>Witnesses\<close>

definition fx_plan :: "uuid \<Rightarrow> string \<Rightarrow> Plan" where
  "fx_plan i name =
     (new_plan \<lparr>pc_name = name, pc_slug = name, pc_description = None, pc_monthly_price = 1999,
        pc_yearly_price = 19990, pc_max_users = 3, pc_max_workspaces = 1, pc_max_ai_credits = 0,
        pc_features = None, pc_is_active = True\<rparr>)\<lparr>pl_id := i\<rparr>"

definition fx_plans :: world where
  "fx_plans = world_of (fx_database\<lparr>plans := [fx_plan 71 ''free'', fx_plan 72 ''team'']\<rparr>)"

definition fx_changes :: PlanUpdate where
  "fx_changes =
     \<lparr>pu_name = None, pu_slug = Some (Some ''basic''), pu_description = None, pu_monthly_price = Some (Some 2500),
      pu_yearly_price = None, pu_max_users = None, pu_max_workspaces = None, pu_max_ai_credits = None,
      pu_features = None, pu_is_active = None\<rparr>"

lemma fx_plans_ok: "db fx_plans = committed fx_plans" "plans_consistent (plans (committed fx_plans))"
  by (simp_all add: fx_plans_def fx_plan_def new_plan_def plans_consistent_def plan_limits_def)

lemma update_plan_effect_witness:
  "\<exists>q w'. route_update_plan fx_decode ''token'' 71 fx_changes fx_plans = (Inr q, w') \<and>
     (\<exists>p \<in> set (plans (committed fx_plans)). pl_id p = 71 \<and> (\<exists>s. q = (apply_plan fx_changes p)\<lparr>pl_stamp := s\<rparr>))"
proof -
  have "succeeds (route_update_plan fx_decode ''token'' 71 fx_changes) fx_plans" by code_simp
  then obtain q w' where run: "route_update_plan fx_decode ''token'' 71 fx_changes fx_plans = (Inr q, w')"
    by (rule succeedsE)
  from update_plan_effect [OF this fx_plans_ok] run show ?thesis by blast
qed

lemma deactivated_plan_stays_witness:
  "\<exists>w' q. route_delete_plan fx_decode ''token'' 71 fx_plans = (Inr (), w') \<and> route_get_plan 71 w' = (Inr q, w') \<and>
     \<not> pl_is_active q"
proof -
  have "succeeds (route_delete_plan fx_decode ''token'' 71) fx_plans" by code_simp
  then obtain u w' where run: "route_delete_plan fx_decode ''token'' 71 fx_plans = (Inr u, w')"
    by (rule succeedsE)
  then have "route_delete_plan fx_decode ''token'' 71 fx_plans = (Inr (), w')" by simp
  from deactivated_plan_stays [OF this fx_plans_ok] this show ?thesis by auto
qed


end
