(* ===== verification/Analytics.thy ===== *)
theory Analytics
  imports Committed_Steps Row_Edits
begin

text \<open>
  Analytics: the metrics services (\<open>app/services/analytics\<close>), the repositories
  (\<open>app/repositories/analytics.py\<close>) and the routes (\<open>app/api/v1/endpoints/analytics.py\<close>).
  \<open>date.today()\<close> is the day of a reading of the clock in the time zone of the server, a parameter.
\<close>

type_synonym zone = "time \<Rightarrow> int"

definition date_today :: "zone \<Rightarrow> ('z, int) io" where
  "date_today zone = bindM get_utc_now (\<lambda>t. returnM (zone t))"

section \<open>Metrics\<close>

text \<open>\<open>(await db.execute(select(func.count(...)).where(...))).scalar() or 0\<close>\<close>

definition count_where :: "'r model \<Rightarrow> ('r \<Rightarrow> bool) \<Rightarrow> ('z, int) io" where
  "count_where M p = bindM (select M p) (\<lambda>rs. returnM (int (length rs)))"

definition campaign_metrics :: "uuid \<Rightarrow> ('z, json_object) io" where
  "campaign_metrics ws =
     bindM (count_where Campaign_model (\<lambda>c. c_workspace_id c = ws)) (\<lambda>total.
     bindM (count_where Campaign_model
              (\<lambda>c. c_workspace_id c = ws \<and> c_status c = CampaignStatus_value CampaignStatus_ACTIVE)) (\<lambda>active.
     bindM (count_where Campaign_model
              (\<lambda>c. c_workspace_id c = ws \<and> c_status c = CampaignStatus_value CampaignStatus_COMPLETED)) (\<lambda>completed.
       returnM [(''total_campaigns'', JInt total), (''active_campaigns'', JInt active),
                (''completed_campaigns'', JInt completed)])))"

definition publishing_metrics :: "uuid \<Rightarrow> ('z, json_object) io" where
  "publishing_metrics ws =
     bindM (count_where PublishHistory_model
              (\<lambda>h. h_workspace_id h = ws \<and> h_status h = PublishStatus_PUBLISHED)) (\<lambda>published.
     bindM (count_where PublishHistory_model
              (\<lambda>h. h_workspace_id h = ws \<and> h_status h = PublishStatus_FAILED)) (\<lambda>failed.
     bindM (count_where PublishHistory_model
              (\<lambda>h. h_workspace_id h = ws \<and> h_status h = PublishStatus_PENDING)) (\<lambda>pending.
       returnM [(''published_posts'', JInt published), (''failed_posts'', JInt failed),
                (''pending_posts'', JInt pending)])))"

text \<open>The sums of no rows are \<open>NULL\<close>, which reads as zero.\<close>

definition ai_metrics :: "uuid \<Rightarrow> ('z, json_object) io" where
  "ai_metrics ws =
     bindM (select AIUsage_model (\<lambda>a. ai_workspace_id a = ws)) (\<lambda>rows.
       returnM [(''total_generations'', JInt (sum_list (map ai_generations rows))),
                (''total_tokens'', JInt (sum_list (map ai_total_tokens rows)))])"

definition workspace_metrics :: "uuid \<Rightarrow> ('z, json_object) io" where
  "workspace_metrics ws =
     bindM (count_where SocialAccount_model (\<lambda>a. sa_workspace_id a = ws)) (\<lambda>accounts.
     bindM (count_where WorkspaceMember_model (\<lambda>m. m_workspace_id m = ws)) (\<lambda>members.
       returnM [(''connected_accounts'', JInt accounts), (''members'', JInt members)]))"

record dashboard =
  db_workspace_id :: uuid
  db_date :: int
  db_campaign_metrics :: json_object
  db_publishing_metrics :: json_object
  db_ai_metrics :: json_object
  db_workspace_metrics :: json_object

definition get_dashboard_overview :: "zone \<Rightarrow> uuid \<Rightarrow> ('z, dashboard) io" where
  "get_dashboard_overview zone ws =
     bindM (campaign_metrics ws) (\<lambda>campaign.
     bindM (publishing_metrics ws) (\<lambda>publishing.
     bindM (ai_metrics ws) (\<lambda>ai.
     bindM (workspace_metrics ws) (\<lambda>workspace.
     bindM (date_today zone) (\<lambda>today.
       returnM
         \<lparr>db_workspace_id = ws, db_date = today, db_campaign_metrics = campaign,
          db_publishing_metrics = publishing, db_ai_metrics = ai, db_workspace_metrics = workspace\<rparr>)))))"

section \<open>Snapshots\<close>

definition get_by_date_and_type :: "uuid \<Rightarrow> int \<Rightarrow> SnapshotType \<Rightarrow> ('z, AnalyticsSnapshot option) io" where
  "get_by_date_and_type ws day typ =
     bindM (select AnalyticsSnapshot_model
              (\<lambda>s. as_workspace_id s = ws \<and> as_snapshot_date s = day \<and> as_snapshot_type s = typ))
       scalar_one_or_none"

definition repo_get_latest_snapshot :: "uuid \<Rightarrow> SnapshotType \<Rightarrow> ('z, AnalyticsSnapshot option) io" where
  "repo_get_latest_snapshot ws typ =
     bindM (select AnalyticsSnapshot_model (\<lambda>s. as_workspace_id s = ws \<and> as_snapshot_type s = typ))
       (\<lambda>ss. scalar_one_or_none (take 1 (sort_desc as_snapshot_date ss)))"

definition new_snapshot :: "uuid \<Rightarrow> SnapshotType \<Rightarrow> int \<Rightarrow> dashboard \<Rightarrow> AnalyticsSnapshot" where
  "new_snapshot ws typ day d =
     \<lparr>as_id = 0, as_stamp = no_stamp, as_workspace_id = ws, as_snapshot_type = typ, as_snapshot_date = day,
      as_campaign_metrics = Some (db_campaign_metrics d), as_ai_metrics = Some (db_ai_metrics d),
      as_publishing_metrics = Some (db_publishing_metrics d),
      as_workspace_metrics = Some (db_workspace_metrics d)\<rparr>"

definition assign_snapshot :: "AnalyticsSnapshot \<Rightarrow> AnalyticsSnapshot \<Rightarrow> AnalyticsSnapshot" where
  "assign_snapshot obj_in s = obj_in\<lparr>as_id := as_id s, as_stamp := as_stamp s\<rparr>"

definition generate_snapshot :: "zone \<Rightarrow> uuid \<Rightarrow> int \<Rightarrow> SnapshotType \<Rightarrow> ('z, AnalyticsSnapshot) io" where
  "generate_snapshot zone ws day typ =
     bindM (get_dashboard_overview zone ws) (\<lambda>dashboard_data.
     bindM (get_by_date_and_type ws day typ) (\<lambda>existing.
     let obj_in = new_snapshot ws typ day dashboard_data in
     case existing of
       Some s \<Rightarrow> update AnalyticsSnapshot_model (as_id s) (assign_snapshot obj_in)
     | None \<Rightarrow> create AnalyticsSnapshot_model obj_in))"

definition get_latest_snapshot :: "zone \<Rightarrow> uuid \<Rightarrow> SnapshotType \<Rightarrow> ('z, AnalyticsSnapshot) io" where
  "get_latest_snapshot zone ws typ =
     bindM (repo_get_latest_snapshot ws typ) (\<lambda>snapshot.
     case snapshot of
       None \<Rightarrow> bindM (date_today zone) (\<lambda>day. generate_snapshot zone ws day typ)
     | Some s \<Rightarrow>
         bindM (date_today zone) (\<lambda>today.
         if as_snapshot_date s \<noteq> today
         then bindM (date_today zone) (\<lambda>day. generate_snapshot zone ws day typ)
         else returnM s))"

section \<open>Lists\<close>

definition campaign_analytics_get :: "uuid \<Rightarrow> nat \<Rightarrow> nat \<Rightarrow> uuid option \<Rightarrow> ('z, CampaignAnalytics list) io" where
  "campaign_analytics_get ws skip limit campaign_id =
     bindM (select CampaignAnalytics_model
              (\<lambda>a. ca_workspace_id a = ws \<and> (case campaign_id of None \<Rightarrow> True | Some c \<Rightarrow> ca_campaign_id a = c)))
       (\<lambda>as. returnM (page skip limit as))"

definition campaign_analytics_of :: "uuid \<Rightarrow> ('z, CampaignAnalytics option) io" where
  "campaign_analytics_of campaign_id =
     bindM (select CampaignAnalytics_model (\<lambda>a. ca_campaign_id a = campaign_id)) scalar_one_or_none"

definition ai_usage_get :: "uuid \<Rightarrow> nat \<Rightarrow> nat \<Rightarrow> ('z, AIUsage list) io" where
  "ai_usage_get ws skip limit =
     bindM (select AIUsage_model (\<lambda>a. ai_workspace_id a = ws)) (\<lambda>as. returnM (page skip limit as))"

section \<open>Routes\<close>

text \<open>The permission is in \<open>dependencies\<close>, so it comes before the workspace.\<close>

definition analytics_route ::
  "jwt_decoder \<Rightarrow> string \<Rightarrow> uuid \<Rightarrow> string \<Rightarrow> ('z, 'a) io \<Rightarrow> ('z, 'a) io" where
  "analytics_route decode tok ws action handler =
     get_db_session
       (bindM (get_current_user decode tok) (\<lambda>user.
        thenM (require_permission ''analytics'' action ws user) (
        thenM (get_current_workspace ws user) handler)))"

definition valid_page :: "int \<Rightarrow> int \<Rightarrow> bool" where
  "valid_page skip limit \<longleftrightarrow> 0 \<le> skip \<and> 1 \<le> limit \<and> limit \<le> 100"

definition paged :: "int \<Rightarrow> int \<Rightarrow> (nat \<Rightarrow> nat \<Rightarrow> ('z, 'a) io) \<Rightarrow> ('z, 'a) io" where
  "paged skip limit handler =
     thenM (raise_if (\<not> valid_page skip limit) (HTTPException 422 ''Unprocessable Entity''))
       (handler (nat skip) (nat limit))"

definition route_get_dashboard :: "zone \<Rightarrow> jwt_decoder \<Rightarrow> string \<Rightarrow> uuid \<Rightarrow> ('z, dashboard) io" where
  "route_get_dashboard zone decode tok ws =
     analytics_route decode tok ws ''dashboard'' (get_dashboard_overview zone ws)"

definition route_get_analytics_overview ::
  "zone \<Rightarrow> jwt_decoder \<Rightarrow> string \<Rightarrow> uuid \<Rightarrow> SnapshotType \<Rightarrow> ('z, AnalyticsSnapshot) io" where
  "route_get_analytics_overview zone decode tok ws typ =
     analytics_route decode tok ws ''read'' (get_latest_snapshot zone ws typ)"

definition route_list_campaign_analytics ::
  "jwt_decoder \<Rightarrow> string \<Rightarrow> uuid \<Rightarrow> int \<Rightarrow> int \<Rightarrow> uuid option \<Rightarrow> ('z, CampaignAnalytics list) io" where
  "route_list_campaign_analytics decode tok ws skip limit campaign_id =
     analytics_route decode tok ws ''read''
       (paged skip limit (\<lambda>s l. campaign_analytics_get ws s l campaign_id))"

definition route_list_ai_usage_analytics ::
  "jwt_decoder \<Rightarrow> string \<Rightarrow> uuid \<Rightarrow> int \<Rightarrow> int \<Rightarrow> ('z, AIUsage list) io" where
  "route_list_ai_usage_analytics decode tok ws skip limit =
     analytics_route decode tok ws ''read'' (paged skip limit (ai_usage_get ws))"

section \<open>What the overview answers\<close>

text \<open>The figures of a workspace, said without the queries.\<close>

definition rows_where :: "('r \<Rightarrow> bool) \<Rightarrow> 'r list \<Rightarrow> json" where
  "rows_where p rs = JInt (int (length (filter p rs)))"

definition reports :: "database \<Rightarrow> AnalyticsSnapshot \<Rightarrow> bool" where
  "reports d s \<longleftrightarrow>
     (let own_campaigns = filter (\<lambda>c. c_workspace_id c = as_workspace_id s) (campaigns d);
          own_history = filter (\<lambda>h. h_workspace_id h = as_workspace_id s) (publish_history d);
          own_usage = filter (\<lambda>a. ai_workspace_id a = as_workspace_id s) (ai_usage d) in
      as_campaign_metrics s = Some
        [(''total_campaigns'', rows_where (\<lambda>_. True) own_campaigns),
         (''active_campaigns'', rows_where (\<lambda>c. c_status c = ''ACTIVE'') own_campaigns),
         (''completed_campaigns'', rows_where (\<lambda>c. c_status c = ''COMPLETED'') own_campaigns)] \<and>
      as_publishing_metrics s = Some
        [(''published_posts'', rows_where (\<lambda>h. h_status h = PublishStatus_PUBLISHED) own_history),
         (''failed_posts'', rows_where (\<lambda>h. h_status h = PublishStatus_FAILED) own_history),
         (''pending_posts'', rows_where (\<lambda>h. h_status h = PublishStatus_PENDING) own_history)] \<and>
      as_ai_metrics s = Some
        [(''total_generations'', JInt (sum_list (map ai_generations own_usage))),
         (''total_tokens'', JInt (sum_list (map ai_total_tokens own_usage)))] \<and>
      as_workspace_metrics s = Some
        [(''connected_accounts'', rows_where (\<lambda>a. sa_workspace_id a = as_workspace_id s) (social_accounts d)),
         (''members'', rows_where (\<lambda>m. m_workspace_id m = as_workspace_id s) (workspace_members d))])"

text \<open>Every row of the publishing history is counted exactly once.\<close>

lemma history_adds_up:
  "length (filter (\<lambda>h. h_status h = PublishStatus_PUBLISHED) hs) + length (filter (\<lambda>h. h_status h = PublishStatus_FAILED) hs)
     + length (filter (\<lambda>h. h_status h = PublishStatus_PENDING) hs) = length hs"
proof (induction hs)
  case (Cons h hs)
  then show ?case by (cases "h_status h") simp_all
qed simp

lemma count_where_run [simp]:
  "bindM (count_where M p) f w = f (int (length (filter p (tbl M (db w))))) w"
  by (simp add: count_where_def bindM_assoc bindM_def)

lemma dashboard_reports:
  assumes "get_dashboard_overview zone ws w = (r, w')"
  shows "\<exists>d. r = Inr d \<and> reports (db w) (new_snapshot ws typ day d)" "w' = w\<lparr>ticks := Suc (ticks w)\<rparr>"
  using assms
  by (auto simp: get_dashboard_overview_def campaign_metrics_def publishing_metrics_def ai_metrics_def
      workspace_metrics_def date_today_def reports_def new_snapshot_def rows_where_def Let_def bindM_assoc
      conj_commute cong: conj_cong)

lemma reports_cong:
  "as_workspace_id s = as_workspace_id t \<Longrightarrow> as_campaign_metrics s = as_campaign_metrics t \<Longrightarrow>
   as_publishing_metrics s = as_publishing_metrics t \<Longrightarrow> as_ai_metrics s = as_ai_metrics t \<Longrightarrow>
   as_workspace_metrics s = as_workspace_metrics t \<Longrightarrow> reports d s = reports d t"
  by (simp add: reports_def)

lemma date_today_run [simp]:
  "bindM (date_today zone) f w = f (zone (clock w (ticks w))) (w\<lparr>ticks := Suc (ticks w)\<rparr>)"
  by (simp add: date_today_def bindM_assoc)

lemma generate_snapshot_Inr:
  assumes run: "generate_snapshot zone ws day typ w = (Inr s, w')"
    and u: "distinct (map as_id (analytics_snapshots (db w)))"
  shows "as_workspace_id s = ws" "as_snapshot_type s = typ" "as_snapshot_date s = day" "reports (db w) s"
proof -
  obtain d w1 found where d: "get_dashboard_overview zone ws w = (Inr d, w1)"
    and f: "get_by_date_and_type ws day typ w1 = (Inr found, w1)"
    and k: "(case found of None \<Rightarrow> create AnalyticsSnapshot_model (new_snapshot ws typ day d)
      | Some e \<Rightarrow> update AnalyticsSnapshot_model (as_id e) (assign_snapshot (new_snapshot ws typ day d))) w1 = (Inr s, w')"
    using run unfolding generate_snapshot_def Let_def
    by (elim run_elims) (auto simp: get_by_date_and_type_def dest: scalar_one_or_none_state)
  let ?new = "new_snapshot ws typ day d"
  have w1: "db w1 = db w" and rep: "reports (db w) ?new"
    using dashboard_reports(1) [OF d, of "typ" day] dashboard_reports(2) [OF d] by auto
  have "as_workspace_id s = ws \<and> as_snapshot_type s = typ \<and> as_snapshot_date s = day \<and> reports (db w) s"
  proof (cases found)
    case None
    with k have "create AnalyticsSnapshot_model ?new w1 = (Inr s, w')" by simp
    from snapshot_repo.create_row(1) [OF this] rep reports_cong [of s ?new "db w"]
    show ?thesis by (simp add: new_snapshot_def)
  next
    case (Some e)
    with f have "filter (\<lambda>s. as_workspace_id s = ws \<and> as_snapshot_date s = day \<and> as_snapshot_type s = typ)
      (analytics_snapshots (db w1)) = [e]"
      by (simp add: get_by_date_and_type_def scalar_one_or_none_Some)
    then have e: "e \<in> set (analytics_snapshots (db w1))" by (auto simp: filter_eq_Cons_iff)
    have up: "update AnalyticsSnapshot_model (pk AnalyticsSnapshot_model e) (assign_snapshot ?new) w1 = (Inr s, w')"
      using k Some by simp
    let ?P = "\<lambda>s. as_workspace_id s = ws \<and> as_snapshot_type s = typ \<and> as_snapshot_date s = day \<and> reports (db w) s"
    have "?P (assign_snapshot ?new e)" "?P (touch AnalyticsSnapshot_model t (assign_snapshot ?new e))" for t
      using rep reports_cong [of "assign_snapshot ?new e" ?new] reports_cong [of "touch AnalyticsSnapshot_model t (assign_snapshot ?new e)" ?new]
      by (simp_all add: assign_snapshot_def new_snapshot_def)
    with snapshot_repo.update_result(1) [OF _ _ _ up, of ?P] u e w1 show ?thesis
      by (simp add: assign_snapshot_def)
  qed
  then show "as_workspace_id s = ws" "as_snapshot_type s = typ" "as_snapshot_date s = day" "reports (db w) s"
    by simp_all
qed

lemma get_latest_snapshot_Inr:
  assumes run: "get_latest_snapshot zone ws typ w = (Inr s, w')"
    and u: "distinct (map as_id (analytics_snapshots (db w)))"
  shows "as_workspace_id s = ws" "as_snapshot_type s = typ" "\<exists>n \<ge> ticks w. as_snapshot_date s = zone (clock w n)"
    "s \<in> set (analytics_snapshots (db w)) \<or> reports (db w) s"
proof -
  let ?P = "as_workspace_id s = ws \<and> as_snapshot_type s = typ \<and> (\<exists>n \<ge> ticks w. as_snapshot_date s = zone (clock w n)) \<and>
    (s \<in> set (analytics_snapshots (db w)) \<or> reports (db w) s)"
  have gen: "?P" if "generate_snapshot zone ws (zone (clock w n)) typ v = (Inr s, w')" "db v = db w" "n \<ge> ticks w" for n v
    using generate_snapshot_Inr [OF that(1)] u that(2,3) by auto
  obtain found where f: "repo_get_latest_snapshot ws typ w = (Inr found, w)"
    and k: "(case found of None \<Rightarrow> bindM (date_today zone) (\<lambda>day. generate_snapshot zone ws day typ)
      | Some s \<Rightarrow> bindM (date_today zone) (\<lambda>today. if as_snapshot_date s \<noteq> today
          then bindM (date_today zone) (\<lambda>day. generate_snapshot zone ws day typ) else returnM s)) w = (Inr s, w')"
    using run unfolding get_latest_snapshot_def
    by (elim run_elims) (auto simp: repo_get_latest_snapshot_def dest: scalar_one_or_none_state)
  have "?P"
  proof (cases found)
    case None
    with k show ?thesis by (intro gen [of "ticks w" "w\<lparr>ticks := Suc (ticks w)\<rparr>"]) simp_all
  next
    case (Some e)
    with f have "e \<in> set (take 1 (sort_desc as_snapshot_date
        (filter (\<lambda>s. as_workspace_id s = ws \<and> as_snapshot_type s = typ) (analytics_snapshots (db w)))))"
      by (simp add: repo_get_latest_snapshot_def scalar_one_or_none_Some)
    then have e: "e \<in> set (analytics_snapshots (db w))" "as_workspace_id e = ws" "as_snapshot_type e = typ"
      by (auto dest: in_set_takeD)
    show ?thesis
    proof (cases "as_snapshot_date e = zone (clock w (ticks w))")
      case True
      with k Some e show ?thesis by auto
    next
      case False
      with k Some show ?thesis
        by (intro gen [of "Suc (ticks w)" "w\<lparr>ticks := Suc (Suc (ticks w))\<rparr>"]) simp_all
    qed
  qed
  then show "as_workspace_id s = ws" "as_snapshot_type s = typ" "\<exists>n \<ge> ticks w. as_snapshot_date s = zone (clock w n)"
    "s \<in> set (analytics_snapshots (db w)) \<or> reports (db w) s" by simp_all
qed

text \<open>The dependencies of the route change the users at most, and the clock only advances.\<close>

interpretation figures: table_step
  "\<lambda>d. (campaigns d, publish_history d, ai_usage d, social_accounts d, workspace_members d, analytics_snapshots d)" "(=)"
  by unfold_locales simp_all

interpretation advancing: step_preorder "\<lambda>w w'. ticks w \<le> ticks w'"
  by unfold_locales auto

lemma advancing_user: "obeys (\<lambda>w w'. ticks w \<le> ticks w') (get_current_user decode tok)"
proof -
  have new: "obeys (\<lambda>w w'. ticks w \<le> ticks w') (create User_model u)" for u
    by (rule obeysI) (auto simp: create_def flush_new_def insert_row_def split: if_splits)
  show ?thesis
    unfolding get_current_user_def verify_jwt_def get_or_create_user_def
    by (intro advancing.obeys_bind advancing.obeys_then advancing.obeys_return advancing.obeys_raise_if
        advancing.obeys_if advancing.obeys_raise advancing.obeys_case_option new
        read_only_queries [THEN advancing.read_only_obeys])
      (auto split: sum.splits jwt_error.splits option.splits
        intro!: advancing.obeys_raise advancing.obeys_return advancing.obeys_bind new
          read_only_queries [THEN advancing.read_only_obeys])
qed

lemma same_analytics:
  "obeys uncommitted.same (get_latest_snapshot zone ws typ)"
  unfolding get_latest_snapshot_def repo_get_latest_snapshot_def generate_snapshot_def get_by_date_and_type_def
    get_dashboard_overview_def campaign_metrics_def publishing_metrics_def ai_metrics_def workspace_metrics_def
    count_where_def date_today_def Let_def
  by (intro uncommitted.same_intros)

lemma same_analytics_route:
  assumes "obeys uncommitted.same m"
  shows "obeys uncommitted.same (bindM (get_current_user decode tok) (\<lambda>user.
    thenM (require_permission r a ws user) (thenM (get_current_workspace ws user) m)))"
  by (intro uncommitted.obeys_bind uncommitted.obeys_then same_user assms
      uncommitted.read_only_obeys [OF read_only_workspace] uncommitted.read_only_obeys [OF read_only_permission])

text \<open>C33 (functional). The overview answers with a snapshot of the workspace and the type asked for, dated on a day
  that the clock shows during the request; it is one that was stored, or else its figures are exactly those of
  the tables. The request commits nothing, so the next one computes a new snapshot again.\<close>

theorem overview_is_current:
  assumes run: "route_get_analytics_overview zone decode tok ws typ w = (Inr s, w')"
    and start: "db w = committed w" and u: "distinct (map as_id (analytics_snapshots (committed w)))"
  shows "as_workspace_id s = ws \<and> as_snapshot_type s = typ \<and> (\<exists>n \<ge> ticks w. as_snapshot_date s = zone (clock w n)) \<and>
    (s \<in> set (analytics_snapshots (committed w)) \<or> reports (committed w) s) \<and> committed w' = committed w"
proof -
  obtain user w1 v p w2 ws' w3 where w1: "get_current_user decode tok w = (Inr user, w1)"
    and w2: "require_permission ''analytics'' ''read'' ws user w1 = (Inr p, w2)"
    and w3: "get_current_workspace ws user w2 = (Inr ws', w3)"
    and v: "get_latest_snapshot zone ws typ w3 = (Inr s, v)"
    using run unfolding route_get_analytics_overview_def analytics_route_def
    by (elim request_elims) (rule that, auto)
  have eq: "w3 = w1" using read_onlyD [OF read_only_permission w2] read_onlyD [OF read_only_workspace w3] by simp
  have same: "clock w1 = clock w" and t: "ticks w \<le> ticks w1"
    using obeysD [OF same_user w1] obeysD [OF advancing_user w1] by (simp_all add: uncommitted.same_def)
  have f: "(campaigns (db w1), publish_history (db w1), ai_usage (db w1), social_accounts (db w1),
      workspace_members (db w1), analytics_snapshots (db w1)) =
    (campaigns (db w), publish_history (db w), ai_usage (db w), social_accounts (db w), workspace_members (db w),
      analytics_snapshots (db w))"
    using obeysD [OF figures.frame_current_user w1] by simp
  have "committed w' = committed w"
    using session_without_commit [OF same_analytics_route [OF same_analytics]] run
    by (simp add: route_get_analytics_overview_def analytics_route_def)
  moreover have "reports (db w1) s = reports (committed w) s" using f start by (simp add: reports_def)
  moreover have "distinct (map as_id (analytics_snapshots (db w1)))" using f start u by simp
  note latest = get_latest_snapshot_Inr [OF v [unfolded eq] this]
  ultimately show ?thesis using latest f start same t by (auto intro: order_trans)
qed

section \<open>Witness\<close>

definition fx_snapshot :: AnalyticsSnapshot where
  "fx_snapshot =
     \<lparr>as_id = 81, as_stamp = no_stamp, as_workspace_id = 20, as_snapshot_type = SnapshotType_DAILY,
      as_snapshot_date = -1, as_campaign_metrics = None, as_ai_metrics = None, as_publishing_metrics = None,
      as_workspace_metrics = None\<rparr>"

definition fx_analytics :: world where
  "fx_analytics = world_of (fx_database
     \<lparr>permissions := [\<lparr>p_id = 60, p_stamp = no_stamp, p_name = ''analytics.read'', p_resource = ''analytics'',
        p_action = ''read'', p_description = None, p_is_system = True\<rparr>],
      role_permissions := [\<lparr>rp_id = 61, rp_role_id = 11, rp_permission_id = 60, rp_created_at = 0\<rparr>],
      analytics_snapshots := [fx_snapshot]\<rparr>)"

definition fx_zone :: zone where
  "fx_zone t = t div days 1"

lemma overview_is_current_witness:
  "\<exists>s w'. route_get_analytics_overview fx_zone fx_decode ''token'' 20 SnapshotType_DAILY fx_analytics = (Inr s, w') \<and>
     as_snapshot_date s = 0 \<and> reports (committed fx_analytics) s"
proof -
  have "case fst (route_get_analytics_overview fx_zone fx_decode ''token'' 20 SnapshotType_DAILY fx_analytics) of
      Inl _ \<Rightarrow> False | Inr s \<Rightarrow> as_snapshot_date s = 0" by code_simp
  then obtain s w' where run: "route_get_analytics_overview fx_zone fx_decode ''token'' 20 SnapshotType_DAILY fx_analytics
      = (Inr s, w')" and s: "as_snapshot_date s = 0"
    by (auto split: sum.splits simp: fst_def split: prod.splits)
  have "db fx_analytics = committed fx_analytics" "distinct (map as_id (analytics_snapshots (committed fx_analytics)))"
    by (simp_all add: fx_analytics_def)
  from overview_is_current [OF run this] s run show ?thesis
    by (auto simp: fx_analytics_def fx_snapshot_def)
qed

end
