(* ===== verification/Notifications.thy ===== *)
theory Notifications
  imports Committed_Steps Row_Edits Integrations
begin

text \<open>
  Notifications: the service (\<open>app/services/notification.py\<close>), the routes
  (\<open>app/api/v1/endpoints/notifications.py\<close>) and the delivery providers
  (\<open>app/services/notifications/providers\<close>). The repositories are in \<open>Tenancy_Repositories\<close>.
  \<open>require_permission\<close> asks for a workspace, which these routes take from the query.
\<close>

section \<open>The service\<close>

definition notification_delete :: "uuid \<Rightarrow> ('z, bool) io" where
  "notification_delete notification_id =
     bindM (get_by_id Notification_model notification_id) (\<lambda>obj.
     case obj of
       None \<Rightarrow> returnM False
     | Some n \<Rightarrow> thenM (delete Notification_model notification_id True) (returnM True))"

text \<open>\<open>NotificationPreferenceUpdate\<close>: the outer \<open>None\<close> is a field that was not set, the inner one an explicit null.\<close>

record PreferenceUpdate =
  npu_in_app_enabled :: "bool option option"
  npu_email_enabled :: "bool option option"
  npu_push_enabled :: "bool option option"

definition new_preference :: "uuid \<Rightarrow> uuid \<Rightarrow> NotificationType \<Rightarrow> PreferenceUpdate \<Rightarrow> NotificationPreference" where
  "new_preference user_id ws notif_type changes =
     \<lparr>np_id = 0, np_stamp = no_stamp, np_workspace_id = ws, np_user_id = user_id,
      np_notification_type = notif_type, np_in_app_enabled = set_or (npu_in_app_enabled changes) True,
      np_email_enabled = set_or (npu_email_enabled changes) True,
      np_push_enabled = set_or (npu_push_enabled changes) False\<rparr>"

definition assign_preference :: "PreferenceUpdate \<Rightarrow> NotificationPreference \<Rightarrow> NotificationPreference" where
  "assign_preference changes p =
     p\<lparr>np_in_app_enabled := set_or (npu_in_app_enabled changes) (np_in_app_enabled p),
       np_email_enabled := set_or (npu_email_enabled changes) (np_email_enabled p),
       np_push_enabled := set_or (npu_push_enabled changes) (np_push_enabled p)\<rparr>"

definition nulls_preference :: "PreferenceUpdate \<Rightarrow> bool" where
  "nulls_preference changes \<longleftrightarrow>
     npu_in_app_enabled changes = Some None \<or> npu_email_enabled changes = Some None \<or>
     npu_push_enabled changes = Some None"

definition update_preference ::
  "uuid \<Rightarrow> uuid \<Rightarrow> NotificationType \<Rightarrow> PreferenceUpdate \<Rightarrow> ('z, NotificationPreference) io" where
  "update_preference user_id ws notif_type changes =
     bindM (get_by_user_and_type user_id notif_type) (\<lambda>pref.
     case pref of
       None \<Rightarrow> create NotificationPreference_model (new_preference user_id ws notif_type changes)
     | Some pref \<Rightarrow>
         thenM (raise_if (nulls_preference changes) IntegrityError)
           (update NotificationPreference_model (np_id pref) (assign_preference changes)))"

section \<open>Routes\<close>

definition notification_route ::
  "jwt_decoder \<Rightarrow> string \<Rightarrow> uuid \<Rightarrow> string \<Rightarrow> (User \<Rightarrow> ('z, 'a) io) \<Rightarrow> ('z, 'a) io" where
  "notification_route decode tok ws action handler =
     get_db_session
       (bindM (get_current_user decode tok) (\<lambda>user.
        thenM (require_permission ''notifications'' action ws user)
          (handler user)))"

text \<open>\<open>if not notification or notification.user_id != current_user.id: raise HTTPException(404)\<close>\<close>

definition own_notification :: "uuid \<Rightarrow> User \<Rightarrow> ('z, Notification) io" where
  "own_notification notification_id user =
     bindM (get_by_id Notification_model notification_id) (\<lambda>notification.
     case notification of
       None \<Rightarrow> raiseM (HTTPException 404 ''Notification not found'')
     | Some n \<Rightarrow>
         thenM (raise_if (n_user_id n \<noteq> u_id user) (HTTPException 404 ''Notification not found'')) (returnM n))"

definition route_list_unread :: "jwt_decoder \<Rightarrow> string \<Rightarrow> uuid \<Rightarrow> int \<Rightarrow> ('z, Notification list) io" where
  "route_list_unread decode tok ws limit =
     notification_route decode tok ws ''read'' (\<lambda>user.
       thenM (raise_if (limit < 0) (PyException ''DBAPIError''))
         (get_unread_for_user (u_id user) (nat limit)))"

definition route_mark_as_read :: "jwt_decoder \<Rightarrow> string \<Rightarrow> uuid \<Rightarrow> uuid \<Rightarrow> ('z, Notification option) io" where
  "route_mark_as_read decode tok ws notification_id =
     notification_route decode tok ws ''read'' (\<lambda>user.
       thenM (own_notification notification_id user) (mark_as_read notification_id))"

definition route_mark_all_as_read :: "jwt_decoder \<Rightarrow> string \<Rightarrow> uuid \<Rightarrow> ('z, nat) io" where
  "route_mark_all_as_read decode tok ws =
     notification_route decode tok ws ''read'' (\<lambda>user. mark_all_as_read (u_id user))"

definition route_delete_notification :: "jwt_decoder \<Rightarrow> string \<Rightarrow> uuid \<Rightarrow> uuid \<Rightarrow> ('z, unit) io" where
  "route_delete_notification decode tok ws notification_id =
     notification_route decode tok ws ''manage'' (\<lambda>user.
       thenM (own_notification notification_id user) (
       thenM (notification_delete notification_id) (returnM ())))"

definition route_get_preferences ::
  "jwt_decoder \<Rightarrow> string \<Rightarrow> uuid \<Rightarrow> ('z, NotificationPreference list) io" where
  "route_get_preferences decode tok ws =
     notification_route decode tok ws ''read'' (\<lambda>user. get_all_for_user (u_id user))"

section \<open>Delivery\<close>

text \<open>A value bound to a column of identities, or of an enumeration.\<close>

definition bind_uuid :: "json \<Rightarrow> uuid option" where
  "bind_uuid j = (case j of JUuid u \<Rightarrow> Some u | JStr s \<Rightarrow> uuid_of_str s | _ \<Rightarrow> None)"

definition bind_type :: "json \<Rightarrow> NotificationType option" where
  "bind_type j =
     (if j = JStr ''SYSTEM'' then Some NotificationType_SYSTEM
      else if j = JStr ''ALERT'' then Some NotificationType_ALERT
      else if j = JStr ''MESSAGE'' then Some NotificationType_MESSAGE
      else if j = JStr ''BILLING'' then Some NotificationType_BILLING
      else None)"

definition bind_priority :: "json \<Rightarrow> NotificationPriority option" where
  "bind_priority j =
     (if j = JStr ''LOW'' then Some NotificationPriority_LOW
      else if j = JStr ''NORMAL'' then Some NotificationPriority_NORMAL
      else if j = JStr ''HIGH'' then Some NotificationPriority_HIGH
      else if j = JStr ''URGENT'' then Some NotificationPriority_URGENT
      else None)"

text \<open>\<open>data.get(key, default) if data else default\<close>\<close>

definition data_get :: "json_object option \<Rightarrow> string \<Rightarrow> json \<Rightarrow> json" where
  "data_get data key fallback =
     (case data of None \<Rightarrow> fallback
      | Some kvs \<Rightarrow> (case map_of kvs key of None \<Rightarrow> fallback | Some v \<Rightarrow> v))"

definition in_app_row ::
  "uuid \<Rightarrow> uuid \<Rightarrow> string \<Rightarrow> string \<Rightarrow> json_object option \<Rightarrow> ('z, Notification) io" where
  "in_app_row ws user_id title body data =
     (case (bind_type (data_get data ''type'' (JStr ''SYSTEM'')),
            bind_priority (data_get data ''priority'' (JStr ''NORMAL''))) of
        (Some typ, Some prio) \<Rightarrow>
          thenM (raise_if (\<not> serializable_object data) (TypeError ''not JSON serializable''))
            (create Notification_model
               ((new_notification ws user_id title body typ prio)\<lparr>n_data := map_option JObj data\<rparr>))
      | _ \<Rightarrow> raiseM (PyException ''LookupError''))"

text \<open>
  \<open>InAppProvider.send\<close>. Without a workspace in the data it asks the member repository for \<open>get_by_user_id\<close>,
  which the repository does not have.
\<close>

definition in_app_send :: "uuid \<Rightarrow> string \<Rightarrow> string \<Rightarrow> json_object option \<Rightarrow> ('z, bool) io" where
  "in_app_send user_id title body data =
     catchM
       (with_session
          (let workspace_id = data_get data ''workspace_id'' JNull in
           if \<not> json_truthy workspace_id then raiseM (AttributeError ''get_by_user_id'')
           else case bind_uuid workspace_id of
             None \<Rightarrow> raiseM (PyException ''DBAPIError'')
           | Some ws \<Rightarrow> thenM (in_app_row ws user_id title body data) (returnM True)))
       (\<lambda>e. returnM False)"

definition email_send :: "uuid \<Rightarrow> string \<Rightarrow> string \<Rightarrow> json_object option \<Rightarrow> ('z, bool) io" where
  "email_send user_id title body data = returnM True"

section \<open>Reading is not remembered\<close>

lemma read_only_own: "read_only (own_notification i user)"
  unfolding own_notification_def read_only_def
  by (intro ro.obeys_bind ro.obeys_case_option ro.obeys_then ro.obeys_raise_if ro.obeys_return ro.obeys_raise
      read_only_get_by_id [unfolded read_only_def])

lemma own_notification_Inr:
  assumes "own_notification i user w = (Inr n, w')"
  shows "w' = w" "n \<in> set (notifications (db w))" "n_id n = i" "n_user_id n = u_id user"
    "get_by_id Notification_model i w = (Inr (Some n), w)"
proof -
  show eq: "w' = w" using read_onlyD [OF read_only_own assms] .
  have g: "get_by_id Notification_model i w = (Inr (Some n), w) \<and> n_user_id n = u_id user"
    using assms unfolding own_notification_def
    by (elim run_elims) (auto dest: read_onlyD [OF read_only_get_by_id] split: option.splits elim!: run_elims)
  then show "get_by_id Notification_model i w = (Inr (Some n), w)" "n_user_id n = u_id user" by simp_all
  from get_by_id_Some [of Notification_model i w n w] g
  show "n \<in> set (notifications (db w))" "n_id n = i" by simp_all
qed

lemma same_notification_handlers:
  "obeys uncommitted.same (thenM (own_notification i user) (mark_as_read i))"
  "obeys uncommitted.same (mark_all_as_read u)"
  "obeys uncommitted.same (thenM (own_notification i user) (thenM (notification_delete i) (returnM ())))"
  unfolding mark_as_read_def mark_all_as_read_def notification_delete_def
  by (intro uncommitted.same_intros uncommitted.read_only_obeys [OF read_only_own])+

lemma notification_route_uncommitted:
  assumes "\<And>user. obeys uncommitted.same (handler user)"
    and "notification_route decode tok ws action handler w = (r, w')"
  shows "committed w' = committed w" "db w' = committed w"
proof -
  have "obeys uncommitted.same (bindM (get_current_user decode tok) (\<lambda>user.
    thenM (require_permission ''notifications'' action ws user) (handler user)))"
    by (intro uncommitted.obeys_bind uncommitted.obeys_then same_user assms(1)
        uncommitted.read_only_obeys [OF read_only_permission])
  from session_without_commit [OF this] assms(2)
  show "committed w' = committed w" "db w' = committed w" by (simp_all add: notification_route_def)
qed

interpretation inbox: table_step notifications "(=)"
  by unfold_locales simp_all

lemma notification_route_Inr:
  assumes "notification_route decode tok ws action handler w = (Inr x, w')"
  obtains user w1 w2 where "get_current_user decode tok w = (Inr user, w1)"
    "handler user w1 = (Inr x, w2)" "notifications (db w1) = notifications (db w)"
proof -
  from assms obtain user w1 b v w2 where u: "get_current_user decode tok w = (Inr user, w1)"
    and p: "require_permission ''notifications'' action ws user w1 = (Inr b, v)" and h: "handler user v = (Inr x, w2)"
    unfolding notification_route_def by (elim request_elims) (rule that, auto)
  have "v = w1" using read_onlyD [OF read_only_permission p] .
  moreover have "notifications (db w1) = notifications (db w)"
    using obeysD [OF inbox.frame_current_user u] by simp
  ultimately show thesis using that [OF u] h by simp
qed

lemma mark_as_read_Inr:
  assumes g: "get_by_id Notification_model i w = (Inr (Some m), w)" and run: "mark_as_read i w = (Inr x, w')"
    and u: "distinct (map n_id (notifications (db w)))"
  shows "\<exists>t. x = Some (m\<lparr>n_read_at := Some t\<rparr>)"
proof (cases "n_read_at m")
  case (Some t)
  with g run have "x = Some m" by (simp add: mark_as_read_def bindM_def)
  with Some show ?thesis by (intro exI [of _ t]) simp
next
  case None
  note m = get_by_id_Some [OF g]
  let ?t = "clock w (ticks w)"
  from g run None obtain y w1 where y: "flush_dirty Notification_model (n_id m) (\<lambda>n. n\<lparr>n_read_at := Some ?t\<rparr>)
      (w\<lparr>ticks := Suc (ticks w)\<rparr>) = (Inr y, w1)" "x = Some y"
    by (auto simp: mark_as_read_def bindM_assoc bindM_Inr [where m = "get_by_id Notification_model i", OF g]
        elim!: run_elims)
  have "find_pk Notification_model (n_id m) (db w) = Some m"
    using notification_repo.find_pk_unique [of "db w" m] m u by (simp add: pk_unique_def)
  with y None have "y = m\<lparr>n_read_at := Some ?t\<rparr>"
    by (auto simp: flush_dirty_def update_row_Inr split: if_splits)
  with y show ?thesis by blast
qed

text \<open>Marking a notification as read is answered only for a notification of the calling user, and answered
  with it as read; but no route on notifications commits, so what is stored is what was stored before, and the
  notification is unread again for the next request.\<close>

lemma read_mark_is_lost:
  assumes run: "route_mark_as_read decode tok ws i w = (Inr n, w')" and start: "db w = committed w"
    and u: "distinct (map n_id (notifications (committed w)))"
  shows "\<exists>m user t. result_of (get_current_user decode tok) w = Inr user \<and> m \<in> set (notifications (committed w)) \<and>
    n_id m = i \<and> n_user_id m = u_id user \<and> n = Some (m\<lparr>n_read_at := Some t\<rparr>) \<and>
    committed w' = committed w \<and> db w' = committed w"
proof -
  obtain user w1 w2 where user: "get_current_user decode tok w = (Inr user, w1)"
    and h: "thenM (own_notification i user) (mark_as_read i) w1 = (Inr n, w2)"
    and same: "notifications (db w1) = notifications (db w)"
    using run unfolding route_mark_as_read_def by (rule notification_route_Inr)
  obtain m v where m: "own_notification i user w1 = (Inr m, v)" and r: "mark_as_read i v = (Inr n, w2)"
    using h by (rule thenM_InrE)
  note m' = own_notification_Inr [OF m]
  obtain t where "n = Some (m\<lparr>n_read_at := Some t\<rparr>)"
    using mark_as_read_Inr [OF m'(5)] r m'(1) u start same by auto
  moreover have "committed w' = committed w" "db w' = committed w"
    using notification_route_uncommitted [OF _ run [unfolded route_mark_as_read_def]] same_notification_handlers(1)
    by blast+
  ultimately show ?thesis
    using m' same start user by (intro exI [of _ m] exI [of _ user] exI [of _ t]) (simp add: result_of_def)
qed

lemma notification_routes_save_nothing:
  "route_mark_all_as_read decode tok ws w = (r, w') \<Longrightarrow> committed w' = committed w"
  "route_delete_notification decode tok ws i w = (r', w') \<Longrightarrow> committed w' = committed w"
  unfolding route_mark_all_as_read_def route_delete_notification_def
  by (erule notification_route_uncommitted(1) [rotated], rule same_notification_handlers)+

section \<open>An in-app notification is never stored\<close>

text \<open>The in-app provider never raises and never stores anything: its own session is closed without a commit.
  It still answers that it delivered whenever the data names a workspace; without a workspace in the data it
  answers that it did not, because the look-up of the memberships does not exist.\<close>

lemma in_app_never_stored:
  "\<exists>b w'. in_app_send user_id title body data w = (Inr b, w') \<and> committed w' = committed w \<and> db w' = committed w \<and>
     (b \<longrightarrow> json_truthy (data_get data ''workspace_id'' JNull))"
proof -
  let ?ws = "data_get data ''workspace_id'' JNull"
  let ?m = "if \<not> json_truthy ?ws then raiseM (AttributeError ''get_by_user_id'')
    else case bind_uuid ?ws of None \<Rightarrow> raiseM (PyException ''DBAPIError'')
      | Some ws \<Rightarrow> thenM (in_app_row ws user_id title body data) (returnM True)"
  have row: "obeys uncommitted.same (in_app_row ws user_id title body data)" for ws
    unfolding in_app_row_def
    by (cases "bind_type (data_get data ''type'' (JStr ''SYSTEM''))";
        cases "bind_priority (data_get data ''priority'' (JStr ''NORMAL''))")
      (auto intro!: uncommitted.same_intros)
  then have "obeys uncommitted.same ?m"
    by (intro uncommitted.obeys_if uncommitted.obeys_case_option uncommitted.obeys_then uncommitted.obeys_raise
        uncommitted.obeys_return)
  moreover obtain r w1 where run: "?m w = (r, w1)" by fastforce
  ultimately have "committed w1 = committed w" by (auto dest: obeysD simp: uncommitted.same_def)
  with run show ?thesis
    by (cases r) (auto simp: in_app_send_def Let_def catchM_def with_session_def split: if_splits)
qed

section \<open>Preferences\<close>

text \<open>What a preference should be after an update: the values of the update over the old ones, or over the defaults.\<close>

definition settings :: "NotificationPreference \<Rightarrow> bool \<times> bool \<times> bool" where
  "settings p = (np_in_app_enabled p, np_email_enabled p, np_push_enabled p)"

definition overridden :: "PreferenceUpdate \<Rightarrow> bool \<times> bool \<times> bool \<Rightarrow> bool \<times> bool \<times> bool" where
  "overridden changes old =
     (case old of (a, b, c) \<Rightarrow>
        (set_or (npu_in_app_enabled changes) a, set_or (npu_email_enabled changes) b, set_or (npu_push_enabled changes) c))"

definition preferences_of :: "uuid \<Rightarrow> NotificationType \<Rightarrow> database \<Rightarrow> NotificationPreference list" where
  "preferences_of user_id notif_type d =
     filter (\<lambda>p. np_user_id p = user_id \<and> np_notification_type p = notif_type) (notification_preferences d)"

text \<open>Updating a preference leaves exactly one preference of the user for the type: the one returned, with
  the values of the update over what was set before, or over the defaults when there was none.\<close>

lemma update_preference_effect:
  assumes run: "update_preference user_id ws notif_type changes w = (Inr p, w')"
    and ok: "distinct (map np_id (notification_preferences (db w)))"
  shows "preferences_of user_id notif_type (db w') = [p] \<and>
    settings p = overridden changes
      (case preferences_of user_id notif_type (db w) of [] \<Rightarrow> (True, True, False) | q # _ \<Rightarrow> settings q)"
proof -
  let ?own = "\<lambda>p. np_user_id p = user_id \<and> np_notification_type p = notif_type"
  obtain found where f: "get_by_user_and_type user_id notif_type w = (Inr found, w)"
    and k: "(case found of
       None \<Rightarrow> create NotificationPreference_model (new_preference user_id ws notif_type changes)
     | Some pref \<Rightarrow> thenM (raise_if (nulls_preference changes) IntegrityError)
         (update NotificationPreference_model (np_id pref) (assign_preference changes))) w = (Inr p, w')"
    using run unfolding update_preference_def
    by (elim run_elims) (auto simp: get_by_user_and_type_def dest: scalar_one_or_none_state)
  show ?thesis
  proof (cases found)
    case None
    with k have c: "create NotificationPreference_model (new_preference user_id ws notif_type changes) w = (Inr p, w')"
      by simp
    from f None have "preferences_of user_id notif_type (db w) = []"
      by (simp add: preferences_of_def get_by_user_and_type_def scalar_one_or_none_None)
    with preference_repo.create_row(1,2) [OF c] show ?thesis
      by (simp add: preferences_of_def new_preference_def settings_def overridden_def)
  next
    case (Some q)
    with f have q: "preferences_of user_id notif_type (db w) = [q]"
      by (simp add: preferences_of_def get_by_user_and_type_def scalar_one_or_none_Some)
    then have mem: "q \<in> set (notification_preferences (db w))" "?own q"
      by (auto simp: preferences_of_def filter_eq_Cons_iff)
    have up: "update NotificationPreference_model (pk NotificationPreference_model q) (assign_preference changes) w = (Inr p, w')"
      using k Some by (auto split: if_splits)
    obtain t where t: "p = (if assign_preference changes q = q then q
        else touch NotificationPreference_model t (assign_preference changes q))"
      "notification_preferences (db w') = edit_row np_id (np_id q)
        (\<lambda>x. if assign_preference changes x = x then x
             else touch NotificationPreference_model t (assign_preference changes x)) (notification_preferences (db w))"
      by (rule preference_repo.update_found [OF _ _ _ up])
        (use ok mem in \<open>auto simp: assign_preference_def\<close>)
    have "settings p = overridden changes (settings q)"
      using t(1) by (cases "assign_preference changes q = q")
        (auto simp: settings_def overridden_def assign_preference_def dest: arg_cong [of _ _ settings])
    moreover have "preferences_of user_id notif_type (db w') = [p]"
    proof -
      let ?g = "\<lambda>x. if np_id x = np_id q then (if assign_preference changes x = x then x
             else touch NotificationPreference_model t (assign_preference changes x)) else x"
      have own: "?own (?g x) \<longleftrightarrow> ?own x" for x by (simp add: assign_preference_def)
      have "preferences_of user_id notif_type (db w') = map ?g (filter ?own (notification_preferences (db w)))"
        unfolding preferences_of_def t(2) edit_row_def filter_map comp_def own by simp
      also have "\<dots> = [?g q]" using q by (simp add: preferences_of_def)
      finally show ?thesis using t(1) by simp
    qed
    ultimately show ?thesis using q by simp
  qed
qed

section \<open>Witnesses\<close>

definition fx_note :: Notification where
  "fx_note = (new_notification 20 2 ''Hello'' ''World'' NotificationType_SYSTEM NotificationPriority_LOW)\<lparr>n_id := 91\<rparr>"

definition fx_inbox :: world where
  "fx_inbox = world_of (fx_database
     \<lparr>permissions := [\<lparr>p_id = 60, p_stamp = no_stamp, p_name = ''notifications.read'',
        p_resource = ''notifications'', p_action = ''read'', p_description = None, p_is_system = True\<rparr>],
      role_permissions := [\<lparr>rp_id = 61, rp_role_id = 11, rp_permission_id = 60, rp_created_at = 0\<rparr>],
      notifications := [fx_note]\<rparr>)"

lemma read_mark_is_lost_witness:
  "\<exists>n w'. route_mark_as_read fx_decode ''token'' 20 91 fx_inbox = (Inr (Some n), w') \<and> n_read_at n \<noteq> None \<and>
     notifications (committed w') = [fx_note]"
proof -
  have "succeeds (route_mark_as_read fx_decode ''token'' 20 91) fx_inbox" by code_simp
  then obtain n w' where run: "route_mark_as_read fx_decode ''token'' 20 91 fx_inbox = (Inr n, w')"
    by (rule succeedsE)
  have "db fx_inbox = committed fx_inbox" "distinct (map n_id (notifications (committed fx_inbox)))"
    by (simp_all add: fx_inbox_def)
  from read_mark_is_lost [OF run this] run show ?thesis by (auto simp: fx_inbox_def)
qed

definition fx_mute :: PreferenceUpdate where
  "fx_mute = \<lparr>npu_in_app_enabled = None, npu_email_enabled = Some (Some False), npu_push_enabled = None\<rparr>"

lemma update_preference_effect_witness:
  "\<exists>p w'. update_preference 2 20 NotificationType_ALERT fx_mute fx_inbox = (Inr p, w') \<and>
     settings p = (True, False, False) \<and> preferences_of 2 NotificationType_ALERT (db w') = [p]"
proof -
  have "succeeds (update_preference 2 20 NotificationType_ALERT fx_mute) fx_inbox" by code_simp
  then obtain p w' where run: "update_preference 2 20 NotificationType_ALERT fx_mute fx_inbox = (Inr p, w')"
    by (rule succeedsE)
  have "distinct (map np_id (notification_preferences (db fx_inbox)))"
    by (simp add: fx_inbox_def fx_database_def empty_database_def)
  from update_preference_effect [OF run this] run show ?thesis
    by (auto simp: preferences_of_def fx_inbox_def fx_database_def empty_database_def overridden_def fx_mute_def set_or_def)
qed

lemma in_app_never_stored_witness:
  "\<exists>w'. in_app_send 2 ''Hello'' ''World'' (Some [(''workspace_id'', JStr ''00000000-0000-0000-0000-000000000014'')]) fx_inbox
       = (Inr True, w') \<and> notifications (committed w') = [fx_note]"
proof -
  let ?send = "in_app_send 2 ''Hello'' ''World'' (Some [(''workspace_id'', JStr ''00000000-0000-0000-0000-000000000014'')])"
  have "fst (?send fx_inbox) = Inr True" by code_simp
  with in_app_never_stored [of 2 "''Hello''" "''World''"
      "Some [(''workspace_id'', JStr ''00000000-0000-0000-0000-000000000014'')]" fx_inbox]
  show ?thesis by (auto simp: fx_inbox_def)
qed

end
