(* ===== verification/Platform_Operations.thy ===== *)
theory Platform_Operations
  imports Unique_Indexes Committed_Steps
begin

text \<open>
  The operations of the platform: runtime configuration, feature flags, announcements
  (\<open>app/operations/configuration\<close>, \<open>feature_flags\<close>, \<open>announcements\<close>: services and routers) and the maintenance
  mode (\<open>app/operations/maintenance/middleware.py\<close>). The routes need no user.
\<close>

section \<open>Runtime configuration\<close>

definition get_config :: "string \<Rightarrow> ('z, string option) io" where
  "get_config key =
     bindM (select RuntimeConfiguration_model (\<lambda>c. rc_key c = key \<and> rc_is_active c))
       (\<lambda>cs. returnM (map_option rc_value (scalars_first cs)))"

definition get_all_configs :: "('z, RuntimeConfiguration list) io" where
  "get_all_configs = select RuntimeConfiguration_model (\<lambda>_. True)"

definition new_config :: "string \<Rightarrow> string \<Rightarrow> DataType \<Rightarrow> RuntimeConfiguration" where
  "new_config key val data_type =
     \<lparr>rc_id = 0, rc_stamp = no_stamp, rc_key = key, rc_value = val, rc_data_type = data_type,
      rc_description = None, rc_is_active = True\<rparr>"

definition assign_config :: "string \<Rightarrow> DataType \<Rightarrow> RuntimeConfiguration \<Rightarrow> RuntimeConfiguration" where
  "assign_config val data_type c = c\<lparr>rc_value := val, rc_data_type := data_type, rc_is_active := True\<rparr>"

definition set_config :: "string \<Rightarrow> string \<Rightarrow> DataType \<Rightarrow> ('z, RuntimeConfiguration) io" where
  "set_config key val data_type =
     bindM (select RuntimeConfiguration_model (\<lambda>c. rc_key c = key)) (\<lambda>cs.
     then_commit
       (case scalars_first cs of
          Some config \<Rightarrow> update RuntimeConfiguration_model (rc_id config) (assign_config val data_type)
        | None \<Rightarrow> create RuntimeConfiguration_model (new_config key val data_type)))"

definition route_get_all_configs :: "('z, RuntimeConfiguration list) io" where
  "route_get_all_configs = get_db_session get_all_configs"

section \<open>Feature flags\<close>

definition is_enabled :: "string \<Rightarrow> uuid option \<Rightarrow> ('z, bool) io" where
  "is_enabled flag_key workspace_id =
     bindM (case workspace_id of
              None \<Rightarrow> returnM None
            | Some ws \<Rightarrow>
                bindM (select WorkspaceFeature_model (\<lambda>f. wf_flag_key f = flag_key \<and> wf_workspace_id f = ws))
                  (\<lambda>fs. returnM (scalars_first fs))) (\<lambda>ws_flag.
     case ws_flag of
       Some f \<Rightarrow> returnM (wf_is_enabled f)
     | None \<Rightarrow>
         bindM (select FeatureFlag_model (\<lambda>f. ff_key f = flag_key)) (\<lambda>fs.
           returnM (case scalars_first fs of None \<Rightarrow> False | Some f \<Rightarrow> ff_is_enabled f)))"

definition get_all_flags :: "('z, FeatureFlag list) io" where
  "get_all_flags = select FeatureFlag_model (\<lambda>_. True)"

definition route_get_feature_flags :: "('z, FeatureFlag list) io" where
  "route_get_feature_flags = get_db_session get_all_flags"

section \<open>Announcements\<close>

text \<open>
  \<open>SystemAnnouncement.starts_at is None\<close> compares the column object with \<open>None\<close> in Python, so the query gets the
  constant false; a comparison of \<open>NULL\<close> selects nothing.
\<close>

definition sql_compare :: "(time \<Rightarrow> time \<Rightarrow> bool) \<Rightarrow> time option \<Rightarrow> time \<Rightarrow> bool" where
  "sql_compare le x now = (case x of None \<Rightarrow> False | Some t \<Rightarrow> le t now)"

definition announced :: "time \<Rightarrow> SystemAnnouncement \<Rightarrow> bool" where
  "announced now a \<longleftrightarrow>
     an_is_active a \<and> (False \<or> sql_compare (\<le>) (an_starts_at a) now) \<and>
     (False \<or> sql_compare (\<ge>) (an_expires_at a) now)"

definition get_active_announcements :: "('z, SystemAnnouncement list) io" where
  "get_active_announcements =
     bindM get_utc_now (\<lambda>now.
     bindM (select SystemAnnouncement_model (announced now)) (\<lambda>as.
       returnM (sort_desc an_priority (sort_desc (\<lambda>a. created_at (an_stamp a)) as))))"

definition new_announcement :: "string \<Rightarrow> string \<Rightarrow> string \<Rightarrow> int \<Rightarrow> SystemAnnouncement" where
  "new_announcement title message kind priority =
     \<lparr>an_id = 0, an_stamp = no_stamp, an_title = title, an_message = message, an_type = kind,
      an_priority = priority, an_starts_at = None, an_expires_at = None, an_dismissible = True,
      an_is_active = True\<rparr>"

definition create_announcement :: "string \<Rightarrow> string \<Rightarrow> string \<Rightarrow> int \<Rightarrow> ('z, SystemAnnouncement) io" where
  "create_announcement title message kind priority =
     then_commit (create SystemAnnouncement_model (new_announcement title message kind priority))"

definition route_get_active_announcements :: "('z, SystemAnnouncement list) io" where
  "route_get_active_announcements = get_db_session get_active_announcements"

section \<open>Maintenance mode\<close>

text \<open>
  The middleware: the state comes from a callback, \<open>call_next\<close> is the rest of the application; \<open>Inl\<close> is an answer
  of the middleware itself.
\<close>

definition maintenance_dispatch ::
  "('z, string) io option \<Rightarrow> string \<Rightarrow> string \<Rightarrow> ('z, 'r) io \<Rightarrow> ('z, (nat \<times> string) + 'r) io" where
  "maintenance_dispatch get_maintenance_state path method call_next =
     (let pass = bindM call_next (\<lambda>r. returnM (Inr r)) in
      case get_maintenance_state of
        None \<Rightarrow> pass
      | Some state \<Rightarrow>
          if take 14 path = ''/api/v1/health'' \<or> take 13 path = ''/api/v1/admin'' then pass
          else bindM state (\<lambda>mode.
            if mode = ''MAINTENANCE'' then
              returnM (Inl (503, ''System is currently undergoing maintenance. Please try again later.''))
            else if mode = ''READ_ONLY'' \<and> method \<notin> {''GET'', ''HEAD'', ''OPTIONS''} then
              returnM (Inl (403, ''System is in read-only mode for maintenance.''))
            else pass))"

text \<open>\<open>get_maintenance_mode\<close> of \<open>app/main.py\<close>\<close>

definition get_maintenance_mode :: "('z, string) io" where
  "get_maintenance_mode = returnM ''NORMAL''"

text \<open>The mode is a constant, so the middleware of the application lets every request pass.\<close>

lemma normal_mode_passes:
  "maintenance_dispatch (Some get_maintenance_mode) path method call_next = bindM call_next (\<lambda>r. returnM (Inr r))"
  by (rule ext) (simp add: maintenance_dispatch_def get_maintenance_mode_def bindM_def returnM_def Let_def)

section \<open>A configuration is read back\<close>

interpretation configs: unique_index RuntimeConfiguration_model rc_key "\<lambda>_. True"
  by unfold_locales (auto simp: valid_RuntimeConfiguration_def)

definition configs_keyed :: "RuntimeConfiguration list \<Rightarrow> bool" where
  "configs_keyed cs \<longleftrightarrow> distinct (map rc_id cs) \<and> distinct (map rc_key cs)"

definition value_of :: "string \<Rightarrow> RuntimeConfiguration list \<Rightarrow> string option" where
  "value_of key cs = map_option rc_value (scalars_first (filter (\<lambda>c. rc_key c = key \<and> rc_is_active c) cs))"

lemma get_config_run: "get_config key w = (Inr (value_of key (runtime_configurations (db w))), w)"
  by (simp add: get_config_def value_of_def)

lemma value_of_edit:
  assumes k: "configs_keyed cs" and c: "c \<in> set cs" and e: "rc_key e = rc_key c" "rc_id e = rc_id c" "rc_is_active e"
  shows "value_of key (edit_row rc_id (rc_id c) (\<lambda>_. e) cs) =
    (if key = rc_key c then Some (rc_value e) else value_of key cs)"
  using k c
proof (induction cs)
  case (Cons x xs)
  show ?case
  proof (cases "x = c")
    case True
    have "edit_row rc_id (rc_id c) (\<lambda>_. e) xs = xs"
      unfolding edit_row_def by (rule map_idI) (use Cons.prems True in \<open>auto simp: configs_keyed_def rev_image_eqI\<close>)
    with True e show ?thesis by (simp add: value_of_def edit_row_def scalars_first_def)
  next
    case False
    with Cons.prems have c: "c \<in> set xs" and ne: "rc_id x \<noteq> rc_id c" "rc_key x \<noteq> rc_key c"
      by (auto simp: configs_keyed_def)
    have "configs_keyed xs" using Cons.prems(1) by (simp add: configs_keyed_def)
    from Cons.IH [OF this c] ne show ?thesis by (auto simp: value_of_def edit_row_def scalars_first_def)
  qed
qed simp

text \<open>C34 (roundtrip). What was set is read back, committed, whether the key was new, known or switched off before; every
  other key keeps its value, and no two rows share a key.\<close>

theorem config_roundtrip:
  assumes run: "set_config key val data_type w = (Inr c, w')"
    and k: "configs_keyed (runtime_configurations (db w))"
  shows "get_config key w' = (Inr (Some val), w') \<and>
    (\<forall>other. other \<noteq> key \<longrightarrow> get_config other w' = (Inr (value_of other (runtime_configurations (db w))), w')) \<and>
    configs_keyed (runtime_configurations (db w')) \<and> committed w' = db w'"
proof -
  let ?cs = "runtime_configurations (db w)"
  obtain w1 where w1: "(case scalars_first (filter (\<lambda>c. rc_key c = key) ?cs) of
          Some config \<Rightarrow> update RuntimeConfiguration_model (rc_id config) (assign_config val data_type)
        | None \<Rightarrow> create RuntimeConfiguration_model (new_config key val data_type)) w = (Inr c, w1)"
    and w': "committed w' = db w1" "db w' = db w1"
    using run unfolding set_config_def by (auto elim: then_commit_InrE)
  have step: "configs_keyed (runtime_configurations (db w1)) \<and>
    (\<forall>x. value_of x (runtime_configurations (db w1)) = (if x = key then Some val else value_of x ?cs))"
  proof (cases "scalars_first (filter (\<lambda>c. rc_key c = key) ?cs)")
    case None
    then have none: "filter (\<lambda>c. rc_key c = key) ?cs = []" by (simp add: scalars_first_def split: list.splits)
    from None w1 have cr: "create RuntimeConfiguration_model (new_config key val data_type) w = (Inr c, w1)" by simp
    note row = config_repo.create_row [OF cr]
    have "configs_keyed (runtime_configurations (db w1))"
      using obeysD [OF configs.index_create cr] k by (simp add: configs.indexed_def configs_keyed_def)
    moreover have "value_of x (runtime_configurations (db w1)) = (if x = key then Some val else value_of x ?cs)" for x
      using row(1,2) none by (auto simp: value_of_def new_config_def scalars_first_def filter_empty_conv
          split: list.splits)
    ultimately show ?thesis by simp
  next
    case (Some e)
    then have e: "e \<in> set ?cs" "rc_key e = key" by (auto dest: scalars_first_Some)
    from Some w1 have up: "update RuntimeConfiguration_model (pk RuntimeConfiguration_model e) (assign_config val data_type) w
        = (Inr c, w1)" by simp
    let ?f = "assign_config val data_type"
    obtain t where t: "c = (if ?f e = e then e else touch RuntimeConfiguration_model t (?f e))"
      "runtime_configurations (db w1) = edit_row rc_id (rc_id e)
        (\<lambda>x. if ?f x = x then x else touch RuntimeConfiguration_model t (?f x)) ?cs"
      by (rule config_repo.update_found [OF _ _ _ up])
        (use k e in \<open>auto simp: assign_config_def configs_keyed_def\<close>)
    have the: "x = e" if "x \<in> set ?cs" "rc_id x = rc_id e" for x
      using that k e unfolding configs_keyed_def by (blast intro: distinct_map_inj)
    have tab: "runtime_configurations (db w1) = edit_row rc_id (rc_id e) (\<lambda>_. c) ?cs"
      unfolding t(2) edit_row_def by (rule map_cong [OF refl]) (use the t(1) in auto)
    have c: "rc_key c = rc_key e" "rc_id c = rc_id e" "rc_is_active c" "rc_value c = val"
      using t(1) by (cases "?f e = e"; auto simp: assign_config_def dest: arg_cong [of _ _ rc_is_active]
          arg_cong [of _ _ rc_value])+
    have "configs_keyed (runtime_configurations (db w1))"
      using obeysD [OF configs.index_update up] k by (simp add: configs.indexed_def configs_keyed_def)
    with value_of_edit [OF k e(1) c(1-3)] c(4) e(2) tab show ?thesis by simp
  qed
  then show ?thesis using w' by (simp add: get_config_run)
qed

section \<open>Flags\<close>

text \<open>An override decides; without one the global flag does; an unknown flag is off.\<close>

lemma flag_with_override:
  "f \<in> set (workspace_features (db w)) \<Longrightarrow> wf_flag_key f = key \<Longrightarrow> wf_workspace_id f = ws \<Longrightarrow>
   \<exists>g \<in> set (workspace_features (db w)). wf_flag_key g = key \<and> wf_workspace_id g = ws \<and>
     is_enabled key (Some ws) w = (Inr (wf_is_enabled g), w)"
  by (cases "filter (\<lambda>f. wf_flag_key f = key \<and> wf_workspace_id f = ws) (workspace_features (db w))")
    (auto simp: is_enabled_def scalars_first_def bindM_assoc filter_empty_conv filter_eq_Cons_iff)

lemma flag_without_override:
  "(\<forall>f \<in> set (workspace_features (db w)). wf_flag_key f \<noteq> key \<or> Some (wf_workspace_id f) \<noteq> ws) \<Longrightarrow>
   is_enabled key ws w = is_enabled key None w"
  by (cases ws) (auto simp: is_enabled_def scalars_first_def bindM_assoc filter_empty_conv split: list.splits
      dest!: filter_eq_ConsD)

lemma flag_unknown:
  "\<forall>f \<in> set (feature_flags (db w)). ff_key f \<noteq> key \<Longrightarrow> is_enabled key None w = (Inr False, w)"
  by (simp add: is_enabled_def scalars_first_def bindM_assoc filter_False)

section \<open>No announcement is ever shown\<close>

inductive announcing :: "world \<Rightarrow> world \<Rightarrow> bool" where
  announce: "create_announcement title message kind priority w = (r, w') \<Longrightarrow> announcing w w'"
| read: "route_get_active_announcements w = (s, w') \<Longrightarrow> announcing w w'"

definition undated :: "SystemAnnouncement list \<Rightarrow> bool" where
  "undated as \<longleftrightarrow> list_all (\<lambda>a. an_starts_at a = None) as"

interpretation board: table_step system_announcements "\<lambda>xs ys. undated xs \<longrightarrow> undated ys"
  by unfold_locales auto

lemma board_create: "obeys board.rel (create SystemAnnouncement_model (new_announcement title message kind priority))"
  by (rule obeysI) (auto simp: create_def flush_new_def insert_row_def undated_def new_announcement_def split: if_splits)

lemma since_announcing:
  "obeys (keeps (board.since as)) (create_announcement title message kind priority)"
  "obeys (keeps (board.since as)) route_get_active_announcements"
  unfolding create_announcement_def route_get_active_announcements_def get_active_announcements_def
  by (intro board.since_then_commit board.since_statement board_create uncommitted.same_create)
    (intro board.since_request board.since_statement board.handler_intros uncommitted.same_intros)

text \<open>However many announcements the service creates, and whenever they are asked for, none is ever shown: the
  service sets no start, and the query selects only announcements that have started.\<close>

lemma announcements_never_shown:
  assumes "announcing\<^sup>*\<^sup>* w w'" and "db w = committed w" and "system_announcements (committed w) = []"
  shows "result_of route_get_active_announcements w' = Inr []"
proof -
  have "board.since (system_announcements (committed w)) w'"
    by (rule board.since_reach [OF assms(1) _ assms(2)])
      (erule announcing.cases; blast intro: obeysD since_announcing)
  then have "undated (system_announcements (db w'))"
    using assms(3) unfolding board.since_def by (simp add: undated_def)
  then have "filter (announced now) (system_announcements (db w')) = []" for now
    by (auto simp: undated_def list_all_iff announced_def sql_compare_def filter_empty_conv)
  then show ?thesis
    by (simp add: result_of_def route_get_active_announcements_def get_active_announcements_def get_db_session_def
        with_session_def sort_desc_def)
qed

section \<open>Witnesses\<close>

definition fx_config :: RuntimeConfiguration where
  "fx_config = (new_config ''theme'' ''dark'' DataType_STRING)\<lparr>rc_id := 95, rc_is_active := False\<rparr>"

definition fx_platform :: world where
  "fx_platform = world_of (fx_database\<lparr>runtime_configurations := [fx_config]\<rparr>)"

lemma config_roundtrip_witness:
  "\<exists>c w'. set_config ''theme'' ''light'' DataType_STRING fx_platform = (Inr c, w') \<and>
     get_config ''theme'' fx_platform = (Inr None, fx_platform) \<and> get_config ''theme'' w' = (Inr (Some ''light''), w')"
proof -
  have "succeeds (set_config ''theme'' ''light'' DataType_STRING) fx_platform" by code_simp
  then obtain c w' where run: "set_config ''theme'' ''light'' DataType_STRING fx_platform = (Inr c, w')"
    by (rule succeedsE)
  have "configs_keyed (runtime_configurations (db fx_platform))" by (simp add: fx_platform_def configs_keyed_def)
  from config_roundtrip [OF run this] run show ?thesis
    by (auto simp: get_config_run fx_platform_def fx_config_def value_of_def scalars_first_def new_config_def)
qed

lemma announcements_never_shown_witness:
  "\<exists>w'. announcing\<^sup>*\<^sup>* fx_platform w' \<and> system_announcements (committed w') \<noteq> [] \<and>
     result_of route_get_active_announcements w' = Inr []"
proof -
  let ?create = "create_announcement ''Sale'' ''Now'' ''info'' 1"
  obtain r w' where run: "?create fx_platform = (r, w')" by fastforce
  have "system_announcements (committed (snd (?create fx_platform))) \<noteq> []" by code_simp
  with run have some: "system_announcements (committed w') \<noteq> []" by simp
  have reach: "announcing\<^sup>*\<^sup>* fx_platform w'" using run by (blast intro: announcing.announce)
  have "db fx_platform = committed fx_platform" "system_announcements (committed fx_platform) = []"
    by (simp_all add: fx_platform_def fx_database_def empty_database_def)
  from announcements_never_shown [OF reach this] reach some show ?thesis by blast
qed

end
