(* ===== verification/Events.thy ===== *)
theory Events
  imports Jobs "HOL-Library.Multiset"
begin

text \<open>
  The event system (\<open>app/events\<close>): the event, the registry of handlers, the publisher, the dispatcher and the
  handlers. Publishing creates a task of the event loop and returns at once. A dispatch looks up the handlers when
  it runs and gathers one guarded call per handler; the loop runs what is scheduled in any order. A call of a
  handler is one step here: its own statements are not interleaved with those of another handler. A handler is an
  object of one of the source's classes. \<open>handled\<close> records the calls that were made.
\<close>

section \<open>Events, handlers, the loop\<close>

datatype EventPriority = EventPriority_LOW | EventPriority_NORMAL | EventPriority_HIGH | EventPriority_CRITICAL

record BaseEvent =
  event_id :: uuid
  event_name :: string
  event_version :: string
  ev_workspace_id :: "uuid option"
  ev_actor_id :: "uuid option"
  ev_timestamp :: time
  ev_correlation_id :: "string option"
  ev_priority :: EventPriority
  ev_payload :: json_object
  ev_metadata :: json_object

datatype handler_class =
  LoggingHandler | AuditHandler | NotificationHandler | AnalyticsHandler | WebhookHandler

type_synonym handler = "handler_class \<times> nat"

record event_world = world +
  registry :: "string \<Rightarrow> handler list"
  dispatches :: "BaseEvent list"
  calls :: "(BaseEvent \<times> handler) list"
  handled :: "(BaseEvent \<times> handler) list"

type_synonym ('z, 'a) eio = "('z event_world_scheme, 'a) action"

text \<open>\<open>BaseEvent(event_name=..., workspace_id=..., correlation_id=str(uuid.uuid4()), payload=..., metadata=...)\<close>\<close>

definition new_event :: "string \<Rightarrow> uuid \<Rightarrow> json_object \<Rightarrow> json_object \<Rightarrow> ('z, BaseEvent) io" where
  "new_event name ws payload metadata =
     bindM uuid4 (\<lambda>correlation_id.
     bindM uuid4 (\<lambda>i.
     bindM get_utc_now (\<lambda>now.
       returnM
         \<lparr>event_id = i, event_name = name, event_version = ''1.0'', ev_workspace_id = Some ws, ev_actor_id = None,
          ev_timestamp = now, ev_correlation_id = Some (str_uuid correlation_id),
          ev_priority = EventPriority_NORMAL, ev_payload = payload, ev_metadata = metadata\<rparr>)))"

section \<open>The registry\<close>

definition get_handlers :: "string \<Rightarrow> (string \<Rightarrow> handler list) \<Rightarrow> handler list" where
  "get_handlers name reg = reg name"

definition register_handler :: "string \<Rightarrow> handler \<Rightarrow> (string \<Rightarrow> handler list) \<Rightarrow> string \<Rightarrow> handler list" where
  "register_handler name h reg = (if h \<notin> set (reg name) then reg(name := reg name @ [h]) else reg)"

definition remove_handler :: "string \<Rightarrow> handler \<Rightarrow> (string \<Rightarrow> handler list) \<Rightarrow> string \<Rightarrow> handler list" where
  "remove_handler name h reg = (if h \<in> set (reg name) then reg(name := remove1 h (reg name)) else reg)"

section \<open>The handlers\<close>

definition handle_analytics :: "'z broker \<Rightarrow> BaseEvent \<Rightarrow> ('z, unit) io" where
  "handle_analytics broker event =
     thenM (enqueue broker ''analytics.refresh_dashboard''
       [(''event_name'', JStr (event_name event)), (''event_id'', JStr (str_uuid (event_id event))),
        (''workspace_id'', case ev_workspace_id event of None \<Rightarrow> JNull | Some i \<Rightarrow> JStr (str_uuid i))]
       ''default'' JobPriority_DEFAULT 0 3) (returnM ())"

definition handle_notification :: "'z broker \<Rightarrow> BaseEvent \<Rightarrow> ('z, unit) io" where
  "handle_notification broker event =
     thenM (enqueue broker ''notifications.process_event''
       [(''event_name'', JStr (event_name event)), (''event_id'', JStr (str_uuid (event_id event))),
        (''actor_id'', case ev_actor_id event of None \<Rightarrow> JNull | Some i \<Rightarrow> JStr (str_uuid i))]
       ''high'' JobPriority_DEFAULT 0 3) (returnM ())"

text \<open>\<open>async with SessionLocal() as db\<close>: the session of the synchronous engine is no asynchronous context manager.\<close>

definition handle_audit :: "BaseEvent \<Rightarrow> ('z, unit) io" where
  "handle_audit event = raiseM (TypeError ''asynchronous context manager protocol'')"

fun handle :: "'z broker \<Rightarrow> handler_class \<Rightarrow> BaseEvent \<Rightarrow> ('z, unit) io" where
  "handle broker LoggingHandler event = returnM ()"
| "handle broker AuditHandler event = handle_audit event"
| "handle broker NotificationHandler event = handle_notification broker event"
| "handle broker AnalyticsHandler event = handle_analytics broker event"
| "handle broker WebhookHandler event = returnM ()"

section \<open>Publishing and dispatching\<close>

definition publish_event :: "BaseEvent \<Rightarrow> ('z, unit) eio" where
  "publish_event event = modifyM (\<lambda>w. w\<lparr>dispatches := dispatches w @ [event]\<rparr>)"

definition publish_many :: "BaseEvent list \<Rightarrow> ('z, unit) eio" where
  "publish_many events = forM events publish_event"

definition start_dispatch :: "BaseEvent \<Rightarrow> ('z, unit) eio" where
  "start_dispatch event =
     modifyM (\<lambda>w. w\<lparr>calls := calls w @ map (Pair event) (get_handlers (event_name event) (registry w))\<rparr>)"

definition safe_execute :: "'z event_world_ext broker \<Rightarrow> handler \<Rightarrow> BaseEvent \<Rightarrow> ('z, unit) eio" where
  "safe_execute broker h event =
     thenM (catchM (handle broker (fst h) event) (\<lambda>e. returnM ()))
       (modifyM (\<lambda>w. w\<lparr>handled := handled w @ [(event, h)]\<rparr>))"

inductive loop_step :: "'z event_world_ext broker \<Rightarrow> 'z event_world_scheme \<Rightarrow> 'z event_world_scheme \<Rightarrow> bool"
  for broker where
  dispatch: "dispatches w = xs @ event # ys \<Longrightarrow> start_dispatch event (w\<lparr>dispatches := xs @ ys\<rparr>) = (r, w') \<Longrightarrow>
     loop_step broker w w'"
| execute: "calls w = xs @ (event, h) # ys \<Longrightarrow> safe_execute broker h event (w\<lparr>calls := xs @ ys\<rparr>) = (r, w') \<Longrightarrow>
     loop_step broker w w'"

section \<open>The registry holds a handler once\<close>

inductive registered :: "(string \<Rightarrow> handler list) \<Rightarrow> bool" where
  empty: "registered (\<lambda>_. [])"
| register: "registered reg \<Longrightarrow> registered (register_handler name h reg)"
| remove: "registered reg \<Longrightarrow> registered (remove_handler name h reg)"

lemma registered_distinct: "registered reg \<Longrightarrow> distinct (get_handlers name reg)"
  by (induction rule: registered.induct) (auto simp: get_handlers_def register_handler_def remove_handler_def)

lemma registered_members:
  "registered reg \<Longrightarrow> set (get_handlers n (remove_handler name h reg)) =
     set (get_handlers n reg) - (if n = name then {h} else {})"
  "set (get_handlers n (register_handler name h reg)) = set (get_handlers n reg) \<union> (if n = name then {h} else {})"
  using registered_distinct [of reg name]
  by (auto simp: get_handlers_def register_handler_def remove_handler_def)

section \<open>Every event reaches every handler once\<close>

text \<open>What the calls of the handlers leave alone: the scheduling of the loop.\<close>

interpretation loop: beyond_session "\<lambda>w. (registry w, dispatches w, calls w, handled w)"
  by unfold_locales simp_all

definition broker_apart :: "'z event_world_ext broker \<Rightarrow> bool" where
  "broker_apart broker \<longleftrightarrow> (\<forall>name payload queue countdown. obeys loop.same (broker name payload queue countdown))"

lemma loop_commit: "obeys loop.same commit"
  by (simp add: obeys_def loop.same_def)

lemma loop_session: "obeys loop.same m \<Longrightarrow> obeys loop.same (with_session m)"
proof (rule obeysI)
  fix w r w'
  assume m: "obeys loop.same m" and "with_session m w = (r, w')"
  then obtain v where "m w = (r, v)" "w' = v\<lparr>db := committed v\<rparr>"
    by (auto simp: with_session_def split: prod.splits)
  with obeysD [OF m this(1)] show "loop.same w w'" by (simp add: loop.same_def)
qed

lemma loop_enqueue:
  assumes "broker_apart broker"
  shows "obeys loop.same (enqueue broker name payload queue priority countdown attempts)"
  using assms unfolding enqueue_def serialize_def create_job_def mark_failed_def repo_mark_failed_def Let_def
  by (intro loop.same_intros loop_session loop_commit)
    (auto simp: broker_apart_def split: option.splits json.splits intro!: loop.obeys_return loop.obeys_raise)

lemma loop_handle: "broker_apart broker \<Longrightarrow> obeys loop.same (handle broker c event)"
  by (cases c)
    (auto simp: handle_analytics_def handle_notification_def handle_audit_def
      intro!: loop.obeys_then loop.obeys_return loop.obeys_raise loop_enqueue)

lemma safe_execute_run:
  assumes "broker_apart broker" and "safe_execute broker h event w = (r, w')"
  shows "r = Inr ()" "registry w' = registry w" "dispatches w' = dispatches w" "calls w' = calls w"
    "handled w' = handled w @ [(event, h)]"
proof -
  obtain x v where v: "catchM (handle broker (fst h) event) (\<lambda>e. returnM ()) w = (x, v)" by fastforce
  then have x: "x = Inr ()"
    by (auto simp: catchM_def split: prod.splits sum.splits)
  have "obeys loop.same (catchM (handle broker (fst h) event) (\<lambda>e. returnM ()))"
    by (intro loop.obeys_catch loop.obeys_return loop_handle assms(1))
  from obeysD [OF this v] have "loop.same w v" .
  with assms(2) v x
  show "r = Inr ()" "registry w' = registry w" "dispatches w' = dispatches w" "calls w' = calls w"
    "handled w' = handled w @ [(event, h)]"
    by (auto simp: safe_execute_def loop.same_def bindM_def)
qed

text \<open>The calls that an event still has to make, and the work the loop still has.\<close>

definition fan_out :: "(string \<Rightarrow> handler list) \<Rightarrow> BaseEvent list \<Rightarrow> (BaseEvent \<times> handler) list" where
  "fan_out reg events = concat (map (\<lambda>e. map (Pair e) (get_handlers (event_name e) reg)) events)"

definition deliveries :: "'z event_world_scheme \<Rightarrow> (BaseEvent \<times> handler) multiset" where
  "deliveries w = mset (handled w) + mset (calls w) + mset (fan_out (registry w) (dispatches w))"

definition work :: "'z event_world_scheme \<Rightarrow> nat" where
  "work w = length (dispatches w) + length (fan_out (registry w) (dispatches w)) + length (calls w)"

lemma fan_out_simps [simp]:
  "fan_out reg (xs @ ys) = fan_out reg xs @ fan_out reg ys"
  "fan_out reg (e # es) = map (Pair e) (get_handlers (event_name e) reg) @ fan_out reg es"
  "fan_out reg [] = []"
  by (simp_all add: fan_out_def)

lemma loop_step_progress:
  assumes "loop_step broker w w'" and "broker_apart broker"
  shows "deliveries w' = deliveries w" "work w = Suc (work w')" "registry w' = registry w"
proof -
  have "deliveries w' = deliveries w \<and> work w = Suc (work w') \<and> registry w' = registry w"
    using assms(1)
  proof cases
    case (dispatch xs event ys r)
    then show ?thesis by (auto simp: start_dispatch_def deliveries_def work_def)
  next
    case (execute xs event h ys r)
    from safe_execute_run [OF assms(2) execute(2)] execute(1)
    show ?thesis by (simp add: deliveries_def work_def)
  qed
  then show "deliveries w' = deliveries w" "work w = Suc (work w')" "registry w' = registry w" by simp_all
qed

lemma loop_progress:
  assumes "(loop_step broker ^^ n) w w'" and "broker_apart broker"
  shows "deliveries w' = deliveries w" "work w = n + work w'"
  using assms(1) by (induction n arbitrary: w') (auto dest: loop_step_progress [OF _ assms(2)])

lemma loop_can_step: "dispatches w \<noteq> [] \<or> calls w \<noteq> [] \<Longrightarrow> \<exists>w'. loop_step broker w w'"
proof -
  assume "dispatches w \<noteq> [] \<or> calls w \<noteq> []"
  then consider (d) event ys where "dispatches w = [] @ event # ys" | (c) event h ys where "calls w = [] @ (event, h) # ys"
    by (cases "dispatches w"; cases "calls w") auto
  then show ?thesis
  proof cases
    case d
    then show ?thesis by (meson loop_step.dispatch surj_pair)
  next
    case c
    then show ?thesis by (meson loop_step.execute surj_pair)
  qed
qed


section \<open>Witness\<close>

definition fx_event :: BaseEvent where
  "fx_event =
     \<lparr>event_id = 201, event_name = ''campaign.created'', event_version = ''1.0'', ev_workspace_id = Some 20,
      ev_actor_id = None, ev_timestamp = 0, ev_correlation_id = None, ev_priority = EventPriority_NORMAL,
      ev_payload = [], ev_metadata = []\<rparr>"

definition fx_loop :: event_world where
  "fx_loop = world.extend fx
     (event_world.fields
        (register_handler ''campaign.created'' (WebhookHandler, 1)
          (register_handler ''campaign.created'' (AuditHandler, 0) (\<lambda>_. []))) [fx_event] [] [])"

definition fx_broker :: "unit event_world_ext broker" where
  "fx_broker job_name payload queue countdown = raiseM (PyException ''OperationalError'')"

lemma fx_broker_apart: "broker_apart fx_broker"
  unfolding broker_apart_def fx_broker_def by (intro allI loop.obeys_raise)


end
