(* ===== verification/Webhooks.thy ===== *)
theory Webhooks
  imports Events Http
begin

text \<open>
  Webhooks: the route that receives them with its verifier and its dispatcher (\<open>receive_webhook\<close> in
  \<open>app/api/v1/endpoints/integrations.py\<close>, \<open>app/integrations/webhooks\<close>), and the webhook handlers of the
  connectors (\<open>app/integrations/connectors/*/webhook.py\<close>), which check signatures but which the route does not use.
  HMAC-SHA256 is a parameter; bytes are numbers.
\<close>

section \<open>The route\<close>

definition verify_signature :: "string \<Rightarrow> (string \<times> string) list \<Rightarrow> bool" where
  "verify_signature provider headers =
     (let p = py_lower provider in
      if p = ''slack'' then True
      else if p = ''mock'' then map_of headers ''x-mock-signature'' = Some ''valid_signature''
      else False)"

text \<open>\<open>BaseEvent\<close> wants a UUID or its text.\<close>

definition event_uuid :: "json \<Rightarrow> uuid option" where
  "event_uuid j = (case j of JUuid u \<Rightarrow> Some u | JStr s \<Rightarrow> uuid_of_str s | _ \<Rightarrow> None)"

definition dispatch_webhook :: "string \<Rightarrow> json_object \<Rightarrow> json \<Rightarrow> ('z, unit) eio" where
  "dispatch_webhook provider payload workspace_id =
     (case event_uuid workspace_id of
        None \<Rightarrow> raiseM (PyException ''ValidationError'')
      | Some ws \<Rightarrow>
          bindM (new_event (''integration.'' @ py_lower provider @ ''.webhook_received'') ws payload
                   [(''provider'', JStr provider)])
            publish_event)"

text \<open>
  The body is its text and what it parses to, \<open>None\<close> when it is not JSON. A text that is no UUID is passed on as it
  is, and refused by the event.
\<close>

definition webhook_payload :: "string \<Rightarrow> json option \<Rightarrow> json" where
  "webhook_payload body parsed = (case parsed of Some j \<Rightarrow> j | None \<Rightarrow> JObj [(''raw_data'', JStr body)])"

definition webhook_workspace :: "json_object \<Rightarrow> json" where
  "webhook_workspace payload =
     (let ws = dict_get payload ''workspace_id'' in
      if json_truthy ws then ws else dict_get payload ''mock_account_id'')"

definition receive_webhook ::
  "string \<Rightarrow> (string \<times> string) list \<Rightarrow> string \<Rightarrow> json option \<Rightarrow> ('z, string) eio" where
  "receive_webhook provider headers body parsed =
     get_db_session
       (thenM (raise_if (\<not> verify_signature provider headers) (HTTPException 401 ''Invalid webhook signature''))
          (case webhook_payload body parsed of
             JObj payload \<Rightarrow>
               let workspace_id = webhook_workspace payload in
               thenM (raise_if (\<not> json_truthy workspace_id)
                        (HTTPException 400 ''Could not determine workspace from payload'')) (
               thenM (dispatch_webhook provider payload workspace_id) (returnM ''accepted''))
           | _ \<Rightarrow> raiseM (AttributeError ''get'')))"

section \<open>The handlers of the connectors\<close>

type_synonym hmac = "nat list \<Rightarrow> nat list \<Rightarrow> string"

definition ascii :: "string \<Rightarrow> bool" where
  "ascii s \<longleftrightarrow> list_all (\<lambda>c. (of_char c :: nat) < 128) s"

text \<open>\<open>hmac.compare_digest\<close> on two texts\<close>

definition compare_digest :: "string \<Rightarrow> string \<Rightarrow> ('z, bool) io" where
  "compare_digest a b =
     (if ascii a \<and> ascii b then returnM (a = b)
      else raiseM (TypeError ''comparing strings with non-ASCII characters is not supported''))"

definition meta_verify_signature :: "hmac \<Rightarrow> string \<Rightarrow> nat list \<Rightarrow> string option \<Rightarrow> ('z, bool) io" where
  "meta_verify_signature hmac client_secret payload signature =
     (case signature of
        None \<Rightarrow> returnM False
      | Some s \<Rightarrow>
          if s = [] \<or> \<not> starts_with ''sha256='' s then returnM False
          else compare_digest (hmac (utf8 client_secret) payload) (drop 7 s))"

definition facebook_verify_signature :: "hmac \<Rightarrow> string \<Rightarrow> nat list \<Rightarrow> string option \<Rightarrow> ('z, bool) io" where
  "facebook_verify_signature = meta_verify_signature"

definition instagram_verify_signature :: "hmac \<Rightarrow> string \<Rightarrow> nat list \<Rightarrow> string option \<Rightarrow> ('z, bool) io" where
  "instagram_verify_signature = meta_verify_signature"

definition linkedin_verify_signature :: "hmac \<Rightarrow> string \<Rightarrow> nat list \<Rightarrow> string option \<Rightarrow> ('z, bool) io" where
  "linkedin_verify_signature hmac client_secret payload signature =
     (case signature of
        None \<Rightarrow> returnM False
      | Some s \<Rightarrow>
          if s = [] then returnM False else compare_digest (hmac (utf8 client_secret) payload) s)"

definition google_verify_signature :: "nat list \<Rightarrow> string option \<Rightarrow> ('z, bool) io" where
  "google_verify_signature payload signature = returnM True"

text \<open>The bytes that \<open>bytes.decode('utf-8')\<close> accepts; encoding the text again gives the bytes back.\<close>

fun valid_utf8 :: "nat list \<Rightarrow> bool" where
  "valid_utf8 [] = True"
| "valid_utf8 (a # bs) =
     (if a < 128 then valid_utf8 bs
      else case bs of
        [] \<Rightarrow> False
      | b # bs2 \<Rightarrow>
          if 194 \<le> a \<and> a \<le> 223 then 128 \<le> b \<and> b \<le> 191 \<and> valid_utf8 bs2
          else case bs2 of
            [] \<Rightarrow> False
          | c # bs3 \<Rightarrow>
              if 224 \<le> a \<and> a \<le> 239 then
                (if a = 224 then 160 else 128) \<le> b \<and> b \<le> (if a = 237 then 159 else 191) \<and>
                128 \<le> c \<and> c \<le> 191 \<and> valid_utf8 bs3
              else case bs3 of
                [] \<Rightarrow> False
              | d # bs4 \<Rightarrow>
                  240 \<le> a \<and> a \<le> 244 \<and> (if a = 240 then 144 else 128) \<le> b \<and> b \<le> (if a = 244 then 143 else 191) \<and>
                  128 \<le> c \<and> c \<le> 191 \<and> 128 \<le> d \<and> d \<le> 191 \<and> valid_utf8 bs4)"

text \<open>\<open>time.time() - int(timestamp)\<close> converts the number to a float.\<close>

definition float_range :: "int \<Rightarrow> bool" where
  "float_range n \<longleftrightarrow> abs n < 2 ^ 1024 - 2 ^ 970"

definition slack_verify_signature ::
  "hmac \<Rightarrow> string \<Rightarrow> nat list \<Rightarrow> string option \<Rightarrow> string option \<Rightarrow> ('z, bool) io" where
  "slack_verify_signature hmac signing_secret payload signature timestamp =
     (case (signature, timestamp) of
        (Some s, Some ts) \<Rightarrow>
          if s = [] \<or> ts = [] then returnM False
          else
            bindM get_utc_now (\<lambda>now.
            case py_int ts of
              None \<Rightarrow> returnM False
            | Some n \<Rightarrow>
                thenM (raise_if (\<not> float_range n) (PyException ''OverflowError'')) (
                if seconds 300 < abs (now - seconds n) then returnM False
                else
                thenM (raise_if (\<not> valid_utf8 payload) (PyException ''UnicodeDecodeError''))
                  (compare_digest (''v0='' @ hmac (utf8 signing_secret) (utf8 (''v0:'' @ ts @ '':'') @ payload)) s)))
      | _ \<Rightarrow> returnM False)"

definition meta_verify_challenge :: "string \<Rightarrow> string \<Rightarrow> string \<Rightarrow> string \<Rightarrow> ('z, string) io" where
  "meta_verify_challenge mode verify_token challenge expected_verify_token =
     (if mode = ''subscribe'' \<and> verify_token = expected_verify_token then returnM challenge
      else raiseM (WebhookVerificationError ''Invalid verify token or mode''))"

definition slack_verify_challenge :: "json_object \<Rightarrow> json" where
  "slack_verify_challenge payload =
     (if dict_get payload ''type'' = JStr ''url_verification'' then dict_get payload ''challenge'' else JNull)"

definition mapped_event :: "string \<Rightarrow> json \<Rightarrow> json_object \<Rightarrow> json_object" where
  "mapped_event source kind payload =
     [(''source'', JStr source), (''type'', kind), (''raw_payload'', JObj payload), (''mapped'', JBool True)]"

definition facebook_process_payload :: "json_object \<Rightarrow> ('z, json_object) io" where
  "facebook_process_payload payload = returnM (mapped_event ''facebook'' (dict_get payload ''object'') payload)"

definition instagram_process_payload :: "json_object \<Rightarrow> ('z, json_object) io" where
  "instagram_process_payload payload = returnM (mapped_event ''instagram'' (dict_get payload ''object'') payload)"

definition linkedin_process_payload :: "json_object \<Rightarrow> ('z, json_object) io" where
  "linkedin_process_payload payload = returnM (mapped_event ''linkedin'' (dict_get payload ''eventType'') payload)"

text \<open>\<open>payload.get(key, {})\<close> and a \<open>get\<close> on the result\<close>

definition inner_dict :: "json_object \<Rightarrow> string \<Rightarrow> ('z, json_object) io" where
  "inner_dict payload key =
     (case map_of payload key of
        None \<Rightarrow> returnM []
      | Some (JObj kvs) \<Rightarrow> returnM kvs
      | Some j \<Rightarrow> raiseM (AttributeError ''get''))"

definition google_process_payload :: "json_object \<Rightarrow> ('z, json_object) io" where
  "google_process_payload payload =
     bindM (inner_dict payload ''message'') (\<lambda>message.
       returnM (mapped_event ''google'' (JStr ''pubsub_push'') payload))"

definition slack_process_payload :: "json_object \<Rightarrow> ('z, json_object) io" where
  "slack_process_payload payload =
     (let event_type = dict_get payload ''type'' in
      bindM (if event_type = JStr ''event_callback''
             then bindM (inner_dict payload ''event'') (\<lambda>inner_event.
                    returnM (case map_of inner_event ''type'' of None \<Rightarrow> JStr ''unknown_callback'' | Some t \<Rightarrow> t))
             else returnM event_type) (\<lambda>kind.
        returnM (mapped_event ''slack'' kind payload)))"

section \<open>What the route lets in\<close>


text \<open>Whatever headers a request for Slack has, it is treated the same: nothing is checked.\<close>

lemma slack_is_not_verified:
  "py_lower provider = ''slack'' \<Longrightarrow>
   receive_webhook provider headers body parsed = receive_webhook provider headers' body parsed"
  by (simp add: receive_webhook_def verify_signature_def)

section \<open>What a signature proves\<close>

text \<open>\<open>hexdigest()\<close>: 64 hexadecimal digits.\<close>

definition hex_digest :: "hmac \<Rightarrow> bool" where
  "hex_digest hmac \<longleftrightarrow> (\<forall>key msg. length (hmac key msg) = 64 \<and> ascii (hmac key msg))"

lemma starts_with_drop: "starts_with p s \<and> drop (length p) s = m \<longleftrightarrow> s = p @ m"
  by (auto simp: starts_with_def) (metis append_take_drop_id)

text \<open>C37 (equivalence). The handlers accept a payload exactly when the header is the MAC of it under the secret, in the
  provider's format; Slack's, furthermore, only within five minutes of the time that the MAC covers.\<close>

theorem signature_accepts_exactly_the_mac:
  assumes h: "hex_digest hmac"
  shows "(facebook_verify_signature hmac secret payload signature w = (Inr True, w) \<longleftrightarrow>
      signature = Some (''sha256='' @ hmac (utf8 secret) payload)) \<and>
    (instagram_verify_signature hmac secret payload signature w = (Inr True, w) \<longleftrightarrow>
      signature = Some (''sha256='' @ hmac (utf8 secret) payload)) \<and>
    (linkedin_verify_signature hmac secret payload signature w = (Inr True, w) \<longleftrightarrow>
      signature = Some (hmac (utf8 secret) payload)) \<and>
    ((\<exists>w'. slack_verify_signature hmac secret payload signature timestamp w = (Inr True, w')) \<longleftrightarrow>
      (\<exists>ts n. timestamp = Some ts \<and> py_int ts = Some n \<and> float_range n \<and> valid_utf8 payload \<and>
         abs (clock w (ticks w) - seconds n) \<le> seconds 300 \<and>
         signature = Some (''v0='' @ hmac (utf8 secret) (utf8 (''v0:'' @ ts @ '':'') @ payload))))"
    (is "?fb \<and> ?ig \<and> ?li \<and> ?sl")
proof -
  have a: "ascii (hmac k m)" "hmac k m \<noteq> []" for k m
    using h unfolding hex_digest_def by (metis, metis length_0_conv numeral_eq_iff zero_neq_numeral)
  have cmp: "compare_digest (hmac k m) s w = (Inr True, w) \<longleftrightarrow> s = hmac k m" for k m s
    using a by (auto simp: compare_digest_def)
  have "(meta_verify_signature hmac secret payload signature w = (Inr True, w)) \<longleftrightarrow>
      signature = Some (''sha256='' @ hmac (utf8 secret) payload)"
  proof (cases signature)
    case (Some s)
    have "s \<noteq> [] \<and> starts_with ''sha256='' s \<and> drop 7 s = m \<longleftrightarrow> s = ''sha256='' @ m" for m
    proof -
      have n: "length ''sha256='' = 7" by simp
      show ?thesis using starts_with_drop [of "''sha256=''" s m, unfolded n] by auto
    qed
    with Some cmp show ?thesis by (auto simp: meta_verify_signature_def)
  qed (simp add: meta_verify_signature_def)
  then have fb: ?fb and ig: ?ig by (simp_all add: facebook_verify_signature_def instagram_verify_signature_def)
  have li: ?li using a(2) [of "utf8 secret" payload, symmetric] cmp by (auto simp: linkedin_verify_signature_def split: option.splits)
  have v0: "ascii (''v0='' @ hmac k m)" for k m using a by (simp add: ascii_def)
  have empty: "py_int [] = None" by code_simp
  have sl: ?sl
  proof (cases "\<exists>s ts. signature = Some s \<and> timestamp = Some ts \<and> s \<noteq> [] \<and> ts \<noteq> []")
    case False
    then show ?thesis using empty by (auto simp: slack_verify_signature_def split: option.splits)
  next
    case True
    then obtain s ts where s: "signature = Some s" "timestamp = Some ts" "s \<noteq> []" "ts \<noteq> []" by blast
    then show ?thesis using v0
      by (cases "py_int ts") (auto simp: slack_verify_signature_def compare_digest_def)
  qed
  show ?thesis using fb ig li sl by blast
qed

section \<open>Witnesses\<close>

definition fx_hmac :: hmac where
  "fx_hmac key msg = replicate 63 CHR ''a'' @ [if msg = [] then CHR ''0'' else CHR ''1'']"

lemma fx_hex_digest: "hex_digest fx_hmac"
  by (auto simp: hex_digest_def fx_hmac_def ascii_def list_all_iff)

lemma signature_accepts_exactly_the_mac_witness:
  "facebook_verify_signature fx_hmac ''key'' [7] (Some (''sha256='' @ fx_hmac (utf8 ''key'') [7])) fx = (Inr True, fx) \<and>
   facebook_verify_signature fx_hmac ''key'' [] (Some (''sha256='' @ fx_hmac (utf8 ''key'') [7])) fx \<noteq> (Inr True, fx) \<and>
   (\<exists>w'. slack_verify_signature fx_hmac ''key'' [7] (Some (''v0='' @ fx_hmac [] [1])) (Some ''300'') fx = (Inr True, w'))"
proof -
  have time: "py_int ''300'' = Some 300" "float_range 300" "valid_utf8 [7]"
      "abs (clock fx (ticks fx) - seconds 300) \<le> seconds 300"
    by (code_simp, simp add: float_range_def, simp, simp add: fx_def world_of_def seconds_def)
  have mac: "fx_hmac [] [1] = fx_hmac (utf8 ''key'') (utf8 (''v0:'' @ ''300'' @ '':'') @ [7])"
    "fx_hmac (utf8 ''key'') [7] \<noteq> fx_hmac (utf8 ''key'') []" by (simp_all add: fx_hmac_def)
  note rule = signature_accepts_exactly_the_mac [OF fx_hex_digest]
  have "\<exists>w'. slack_verify_signature fx_hmac ''key'' [7] (Some (''v0='' @ fx_hmac [] [1])) (Some ''300'') fx = (Inr True, w')"
    using rule [of "''key''" "[7]" "Some (''v0='' @ fx_hmac [] [1])" fx "Some ''300''"] time mac(1) by blast
  with rule [of "''key''" "[7]" "Some (''sha256='' @ fx_hmac (utf8 ''key'') [7])" fx]
    rule [of "''key''" "[]" "Some (''sha256='' @ fx_hmac (utf8 ''key'') [7])" fx] mac(2)
  show ?thesis by blast
qed

definition fx_hooks :: event_world where
  "fx_hooks = world.extend fx (event_world.fields (\<lambda>_. []) [] [] [])"

definition fx_body :: json_object where
  "fx_body = [(''workspace_id'', JStr ''00000000-0000-0000-0000-000000000014'')]"


end
