(* ===== verification/Rbac_Seed.thy ===== *)
theory Rbac_Seed
  imports Committed_Steps Fixtures
begin

text \<open>
  The seed of permissions and system roles (\<open>scripts/seed_rbac.py\<close>), and what it means for the routes that ask for
  a permission. The script adds its objects to a session without autoflush and flushes each batch at once, so its
  queries do not see the objects of the batch they are in.
\<close>

section \<open>The tables of the script\<close>

definition RESOURCES :: "string list" where
  "RESOURCES =
     [''Workspace'', ''Campaign'', ''Analytics'', ''Billing'', ''AI'', ''Brand Kit'', ''Assets'', ''Content'',
      ''Notifications'', ''Members'', ''Reports'', ''Settings'', ''Social Accounts'', ''Integration'', ''API Keys'',
      ''Audit Logs'']"

definition ACTIONS :: "string list" where
  "ACTIONS = [''create'', ''read'', ''update'', ''delete'', ''manage'', ''publish'']"

definition ROLES_SETUP :: "(string \<times> string) list" where
  "ROLES_SETUP =
     [(''Owner'', ''Full access to all resources''),
      (''Admin'', ''Administrative access, except billing management''),
      (''Editor'', ''Can create and edit content and campaigns''),
      (''Viewer'', ''Read-only access to most resources''),
      (''Client'', ''Restricted read-only access to specific reports'')]"

text \<open>\<open>resource.lower().replace(" ", "_")\<close>\<close>

definition res_slug :: "string \<Rightarrow> string" where
  "res_slug resource = map (\<lambda>c. if c = CHR '' '' then CHR ''_'' else c) (py_lower resource)"

definition grants :: "string \<Rightarrow> Permission \<Rightarrow> bool" where
  "grants role_name perm =
     (if role_name = ''Owner'' then True
      else if role_name = ''Admin'' then p_resource perm \<noteq> ''billing'' \<or> p_action perm \<noteq> ''manage''
      else if role_name = ''Editor'' then
        (if p_resource perm \<in> {''campaign'', ''content'', ''assets'', ''brand_kit''}
         then p_action perm \<in> {''create'', ''read'', ''update'', ''publish''}
         else p_action perm = ''read'')
      else if role_name = ''Viewer'' then p_action perm = ''read''
      else if role_name = ''Client'' then
        p_resource perm \<in> {''reports'', ''analytics'', ''campaign''} \<and> p_action perm = ''read''
      else False)"

definition new_permission :: "string \<Rightarrow> string \<Rightarrow> Permission" where
  "new_permission resource action =
     \<lparr>p_id = 0, p_stamp = no_stamp, p_name = res_slug resource @ ''.'' @ action, p_resource = res_slug resource,
      p_action = action, p_description = Some (''Can '' @ action @ '' '' @ resource), p_is_system = True\<rparr>"

definition new_system_role :: "string \<Rightarrow> string \<Rightarrow> Role" where
  "new_system_role name description =
     \<lparr>r_id = 0, r_stamp = no_stamp, r_workspace_id = None, r_name = name, r_description = Some description,
      r_role_type = RoleType_SYSTEM, r_is_system = True\<rparr>"

definition new_mapping :: "uuid \<Rightarrow> uuid \<Rightarrow> RolePermission" where
  "new_mapping role_id perm_id =
     \<lparr>rp_id = 0, rp_role_id = role_id, rp_permission_id = perm_id, rp_created_at = 0\<rparr>"

section \<open>The script\<close>

definition flush_all :: "'r model \<Rightarrow> 'r list \<Rightarrow> ('z, unit) io" where
  "flush_all M objects = forM objects (\<lambda>r. thenM (flush_new M r) (returnM ()))"

primrec missing_permissions :: "(string \<times> string) list \<Rightarrow> ('z, Permission list) io" where
  "missing_permissions [] = returnM []"
| "missing_permissions (ra # rest) =
     bindM (bindM (select Permission_model (\<lambda>p. p_name p = res_slug (fst ra) @ ''.'' @ snd ra)) scalar_one_or_none)
       (\<lambda>perm.
     bindM (missing_permissions rest) (\<lambda>created.
       returnM (if perm = None then new_permission (fst ra) (snd ra) # created else created)))"

primrec find_roles :: "(string \<times> string) list \<Rightarrow> ('z, (string \<times> string \<times> Role option) list) io" where
  "find_roles [] = returnM []"
| "find_roles (setup # rest) =
     bindM (bindM (select Role_model (\<lambda>r. r_name r = fst setup \<and> r_is_system r)) scalar_one_or_none) (\<lambda>role.
     bindM (find_roles rest) (\<lambda>found.
       returnM ((fst setup, snd setup, role) # found)))"

primrec flush_roles :: "(string \<times> string \<times> Role option) list \<Rightarrow> ('z, (string \<times> Role) list) io" where
  "flush_roles [] = returnM []"
| "flush_roles (item # rest) =
     bindM (case snd (snd item) of
              Some r \<Rightarrow> returnM r
            | None \<Rightarrow> flush_new Role_model (new_system_role (fst item) (fst (snd item)))) (\<lambda>role.
     bindM (flush_roles rest) (\<lambda>roles.
       returnM ((fst item, role) # roles)))"

primrec missing_mappings :: "((string \<times> Role) \<times> Permission) list \<Rightarrow> ('z, RolePermission list) io" where
  "missing_mappings [] = returnM []"
| "missing_mappings (pair # rest) =
     (if grants (fst (fst pair)) (snd pair)
      then
        bindM (bindM (select RolePermission_model
                 (\<lambda>rp. rp_role_id rp = r_id (snd (fst pair)) \<and> rp_permission_id rp = p_id (snd pair))) scalar_one_or_none)
          (\<lambda>mapping.
        bindM (missing_mappings rest) (\<lambda>created.
          returnM (if mapping = None then new_mapping (r_id (snd (fst pair))) (p_id (snd pair)) # created else created)))
      else missing_mappings rest)"

definition seed_rbac :: "('z, unit) io" where
  "seed_rbac =
     with_session
       (bindM (missing_permissions (List.product RESOURCES ACTIONS)) (\<lambda>created_permissions.
        thenM (flush_all Permission_model created_permissions) (
        bindM (select Permission_model (\<lambda>_. True)) (\<lambda>all_permissions.
        bindM (find_roles ROLES_SETUP) (\<lambda>found.
        bindM (flush_roles found) (\<lambda>roles.
        bindM (missing_mappings (List.product roles all_permissions)) (\<lambda>mappings.
        thenM (flush_all RolePermission_model mappings)
          commit)))))))"

section \<open>Seeding a fresh database\<close>

lemma missing_permissions_fresh:
  "permissions (db w) = [] \<Longrightarrow>
   missing_permissions ras w = (Inr (map (\<lambda>ra. new_permission (fst ra) (snd ra)) ras), w)"
  by (induction ras) (simp_all add: bindM_def)

lemma find_roles_fresh:
  "roles (db w) = [] \<Longrightarrow> find_roles setups w = (Inr (map (\<lambda>s. (fst s, snd s, None)) setups), w)"
  by (induction setups) (simp_all add: bindM_def)

lemma missing_mappings_fresh:
  "role_permissions (db w) = [] \<Longrightarrow>
   missing_mappings pairs w =
     (Inr (map (\<lambda>q. new_mapping (r_id (snd (fst q))) (p_id (snd q))) (filter (\<lambda>q. grants (fst (fst q)) (snd q)) pairs)), w)"
  by (induction pairs) (simp_all add: bindM_def)

text \<open>The identities that are drawn from a point on.\<close>

definition fresh_for :: "uuid set \<Rightarrow> 'z world_scheme \<Rightarrow> bool" where
  "fresh_for ids w \<longleftrightarrow> (\<forall>n \<ge> uuids_drawn w. uuid_source w n \<notin> ids)"

definition drawn :: "nat \<Rightarrow> 'z world_scheme \<Rightarrow> 'z world_scheme" where
  "drawn n w = w\<lparr>ticks := ticks w + 2 * n, uuids_drawn := uuids_drawn w + n\<rparr>"

lemma drawn_simps [simp]:
  "db (drawn n w) = db w" "committed (drawn n w) = committed w" "uuid_source (drawn n w) = uuid_source w"
  "uuids_drawn (drawn n w) = uuids_drawn w + n" "drawn 0 w = w"
  "(drawn n w)\<lparr>db := d\<rparr> = drawn n (w\<lparr>db := d\<rparr>)"
  by (simp_all add: drawn_def)

lemma drawn_drawn: "drawn m (drawn n w) = drawn (n + m) w"
  by (simp add: drawn_def algebra_simps)

lemma fresh_Suc:
  assumes "inj (uuid_source w)" and "fresh_for ids w"
  shows "fresh_for (insert (uuid_source w (uuids_drawn w)) ids) (drawn (Suc 0) (w\<lparr>db := d\<rparr>))"
  using assms unfolding fresh_for_def by (auto dest: injD)

text \<open>One new row: it gets the next identity, and what its constraints ask must hold.\<close>

lemma flush_new_run:
  assumes "\<forall>r \<in> set (tbl M (db w)). pk M r \<noteq> uuid_source w (uuids_drawn w)" and "pk M (fill M i t u r) = i"
    and "\<And>x. x = fill M (uuid_source w (uuids_drawn w)) (clock w (ticks w)) (clock w (Suc (ticks w))) r \<Longrightarrow>
      pk M x = uuid_source w (uuids_drawn w) \<and> valid_row M (db w) x"
  shows "\<exists>t u x. x = fill M (uuid_source w (uuids_drawn w)) t u r \<and>
    flush_new M r w = (Inr x, drawn (Suc 0) (w\<lparr>db := put M (\<lambda>rs. rs @ [x]) (db w)\<rparr>))"
  using assms(1,3)
  by (intro exI [of _ "clock w (ticks w)"] exI [of _ "clock w (Suc (ticks w))"] exI conjI [OF refl])
    (auto simp: flush_new_def insert_row_def find_pk_None drawn_def)

lemma flush_all_Cons: "flush_all M (x # xs) w = bindM (flush_new M x) (\<lambda>_. flush_all M xs) w"
  by (simp add: flush_all_def bindM_assoc) (simp add: bindM_def split: prod.splits sum.splits)

definition permission_key :: "Permission \<Rightarrow> string \<times> string \<times> string" where
  "permission_key p = (p_name p, p_resource p, p_action p)"

lemma flush_permissions:
  assumes "inj (uuid_source w)" and "fresh_for (p_id ` set (permissions (db w))) w"
    and "distinct (map p_name (permissions (db w) @ ps))"
    and "distinct (map (\<lambda>p. (p_resource p, p_action p)) (permissions (db w) @ ps))"
  shows "\<exists>qs. flush_all Permission_model ps w =
      (Inr (), drawn (length ps) (w\<lparr>db := (db w)\<lparr>permissions := permissions (db w) @ qs\<rparr>\<rparr>)) \<and>
    map permission_key qs = map permission_key ps \<and> (distinct (map p_id (permissions (db w))) \<longrightarrow>
      distinct (map p_id (permissions (db w) @ qs)))"
  using assms
proof (induction ps arbitrary: w)
  case Nil
  then show ?case by (simp add: flush_all_def)
next
  case (Cons p ps)
  let ?i = "uuid_source w (uuids_drawn w)"
  have new: "?i \<notin> p_id ` set (permissions (db w))" using Cons.prems(2) by (simp add: fresh_for_def)
  have "\<exists>t u x. x = fill Permission_model ?i t u p \<and> flush_new Permission_model p w =
      (Inr x, drawn (Suc 0) (w\<lparr>db := put Permission_model (\<lambda>rs. rs @ [x]) (db w)\<rparr>))"
    by (rule flush_new_run)
      (use new Cons.prems(3,4) in \<open>force simp: valid_Permission_def unique_on_iff image_iff\<close>)+
  then obtain x where x: "p_id x = ?i" "p_name x = p_name p" "p_resource x = p_resource p" "p_action x = p_action p"
    and run: "flush_new Permission_model p w = (Inr x, drawn (Suc 0) (w\<lparr>db := (db w)\<lparr>permissions := permissions (db w) @ [x]\<rparr>\<rparr>))"
    by auto
  let ?w = "drawn (Suc 0) (w\<lparr>db := (db w)\<lparr>permissions := permissions (db w) @ [x]\<rparr>\<rparr>)"
  have "\<exists>qs. flush_all Permission_model ps ?w =
      (Inr (), drawn (length ps) (?w\<lparr>db := (db ?w)\<lparr>permissions := permissions (db ?w) @ qs\<rparr>\<rparr>)) \<and>
    map permission_key qs = map permission_key ps \<and> (distinct (map p_id (permissions (db ?w))) \<longrightarrow>
      distinct (map p_id (permissions (db ?w) @ qs)))"
    by (rule Cons.IH) (use Cons.prems x fresh_Suc [OF Cons.prems(1,2)] in auto)
  then obtain qs where qs: "flush_all Permission_model ps ?w =
      (Inr (), drawn (Suc (length ps)) (w\<lparr>db := (db w)\<lparr>permissions := permissions (db w) @ x # qs\<rparr>\<rparr>))"
    "map permission_key qs = map permission_key ps"
    "distinct (map p_id (permissions (db w) @ [x])) \<longrightarrow> distinct (map p_id (permissions (db w) @ x # qs))"
    by (auto simp: drawn_drawn)
  moreover have "permission_key x = permission_key p" using x by (simp add: permission_key_def)
  ultimately show ?case
    using run x new by (intro exI [of _ "x # qs"]) (auto simp: flush_all_Cons bindM_def)
qed

text \<open>The roles and the mappings, in the same way.\<close>

lemma flush_system_roles:
  assumes "inj (uuid_source w)" and "fresh_for (r_id ` set (roles (db w))) w"
  shows "\<exists>rs. flush_roles (map (\<lambda>s. (fst s, snd s, None)) setups) w =
      (Inr (map (\<lambda>r. (r_name r, r)) rs), drawn (length setups) (w\<lparr>db := (db w)\<lparr>roles := roles (db w) @ rs\<rparr>\<rparr>)) \<and>
    map r_name rs = map fst setups \<and> list_all r_is_system rs \<and>
    (distinct (map r_id (roles (db w))) \<longrightarrow> distinct (map r_id (roles (db w) @ rs)))"
  using assms
proof (induction setups arbitrary: w)
  case Nil
  then show ?case by simp
next
  case (Cons s setups)
  let ?i = "uuid_source w (uuids_drawn w)" and ?r = "new_system_role (fst s) (snd s)"
  have new: "?i \<notin> r_id ` set (roles (db w))" using Cons.prems(2) by (simp add: fresh_for_def)
  have "\<exists>t u x. x = fill Role_model ?i t u ?r \<and> flush_new Role_model ?r w =
      (Inr x, drawn (Suc 0) (w\<lparr>db := put Role_model (\<lambda>rs. rs @ [x]) (db w)\<rparr>))"
    by (rule flush_new_run)
      (use new in \<open>force simp: valid_Role_def new_system_role_def fk_opt_def image_iff\<close>)+
  then obtain x where x: "r_id x = ?i" "r_name x = fst s" "r_is_system x"
    and run: "flush_new Role_model ?r w = (Inr x, drawn (Suc 0) (w\<lparr>db := (db w)\<lparr>roles := roles (db w) @ [x]\<rparr>\<rparr>))"
    by (auto simp: new_system_role_def)
  let ?w = "drawn (Suc 0) (w\<lparr>db := (db w)\<lparr>roles := roles (db w) @ [x]\<rparr>\<rparr>)"
  have "\<exists>rs. flush_roles (map (\<lambda>s. (fst s, snd s, None)) setups) ?w =
      (Inr (map (\<lambda>r. (r_name r, r)) rs), drawn (length setups) (?w\<lparr>db := (db ?w)\<lparr>roles := roles (db ?w) @ rs\<rparr>\<rparr>)) \<and>
    map r_name rs = map fst setups \<and> list_all r_is_system rs \<and>
    (distinct (map r_id (roles (db ?w))) \<longrightarrow> distinct (map r_id (roles (db ?w) @ rs)))"
    by (rule Cons.IH) (use Cons.prems x fresh_Suc [OF Cons.prems(1,2)] in auto)
  then obtain rs where rs: "flush_roles (map (\<lambda>s. (fst s, snd s, None)) setups) ?w =
      (Inr (map (\<lambda>r. (r_name r, r)) rs), drawn (Suc (length setups)) (w\<lparr>db := (db w)\<lparr>roles := roles (db w) @ x # rs\<rparr>\<rparr>))"
    "map r_name rs = map fst setups" "list_all r_is_system rs"
    "distinct (map r_id (roles (db w) @ [x])) \<longrightarrow> distinct (map r_id (roles (db w) @ x # rs))"
    by (auto simp: drawn_drawn)
  then show ?case
    using run x new by (intro exI [of _ "x # rs"]) (auto simp: bindM_def)
qed

definition mapping_key :: "RolePermission \<Rightarrow> uuid \<times> uuid" where
  "mapping_key m = (rp_role_id m, rp_permission_id m)"

lemma flush_mappings:
  assumes "inj (uuid_source w)" and "fresh_for (rp_id ` set (role_permissions (db w))) w"
    and "distinct (map mapping_key (role_permissions (db w)) @ pairs)"
    and "\<forall>q \<in> set pairs. fst q \<in> r_id ` set (roles (db w)) \<and> snd q \<in> p_id ` set (permissions (db w))"
  shows "\<exists>ms. flush_all RolePermission_model (map (\<lambda>q. new_mapping (fst q) (snd q)) pairs) w =
      (Inr (), drawn (length pairs) (w\<lparr>db := (db w)\<lparr>role_permissions := role_permissions (db w) @ ms\<rparr>\<rparr>)) \<and>
    map mapping_key ms = pairs"
  using assms
proof (induction pairs arbitrary: w)
  case Nil
  then show ?case by (simp add: flush_all_def)
next
  case (Cons q pairs)
  let ?i = "uuid_source w (uuids_drawn w)" and ?m = "new_mapping (fst q) (snd q)"
  have new: "?i \<notin> rp_id ` set (role_permissions (db w))" using Cons.prems(2) by (simp add: fresh_for_def)
  have key: "q \<notin> mapping_key ` set (role_permissions (db w))" using Cons.prems(3) by auto
  have valid: "valid_RolePermission (db w) x" if "x = fill RolePermission_model ?i t u ?m" for x t u
    using that key Cons.prems(4)
    by (auto simp: valid_RolePermission_def new_mapping_def unique_on_iff fk_iff mapping_key_def image_iff
        prod_eq_iff)
  have "\<exists>t u x. x = fill RolePermission_model ?i t u ?m \<and> flush_new RolePermission_model ?m w =
      (Inr x, drawn (Suc 0) (w\<lparr>db := put RolePermission_model (\<lambda>rs. rs @ [x]) (db w)\<rparr>))"
  proof (rule flush_new_run)
    show "\<forall>r \<in> set (tbl RolePermission_model (db w)). pk RolePermission_model r \<noteq> ?i" using new by force
  qed (use valid in auto)
  then obtain x where x: "rp_id x = ?i" "mapping_key x = q"
    and run: "flush_new RolePermission_model ?m w =
      (Inr x, drawn (Suc 0) (w\<lparr>db := (db w)\<lparr>role_permissions := role_permissions (db w) @ [x]\<rparr>\<rparr>))"
    by (auto simp: new_mapping_def mapping_key_def)
  let ?w = "drawn (Suc 0) (w\<lparr>db := (db w)\<lparr>role_permissions := role_permissions (db w) @ [x]\<rparr>\<rparr>)"
  have "\<exists>ms. flush_all RolePermission_model (map (\<lambda>q. new_mapping (fst q) (snd q)) pairs) ?w =
      (Inr (), drawn (length pairs) (?w\<lparr>db := (db ?w)\<lparr>role_permissions := role_permissions (db ?w) @ ms\<rparr>\<rparr>)) \<and>
    map mapping_key ms = pairs"
    by (rule Cons.IH) (use Cons.prems x fresh_Suc [OF Cons.prems(1,2)] in auto)
  then obtain ms where ms: "flush_all RolePermission_model (map (\<lambda>q. new_mapping (fst q) (snd q)) pairs) ?w =
      (Inr (), drawn (Suc (length pairs)) (w\<lparr>db := (db w)\<lparr>role_permissions := role_permissions (db w) @ x # ms\<rparr>\<rparr>))"
    "map mapping_key ms = pairs"
    by (auto simp: drawn_drawn)
  then show ?case
    using run x by (intro exI [of _ "x # ms"]) (auto simp: flush_all_Cons bindM_def)
qed

text \<open>No two permissions of the script share a name, or a resource and an action.\<close>

lemma product_map_fst: "map (\<lambda>q. (f (fst q), snd q)) (List.product xs ys) = List.product (map f xs) ys"
  by (induction xs) (simp_all add: comp_def)

lemma seeded_slugs: "distinct (map res_slug RESOURCES)" "distinct ACTIONS"
  "list_all (\<lambda>r. CHR ''.'' \<notin> set (res_slug r)) RESOURCES"
  by code_simp+

lemma dotted_inject: "CHR ''.'' \<notin> set s \<Longrightarrow> CHR ''.'' \<notin> set t \<Longrightarrow> s @ CHR ''.'' # a = t @ CHR ''.'' # b \<longleftrightarrow> s = t \<and> a = b"
  by (induction s arbitrary: t) (case_tac t; auto)+

lemma seeded_names_distinct:
  "distinct (map (\<lambda>ra. (res_slug (fst ra), snd ra)) (List.product RESOURCES ACTIONS))"
  "distinct (map (\<lambda>ra. res_slug (fst ra) @ ''.'' @ snd ra) (List.product RESOURCES ACTIONS))"
proof -
  show pairs: "distinct (map (\<lambda>ra. (res_slug (fst ra), snd ra)) (List.product RESOURCES ACTIONS))"
    unfolding product_map_fst by (intro distinct_product seeded_slugs)
  have "inj_on (\<lambda>q. fst q @ ''.'' @ snd q) (set (List.product (map res_slug RESOURCES) ACTIONS))"
    using seeded_slugs(3) by (intro inj_onI) (force simp: list_all_iff dotted_inject)
  then have "distinct (map (\<lambda>q. fst q @ ''.'' @ snd q)
      (map (\<lambda>ra. (res_slug (fst ra), snd ra)) (List.product RESOURCES ACTIONS)))"
    using pairs by (simp only: product_map_fst distinct_map)
  then show "distinct (map (\<lambda>ra. res_slug (fst ra) @ ''.'' @ snd ra) (List.product RESOURCES ACTIONS))"
    by (simp add: comp_def)
qed

text \<open>The roles of a database, by the permissions that they hold.\<close>

definition holds_permission :: "database \<Rightarrow> Role \<Rightarrow> Permission \<Rightarrow> bool" where
  "holds_permission d r p \<longleftrightarrow>
     list_ex (\<lambda>m. rp_role_id m = r_id r \<and> rp_permission_id m = p_id p) (role_permissions d)"


section \<open>What the routes ask for and the seed does not have\<close>

definition seeded_permissions :: "Permission list \<Rightarrow> bool" where
  "seeded_permissions ps \<longleftrightarrow> list_all (\<lambda>p. p_resource p \<in> res_slug ` set RESOURCES) ps"

text \<open>The requests of the routes on members and invitations that name a workspace.\<close>

fun team_call :: "tenancy_call \<Rightarrow> uuid option" where
  "team_call (GetMembers i) = Some i"
| "team_call (GetMember i m) = Some i"
| "team_call (PatchMember i m r) = Some i"
| "team_call (DeleteMember i m) = Some i"
| "team_call (PostSuspend i m) = Some i"
| "team_call (PostReactivate i m) = Some i"
| "team_call (PostInvite i email r) = Some i"
| "team_call (GetInvites i) = Some i"
| "team_call (PostRevoke i v) = Some i"
| "team_call (PostResend i v) = Some i"
| "team_call _ = None"

lemma unseeded_resources:
  "''workspace_member'' \<notin> res_slug ` set RESOURCES" "''workspace_invite'' \<notin> res_slug ` set RESOURCES"
  "''system'' \<notin> res_slug ` set RESOURCES"
  by code_simp+

lemma permission_refused:
  assumes seeded: "seeded_permissions (permissions (db w))" and r: "resource \<notin> res_slug ` set RESOURCES"
    and m: "m \<in> set (workspace_members (db w))" "m_workspace_id m = i" "m_user_id m = u_id user"
      "deleted_at (m_soft m) = None"
  shows "\<exists>e. require_permission resource action i user w = (Inl e, w)"
proof -
  let ?ms = "filter (\<lambda>m. m_workspace_id m = i \<and> m_user_id m = u_id user \<and> deleted_at (m_soft m) = None)
    (workspace_members (db w))"
  have some: "?ms \<noteq> []" using m by (auto simp: filter_empty_conv)
  have get: "get_member i (u_id user) w = scalar_one_or_none ?ms w"
    by (simp add: get_member_def conj_ac)
  have none: "\<not> list_ex (\<lambda>p. p_resource p = resource \<and> p_action p = action) ps"
    if "set ps \<subseteq> set (permissions (db w))" for ps
    using that seeded r by (auto simp: seeded_permissions_def list_ex_iff list_all_iff)
  show ?thesis
  proof (cases ?ms)
    case Nil
    with some show ?thesis by simp
  next
    case (Cons x xs)
    show ?thesis
    proof (cases xs)
      case Nil
      with get Cons have "get_member i (u_id user) w = (Inr (Some x), w)" by simp
      then show ?thesis
        by (simp add: require_permission_def bindM_Inr [where m = "get_member i (u_id user)"] Let_def)
          (use none in \<open>auto intro!: none\<close>)
    next
      case (Cons y ys)
      with get \<open>?ms = x # xs\<close> have "get_member i (u_id user) w = (Inl MultipleResultsFound, w)" by simp
      then show ?thesis by (simp add: require_permission_def bindM_Inl)
    qed
  qed
qed

interpretation access: table_step "\<lambda>d. (permissions d, workspace_members d)" "(=)"
  by unfold_locales simp_all

lemma authorize_refused:
  assumes u: "get_current_user decode tok w = (Inr user, v)"
    and seeded: "seeded_permissions (permissions (db w))" and r: "resource \<notin> res_slug ` set RESOURCES"
    and m: "m \<in> set (workspace_members (db w))" "m_workspace_id m = i" "m_user_id m = u_id user"
      "deleted_at (m_soft m) = None"
  shows "\<exists>e w'. authorize decode tok i resource action w = (Inl e, w')"
proof -
  have same: "permissions (db v) = permissions (db w)" "workspace_members (db v) = workspace_members (db w)"
    using obeysD [OF access.frame_current_user u] by simp_all
  obtain e where e: "require_permission resource action i user v = (Inl e, v)"
    using permission_refused [OF _ r] seeded m same by metis
  obtain x v' where x: "get_current_workspace i user v = (x, v')" by fastforce
  have v': "v' = v" using read_onlyD [OF read_only_workspace x] .
  show ?thesis using u e x v' by (cases x) (simp_all add: authorize_def bindM_def)
qed

lemma route_refused:
  assumes "get_current_user decode tok w = (Inr user, v)"
    and "seeded_permissions (permissions (db w))" and "resource \<notin> res_slug ` set RESOURCES"
    and "m \<in> set (workspace_members (db w))" "m_workspace_id m = i" "m_user_id m = u_id user"
      "deleted_at (m_soft m) = None"
  shows "\<exists>e w'. answered (workspace_route decode tok i resource action h) w = (Inl e, w')"
proof -
  obtain e w' where "authorize decode tok i resource action w = (Inl e, w')"
    using authorize_refused [OF assms] by blast
  then show ?thesis by (simp add: answered_def workspace_route_def bindM_def)
qed


section \<open>Witnesses\<close>

definition fx_unseeded :: world where
  "fx_unseeded = world_of (fx_database\<lparr>roles := [], workspace_members := []\<rparr>)"



end
