(* ===== verification/Spec2Isabelle.thy ===== *)
theory Spec2Isabelle
  imports Campaign_Scheduler Sync_Engine Publishing Plans Analytics Notifications Platform_Operations Webhooks Rbac_Seed
begin

text \<open>
  The verification library of the marketing backend.
\<close>

end
